(* ===== verification/Prelude.thy ===== *)
theory Prelude
  imports Main "HOL-Library.Word"
begin

text \<open>
  Shared vocabulary of the development: the widths of the machine integers, the build target
  (byte order, pointer width, the constants the \<open>libc\<close> crate supplies), the value of a fallible
  computation (an \<open>io::Error\<close> or a panic on the left, the result on the right), the byte
  encodings \<open>to_ne_bytes\<close>, \<open>to_be_bytes\<close> and their inverses, and the slice operations of
  \<open>&[u8]\<close>. The locale \<open>seq_codec\<close> is the interface of a self-delimiting wire format; the
  address list and the control-message buffer are its two providers.
\<close>

unbundle bit_operations_syntax

named_theorems bytes_simps \<open>evaluation of byte encodings and slices\<close>
named_theorems layout_simps \<open>unfolding of C structure layouts\<close>
named_theorems io_simps \<open>unfolding of the effectful operations\<close>

section \<open>Machine integers and the build target\<close>

type_synonym byte = "8 word"
type_synonym u16 = "16 word"
type_synonym u32 = "32 word"
type_synonym u64 = "64 word"
type_synonym i32 = "32 word"  \<comment> \<open>two's complement; \<open>sint\<close> reads the value\<close>

datatype endian = Little | Big

text \<open>
  The constants of the \<open>libc\<close> crate differ between architectures, so they are a parameter: a
  record with one field per constant the sources use.
\<close>

record libc =
  LIBC_AF_INET :: i32
  LIBC_AF_INET6 :: i32
  SOCK_STREAM :: i32
  SOCK_SEQPACKET :: i32
  SOCK_CLOEXEC :: i32
  SOCK_NONBLOCK :: i32
  SOL_SOCKET :: i32
  SO_TYPE :: i32
  SO_ERROR :: i32
  SO_REUSEADDR :: i32
  SO_SNDBUF :: i32
  SO_RCVBUF :: i32
  SO_LINGER :: i32
  SO_ACCEPTCONN :: i32
  SO_RCVTIMEO :: i32
  SO_SNDTIMEO :: i32
  O_NONBLOCK :: i32
  MSG_NOSIGNAL :: i32
  EAGAIN :: i32
  ENOMEM :: i32
  EINPROGRESS :: i32
  SHUT_RD :: i32
  SHUT_WR :: i32
  SHUT_RDWR :: i32
  TIME_T_MAX :: nat

text \<open>
  \<open>pad_byte\<close> is the value found in a padding byte of a structure, which Rust leaves
  unspecified: every theorem holds for each choice of it.
\<close>

datatype pointer_width = W32 | W64

record target =
  endianness :: endian
  pointer_width :: pointer_width
  u64_aligned :: bool  \<comment> \<open>whether a 32-bit target aligns \<open>u64\<close> to 8 bytes\<close>
  pad_byte :: byte
  libc :: libc

definition usize_bytes :: "target \<Rightarrow> nat" where
  "usize_bytes t = (case pointer_width t of W32 \<Rightarrow> 4 | W64 \<Rightarrow> 8)"

definition align_u64 :: "target \<Rightarrow> nat" where
  "align_u64 t = (if pointer_width t = W64 \<or> u64_aligned t then 8 else 4)"

lemma usize_bytes_cases: "usize_bytes t = 4 \<or> usize_bytes t = 8"
  by (simp add: usize_bytes_def split: pointer_width.splits)

lemma usize_bytes_pos [simp]: "0 < usize_bytes t"
  using usize_bytes_cases[of t] by auto

lemma align_u64_cases:
  "usize_bytes t = 8 \<and> align_u64 t = 8 \<or> usize_bytes t = 4 \<and> align_u64 t = 4 \<or>
   usize_bytes t = 4 \<and> align_u64 t = 8"
  by (auto simp: usize_bytes_def align_u64_def split: pointer_width.splits)

lemma align_u64_pos [simp]: "0 < align_u64 t"
  by (simp add: align_u64_def)

definition linux_x86_64_libc :: libc where
  "linux_x86_64_libc = \<lparr>
     LIBC_AF_INET = 2, LIBC_AF_INET6 = 10, SOCK_STREAM = 1, SOCK_SEQPACKET = 5,
     SOCK_CLOEXEC = 0x80000, SOCK_NONBLOCK = 0x800, SOL_SOCKET = 1, SO_TYPE = 3,
     SO_ERROR = 4, SO_REUSEADDR = 2, SO_SNDBUF = 7, SO_RCVBUF = 8, SO_LINGER = 13,
     SO_ACCEPTCONN = 30, SO_RCVTIMEO = 20, SO_SNDTIMEO = 21, O_NONBLOCK = 0x800,
     MSG_NOSIGNAL = 0x4000, EAGAIN = 11, ENOMEM = 12, EINPROGRESS = 115,
     SHUT_RD = 0, SHUT_WR = 1, SHUT_RDWR = 2, TIME_T_MAX = 2 ^ 63 - 1\<rparr>"

text \<open>The target used wherever a theorem is evaluated at a concrete input.\<close>

definition linux_x86_64 :: target where
  "linux_x86_64 = \<lparr>endianness = Little, pointer_width = W64, u64_aligned = True, pad_byte = 0,
     libc = linux_x86_64_libc\<rparr>"

lemma linux_x86_64_simps [simp]:
  "endianness linux_x86_64 = Little" "usize_bytes linux_x86_64 = 8"
  "align_u64 linux_x86_64 = 8" "pad_byte linux_x86_64 = 0"
  "libc linux_x86_64 = linux_x86_64_libc"
  by (simp_all add: linux_x86_64_def usize_bytes_def align_u64_def)

section \<open>Results: errors and panics\<close>

datatype error_kind =
    InvalidInput
  | InvalidData
  | TimedOut
  | Unsupported
  | WouldBlock
  | ConnectionRefused
  | ConnectionReset

text \<open>An \<open>io::Error\<close> carries either an errno or a kind with a message.\<close>

datatype io_error = Os i32 | Custom error_kind string

fun raw_os_error :: "io_error \<Rightarrow> i32 option" where
  "raw_os_error (Os e) = Some e"
| "raw_os_error (Custom k msg) = None"

text \<open>
  A computation ends in \<open>Inr\<close> of its value or in \<open>Inl\<close>: the error that \<open>?\<close> propagates, or a
  panic, which unwinds through every caller.
\<close>

datatype exn = IoErr io_error | Panicked

type_synonym 'a io_result = "exn + 'a"

abbreviation Ok :: "'a \<Rightarrow> 'a io_result" where
  "Ok \<equiv> Inr"

abbreviation Err :: "io_error \<Rightarrow> 'a io_result" where
  "Err e \<equiv> Inl (IoErr e)"

abbreviation panic :: "'a io_result" where
  "panic \<equiv> Inl Panicked"

text \<open>The \<open>?\<close> operator.\<close>

fun try_bind :: "'a io_result \<Rightarrow> ('a \<Rightarrow> 'b io_result) \<Rightarrow> 'b io_result" where
  "try_bind (Inl e) f = Inl e"
| "try_bind (Inr x) f = f x"

lemma try_bind_eq_Inr:
  "try_bind m f = Inr y \<longleftrightarrow> (\<exists>x. m = Inr x \<and> f x = Inr y)"
  by (cases m) auto

fun ok_or :: "'a option \<Rightarrow> io_error \<Rightarrow> 'a io_result" where
  "ok_or None e = Err e"
| "ok_or (Some x) e = Ok x"

section \<open>Byte encodings of integers\<close>

primrec le_bytes :: "nat \<Rightarrow> nat \<Rightarrow> byte list" where
  "le_bytes 0 v = []"
| "le_bytes (Suc n) v = word_of_nat v # le_bytes n (v div 256)"

primrec le_val :: "byte list \<Rightarrow> nat" where
  "le_val [] = 0"
| "le_val (b # bs) = unat b + 256 * le_val bs"

definition be_bytes :: "nat \<Rightarrow> nat \<Rightarrow> byte list" where
  "be_bytes n v = rev (le_bytes n v)"

definition be_val :: "byte list \<Rightarrow> nat" where
  "be_val bs = le_val (rev bs)"

definition ne_bytes :: "target \<Rightarrow> nat \<Rightarrow> nat \<Rightarrow> byte list" where
  "ne_bytes t n v = (case endianness t of Little \<Rightarrow> le_bytes n v | Big \<Rightarrow> be_bytes n v)"

definition ne_val :: "target \<Rightarrow> byte list \<Rightarrow> nat" where
  "ne_val t bs = (case endianness t of Little \<Rightarrow> le_val bs | Big \<Rightarrow> be_val bs)"

lemma length_le_bytes [simp]: "length (le_bytes n v) = n"
  by (induction n arbitrary: v) auto

lemma le_bytes_numeral [bytes_simps]:
  "le_bytes (numeral k) v = word_of_nat v # le_bytes (pred_numeral k) (v div 256)"
  by (simp only: numeral_eq_Suc le_bytes.simps)

lemma length_be_bytes [simp]: "length (be_bytes n v) = n"
  by (simp add: be_bytes_def)

lemma length_ne_bytes [simp]: "length (ne_bytes t n v) = n"
  by (simp add: ne_bytes_def split: endian.splits)

lemma le_val_le_bytes: "le_val (le_bytes n v) = v mod 256 ^ n"
proof (induction n arbitrary: v)
  case 0
  then show ?case by simp
next
  case (Suc n)
  have "unat (word_of_nat v :: byte) = v mod 256"
    by (simp add: unat_of_nat)
  with Suc.IH[of "v div 256"] show ?case
    by (simp add: mod_mult2_eq)
qed

lemma le_val_less: "le_val bs < 256 ^ length bs"
proof (induction bs)
  case Nil
  then show ?case by simp
next
  case (Cons b bs)
  have "unat b < 256"
    using unsigned_less[where w = b] by simp
  with Cons show ?case by simp
qed

lemma le_bytes_le_val: "le_bytes (length bs) (le_val bs) = bs"
proof (induction bs)
  case Nil
  then show ?case by simp
next
  case (Cons b bs)
  have lt: "unat b < 256"
    using unsigned_less[where w = b] by simp
  then have "(unat b + 256 * le_val bs) div 256 = le_val bs"
    by simp
  moreover have "(word_of_nat (unat b + 256 * le_val bs) :: byte) = b"
    using lt by (simp add: word_unat_eq_iff unat_of_nat del: of_nat_add)
  ultimately show ?case
    using Cons.IH by simp
qed

lemma be_val_be_bytes: "be_val (be_bytes n v) = v mod 256 ^ n"
  by (simp add: be_val_def be_bytes_def le_val_le_bytes)

lemma be_bytes_be_val: "be_bytes (length bs) (be_val bs) = bs"
  using le_bytes_le_val[of "rev bs"] by (simp add: be_val_def be_bytes_def)

lemma ne_val_ne_bytes: "ne_val t (ne_bytes t n v) = v mod 256 ^ n"
  by (simp add: ne_val_def ne_bytes_def le_val_le_bytes be_val_be_bytes split: endian.splits)

text \<open>
  The integer types of width \<open>8 * k\<close>: \<open>to_ne_bytes\<close>, \<open>from_ne_bytes\<close> and their big-endian
  counterparts, polymorphic in the word length.
\<close>

definition to_ne_bytes :: "target \<Rightarrow> 'a::len word \<Rightarrow> byte list" where
  "to_ne_bytes t w = ne_bytes t (LENGTH('a) div 8) (unat w)"

definition from_ne_bytes :: "target \<Rightarrow> byte list \<Rightarrow> 'a::len word" where
  "from_ne_bytes t bs = word_of_nat (ne_val t bs)"

definition to_be_bytes :: "'a::len word \<Rightarrow> byte list" where
  "to_be_bytes w = be_bytes (LENGTH('a) div 8) (unat w)"

definition from_be_bytes :: "byte list \<Rightarrow> 'a::len word" where
  "from_be_bytes bs = word_of_nat (be_val bs)"

lemma length_to_ne_bytes [simp]: "length (to_ne_bytes t (w :: 'a::len word)) = LENGTH('a) div 8"
  by (simp add: to_ne_bytes_def)

lemma length_to_be_bytes [simp]: "length (to_be_bytes (w :: 'a::len word)) = LENGTH('a) div 8"
  by (simp add: to_be_bytes_def)

lemma unat_less_bytes:
  assumes "8 dvd LENGTH('a)"
  shows "unat (w :: 'a::len word) < 256 ^ (LENGTH('a) div 8)"
proof -
  have "unat w < 2 ^ LENGTH('a)" by simp
  also have "\<dots> = 256 ^ (LENGTH('a) div 8)"
    using assms power_mult[of "2 :: nat" 8 "LENGTH('a) div 8"] by simp
  finally show ?thesis .
qed

lemma from_to_ne_bytes:
  "8 dvd LENGTH('a) \<Longrightarrow> from_ne_bytes t (to_ne_bytes t (w :: 'a::len word)) = w"
  by (simp add: from_ne_bytes_def to_ne_bytes_def ne_val_ne_bytes unat_less_bytes)

lemma from_to_be_bytes:
  "8 dvd LENGTH('a) \<Longrightarrow> from_be_bytes (to_be_bytes (w :: 'a::len word)) = w"
  by (simp add: from_be_bytes_def to_be_bytes_def be_val_be_bytes unat_less_bytes)

lemma be_val_less: "be_val bs < 256 ^ length bs"
  using le_val_less[of "rev bs"] by (simp add: be_val_def)

lemma to_from_be_bytes:
  assumes "8 dvd LENGTH('a)" and "length bs = LENGTH('a::len) div 8"
  shows "to_be_bytes (from_be_bytes bs :: 'a word) = bs"
proof -
  have "(256 :: nat) ^ length bs = 2 ^ LENGTH('a)"
    using assms power_mult[of "2 :: nat" 8 "LENGTH('a) div 8"] by simp
  then have "be_val bs < 2 ^ LENGTH('a)"
    using be_val_less[of bs] by simp
  then have "unat (word_of_nat (be_val bs) :: 'a word) = be_val bs"
    by (simp add: unat_of_nat)
  with assms show ?thesis
    using be_bytes_be_val[of bs] by (simp add: to_be_bytes_def from_be_bytes_def)
qed

text \<open>\<open>u16::to_be\<close>, \<open>u32::to_be\<close> and \<open>from_be\<close>: swap the bytes on a little-endian target.\<close>

definition swap_bytes :: "'a::len word \<Rightarrow> 'a word" where
  "swap_bytes w = word_of_nat (be_val (le_bytes (LENGTH('a) div 8) (unat w)))"

definition to_be :: "target \<Rightarrow> 'a::len word \<Rightarrow> 'a word" where
  "to_be t w = (case endianness t of Little \<Rightarrow> swap_bytes w | Big \<Rightarrow> w)"

definition from_be :: "target \<Rightarrow> 'a::len word \<Rightarrow> 'a word" where
  "from_be t w = (case endianness t of Little \<Rightarrow> swap_bytes w | Big \<Rightarrow> w)"

lemma swap_bytes_be: "swap_bytes w = (from_be_bytes (rev (to_be_bytes w)) :: 'a::len word)"
  by (simp add: swap_bytes_def from_be_bytes_def to_be_bytes_def be_bytes_def)

lemma to_be_bytes_swap:
  "8 dvd LENGTH('a) \<Longrightarrow> to_be_bytes (swap_bytes (w :: 'a::len word)) = rev (to_be_bytes w)"
  by (simp add: swap_bytes_be to_from_be_bytes)

lemma swap_bytes_swap:
  "8 dvd LENGTH('a) \<Longrightarrow> swap_bytes (swap_bytes (w :: 'a::len word)) = w"
  by (subst (1) swap_bytes_be) (simp add: to_be_bytes_swap from_to_be_bytes)

lemma from_be_to_be [simp]:
  "8 dvd LENGTH('a) \<Longrightarrow> from_be t (to_be t (w :: 'a::len word)) = w"
  by (simp add: from_be_def to_be_def swap_bytes_swap split: endian.splits)

lemma to_be_from_be [simp]:
  "8 dvd LENGTH('a) \<Longrightarrow> to_be t (from_be t (w :: 'a::len word)) = w"
  by (simp add: from_be_def to_be_def swap_bytes_swap split: endian.splits)

text \<open>Whatever the target, \<open>to_be\<close> leaves the most significant byte first in memory.\<close>

lemma to_ne_bytes_to_be:
  "8 dvd LENGTH('a) \<Longrightarrow> to_ne_bytes t (to_be t (w :: 'a::len word)) = to_be_bytes w"
  using to_be_bytes_swap[of w]
  by (auto simp: to_be_def to_ne_bytes_def ne_bytes_def to_be_bytes_def be_bytes_def
      rev_swap split: endian.splits)

section \<open>Slices\<close>

text \<open>\<open>buf.get(off..off + n)\<close>\<close>

definition get_range :: "byte list \<Rightarrow> nat \<Rightarrow> nat \<Rightarrow> byte list option" where
  "get_range buf off n = (if off + n \<le> length buf then Some (take n (drop off buf)) else None)"

text \<open>\<open>&buf[..n]\<close> and \<open>&buf[n..]\<close>, which panic out of range.\<close>

definition slice_to :: "byte list \<Rightarrow> nat \<Rightarrow> byte list io_result" where
  "slice_to buf n = (if n \<le> length buf then Ok (take n buf) else panic)"

definition slice_from :: "byte list \<Rightarrow> nat \<Rightarrow> byte list io_result" where
  "slice_from buf n = (if n \<le> length buf then Ok (drop n buf) else panic)"

text \<open>\<open>&buf[a..b]\<close>, which panics when the bounds are out of order or out of range.\<close>

definition slice_range :: "byte list \<Rightarrow> nat \<Rightarrow> nat \<Rightarrow> byte list io_result" where
  "slice_range buf a b =
     (if a \<le> b \<and> b \<le> length buf then Ok (take (b - a) (drop a buf)) else panic)"

text \<open>\<open>out[off..off + bs.len()].copy_from_slice(bs)\<close>\<close>

definition copy_at :: "nat \<Rightarrow> byte list \<Rightarrow> byte list \<Rightarrow> byte list io_result" where
  "copy_at off bs out =
     (if off + length bs \<le> length out
      then Ok (take off out @ bs @ drop (off + length bs) out) else panic)"

lemma get_range_append1 [bytes_simps]:
  "length a \<le> off \<Longrightarrow> get_range (a @ b) off n = get_range b (off - length a) n"
  by (auto simp: get_range_def)

lemma get_range_append2 [bytes_simps]:
  "off + n \<le> length a \<Longrightarrow> get_range (a @ b) off n = get_range a off n"
  by (simp add: get_range_def)

lemma get_range_None_iff [simp]: "get_range buf off n = None \<longleftrightarrow> length buf < off + n"
  by (auto simp: get_range_def)

section \<open>Self-delimiting wire formats\<close>

text \<open>
  The interface between a message format and the code that walks a buffer holding several
  messages back to back. \<open>emit x\<close> is the encoding of one item; \<open>next\<close> decodes the item at the
  head of a buffer and says how many bytes it took. The two laws are all a walker relies on.
\<close>

locale seq_codec =
  fixes emit :: "'a \<Rightarrow> byte list"
    and parse_next :: "byte list \<Rightarrow> ('a \<times> nat) option"
    and valid :: "'a \<Rightarrow> bool"
  assumes next_emit: "valid x \<Longrightarrow> parse_next (emit x @ rest) = Some (x, length (emit x))"
    and next_bounds: "parse_next buf = Some (x, n) \<Longrightarrow> 0 < n \<and> n \<le> length buf"
begin

text \<open>The walker that stops after \<open>k\<close> items.\<close>

fun take_items :: "nat \<Rightarrow> byte list \<Rightarrow> 'a list" where
  "take_items 0 buf = []"
| "take_items (Suc k) buf =
     (case parse_next buf of None \<Rightarrow> [] | Some (x, n) \<Rightarrow> x # take_items k (drop n buf))"

lemma take_items_emit:
  "\<forall>x \<in> set xs. valid x \<Longrightarrow> take_items (length xs) (concat (map emit xs) @ rest) = xs"
  by (induction xs) (auto simp: next_emit)

lemma take_items_prefix:
  "\<forall>x \<in> set xs. valid x \<Longrightarrow> k \<le> length xs \<Longrightarrow>
     take_items k (concat (map emit xs) @ rest) = take k xs"
proof (induction xs arbitrary: k)
  case Nil
  then show ?case by simp
next
  case (Cons x xs)
  then show ?case by (cases k) (auto simp: next_emit)
qed

lemma take_items_length: "length (take_items k buf) \<le> k"
  by (induction k arbitrary: buf) (auto split: option.splits)

end

end
