(* ===== verification/Sys_Consts.thy ===== *)
theory Sys_Consts
  imports Prelude
begin

text \<open>
  The integer constants of \<open>src/src/sys.rs\<close>: protocol and level numbers, association id
  wildcards, socket options, control-message types, message flags, notification types and the
  enumerations the notifications and queries carry. Each is a definition of the same name and
  width. The lemmas at the end show that values the code tells apart by \<open>match\<close> or sends as an
  option number are indeed distinct.
\<close>

definition IPPROTO_SCTP :: i32 where
  "IPPROTO_SCTP = 132"

definition SOL_SCTP :: i32 where
  "SOL_SCTP = 132"

definition AF_INET :: u16 where
  "AF_INET = 2"

definition AF_INET6 :: u16 where
  "AF_INET6 = 10"

definition SCTP_FUTURE_ASSOC :: i32 where
  "SCTP_FUTURE_ASSOC = 0"

definition SCTP_CURRENT_ASSOC :: i32 where
  "SCTP_CURRENT_ASSOC = 1"

definition SCTP_ALL_ASSOC :: i32 where
  "SCTP_ALL_ASSOC = 2"

definition SCTP_RTOINFO :: i32 where
  "SCTP_RTOINFO = 0"

definition SCTP_ASSOCINFO :: i32 where
  "SCTP_ASSOCINFO = 1"

definition SCTP_INITMSG :: i32 where
  "SCTP_INITMSG = 2"

definition SCTP_NODELAY :: i32 where
  "SCTP_NODELAY = 3"

definition SCTP_AUTOCLOSE :: i32 where
  "SCTP_AUTOCLOSE = 4"

definition SCTP_SET_PEER_PRIMARY_ADDR :: i32 where
  "SCTP_SET_PEER_PRIMARY_ADDR = 5"

definition SCTP_PRIMARY_ADDR :: i32 where
  "SCTP_PRIMARY_ADDR = 6"

definition SCTP_ADAPTATION_LAYER :: i32 where
  "SCTP_ADAPTATION_LAYER = 7"

definition SCTP_DISABLE_FRAGMENTS :: i32 where
  "SCTP_DISABLE_FRAGMENTS = 8"

definition SCTP_PEER_ADDR_PARAMS :: i32 where
  "SCTP_PEER_ADDR_PARAMS = 9"

definition SCTP_DEFAULT_SEND_PARAM :: i32 where
  "SCTP_DEFAULT_SEND_PARAM = 10"

definition SCTP_EVENTS :: i32 where
  "SCTP_EVENTS = 11"

definition SCTP_I_WANT_MAPPED_V4_ADDR :: i32 where
  "SCTP_I_WANT_MAPPED_V4_ADDR = 12"

definition SCTP_MAXSEG :: i32 where
  "SCTP_MAXSEG = 13"

definition SCTP_STATUS :: i32 where
  "SCTP_STATUS = 14"

definition SCTP_GET_PEER_ADDR_INFO :: i32 where
  "SCTP_GET_PEER_ADDR_INFO = 15"

definition SCTP_DELAYED_ACK_TIME :: i32 where
  "SCTP_DELAYED_ACK_TIME = 16"

definition SCTP_DELAYED_SACK :: i32 where
  "SCTP_DELAYED_SACK = SCTP_DELAYED_ACK_TIME"

definition SCTP_CONTEXT :: i32 where
  "SCTP_CONTEXT = 17"

definition SCTP_FRAGMENT_INTERLEAVE :: i32 where
  "SCTP_FRAGMENT_INTERLEAVE = 18"

definition SCTP_PARTIAL_DELIVERY_POINT :: i32 where
  "SCTP_PARTIAL_DELIVERY_POINT = 19"

definition SCTP_MAX_BURST :: i32 where
  "SCTP_MAX_BURST = 20"

definition SCTP_AUTH_CHUNK :: i32 where
  "SCTP_AUTH_CHUNK = 21"

definition SCTP_HMAC_IDENT :: i32 where
  "SCTP_HMAC_IDENT = 22"

definition SCTP_AUTH_KEY :: i32 where
  "SCTP_AUTH_KEY = 23"

definition SCTP_AUTH_ACTIVE_KEY :: i32 where
  "SCTP_AUTH_ACTIVE_KEY = 24"

definition SCTP_AUTH_DELETE_KEY :: i32 where
  "SCTP_AUTH_DELETE_KEY = 25"

definition SCTP_PEER_AUTH_CHUNKS :: i32 where
  "SCTP_PEER_AUTH_CHUNKS = 26"

definition SCTP_LOCAL_AUTH_CHUNKS :: i32 where
  "SCTP_LOCAL_AUTH_CHUNKS = 27"

definition SCTP_GET_ASSOC_NUMBER :: i32 where
  "SCTP_GET_ASSOC_NUMBER = 28"

definition SCTP_GET_ASSOC_ID_LIST :: i32 where
  "SCTP_GET_ASSOC_ID_LIST = 29"

definition SCTP_AUTO_ASCONF :: i32 where
  "SCTP_AUTO_ASCONF = 30"

definition SCTP_PEER_ADDR_THLDS :: i32 where
  "SCTP_PEER_ADDR_THLDS = 31"

definition SCTP_RECVRCVINFO :: i32 where
  "SCTP_RECVRCVINFO = 32"

definition SCTP_RECVNXTINFO :: i32 where
  "SCTP_RECVNXTINFO = 33"

definition SCTP_DEFAULT_SNDINFO :: i32 where
  "SCTP_DEFAULT_SNDINFO = 34"

definition SCTP_AUTH_DEACTIVATE_KEY :: i32 where
  "SCTP_AUTH_DEACTIVATE_KEY = 35"

definition SCTP_REUSE_PORT :: i32 where
  "SCTP_REUSE_PORT = 36"

definition SCTP_PEER_ADDR_THLDS_V2 :: i32 where
  "SCTP_PEER_ADDR_THLDS_V2 = 37"

definition SCTP_SOCKOPT_BINDX_ADD :: i32 where
  "SCTP_SOCKOPT_BINDX_ADD = 100"

definition SCTP_SOCKOPT_BINDX_REM :: i32 where
  "SCTP_SOCKOPT_BINDX_REM = 101"

definition SCTP_SOCKOPT_PEELOFF :: i32 where
  "SCTP_SOCKOPT_PEELOFF = 102"

definition SCTP_SOCKOPT_CONNECTX_OLD :: i32 where
  "SCTP_SOCKOPT_CONNECTX_OLD = 107"

definition SCTP_GET_PEER_ADDRS :: i32 where
  "SCTP_GET_PEER_ADDRS = 108"

definition SCTP_GET_LOCAL_ADDRS :: i32 where
  "SCTP_GET_LOCAL_ADDRS = 109"

definition SCTP_SOCKOPT_CONNECTX :: i32 where
  "SCTP_SOCKOPT_CONNECTX = 110"

definition SCTP_SOCKOPT_CONNECTX3 :: i32 where
  "SCTP_SOCKOPT_CONNECTX3 = 111"

definition SCTP_GET_ASSOC_STATS :: i32 where
  "SCTP_GET_ASSOC_STATS = 112"

definition SCTP_PR_SUPPORTED :: i32 where
  "SCTP_PR_SUPPORTED = 113"

definition SCTP_DEFAULT_PRINFO :: i32 where
  "SCTP_DEFAULT_PRINFO = 114"

definition SCTP_PR_ASSOC_STATUS :: i32 where
  "SCTP_PR_ASSOC_STATUS = 115"

definition SCTP_PR_STREAM_STATUS :: i32 where
  "SCTP_PR_STREAM_STATUS = 116"

definition SCTP_RECONFIG_SUPPORTED :: i32 where
  "SCTP_RECONFIG_SUPPORTED = 117"

definition SCTP_ENABLE_STREAM_RESET :: i32 where
  "SCTP_ENABLE_STREAM_RESET = 118"

definition SCTP_RESET_STREAMS :: i32 where
  "SCTP_RESET_STREAMS = 119"

definition SCTP_RESET_ASSOC :: i32 where
  "SCTP_RESET_ASSOC = 120"

definition SCTP_ADD_STREAMS :: i32 where
  "SCTP_ADD_STREAMS = 121"

definition SCTP_SOCKOPT_PEELOFF_FLAGS :: i32 where
  "SCTP_SOCKOPT_PEELOFF_FLAGS = 122"

definition SCTP_STREAM_SCHEDULER :: i32 where
  "SCTP_STREAM_SCHEDULER = 123"

definition SCTP_STREAM_SCHEDULER_VALUE :: i32 where
  "SCTP_STREAM_SCHEDULER_VALUE = 124"

definition SCTP_INTERLEAVING_SUPPORTED :: i32 where
  "SCTP_INTERLEAVING_SUPPORTED = 125"

definition SCTP_SENDMSG_CONNECT :: i32 where
  "SCTP_SENDMSG_CONNECT = 126"

definition SCTP_EVENT :: i32 where
  "SCTP_EVENT = 127"

definition SCTP_ASCONF_SUPPORTED :: i32 where
  "SCTP_ASCONF_SUPPORTED = 128"

definition SCTP_AUTH_SUPPORTED :: i32 where
  "SCTP_AUTH_SUPPORTED = 129"

definition SCTP_ECN_SUPPORTED :: i32 where
  "SCTP_ECN_SUPPORTED = 130"

definition SCTP_EXPOSE_POTENTIALLY_FAILED_STATE :: i32 where
  "SCTP_EXPOSE_POTENTIALLY_FAILED_STATE = 131"

definition SCTP_REMOTE_UDP_ENCAPS_PORT :: i32 where
  "SCTP_REMOTE_UDP_ENCAPS_PORT = 132"

definition SCTP_PLPMTUD_PROBE_INTERVAL :: i32 where
  "SCTP_PLPMTUD_PROBE_INTERVAL = 133"

definition SCTP_CMSG_INIT :: i32 where
  "SCTP_CMSG_INIT = 0"

definition SCTP_CMSG_SNDRCV :: i32 where
  "SCTP_CMSG_SNDRCV = 1"

definition SCTP_CMSG_SNDINFO :: i32 where
  "SCTP_CMSG_SNDINFO = 2"

definition SCTP_CMSG_RCVINFO :: i32 where
  "SCTP_CMSG_RCVINFO = 3"

definition SCTP_CMSG_NXTINFO :: i32 where
  "SCTP_CMSG_NXTINFO = 4"

definition SCTP_CMSG_PRINFO :: i32 where
  "SCTP_CMSG_PRINFO = 5"

definition SCTP_CMSG_AUTHINFO :: i32 where
  "SCTP_CMSG_AUTHINFO = 6"

definition SCTP_UNORDERED :: u16 where
  "SCTP_UNORDERED = push_bit 0 1"

definition SCTP_ADDR_OVER :: u16 where
  "SCTP_ADDR_OVER = push_bit 1 1"

definition SCTP_ABORT :: u16 where
  "SCTP_ABORT = push_bit 2 1"

definition SCTP_SACK_IMMEDIATELY :: u16 where
  "SCTP_SACK_IMMEDIATELY = push_bit 3 1"

definition SCTP_SENDALL :: u16 where
  "SCTP_SENDALL = push_bit 6 1"

definition SCTP_PR_SCTP_ALL_FLAG :: u16 where
  "SCTP_PR_SCTP_ALL_FLAG = push_bit 7 1"

definition SCTP_EOF :: u16 where
  "SCTP_EOF = 0x200"

definition MSG_NOTIFICATION :: i32 where
  "MSG_NOTIFICATION = 0x8000"

definition MSG_EOR :: i32 where
  "MSG_EOR = 0x80"

definition SCTP_PR_SCTP_NONE :: u16 where
  "SCTP_PR_SCTP_NONE = 0x0000"

definition SCTP_PR_SCTP_TTL :: u16 where
  "SCTP_PR_SCTP_TTL = 0x0010"

definition SCTP_PR_SCTP_RTX :: u16 where
  "SCTP_PR_SCTP_RTX = 0x0020"

definition SCTP_PR_SCTP_PRIO :: u16 where
  "SCTP_PR_SCTP_PRIO = 0x0030"

definition SCTP_SN_TYPE_BASE :: u16 where
  "SCTP_SN_TYPE_BASE = push_bit 15 1"

definition SCTP_ASSOC_CHANGE :: u16 where
  "SCTP_ASSOC_CHANGE = 0x8001"

definition SCTP_PEER_ADDR_CHANGE :: u16 where
  "SCTP_PEER_ADDR_CHANGE = 0x8002"

definition SCTP_SEND_FAILED :: u16 where
  "SCTP_SEND_FAILED = 0x8003"

definition SCTP_REMOTE_ERROR :: u16 where
  "SCTP_REMOTE_ERROR = 0x8004"

definition SCTP_SHUTDOWN_EVENT :: u16 where
  "SCTP_SHUTDOWN_EVENT = 0x8005"

definition SCTP_PARTIAL_DELIVERY_EVENT :: u16 where
  "SCTP_PARTIAL_DELIVERY_EVENT = 0x8006"

definition SCTP_ADAPTATION_INDICATION :: u16 where
  "SCTP_ADAPTATION_INDICATION = 0x8007"

definition SCTP_AUTHENTICATION_EVENT :: u16 where
  "SCTP_AUTHENTICATION_EVENT = 0x8008"

definition SCTP_SENDER_DRY_EVENT :: u16 where
  "SCTP_SENDER_DRY_EVENT = 0x8009"

definition SCTP_STREAM_RESET_EVENT :: u16 where
  "SCTP_STREAM_RESET_EVENT = 0x800A"

definition SCTP_ASSOC_RESET_EVENT :: u16 where
  "SCTP_ASSOC_RESET_EVENT = 0x800B"

definition SCTP_STREAM_CHANGE_EVENT :: u16 where
  "SCTP_STREAM_CHANGE_EVENT = 0x800C"

definition SCTP_SEND_FAILED_EVENT :: u16 where
  "SCTP_SEND_FAILED_EVENT = 0x800D"

definition SCTP_COMM_UP :: u16 where
  "SCTP_COMM_UP = 0"

definition SCTP_COMM_LOST :: u16 where
  "SCTP_COMM_LOST = 1"

definition SCTP_RESTART :: u16 where
  "SCTP_RESTART = 2"

definition SCTP_SHUTDOWN_COMP :: u16 where
  "SCTP_SHUTDOWN_COMP = 3"

definition SCTP_CANT_STR_ASSOC :: u16 where
  "SCTP_CANT_STR_ASSOC = 4"

definition SCTP_ADDR_AVAILABLE :: i32 where
  "SCTP_ADDR_AVAILABLE = 0"

definition SCTP_ADDR_UNREACHABLE :: i32 where
  "SCTP_ADDR_UNREACHABLE = 1"

definition SCTP_ADDR_REMOVED :: i32 where
  "SCTP_ADDR_REMOVED = 2"

definition SCTP_ADDR_ADDED :: i32 where
  "SCTP_ADDR_ADDED = 3"

definition SCTP_ADDR_MADE_PRIM :: i32 where
  "SCTP_ADDR_MADE_PRIM = 4"

definition SCTP_ADDR_CONFIRMED :: i32 where
  "SCTP_ADDR_CONFIRMED = 5"

definition SCTP_ADDR_POTENTIALLY_FAILED :: i32 where
  "SCTP_ADDR_POTENTIALLY_FAILED = 6"

definition SCTP_DATA_UNSENT :: u16 where
  "SCTP_DATA_UNSENT = 0"

definition SCTP_DATA_SENT :: u16 where
  "SCTP_DATA_SENT = 1"

definition SCTP_INACTIVE :: i32 where
  "SCTP_INACTIVE = 0"

definition SCTP_PF :: i32 where
  "SCTP_PF = 1"

definition SCTP_ACTIVE :: i32 where
  "SCTP_ACTIVE = 2"

definition SCTP_UNCONFIRMED :: i32 where
  "SCTP_UNCONFIRMED = 3"

definition SCTP_UNKNOWN :: i32 where
  "SCTP_UNKNOWN = 0xFFFF"

definition SCTP_STATE_EMPTY :: i32 where
  "SCTP_STATE_EMPTY = 0"

definition SCTP_STATE_CLOSED :: i32 where
  "SCTP_STATE_CLOSED = 1"

definition SCTP_STATE_COOKIE_WAIT :: i32 where
  "SCTP_STATE_COOKIE_WAIT = 2"

definition SCTP_STATE_COOKIE_ECHOED :: i32 where
  "SCTP_STATE_COOKIE_ECHOED = 3"

definition SCTP_STATE_ESTABLISHED :: i32 where
  "SCTP_STATE_ESTABLISHED = 4"

definition SCTP_STATE_SHUTDOWN_PENDING :: i32 where
  "SCTP_STATE_SHUTDOWN_PENDING = 5"

definition SCTP_STATE_SHUTDOWN_SENT :: i32 where
  "SCTP_STATE_SHUTDOWN_SENT = 6"

definition SCTP_STATE_SHUTDOWN_RECEIVED :: i32 where
  "SCTP_STATE_SHUTDOWN_RECEIVED = 7"

definition SCTP_STATE_SHUTDOWN_ACK_SENT :: i32 where
  "SCTP_STATE_SHUTDOWN_ACK_SENT = 8"

definition SCTP_STREAM_RESET_INCOMING_SSN :: u16 where
  "SCTP_STREAM_RESET_INCOMING_SSN = 0x0001"

definition SCTP_STREAM_RESET_OUTGOING_SSN :: u16 where
  "SCTP_STREAM_RESET_OUTGOING_SSN = 0x0002"

definition SCTP_STREAM_RESET_DENIED :: u16 where
  "SCTP_STREAM_RESET_DENIED = 0x0004"

definition SCTP_STREAM_RESET_FAILED :: u16 where
  "SCTP_STREAM_RESET_FAILED = 0x0008"

definition SCTP_ASSOC_RESET_DENIED :: u16 where
  "SCTP_ASSOC_RESET_DENIED = 0x0004"

definition SCTP_ASSOC_RESET_FAILED :: u16 where
  "SCTP_ASSOC_RESET_FAILED = 0x0008"

definition SCTP_STREAM_CHANGE_DENIED :: u16 where
  "SCTP_STREAM_CHANGE_DENIED = 0x0004"

definition SCTP_STREAM_CHANGE_FAILED :: u16 where
  "SCTP_STREAM_CHANGE_FAILED = 0x0008"

definition SCTP_BINDX_ADD_ADDR :: i32 where
  "SCTP_BINDX_ADD_ADDR = 0x01"

definition SCTP_BINDX_REM_ADDR :: i32 where
  "SCTP_BINDX_REM_ADDR = 0x02"

definition SPP_HB_ENABLE :: u32 where
  "SPP_HB_ENABLE = push_bit 0 1"

definition SPP_HB_DISABLE :: u32 where
  "SPP_HB_DISABLE = push_bit 1 1"

definition SPP_HB_DEMAND :: u32 where
  "SPP_HB_DEMAND = push_bit 2 1"

definition SPP_PMTUD_ENABLE :: u32 where
  "SPP_PMTUD_ENABLE = push_bit 3 1"

definition SPP_PMTUD_DISABLE :: u32 where
  "SPP_PMTUD_DISABLE = push_bit 4 1"

definition SPP_SACKDELAY_ENABLE :: u32 where
  "SPP_SACKDELAY_ENABLE = push_bit 5 1"

definition SPP_SACKDELAY_DISABLE :: u32 where
  "SPP_SACKDELAY_DISABLE = push_bit 6 1"

definition SPP_HB_TIME_IS_ZERO :: u32 where
  "SPP_HB_TIME_IS_ZERO = push_bit 7 1"

definition SPP_IPV6_FLOWLABEL :: u32 where
  "SPP_IPV6_FLOWLABEL = push_bit 8 1"

definition SPP_DSCP :: u32 where
  "SPP_DSCP = push_bit 9 1"

lemmas sys_consts =
  IPPROTO_SCTP_def SOL_SCTP_def AF_INET_def AF_INET6_def SCTP_FUTURE_ASSOC_def
  SCTP_CURRENT_ASSOC_def SCTP_ALL_ASSOC_def SCTP_RTOINFO_def SCTP_ASSOCINFO_def
  SCTP_INITMSG_def SCTP_NODELAY_def SCTP_AUTOCLOSE_def SCTP_SET_PEER_PRIMARY_ADDR_def
  SCTP_PRIMARY_ADDR_def SCTP_ADAPTATION_LAYER_def SCTP_DISABLE_FRAGMENTS_def
  SCTP_PEER_ADDR_PARAMS_def SCTP_DEFAULT_SEND_PARAM_def SCTP_EVENTS_def
  SCTP_I_WANT_MAPPED_V4_ADDR_def SCTP_MAXSEG_def SCTP_STATUS_def
  SCTP_GET_PEER_ADDR_INFO_def SCTP_DELAYED_ACK_TIME_def SCTP_DELAYED_SACK_def
  SCTP_CONTEXT_def SCTP_FRAGMENT_INTERLEAVE_def SCTP_PARTIAL_DELIVERY_POINT_def
  SCTP_MAX_BURST_def SCTP_AUTH_CHUNK_def SCTP_HMAC_IDENT_def SCTP_AUTH_KEY_def
  SCTP_AUTH_ACTIVE_KEY_def SCTP_AUTH_DELETE_KEY_def SCTP_PEER_AUTH_CHUNKS_def
  SCTP_LOCAL_AUTH_CHUNKS_def SCTP_GET_ASSOC_NUMBER_def SCTP_GET_ASSOC_ID_LIST_def
  SCTP_AUTO_ASCONF_def SCTP_PEER_ADDR_THLDS_def SCTP_RECVRCVINFO_def SCTP_RECVNXTINFO_def
  SCTP_DEFAULT_SNDINFO_def SCTP_AUTH_DEACTIVATE_KEY_def SCTP_REUSE_PORT_def
  SCTP_PEER_ADDR_THLDS_V2_def SCTP_SOCKOPT_BINDX_ADD_def SCTP_SOCKOPT_BINDX_REM_def
  SCTP_SOCKOPT_PEELOFF_def SCTP_SOCKOPT_CONNECTX_OLD_def SCTP_GET_PEER_ADDRS_def
  SCTP_GET_LOCAL_ADDRS_def SCTP_SOCKOPT_CONNECTX_def SCTP_SOCKOPT_CONNECTX3_def
  SCTP_GET_ASSOC_STATS_def SCTP_PR_SUPPORTED_def SCTP_DEFAULT_PRINFO_def
  SCTP_PR_ASSOC_STATUS_def SCTP_PR_STREAM_STATUS_def SCTP_RECONFIG_SUPPORTED_def
  SCTP_ENABLE_STREAM_RESET_def SCTP_RESET_STREAMS_def SCTP_RESET_ASSOC_def
  SCTP_ADD_STREAMS_def SCTP_SOCKOPT_PEELOFF_FLAGS_def SCTP_STREAM_SCHEDULER_def
  SCTP_STREAM_SCHEDULER_VALUE_def SCTP_INTERLEAVING_SUPPORTED_def
  SCTP_SENDMSG_CONNECT_def SCTP_EVENT_def SCTP_ASCONF_SUPPORTED_def
  SCTP_AUTH_SUPPORTED_def SCTP_ECN_SUPPORTED_def SCTP_EXPOSE_POTENTIALLY_FAILED_STATE_def
  SCTP_REMOTE_UDP_ENCAPS_PORT_def SCTP_PLPMTUD_PROBE_INTERVAL_def SCTP_CMSG_INIT_def
  SCTP_CMSG_SNDRCV_def SCTP_CMSG_SNDINFO_def SCTP_CMSG_RCVINFO_def SCTP_CMSG_NXTINFO_def
  SCTP_CMSG_PRINFO_def SCTP_CMSG_AUTHINFO_def SCTP_UNORDERED_def SCTP_ADDR_OVER_def
  SCTP_ABORT_def SCTP_SACK_IMMEDIATELY_def SCTP_SENDALL_def SCTP_PR_SCTP_ALL_FLAG_def
  SCTP_EOF_def MSG_NOTIFICATION_def MSG_EOR_def SCTP_PR_SCTP_NONE_def
  SCTP_PR_SCTP_TTL_def SCTP_PR_SCTP_RTX_def SCTP_PR_SCTP_PRIO_def SCTP_SN_TYPE_BASE_def
  SCTP_ASSOC_CHANGE_def SCTP_PEER_ADDR_CHANGE_def SCTP_SEND_FAILED_def
  SCTP_REMOTE_ERROR_def SCTP_SHUTDOWN_EVENT_def SCTP_PARTIAL_DELIVERY_EVENT_def
  SCTP_ADAPTATION_INDICATION_def SCTP_AUTHENTICATION_EVENT_def SCTP_SENDER_DRY_EVENT_def
  SCTP_STREAM_RESET_EVENT_def SCTP_ASSOC_RESET_EVENT_def SCTP_STREAM_CHANGE_EVENT_def
  SCTP_SEND_FAILED_EVENT_def SCTP_COMM_UP_def SCTP_COMM_LOST_def SCTP_RESTART_def
  SCTP_SHUTDOWN_COMP_def SCTP_CANT_STR_ASSOC_def SCTP_ADDR_AVAILABLE_def
  SCTP_ADDR_UNREACHABLE_def SCTP_ADDR_REMOVED_def SCTP_ADDR_ADDED_def
  SCTP_ADDR_MADE_PRIM_def SCTP_ADDR_CONFIRMED_def SCTP_ADDR_POTENTIALLY_FAILED_def
  SCTP_DATA_UNSENT_def SCTP_DATA_SENT_def SCTP_INACTIVE_def SCTP_PF_def SCTP_ACTIVE_def
  SCTP_UNCONFIRMED_def SCTP_UNKNOWN_def SCTP_STATE_EMPTY_def SCTP_STATE_CLOSED_def
  SCTP_STATE_COOKIE_WAIT_def SCTP_STATE_COOKIE_ECHOED_def SCTP_STATE_ESTABLISHED_def
  SCTP_STATE_SHUTDOWN_PENDING_def SCTP_STATE_SHUTDOWN_SENT_def
  SCTP_STATE_SHUTDOWN_RECEIVED_def SCTP_STATE_SHUTDOWN_ACK_SENT_def
  SCTP_STREAM_RESET_INCOMING_SSN_def SCTP_STREAM_RESET_OUTGOING_SSN_def
  SCTP_STREAM_RESET_DENIED_def SCTP_STREAM_RESET_FAILED_def SCTP_ASSOC_RESET_DENIED_def
  SCTP_ASSOC_RESET_FAILED_def SCTP_STREAM_CHANGE_DENIED_def SCTP_STREAM_CHANGE_FAILED_def
  SCTP_BINDX_ADD_ADDR_def SCTP_BINDX_REM_ADDR_def SPP_HB_ENABLE_def SPP_HB_DISABLE_def
  SPP_HB_DEMAND_def SPP_PMTUD_ENABLE_def SPP_PMTUD_DISABLE_def SPP_SACKDELAY_ENABLE_def
  SPP_SACKDELAY_DISABLE_def SPP_HB_TIME_IS_ZERO_def SPP_IPV6_FLOWLABEL_def SPP_DSCP_def

section \<open>Values the code tells apart\<close>

lemma socket_options_distinct:
  "distinct [SCTP_RTOINFO, SCTP_ASSOCINFO, SCTP_INITMSG, SCTP_NODELAY, SCTP_AUTOCLOSE,
     SCTP_PRIMARY_ADDR, SCTP_PEER_ADDR_PARAMS, SCTP_STATUS, SCTP_GET_PEER_ADDR_INFO,
     SCTP_DELAYED_SACK, SCTP_RECVRCVINFO, SCTP_REUSE_PORT, SCTP_SOCKOPT_BINDX_ADD,
     SCTP_SOCKOPT_BINDX_REM, SCTP_GET_PEER_ADDRS, SCTP_GET_LOCAL_ADDRS,
     SCTP_SOCKOPT_CONNECTX3, SCTP_GET_ASSOC_STATS, SCTP_SOCKOPT_PEELOFF_FLAGS, SCTP_EVENT]"
  by (simp add: sys_consts)

lemma notification_types_distinct:
  "distinct [SCTP_ASSOC_CHANGE, SCTP_PEER_ADDR_CHANGE, SCTP_SEND_FAILED, SCTP_REMOTE_ERROR,
     SCTP_SHUTDOWN_EVENT, SCTP_PARTIAL_DELIVERY_EVENT, SCTP_ADAPTATION_INDICATION,
     SCTP_AUTHENTICATION_EVENT, SCTP_SENDER_DRY_EVENT, SCTP_STREAM_RESET_EVENT,
     SCTP_ASSOC_RESET_EVENT, SCTP_STREAM_CHANGE_EVENT, SCTP_SEND_FAILED_EVENT]"
  by (simp add: sys_consts)

lemma msg_flag_bits: "MSG_NOTIFICATION AND MSG_EOR = 0"
  by (simp add: sys_consts)

end
