(* ===== verification/C_Layout.thy ===== *)
theory C_Layout
  imports Prelude
begin

text \<open>
  Memory layout of \<open>#[repr(C)]\<close> and \<open>#[repr(C, packed)]\<close> structures, as the Rust reference
  defines it: fields in declaration order, each at the next multiple of its alignment (1 when
  packed), the whole rounded up to the largest alignment. \<open>struct_bytes\<close> is the memory of a
  structure value and \<open>field_at\<close> reads one field back; padding holds the target's unspecified
  byte. The locale \<open>c_struct\<close> is what a structure passed to the kernel promises: its memory has
  the size the layout says, and reading the fields back gives the value.
\<close>

section \<open>Field types, sizes and alignments\<close>

datatype fty = TU8 | TU16 | TU32 | TU64 | TBlob nat nat  \<comment> \<open>alignment and size of a nested object\<close>

datatype field = FU8 byte | FU16 u16 | FU32 u32 | FU64 u64 | FBlob nat "byte list"

fun ty_of :: "field \<Rightarrow> fty" where
  "ty_of (FU8 b) = TU8"
| "ty_of (FU16 w) = TU16"
| "ty_of (FU32 w) = TU32"
| "ty_of (FU64 w) = TU64"
| "ty_of (FBlob a bs) = TBlob a (length bs)"

fun size_ty :: "fty \<Rightarrow> nat" where
  "size_ty TU8 = 1"
| "size_ty TU16 = 2"
| "size_ty TU32 = 4"
| "size_ty TU64 = 8"
| "size_ty (TBlob a n) = n"

fun align_ty :: "target \<Rightarrow> bool \<Rightarrow> fty \<Rightarrow> nat" where
  "align_ty t packed ty =
     (if packed then 1
      else case ty of TU8 \<Rightarrow> 1 | TU16 \<Rightarrow> 2 | TU32 \<Rightarrow> 4 | TU64 \<Rightarrow> align_u64 t | TBlob a n \<Rightarrow> a)"

declare align_ty.simps [simp del]

fun field_bytes :: "target \<Rightarrow> field \<Rightarrow> byte list" where
  "field_bytes t (FU8 b) = to_ne_bytes t b"
| "field_bytes t (FU16 w) = to_ne_bytes t w"
| "field_bytes t (FU32 w) = to_ne_bytes t w"
| "field_bytes t (FU64 w) = to_ne_bytes t w"
| "field_bytes t (FBlob a bs) = bs"

lemma length_field_bytes [simp]: "length (field_bytes t f) = size_ty (ty_of f)"
  by (cases f) auto

section \<open>Offsets and size\<close>

definition round_up :: "nat \<Rightarrow> nat \<Rightarrow> nat" where
  "round_up a n = (n + a - 1) div a * a"

lemma round_up_ge: "n \<le> round_up a n" if "0 < a"
proof -
  have "n + a - 1 < (n + a - 1) div a * a + a"
    using that by (metis add.commute mod_less_divisor mult.commute mult_div_mod_eq
        nat_add_left_cancel_less)
  then show ?thesis
    using that by (simp add: round_up_def)
qed

fun offsets :: "target \<Rightarrow> bool \<Rightarrow> nat \<Rightarrow> fty list \<Rightarrow> nat list" where
  "offsets t packed off [] = []"
| "offsets t packed off (ty # tys) =
     (let o' = round_up (align_ty t packed ty) off
      in o' # offsets t packed (o' + size_ty ty) tys)"

fun end_offset :: "target \<Rightarrow> bool \<Rightarrow> nat \<Rightarrow> fty list \<Rightarrow> nat" where
  "end_offset t packed off [] = off"
| "end_offset t packed off (ty # tys) =
     end_offset t packed (round_up (align_ty t packed ty) off + size_ty ty) tys"

definition struct_align :: "target \<Rightarrow> bool \<Rightarrow> fty list \<Rightarrow> nat" where
  "struct_align t packed tys = foldr (\<lambda>ty. max (align_ty t packed ty)) tys 1"

definition struct_size :: "target \<Rightarrow> bool \<Rightarrow> fty list \<Rightarrow> nat" where
  "struct_size t packed tys = round_up (struct_align t packed tys) (end_offset t packed 0 tys)"

definition offset_of :: "target \<Rightarrow> bool \<Rightarrow> fty list \<Rightarrow> nat \<Rightarrow> nat" where
  "offset_of t packed tys i = offsets t packed 0 tys ! i"

section \<open>The memory of a structure\<close>

fun fields_bytes :: "target \<Rightarrow> bool \<Rightarrow> nat \<Rightarrow> field list \<Rightarrow> byte list" where
  "fields_bytes t packed off [] = []"
| "fields_bytes t packed off (f # fs) =
     (let o' = round_up (align_ty t packed (ty_of f)) off
      in replicate (o' - off) (pad_byte t) @ field_bytes t f
         @ fields_bytes t packed (o' + size_ty (ty_of f)) fs)"

definition struct_bytes :: "target \<Rightarrow> bool \<Rightarrow> field list \<Rightarrow> byte list" where
  "struct_bytes t packed fs =
     (let bs = fields_bytes t packed 0 fs
      in bs @ replicate (struct_size t packed (map ty_of fs) - length bs) (pad_byte t))"

definition field_at :: "target \<Rightarrow> bool \<Rightarrow> fty list \<Rightarrow> nat \<Rightarrow> byte list \<Rightarrow> byte list" where
  "field_at t packed tys i bs = take (size_ty (tys ! i)) (drop (offset_of t packed tys i) bs)"

fun ty_ok :: "target \<Rightarrow> fty \<Rightarrow> bool" where
  "ty_ok t (TBlob a n) = (0 < a)"
| "ty_ok t _ = True"

lemma align_ty_pos: "ty_ok t ty \<Longrightarrow> 0 < align_ty t packed ty"
  by (cases ty) (auto simp: align_ty.simps)

lemma end_offset_ge: "\<forall>ty \<in> set tys. ty_ok t ty \<Longrightarrow> off \<le> end_offset t packed off tys"
proof (induction tys arbitrary: off)
  case Nil
  then show ?case by simp
next
  case (Cons ty tys)
  let ?o = "round_up (align_ty t packed ty) off"
  have "off \<le> ?o"
    using Cons.prems by (intro round_up_ge align_ty_pos) simp
  moreover have "?o + size_ty ty \<le> end_offset t packed (?o + size_ty ty) tys"
    using Cons by simp
  ultimately show ?case by simp
qed

lemma length_fields_bytes:
  "\<forall>f \<in> set fs. ty_ok t (ty_of f) \<Longrightarrow>
     length (fields_bytes t packed off fs) = end_offset t packed off (map ty_of fs) - off"
proof (induction fs arbitrary: off)
  case Nil
  then show ?case by simp
next
  case (Cons f fs)
  let ?o = "round_up (align_ty t packed (ty_of f)) off"
  have "off \<le> ?o"
    using Cons.prems by (intro round_up_ge align_ty_pos) simp
  moreover have "?o + size_ty (ty_of f) \<le>
      end_offset t packed (?o + size_ty (ty_of f)) (map ty_of fs)"
    using Cons.prems by (intro end_offset_ge) auto
  ultimately show ?case
    using Cons by (simp add: Let_def)
qed

lemma struct_align_pos: "0 < struct_align t packed tys"
  unfolding struct_align_def by (induction tys) auto

lemma length_struct_bytes:
  assumes "\<forall>f \<in> set fs. ty_ok t (ty_of f)"
  shows "length (struct_bytes t packed fs) = struct_size t packed (map ty_of fs)"
proof -
  have "end_offset t packed 0 (map ty_of fs) \<le> struct_size t packed (map ty_of fs)"
    unfolding struct_size_def by (intro round_up_ge struct_align_pos)
  then show ?thesis
    using length_fields_bytes[OF assms, of packed 0]
    by (simp add: struct_bytes_def Let_def)
qed

text \<open>Reading field \<open>i\<close> back from the memory that holds the fields from offset \<open>off\<close> on.\<close>

lemma field_of_fields_bytes:
  "\<forall>f \<in> set fs. ty_ok t (ty_of f) \<Longrightarrow> i < length fs \<Longrightarrow> length pre = off \<Longrightarrow>
     take (size_ty (ty_of (fs ! i)))
       (drop (offsets t packed off (map ty_of fs) ! i) (pre @ fields_bytes t packed off fs @ post))
     = field_bytes t (fs ! i)"
proof (induction fs arbitrary: i off pre)
  case Nil
  then show ?case by simp
next
  case (Cons f fs)
  let ?o = "round_up (align_ty t packed (ty_of f)) off"
  let ?pad = "replicate (?o - off) (pad_byte t)"
  have le: "off \<le> ?o"
    using Cons.prems(1) by (intro round_up_ge align_ty_pos) simp
  have len: "length (pre @ ?pad @ field_bytes t f) = ?o + size_ty (ty_of f)"
    using le Cons.prems(3) by simp
  show ?case
  proof (cases i)
    case 0
    have "drop ?o (pre @ ?pad @ r) = r" for r
      using le Cons.prems(3) by simp
    then show ?thesis
      by (simp add: 0 Let_def del: drop_append)
  next
    case (Suc j)
    have "take (size_ty (ty_of (fs ! j)))
       (drop (offsets t packed (?o + size_ty (ty_of f)) (map ty_of fs) ! j)
         ((pre @ ?pad @ field_bytes t f) @
           fields_bytes t packed (?o + size_ty (ty_of f)) fs @ post)) = field_bytes t (fs ! j)"
      using Cons.prems(1,2) Suc by (intro Cons.IH len) auto
    then show ?thesis
      by (simp add: Suc Let_def)
  qed
qed

lemma field_at_struct_bytes:
  assumes "\<forall>f \<in> set fs. ty_ok t (ty_of f)" and "i < length fs"
  shows "field_at t packed (map ty_of fs) i (struct_bytes t packed fs @ rest) =
    field_bytes t (fs ! i)"
proof -
  let ?tail = "replicate (struct_size t packed (map ty_of fs) -
    length (fields_bytes t packed 0 fs)) (pad_byte t) @ rest"
  have "take (size_ty (ty_of (fs ! i)))
      (drop (offsets t packed 0 (map ty_of fs) ! i) ([] @ fields_bytes t packed 0 fs @ ?tail))
    = field_bytes t (fs ! i)"
    by (rule field_of_fields_bytes) (use assms in auto)
  then show ?thesis
    using assms(2) by (simp add: field_at_def offset_of_def struct_bytes_def Let_def)
qed

section \<open>The contract of a structure\<close>

locale c_struct =
  fixes packed :: bool
    and tys :: "target \<Rightarrow> fty list"
    and to_fields :: "target \<Rightarrow> 'r \<Rightarrow> field list"
    and of_bytes :: "target \<Rightarrow> byte list \<Rightarrow> 'r"
    and ok :: "'r \<Rightarrow> bool"
  assumes tys_ok: "ty \<in> set (tys t) \<Longrightarrow> ty_ok t ty"
    and fields_tys: "ok r \<Longrightarrow> map ty_of (to_fields t r) = tys t"
    and of_fields: "ok r \<Longrightarrow>
      (\<And>i. i < length (to_fields t r) \<Longrightarrow>
         field_at t packed (tys t) i bs = field_bytes t (to_fields t r ! i)) \<Longrightarrow>
      of_bytes t bs = r"
begin

lemma fields_ok: "ok r \<Longrightarrow> \<forall>f \<in> set (to_fields t r). ty_ok t (ty_of f)"
  using tys_ok fields_tys by (metis image_eqI list.set_map)

lemma to_bytes_length:
  "ok r \<Longrightarrow>
     length (struct_bytes t packed (to_fields t r)) = struct_size t packed (tys t)"
  using length_struct_bytes[OF fields_ok] fields_tys by metis

lemma of_to_bytes:
  assumes "ok r"
  shows "of_bytes t (struct_bytes t packed (to_fields t r) @ rest) = r"
proof (rule of_fields)
  fix i
  assume "i < length (to_fields t r)"
  then show "field_at t packed (tys t) i (struct_bytes t packed (to_fields t r) @ rest) =
      field_bytes t (to_fields t r ! i)"
    using field_at_struct_bytes[OF fields_ok] assms fields_tys by metis
qed (use assms in simp_all)

lemma of_to_bytes_exact:
  "ok r \<Longrightarrow> of_bytes t (struct_bytes t packed (to_fields t r)) = r"
  using of_to_bytes[where rest = "[]"] by simp

end

lemmas layout_defs [layout_simps] =
  struct_size_def struct_align_def offset_of_def round_up_def align_ty.simps Let_def

end
