(* ===== verification/Sys_Structs.thy ===== *)
theory Sys_Structs
  imports Sys_Consts C_Layout
begin

text \<open>
  The \<open>#[repr(C)]\<close> structures of \<open>src/src/sys.rs\<close>. Each is a record with the fields of the
  source; \<open>_tys\<close> lists the field types for the layout, \<open>_fields\<close> the field values in
  declaration order and \<open>_of_bytes\<close> is the value read from memory. Every structure is an
  instance of \<open>c_struct\<close>, and its size is the one the kernel ABI fixes.
\<close>

record sockaddr_storage =
  storage_bytes :: "byte list"

definition sockaddr_storage_zeroed :: sockaddr_storage where
  "sockaddr_storage_zeroed = \<lparr>storage_bytes = replicate 128 0\<rparr>"

lemma length_storage_zeroed [simp]: "length (storage_bytes sockaddr_storage_zeroed) = 128"
  by (simp add: sockaddr_storage_zeroed_def)

record sctp_initmsg =
  sinit_num_ostreams :: u16
  sinit_max_instreams :: u16
  sinit_max_attempts :: u16
  sinit_max_init_timeo :: u16

definition sctp_initmsg_tys :: "target \<Rightarrow> fty list" where
  "sctp_initmsg_tys t =
     [TU16, TU16, TU16, TU16]"

definition sctp_initmsg_fields :: "target \<Rightarrow> sctp_initmsg \<Rightarrow> field list" where
  "sctp_initmsg_fields t r =
     [FU16 (sinit_num_ostreams r), FU16 (sinit_max_instreams r),
      FU16 (sinit_max_attempts r), FU16 (sinit_max_init_timeo r)]"

definition sctp_initmsg_of_bytes :: "target \<Rightarrow> byte list \<Rightarrow> sctp_initmsg" where
  "sctp_initmsg_of_bytes t bs =
     \<lparr>sinit_num_ostreams = from_ne_bytes t (field_at t False (sctp_initmsg_tys t) 0 bs),
      sinit_max_instreams = from_ne_bytes t (field_at t False (sctp_initmsg_tys t) 1 bs),
      sinit_max_attempts = from_ne_bytes t (field_at t False (sctp_initmsg_tys t) 2 bs),
      sinit_max_init_timeo = from_ne_bytes t (field_at t False (sctp_initmsg_tys t) 3 bs)\<rparr>"

definition sctp_initmsg_ok :: "sctp_initmsg \<Rightarrow> bool" where
  "sctp_initmsg_ok r \<longleftrightarrow> True"

interpretation sctp_initmsg_cs: c_struct False sctp_initmsg_tys sctp_initmsg_fields sctp_initmsg_of_bytes sctp_initmsg_ok
proof
  show "ty_ok t ty" if "ty \<in> set (sctp_initmsg_tys t)" for t ty
    using that by (auto simp: sctp_initmsg_tys_def)
next
  show "map ty_of (sctp_initmsg_fields t r) = sctp_initmsg_tys t" if "sctp_initmsg_ok r" for t r
    using that by (simp add: sctp_initmsg_fields_def sctp_initmsg_tys_def sctp_initmsg_ok_def)
next
  fix t r bs
  assume "sctp_initmsg_ok r"
    and "\<And>i. i < length (sctp_initmsg_fields t r) \<Longrightarrow>
      field_at t False (sctp_initmsg_tys t) i bs = field_bytes t (sctp_initmsg_fields t r ! i)"
  then show "sctp_initmsg_of_bytes t bs = r"
    by (simp add: sctp_initmsg_of_bytes_def sctp_initmsg_fields_def sctp_initmsg_ok_def
        from_to_ne_bytes)
qed

lemma sctp_initmsg_size [simp]: "struct_size t False (sctp_initmsg_tys t) = 8"
  by (simp add: sctp_initmsg_tys_def layout_simps flip: numeral_2_eq_2)

record sctp_sndrcvinfo =
  sinfo_stream :: u16
  sinfo_ssn :: u16
  sinfo_flags :: u16
  sinfo_ppid :: u32
  sinfo_context :: u32
  sinfo_timetolive :: u32
  sinfo_tsn :: u32
  sinfo_cumtsn :: u32
  sinfo_assoc_id :: i32

definition sctp_sndrcvinfo_tys :: "target \<Rightarrow> fty list" where
  "sctp_sndrcvinfo_tys t =
     [TU16, TU16, TU16, TU32, TU32, TU32, TU32, TU32, TU32]"

definition sctp_sndrcvinfo_fields :: "target \<Rightarrow> sctp_sndrcvinfo \<Rightarrow> field list" where
  "sctp_sndrcvinfo_fields t r =
     [FU16 (sinfo_stream r), FU16 (sinfo_ssn r), FU16 (sinfo_flags r), FU32 (sinfo_ppid r),
      FU32 (sinfo_context r), FU32 (sinfo_timetolive r), FU32 (sinfo_tsn r),
      FU32 (sinfo_cumtsn r), FU32 (sinfo_assoc_id r)]"

definition sctp_sndrcvinfo_of_bytes :: "target \<Rightarrow> byte list \<Rightarrow> sctp_sndrcvinfo" where
  "sctp_sndrcvinfo_of_bytes t bs =
     \<lparr>sinfo_stream = from_ne_bytes t (field_at t False (sctp_sndrcvinfo_tys t) 0 bs),
      sinfo_ssn = from_ne_bytes t (field_at t False (sctp_sndrcvinfo_tys t) 1 bs),
      sinfo_flags = from_ne_bytes t (field_at t False (sctp_sndrcvinfo_tys t) 2 bs),
      sinfo_ppid = from_ne_bytes t (field_at t False (sctp_sndrcvinfo_tys t) 3 bs),
      sinfo_context = from_ne_bytes t (field_at t False (sctp_sndrcvinfo_tys t) 4 bs),
      sinfo_timetolive = from_ne_bytes t (field_at t False (sctp_sndrcvinfo_tys t) 5 bs),
      sinfo_tsn = from_ne_bytes t (field_at t False (sctp_sndrcvinfo_tys t) 6 bs),
      sinfo_cumtsn = from_ne_bytes t (field_at t False (sctp_sndrcvinfo_tys t) 7 bs),
      sinfo_assoc_id = from_ne_bytes t (field_at t False (sctp_sndrcvinfo_tys t) 8 bs)\<rparr>"

definition sctp_sndrcvinfo_ok :: "sctp_sndrcvinfo \<Rightarrow> bool" where
  "sctp_sndrcvinfo_ok r \<longleftrightarrow> True"

interpretation sctp_sndrcvinfo_cs: c_struct False sctp_sndrcvinfo_tys sctp_sndrcvinfo_fields sctp_sndrcvinfo_of_bytes sctp_sndrcvinfo_ok
proof
  show "ty_ok t ty" if "ty \<in> set (sctp_sndrcvinfo_tys t)" for t ty
    using that by (auto simp: sctp_sndrcvinfo_tys_def)
next
  show "map ty_of (sctp_sndrcvinfo_fields t r) = sctp_sndrcvinfo_tys t" if "sctp_sndrcvinfo_ok r" for t r
    using that by (simp add: sctp_sndrcvinfo_fields_def sctp_sndrcvinfo_tys_def sctp_sndrcvinfo_ok_def)
next
  fix t r bs
  assume "sctp_sndrcvinfo_ok r"
    and "\<And>i. i < length (sctp_sndrcvinfo_fields t r) \<Longrightarrow>
      field_at t False (sctp_sndrcvinfo_tys t) i bs = field_bytes t (sctp_sndrcvinfo_fields t r ! i)"
  then show "sctp_sndrcvinfo_of_bytes t bs = r"
    by (simp add: sctp_sndrcvinfo_of_bytes_def sctp_sndrcvinfo_fields_def sctp_sndrcvinfo_ok_def
        from_to_ne_bytes)
qed

lemma sctp_sndrcvinfo_size [simp]: "struct_size t False (sctp_sndrcvinfo_tys t) = 32"
  by (simp add: sctp_sndrcvinfo_tys_def layout_simps flip: numeral_2_eq_2)

record sctp_sndinfo =
  snd_sid :: u16
  snd_flags :: u16
  snd_ppid :: u32
  snd_context :: u32
  snd_assoc_id :: i32

definition sctp_sndinfo_tys :: "target \<Rightarrow> fty list" where
  "sctp_sndinfo_tys t =
     [TU16, TU16, TU32, TU32, TU32]"

definition sctp_sndinfo_fields :: "target \<Rightarrow> sctp_sndinfo \<Rightarrow> field list" where
  "sctp_sndinfo_fields t r =
     [FU16 (snd_sid r), FU16 (snd_flags r), FU32 (snd_ppid r), FU32 (snd_context r),
      FU32 (snd_assoc_id r)]"

definition sctp_sndinfo_of_bytes :: "target \<Rightarrow> byte list \<Rightarrow> sctp_sndinfo" where
  "sctp_sndinfo_of_bytes t bs =
     \<lparr>snd_sid = from_ne_bytes t (field_at t False (sctp_sndinfo_tys t) 0 bs),
      snd_flags = from_ne_bytes t (field_at t False (sctp_sndinfo_tys t) 1 bs),
      snd_ppid = from_ne_bytes t (field_at t False (sctp_sndinfo_tys t) 2 bs),
      snd_context = from_ne_bytes t (field_at t False (sctp_sndinfo_tys t) 3 bs),
      snd_assoc_id = from_ne_bytes t (field_at t False (sctp_sndinfo_tys t) 4 bs)\<rparr>"

definition sctp_sndinfo_ok :: "sctp_sndinfo \<Rightarrow> bool" where
  "sctp_sndinfo_ok r \<longleftrightarrow> True"

interpretation sctp_sndinfo_cs: c_struct False sctp_sndinfo_tys sctp_sndinfo_fields sctp_sndinfo_of_bytes sctp_sndinfo_ok
proof
  show "ty_ok t ty" if "ty \<in> set (sctp_sndinfo_tys t)" for t ty
    using that by (auto simp: sctp_sndinfo_tys_def)
next
  show "map ty_of (sctp_sndinfo_fields t r) = sctp_sndinfo_tys t" if "sctp_sndinfo_ok r" for t r
    using that by (simp add: sctp_sndinfo_fields_def sctp_sndinfo_tys_def sctp_sndinfo_ok_def)
next
  fix t r bs
  assume "sctp_sndinfo_ok r"
    and "\<And>i. i < length (sctp_sndinfo_fields t r) \<Longrightarrow>
      field_at t False (sctp_sndinfo_tys t) i bs = field_bytes t (sctp_sndinfo_fields t r ! i)"
  then show "sctp_sndinfo_of_bytes t bs = r"
    by (simp add: sctp_sndinfo_of_bytes_def sctp_sndinfo_fields_def sctp_sndinfo_ok_def
        from_to_ne_bytes)
qed

lemma sctp_sndinfo_size [simp]: "struct_size t False (sctp_sndinfo_tys t) = 16"
  by (simp add: sctp_sndinfo_tys_def layout_simps flip: numeral_2_eq_2)

record sctp_rcvinfo =
  rcv_sid :: u16
  rcv_ssn :: u16
  rcv_flags :: u16
  rcv_ppid :: u32
  rcv_tsn :: u32
  rcv_cumtsn :: u32
  rcv_context :: u32
  rcv_assoc_id :: i32

definition sctp_rcvinfo_tys :: "target \<Rightarrow> fty list" where
  "sctp_rcvinfo_tys t =
     [TU16, TU16, TU16, TU32, TU32, TU32, TU32, TU32]"

definition sctp_rcvinfo_fields :: "target \<Rightarrow> sctp_rcvinfo \<Rightarrow> field list" where
  "sctp_rcvinfo_fields t r =
     [FU16 (rcv_sid r), FU16 (rcv_ssn r), FU16 (rcv_flags r), FU32 (rcv_ppid r),
      FU32 (rcv_tsn r), FU32 (rcv_cumtsn r), FU32 (rcv_context r), FU32 (rcv_assoc_id r)]"

definition sctp_rcvinfo_of_bytes :: "target \<Rightarrow> byte list \<Rightarrow> sctp_rcvinfo" where
  "sctp_rcvinfo_of_bytes t bs =
     \<lparr>rcv_sid = from_ne_bytes t (field_at t False (sctp_rcvinfo_tys t) 0 bs),
      rcv_ssn = from_ne_bytes t (field_at t False (sctp_rcvinfo_tys t) 1 bs),
      rcv_flags = from_ne_bytes t (field_at t False (sctp_rcvinfo_tys t) 2 bs),
      rcv_ppid = from_ne_bytes t (field_at t False (sctp_rcvinfo_tys t) 3 bs),
      rcv_tsn = from_ne_bytes t (field_at t False (sctp_rcvinfo_tys t) 4 bs),
      rcv_cumtsn = from_ne_bytes t (field_at t False (sctp_rcvinfo_tys t) 5 bs),
      rcv_context = from_ne_bytes t (field_at t False (sctp_rcvinfo_tys t) 6 bs),
      rcv_assoc_id = from_ne_bytes t (field_at t False (sctp_rcvinfo_tys t) 7 bs)\<rparr>"

definition sctp_rcvinfo_ok :: "sctp_rcvinfo \<Rightarrow> bool" where
  "sctp_rcvinfo_ok r \<longleftrightarrow> True"

interpretation sctp_rcvinfo_cs: c_struct False sctp_rcvinfo_tys sctp_rcvinfo_fields sctp_rcvinfo_of_bytes sctp_rcvinfo_ok
proof
  show "ty_ok t ty" if "ty \<in> set (sctp_rcvinfo_tys t)" for t ty
    using that by (auto simp: sctp_rcvinfo_tys_def)
next
  show "map ty_of (sctp_rcvinfo_fields t r) = sctp_rcvinfo_tys t" if "sctp_rcvinfo_ok r" for t r
    using that by (simp add: sctp_rcvinfo_fields_def sctp_rcvinfo_tys_def sctp_rcvinfo_ok_def)
next
  fix t r bs
  assume "sctp_rcvinfo_ok r"
    and "\<And>i. i < length (sctp_rcvinfo_fields t r) \<Longrightarrow>
      field_at t False (sctp_rcvinfo_tys t) i bs = field_bytes t (sctp_rcvinfo_fields t r ! i)"
  then show "sctp_rcvinfo_of_bytes t bs = r"
    by (simp add: sctp_rcvinfo_of_bytes_def sctp_rcvinfo_fields_def sctp_rcvinfo_ok_def
        from_to_ne_bytes)
qed

lemma sctp_rcvinfo_size [simp]: "struct_size t False (sctp_rcvinfo_tys t) = 28"
  by (simp add: sctp_rcvinfo_tys_def layout_simps flip: numeral_2_eq_2)

record sctp_nxtinfo =
  nxt_sid :: u16
  nxt_flags :: u16
  nxt_ppid :: u32
  nxt_length :: u32
  nxt_assoc_id :: i32

definition sctp_nxtinfo_tys :: "target \<Rightarrow> fty list" where
  "sctp_nxtinfo_tys t =
     [TU16, TU16, TU32, TU32, TU32]"

definition sctp_nxtinfo_fields :: "target \<Rightarrow> sctp_nxtinfo \<Rightarrow> field list" where
  "sctp_nxtinfo_fields t r =
     [FU16 (nxt_sid r), FU16 (nxt_flags r), FU32 (nxt_ppid r), FU32 (nxt_length r),
      FU32 (nxt_assoc_id r)]"

definition sctp_nxtinfo_of_bytes :: "target \<Rightarrow> byte list \<Rightarrow> sctp_nxtinfo" where
  "sctp_nxtinfo_of_bytes t bs =
     \<lparr>nxt_sid = from_ne_bytes t (field_at t False (sctp_nxtinfo_tys t) 0 bs),
      nxt_flags = from_ne_bytes t (field_at t False (sctp_nxtinfo_tys t) 1 bs),
      nxt_ppid = from_ne_bytes t (field_at t False (sctp_nxtinfo_tys t) 2 bs),
      nxt_length = from_ne_bytes t (field_at t False (sctp_nxtinfo_tys t) 3 bs),
      nxt_assoc_id = from_ne_bytes t (field_at t False (sctp_nxtinfo_tys t) 4 bs)\<rparr>"

definition sctp_nxtinfo_ok :: "sctp_nxtinfo \<Rightarrow> bool" where
  "sctp_nxtinfo_ok r \<longleftrightarrow> True"

interpretation sctp_nxtinfo_cs: c_struct False sctp_nxtinfo_tys sctp_nxtinfo_fields sctp_nxtinfo_of_bytes sctp_nxtinfo_ok
proof
  show "ty_ok t ty" if "ty \<in> set (sctp_nxtinfo_tys t)" for t ty
    using that by (auto simp: sctp_nxtinfo_tys_def)
next
  show "map ty_of (sctp_nxtinfo_fields t r) = sctp_nxtinfo_tys t" if "sctp_nxtinfo_ok r" for t r
    using that by (simp add: sctp_nxtinfo_fields_def sctp_nxtinfo_tys_def sctp_nxtinfo_ok_def)
next
  fix t r bs
  assume "sctp_nxtinfo_ok r"
    and "\<And>i. i < length (sctp_nxtinfo_fields t r) \<Longrightarrow>
      field_at t False (sctp_nxtinfo_tys t) i bs = field_bytes t (sctp_nxtinfo_fields t r ! i)"
  then show "sctp_nxtinfo_of_bytes t bs = r"
    by (simp add: sctp_nxtinfo_of_bytes_def sctp_nxtinfo_fields_def sctp_nxtinfo_ok_def
        from_to_ne_bytes)
qed

lemma sctp_nxtinfo_size [simp]: "struct_size t False (sctp_nxtinfo_tys t) = 16"
  by (simp add: sctp_nxtinfo_tys_def layout_simps flip: numeral_2_eq_2)

record sctp_prinfo =
  pr_policy :: u16
  pr_value :: u32

definition sctp_prinfo_tys :: "target \<Rightarrow> fty list" where
  "sctp_prinfo_tys t =
     [TU16, TU32]"

definition sctp_prinfo_fields :: "target \<Rightarrow> sctp_prinfo \<Rightarrow> field list" where
  "sctp_prinfo_fields t r =
     [FU16 (pr_policy r), FU32 (pr_value r)]"

definition sctp_prinfo_of_bytes :: "target \<Rightarrow> byte list \<Rightarrow> sctp_prinfo" where
  "sctp_prinfo_of_bytes t bs =
     \<lparr>pr_policy = from_ne_bytes t (field_at t False (sctp_prinfo_tys t) 0 bs),
      pr_value = from_ne_bytes t (field_at t False (sctp_prinfo_tys t) 1 bs)\<rparr>"

definition sctp_prinfo_ok :: "sctp_prinfo \<Rightarrow> bool" where
  "sctp_prinfo_ok r \<longleftrightarrow> True"

interpretation sctp_prinfo_cs: c_struct False sctp_prinfo_tys sctp_prinfo_fields sctp_prinfo_of_bytes sctp_prinfo_ok
proof
  show "ty_ok t ty" if "ty \<in> set (sctp_prinfo_tys t)" for t ty
    using that by (auto simp: sctp_prinfo_tys_def)
next
  show "map ty_of (sctp_prinfo_fields t r) = sctp_prinfo_tys t" if "sctp_prinfo_ok r" for t r
    using that by (simp add: sctp_prinfo_fields_def sctp_prinfo_tys_def sctp_prinfo_ok_def)
next
  fix t r bs
  assume "sctp_prinfo_ok r"
    and "\<And>i. i < length (sctp_prinfo_fields t r) \<Longrightarrow>
      field_at t False (sctp_prinfo_tys t) i bs = field_bytes t (sctp_prinfo_fields t r ! i)"
  then show "sctp_prinfo_of_bytes t bs = r"
    by (simp add: sctp_prinfo_of_bytes_def sctp_prinfo_fields_def sctp_prinfo_ok_def
        from_to_ne_bytes)
qed

lemma sctp_prinfo_size [simp]: "struct_size t False (sctp_prinfo_tys t) = 8"
  by (simp add: sctp_prinfo_tys_def layout_simps flip: numeral_2_eq_2)

record sctp_event =
  se_assoc_id :: i32
  se_type :: u16
  se_on :: byte

definition sctp_event_tys :: "target \<Rightarrow> fty list" where
  "sctp_event_tys t =
     [TU32, TU16, TU8]"

definition sctp_event_fields :: "target \<Rightarrow> sctp_event \<Rightarrow> field list" where
  "sctp_event_fields t r =
     [FU32 (se_assoc_id r), FU16 (se_type r), FU8 (se_on r)]"

definition sctp_event_of_bytes :: "target \<Rightarrow> byte list \<Rightarrow> sctp_event" where
  "sctp_event_of_bytes t bs =
     \<lparr>se_assoc_id = from_ne_bytes t (field_at t False (sctp_event_tys t) 0 bs),
      se_type = from_ne_bytes t (field_at t False (sctp_event_tys t) 1 bs),
      se_on = from_ne_bytes t (field_at t False (sctp_event_tys t) 2 bs)\<rparr>"

definition sctp_event_ok :: "sctp_event \<Rightarrow> bool" where
  "sctp_event_ok r \<longleftrightarrow> True"

interpretation sctp_event_cs: c_struct False sctp_event_tys sctp_event_fields sctp_event_of_bytes sctp_event_ok
proof
  show "ty_ok t ty" if "ty \<in> set (sctp_event_tys t)" for t ty
    using that by (auto simp: sctp_event_tys_def)
next
  show "map ty_of (sctp_event_fields t r) = sctp_event_tys t" if "sctp_event_ok r" for t r
    using that by (simp add: sctp_event_fields_def sctp_event_tys_def sctp_event_ok_def)
next
  fix t r bs
  assume "sctp_event_ok r"
    and "\<And>i. i < length (sctp_event_fields t r) \<Longrightarrow>
      field_at t False (sctp_event_tys t) i bs = field_bytes t (sctp_event_fields t r ! i)"
  then show "sctp_event_of_bytes t bs = r"
    by (simp add: sctp_event_of_bytes_def sctp_event_fields_def sctp_event_ok_def
        from_to_ne_bytes)
qed

lemma sctp_event_size [simp]: "struct_size t False (sctp_event_tys t) = 8"
  by (simp add: sctp_event_tys_def layout_simps flip: numeral_2_eq_2)

record sctp_rtoinfo =
  srto_assoc_id :: i32
  srto_initial :: u32
  srto_max :: u32
  srto_min :: u32

definition sctp_rtoinfo_tys :: "target \<Rightarrow> fty list" where
  "sctp_rtoinfo_tys t =
     [TU32, TU32, TU32, TU32]"

definition sctp_rtoinfo_fields :: "target \<Rightarrow> sctp_rtoinfo \<Rightarrow> field list" where
  "sctp_rtoinfo_fields t r =
     [FU32 (srto_assoc_id r), FU32 (srto_initial r), FU32 (srto_max r), FU32 (srto_min r)]"

definition sctp_rtoinfo_of_bytes :: "target \<Rightarrow> byte list \<Rightarrow> sctp_rtoinfo" where
  "sctp_rtoinfo_of_bytes t bs =
     \<lparr>srto_assoc_id = from_ne_bytes t (field_at t False (sctp_rtoinfo_tys t) 0 bs),
      srto_initial = from_ne_bytes t (field_at t False (sctp_rtoinfo_tys t) 1 bs),
      srto_max = from_ne_bytes t (field_at t False (sctp_rtoinfo_tys t) 2 bs),
      srto_min = from_ne_bytes t (field_at t False (sctp_rtoinfo_tys t) 3 bs)\<rparr>"

definition sctp_rtoinfo_ok :: "sctp_rtoinfo \<Rightarrow> bool" where
  "sctp_rtoinfo_ok r \<longleftrightarrow> True"

interpretation sctp_rtoinfo_cs: c_struct False sctp_rtoinfo_tys sctp_rtoinfo_fields sctp_rtoinfo_of_bytes sctp_rtoinfo_ok
proof
  show "ty_ok t ty" if "ty \<in> set (sctp_rtoinfo_tys t)" for t ty
    using that by (auto simp: sctp_rtoinfo_tys_def)
next
  show "map ty_of (sctp_rtoinfo_fields t r) = sctp_rtoinfo_tys t" if "sctp_rtoinfo_ok r" for t r
    using that by (simp add: sctp_rtoinfo_fields_def sctp_rtoinfo_tys_def sctp_rtoinfo_ok_def)
next
  fix t r bs
  assume "sctp_rtoinfo_ok r"
    and "\<And>i. i < length (sctp_rtoinfo_fields t r) \<Longrightarrow>
      field_at t False (sctp_rtoinfo_tys t) i bs = field_bytes t (sctp_rtoinfo_fields t r ! i)"
  then show "sctp_rtoinfo_of_bytes t bs = r"
    by (simp add: sctp_rtoinfo_of_bytes_def sctp_rtoinfo_fields_def sctp_rtoinfo_ok_def
        from_to_ne_bytes)
qed

lemma sctp_rtoinfo_size [simp]: "struct_size t False (sctp_rtoinfo_tys t) = 16"
  by (simp add: sctp_rtoinfo_tys_def layout_simps flip: numeral_2_eq_2)

record sctp_assocparams =
  sasoc_assoc_id :: i32
  sasoc_asocmaxrxt :: u16
  sasoc_number_peer_destinations :: u16
  sasoc_peer_rwnd :: u32
  sasoc_local_rwnd :: u32
  sasoc_cookie_life :: u32

definition sctp_assocparams_tys :: "target \<Rightarrow> fty list" where
  "sctp_assocparams_tys t =
     [TU32, TU16, TU16, TU32, TU32, TU32]"

definition sctp_assocparams_fields :: "target \<Rightarrow> sctp_assocparams \<Rightarrow> field list" where
  "sctp_assocparams_fields t r =
     [FU32 (sasoc_assoc_id r), FU16 (sasoc_asocmaxrxt r),
      FU16 (sasoc_number_peer_destinations r), FU32 (sasoc_peer_rwnd r),
      FU32 (sasoc_local_rwnd r), FU32 (sasoc_cookie_life r)]"

definition sctp_assocparams_of_bytes :: "target \<Rightarrow> byte list \<Rightarrow> sctp_assocparams" where
  "sctp_assocparams_of_bytes t bs =
     \<lparr>sasoc_assoc_id = from_ne_bytes t (field_at t False (sctp_assocparams_tys t) 0 bs),
      sasoc_asocmaxrxt = from_ne_bytes t (field_at t False (sctp_assocparams_tys t) 1 bs),
      sasoc_number_peer_destinations = from_ne_bytes t (field_at t False (sctp_assocparams_tys t) 2 bs),
      sasoc_peer_rwnd = from_ne_bytes t (field_at t False (sctp_assocparams_tys t) 3 bs),
      sasoc_local_rwnd = from_ne_bytes t (field_at t False (sctp_assocparams_tys t) 4 bs),
      sasoc_cookie_life = from_ne_bytes t (field_at t False (sctp_assocparams_tys t) 5 bs)\<rparr>"

definition sctp_assocparams_ok :: "sctp_assocparams \<Rightarrow> bool" where
  "sctp_assocparams_ok r \<longleftrightarrow> True"

interpretation sctp_assocparams_cs: c_struct False sctp_assocparams_tys sctp_assocparams_fields sctp_assocparams_of_bytes sctp_assocparams_ok
proof
  show "ty_ok t ty" if "ty \<in> set (sctp_assocparams_tys t)" for t ty
    using that by (auto simp: sctp_assocparams_tys_def)
next
  show "map ty_of (sctp_assocparams_fields t r) = sctp_assocparams_tys t" if "sctp_assocparams_ok r" for t r
    using that by (simp add: sctp_assocparams_fields_def sctp_assocparams_tys_def sctp_assocparams_ok_def)
next
  fix t r bs
  assume "sctp_assocparams_ok r"
    and "\<And>i. i < length (sctp_assocparams_fields t r) \<Longrightarrow>
      field_at t False (sctp_assocparams_tys t) i bs = field_bytes t (sctp_assocparams_fields t r ! i)"
  then show "sctp_assocparams_of_bytes t bs = r"
    by (simp add: sctp_assocparams_of_bytes_def sctp_assocparams_fields_def sctp_assocparams_ok_def
        from_to_ne_bytes)
qed

lemma sctp_assocparams_size [simp]: "struct_size t False (sctp_assocparams_tys t) = 20"
  by (simp add: sctp_assocparams_tys_def layout_simps flip: numeral_2_eq_2)

record sctp_sack_info =
  sack_assoc_id :: i32
  sack_delay :: u32
  sack_freq :: u32

definition sctp_sack_info_tys :: "target \<Rightarrow> fty list" where
  "sctp_sack_info_tys t =
     [TU32, TU32, TU32]"

definition sctp_sack_info_fields :: "target \<Rightarrow> sctp_sack_info \<Rightarrow> field list" where
  "sctp_sack_info_fields t r =
     [FU32 (sack_assoc_id r), FU32 (sack_delay r), FU32 (sack_freq r)]"

definition sctp_sack_info_of_bytes :: "target \<Rightarrow> byte list \<Rightarrow> sctp_sack_info" where
  "sctp_sack_info_of_bytes t bs =
     \<lparr>sack_assoc_id = from_ne_bytes t (field_at t False (sctp_sack_info_tys t) 0 bs),
      sack_delay = from_ne_bytes t (field_at t False (sctp_sack_info_tys t) 1 bs),
      sack_freq = from_ne_bytes t (field_at t False (sctp_sack_info_tys t) 2 bs)\<rparr>"

definition sctp_sack_info_ok :: "sctp_sack_info \<Rightarrow> bool" where
  "sctp_sack_info_ok r \<longleftrightarrow> True"

interpretation sctp_sack_info_cs: c_struct False sctp_sack_info_tys sctp_sack_info_fields sctp_sack_info_of_bytes sctp_sack_info_ok
proof
  show "ty_ok t ty" if "ty \<in> set (sctp_sack_info_tys t)" for t ty
    using that by (auto simp: sctp_sack_info_tys_def)
next
  show "map ty_of (sctp_sack_info_fields t r) = sctp_sack_info_tys t" if "sctp_sack_info_ok r" for t r
    using that by (simp add: sctp_sack_info_fields_def sctp_sack_info_tys_def sctp_sack_info_ok_def)
next
  fix t r bs
  assume "sctp_sack_info_ok r"
    and "\<And>i. i < length (sctp_sack_info_fields t r) \<Longrightarrow>
      field_at t False (sctp_sack_info_tys t) i bs = field_bytes t (sctp_sack_info_fields t r ! i)"
  then show "sctp_sack_info_of_bytes t bs = r"
    by (simp add: sctp_sack_info_of_bytes_def sctp_sack_info_fields_def sctp_sack_info_ok_def
        from_to_ne_bytes)
qed

lemma sctp_sack_info_size [simp]: "struct_size t False (sctp_sack_info_tys t) = 12"
  by (simp add: sctp_sack_info_tys_def layout_simps flip: numeral_2_eq_2)

record sctp_assoc_value =
  av_assoc_id :: i32
  av_assoc_value :: u32

definition sctp_assoc_value_tys :: "target \<Rightarrow> fty list" where
  "sctp_assoc_value_tys t =
     [TU32, TU32]"

definition sctp_assoc_value_fields :: "target \<Rightarrow> sctp_assoc_value \<Rightarrow> field list" where
  "sctp_assoc_value_fields t r =
     [FU32 (av_assoc_id r), FU32 (av_assoc_value r)]"

definition sctp_assoc_value_of_bytes :: "target \<Rightarrow> byte list \<Rightarrow> sctp_assoc_value" where
  "sctp_assoc_value_of_bytes t bs =
     \<lparr>av_assoc_id = from_ne_bytes t (field_at t False (sctp_assoc_value_tys t) 0 bs),
      av_assoc_value = from_ne_bytes t (field_at t False (sctp_assoc_value_tys t) 1 bs)\<rparr>"

definition sctp_assoc_value_ok :: "sctp_assoc_value \<Rightarrow> bool" where
  "sctp_assoc_value_ok r \<longleftrightarrow> True"

interpretation sctp_assoc_value_cs: c_struct False sctp_assoc_value_tys sctp_assoc_value_fields sctp_assoc_value_of_bytes sctp_assoc_value_ok
proof
  show "ty_ok t ty" if "ty \<in> set (sctp_assoc_value_tys t)" for t ty
    using that by (auto simp: sctp_assoc_value_tys_def)
next
  show "map ty_of (sctp_assoc_value_fields t r) = sctp_assoc_value_tys t" if "sctp_assoc_value_ok r" for t r
    using that by (simp add: sctp_assoc_value_fields_def sctp_assoc_value_tys_def sctp_assoc_value_ok_def)
next
  fix t r bs
  assume "sctp_assoc_value_ok r"
    and "\<And>i. i < length (sctp_assoc_value_fields t r) \<Longrightarrow>
      field_at t False (sctp_assoc_value_tys t) i bs = field_bytes t (sctp_assoc_value_fields t r ! i)"
  then show "sctp_assoc_value_of_bytes t bs = r"
    by (simp add: sctp_assoc_value_of_bytes_def sctp_assoc_value_fields_def sctp_assoc_value_ok_def
        from_to_ne_bytes)
qed

lemma sctp_assoc_value_size [simp]: "struct_size t False (sctp_assoc_value_tys t) = 8"
  by (simp add: sctp_assoc_value_tys_def layout_simps flip: numeral_2_eq_2)

record sctp_paddrinfo =
  spinfo_assoc_id :: i32
  spinfo_address :: sockaddr_storage
  spinfo_state :: i32
  spinfo_cwnd :: u32
  spinfo_srtt :: u32
  spinfo_rto :: u32
  spinfo_mtu :: u32

definition sctp_paddrinfo_tys :: "target \<Rightarrow> fty list" where
  "sctp_paddrinfo_tys t =
     [TU32, TBlob 1 128, TU32, TU32, TU32, TU32, TU32]"

definition sctp_paddrinfo_fields :: "target \<Rightarrow> sctp_paddrinfo \<Rightarrow> field list" where
  "sctp_paddrinfo_fields t r =
     [FU32 (spinfo_assoc_id r), FBlob 1 (storage_bytes (spinfo_address r)),
      FU32 (spinfo_state r), FU32 (spinfo_cwnd r), FU32 (spinfo_srtt r),
      FU32 (spinfo_rto r), FU32 (spinfo_mtu r)]"

definition sctp_paddrinfo_of_bytes :: "target \<Rightarrow> byte list \<Rightarrow> sctp_paddrinfo" where
  "sctp_paddrinfo_of_bytes t bs =
     \<lparr>spinfo_assoc_id = from_ne_bytes t (field_at t True (sctp_paddrinfo_tys t) 0 bs),
      spinfo_address = \<lparr>storage_bytes = field_at t True (sctp_paddrinfo_tys t) 1 bs\<rparr>,
      spinfo_state = from_ne_bytes t (field_at t True (sctp_paddrinfo_tys t) 2 bs),
      spinfo_cwnd = from_ne_bytes t (field_at t True (sctp_paddrinfo_tys t) 3 bs),
      spinfo_srtt = from_ne_bytes t (field_at t True (sctp_paddrinfo_tys t) 4 bs),
      spinfo_rto = from_ne_bytes t (field_at t True (sctp_paddrinfo_tys t) 5 bs),
      spinfo_mtu = from_ne_bytes t (field_at t True (sctp_paddrinfo_tys t) 6 bs)\<rparr>"

definition sctp_paddrinfo_ok :: "sctp_paddrinfo \<Rightarrow> bool" where
  "sctp_paddrinfo_ok r \<longleftrightarrow> length (storage_bytes (spinfo_address r)) = 128"

interpretation sctp_paddrinfo_cs: c_struct True sctp_paddrinfo_tys sctp_paddrinfo_fields sctp_paddrinfo_of_bytes sctp_paddrinfo_ok
proof
  show "ty_ok t ty" if "ty \<in> set (sctp_paddrinfo_tys t)" for t ty
    using that by (auto simp: sctp_paddrinfo_tys_def)
next
  show "map ty_of (sctp_paddrinfo_fields t r) = sctp_paddrinfo_tys t" if "sctp_paddrinfo_ok r" for t r
    using that by (simp add: sctp_paddrinfo_fields_def sctp_paddrinfo_tys_def sctp_paddrinfo_ok_def)
next
  fix t r bs
  assume "sctp_paddrinfo_ok r"
    and "\<And>i. i < length (sctp_paddrinfo_fields t r) \<Longrightarrow>
      field_at t True (sctp_paddrinfo_tys t) i bs = field_bytes t (sctp_paddrinfo_fields t r ! i)"
  then show "sctp_paddrinfo_of_bytes t bs = r"
    by (simp add: sctp_paddrinfo_of_bytes_def sctp_paddrinfo_fields_def sctp_paddrinfo_ok_def
        from_to_ne_bytes)
qed

lemma sctp_paddrinfo_size [simp]: "struct_size t True (sctp_paddrinfo_tys t) = 152"
  by (simp add: sctp_paddrinfo_tys_def layout_simps flip: numeral_2_eq_2)

record sctp_status =
  sstat_assoc_id :: i32
  sstat_state :: i32
  sstat_rwnd :: u32
  sstat_unackdata :: u16
  sstat_penddata :: u16
  sstat_instrms :: u16
  sstat_outstrms :: u16
  sstat_fragmentation_point :: u32
  sstat_primary :: sctp_paddrinfo

definition sctp_status_tys :: "target \<Rightarrow> fty list" where
  "sctp_status_tys t =
     [TU32, TU32, TU32, TU16, TU16, TU16, TU16, TU32, TBlob 1 152]"

definition sctp_status_fields :: "target \<Rightarrow> sctp_status \<Rightarrow> field list" where
  "sctp_status_fields t r =
     [FU32 (sstat_assoc_id r), FU32 (sstat_state r), FU32 (sstat_rwnd r),
      FU16 (sstat_unackdata r), FU16 (sstat_penddata r), FU16 (sstat_instrms r),
      FU16 (sstat_outstrms r), FU32 (sstat_fragmentation_point r),
      FBlob 1 (struct_bytes t True (sctp_paddrinfo_fields t (sstat_primary r)))]"

definition sctp_status_of_bytes :: "target \<Rightarrow> byte list \<Rightarrow> sctp_status" where
  "sctp_status_of_bytes t bs =
     \<lparr>sstat_assoc_id = from_ne_bytes t (field_at t False (sctp_status_tys t) 0 bs),
      sstat_state = from_ne_bytes t (field_at t False (sctp_status_tys t) 1 bs),
      sstat_rwnd = from_ne_bytes t (field_at t False (sctp_status_tys t) 2 bs),
      sstat_unackdata = from_ne_bytes t (field_at t False (sctp_status_tys t) 3 bs),
      sstat_penddata = from_ne_bytes t (field_at t False (sctp_status_tys t) 4 bs),
      sstat_instrms = from_ne_bytes t (field_at t False (sctp_status_tys t) 5 bs),
      sstat_outstrms = from_ne_bytes t (field_at t False (sctp_status_tys t) 6 bs),
      sstat_fragmentation_point = from_ne_bytes t (field_at t False (sctp_status_tys t) 7 bs),
      sstat_primary = sctp_paddrinfo_of_bytes t (field_at t False (sctp_status_tys t) 8 bs)\<rparr>"

definition sctp_status_ok :: "sctp_status \<Rightarrow> bool" where
  "sctp_status_ok r \<longleftrightarrow> sctp_paddrinfo_ok (sstat_primary r)"

interpretation sctp_status_cs: c_struct False sctp_status_tys sctp_status_fields sctp_status_of_bytes sctp_status_ok
proof
  show "ty_ok t ty" if "ty \<in> set (sctp_status_tys t)" for t ty
    using that by (auto simp: sctp_status_tys_def)
next
  show "map ty_of (sctp_status_fields t r) = sctp_status_tys t" if "sctp_status_ok r" for t r
    using that by (simp add: sctp_status_fields_def sctp_status_tys_def sctp_status_ok_def sctp_paddrinfo_cs.of_to_bytes_exact sctp_paddrinfo_cs.to_bytes_length sctp_paddrinfo_size)
next
  fix t r bs
  assume "sctp_status_ok r"
    and "\<And>i. i < length (sctp_status_fields t r) \<Longrightarrow>
      field_at t False (sctp_status_tys t) i bs = field_bytes t (sctp_status_fields t r ! i)"
  then show "sctp_status_of_bytes t bs = r"
    by (simp add: sctp_status_of_bytes_def sctp_status_fields_def sctp_status_ok_def
        from_to_ne_bytes sctp_paddrinfo_cs.of_to_bytes_exact sctp_paddrinfo_cs.to_bytes_length sctp_paddrinfo_size)
qed

lemma sctp_status_size [simp]: "struct_size t False (sctp_status_tys t) = 176"
  by (simp add: sctp_status_tys_def layout_simps flip: numeral_2_eq_2)

record sctp_prim =
  ssp_assoc_id :: i32
  ssp_addr :: sockaddr_storage

definition sctp_prim_tys :: "target \<Rightarrow> fty list" where
  "sctp_prim_tys t =
     [TU32, TBlob 1 128]"

definition sctp_prim_fields :: "target \<Rightarrow> sctp_prim \<Rightarrow> field list" where
  "sctp_prim_fields t r =
     [FU32 (ssp_assoc_id r), FBlob 1 (storage_bytes (ssp_addr r))]"

definition sctp_prim_of_bytes :: "target \<Rightarrow> byte list \<Rightarrow> sctp_prim" where
  "sctp_prim_of_bytes t bs =
     \<lparr>ssp_assoc_id = from_ne_bytes t (field_at t True (sctp_prim_tys t) 0 bs),
      ssp_addr = \<lparr>storage_bytes = field_at t True (sctp_prim_tys t) 1 bs\<rparr>\<rparr>"

definition sctp_prim_ok :: "sctp_prim \<Rightarrow> bool" where
  "sctp_prim_ok r \<longleftrightarrow> length (storage_bytes (ssp_addr r)) = 128"

interpretation sctp_prim_cs: c_struct True sctp_prim_tys sctp_prim_fields sctp_prim_of_bytes sctp_prim_ok
proof
  show "ty_ok t ty" if "ty \<in> set (sctp_prim_tys t)" for t ty
    using that by (auto simp: sctp_prim_tys_def)
next
  show "map ty_of (sctp_prim_fields t r) = sctp_prim_tys t" if "sctp_prim_ok r" for t r
    using that by (simp add: sctp_prim_fields_def sctp_prim_tys_def sctp_prim_ok_def)
next
  fix t r bs
  assume "sctp_prim_ok r"
    and "\<And>i. i < length (sctp_prim_fields t r) \<Longrightarrow>
      field_at t True (sctp_prim_tys t) i bs = field_bytes t (sctp_prim_fields t r ! i)"
  then show "sctp_prim_of_bytes t bs = r"
    by (simp add: sctp_prim_of_bytes_def sctp_prim_fields_def sctp_prim_ok_def
        from_to_ne_bytes)
qed

lemma sctp_prim_size [simp]: "struct_size t True (sctp_prim_tys t) = 132"
  by (simp add: sctp_prim_tys_def layout_simps flip: numeral_2_eq_2)

record sctp_paddrparams =
  spp_assoc_id :: i32
  spp_address :: sockaddr_storage
  spp_hbinterval :: u32
  spp_pathmaxrxt :: u16
  spp_pathmtu :: u32
  spp_sackdelay :: u32
  spp_flags :: u32
  spp_ipv6_flowlabel :: u32
  spp_dscp :: byte
  spp_pad :: byte

definition sctp_paddrparams_tys :: "target \<Rightarrow> fty list" where
  "sctp_paddrparams_tys t =
     [TU32, TBlob 1 128, TU32, TU16, TU32, TU32, TU32, TU32, TU8, TU8]"

definition sctp_paddrparams_fields :: "target \<Rightarrow> sctp_paddrparams \<Rightarrow> field list" where
  "sctp_paddrparams_fields t r =
     [FU32 (spp_assoc_id r), FBlob 1 (storage_bytes (spp_address r)),
      FU32 (spp_hbinterval r), FU16 (spp_pathmaxrxt r), FU32 (spp_pathmtu r),
      FU32 (spp_sackdelay r), FU32 (spp_flags r), FU32 (spp_ipv6_flowlabel r),
      FU8 (spp_dscp r), FU8 (spp_pad r)]"

definition sctp_paddrparams_of_bytes :: "target \<Rightarrow> byte list \<Rightarrow> sctp_paddrparams" where
  "sctp_paddrparams_of_bytes t bs =
     \<lparr>spp_assoc_id = from_ne_bytes t (field_at t True (sctp_paddrparams_tys t) 0 bs),
      spp_address = \<lparr>storage_bytes = field_at t True (sctp_paddrparams_tys t) 1 bs\<rparr>,
      spp_hbinterval = from_ne_bytes t (field_at t True (sctp_paddrparams_tys t) 2 bs),
      spp_pathmaxrxt = from_ne_bytes t (field_at t True (sctp_paddrparams_tys t) 3 bs),
      spp_pathmtu = from_ne_bytes t (field_at t True (sctp_paddrparams_tys t) 4 bs),
      spp_sackdelay = from_ne_bytes t (field_at t True (sctp_paddrparams_tys t) 5 bs),
      spp_flags = from_ne_bytes t (field_at t True (sctp_paddrparams_tys t) 6 bs),
      spp_ipv6_flowlabel = from_ne_bytes t (field_at t True (sctp_paddrparams_tys t) 7 bs),
      spp_dscp = from_ne_bytes t (field_at t True (sctp_paddrparams_tys t) 8 bs),
      spp_pad = from_ne_bytes t (field_at t True (sctp_paddrparams_tys t) 9 bs)\<rparr>"

definition sctp_paddrparams_ok :: "sctp_paddrparams \<Rightarrow> bool" where
  "sctp_paddrparams_ok r \<longleftrightarrow> length (storage_bytes (spp_address r)) = 128"

interpretation sctp_paddrparams_cs: c_struct True sctp_paddrparams_tys sctp_paddrparams_fields sctp_paddrparams_of_bytes sctp_paddrparams_ok
proof
  show "ty_ok t ty" if "ty \<in> set (sctp_paddrparams_tys t)" for t ty
    using that by (auto simp: sctp_paddrparams_tys_def)
next
  show "map ty_of (sctp_paddrparams_fields t r) = sctp_paddrparams_tys t" if "sctp_paddrparams_ok r" for t r
    using that by (simp add: sctp_paddrparams_fields_def sctp_paddrparams_tys_def sctp_paddrparams_ok_def)
next
  fix t r bs
  assume "sctp_paddrparams_ok r"
    and "\<And>i. i < length (sctp_paddrparams_fields t r) \<Longrightarrow>
      field_at t True (sctp_paddrparams_tys t) i bs = field_bytes t (sctp_paddrparams_fields t r ! i)"
  then show "sctp_paddrparams_of_bytes t bs = r"
    by (simp add: sctp_paddrparams_of_bytes_def sctp_paddrparams_fields_def sctp_paddrparams_ok_def
        from_to_ne_bytes)
qed

lemma sctp_paddrparams_size [simp]: "struct_size t True (sctp_paddrparams_tys t) = 156"
  by (simp add: sctp_paddrparams_tys_def layout_simps flip: numeral_2_eq_2)

record sctp_peeloff_arg_t =
  associd :: i32
  sd :: i32

definition sctp_peeloff_arg_t_tys :: "target \<Rightarrow> fty list" where
  "sctp_peeloff_arg_t_tys t =
     [TU32, TU32]"

definition sctp_peeloff_arg_t_fields :: "target \<Rightarrow> sctp_peeloff_arg_t \<Rightarrow> field list" where
  "sctp_peeloff_arg_t_fields t r =
     [FU32 (associd r), FU32 (sd r)]"

definition sctp_peeloff_arg_t_of_bytes :: "target \<Rightarrow> byte list \<Rightarrow> sctp_peeloff_arg_t" where
  "sctp_peeloff_arg_t_of_bytes t bs =
     \<lparr>associd = from_ne_bytes t (field_at t False (sctp_peeloff_arg_t_tys t) 0 bs),
      sd = from_ne_bytes t (field_at t False (sctp_peeloff_arg_t_tys t) 1 bs)\<rparr>"

definition sctp_peeloff_arg_t_ok :: "sctp_peeloff_arg_t \<Rightarrow> bool" where
  "sctp_peeloff_arg_t_ok r \<longleftrightarrow> True"

interpretation sctp_peeloff_arg_t_cs: c_struct False sctp_peeloff_arg_t_tys sctp_peeloff_arg_t_fields sctp_peeloff_arg_t_of_bytes sctp_peeloff_arg_t_ok
proof
  show "ty_ok t ty" if "ty \<in> set (sctp_peeloff_arg_t_tys t)" for t ty
    using that by (auto simp: sctp_peeloff_arg_t_tys_def)
next
  show "map ty_of (sctp_peeloff_arg_t_fields t r) = sctp_peeloff_arg_t_tys t" if "sctp_peeloff_arg_t_ok r" for t r
    using that by (simp add: sctp_peeloff_arg_t_fields_def sctp_peeloff_arg_t_tys_def sctp_peeloff_arg_t_ok_def)
next
  fix t r bs
  assume "sctp_peeloff_arg_t_ok r"
    and "\<And>i. i < length (sctp_peeloff_arg_t_fields t r) \<Longrightarrow>
      field_at t False (sctp_peeloff_arg_t_tys t) i bs = field_bytes t (sctp_peeloff_arg_t_fields t r ! i)"
  then show "sctp_peeloff_arg_t_of_bytes t bs = r"
    by (simp add: sctp_peeloff_arg_t_of_bytes_def sctp_peeloff_arg_t_fields_def sctp_peeloff_arg_t_ok_def
        from_to_ne_bytes)
qed

lemma sctp_peeloff_arg_t_size [simp]: "struct_size t False (sctp_peeloff_arg_t_tys t) = 8"
  by (simp add: sctp_peeloff_arg_t_tys_def layout_simps flip: numeral_2_eq_2)

record sctp_peeloff_flags_arg_t =
  p_arg :: sctp_peeloff_arg_t
  pflags :: u32

definition sctp_peeloff_flags_arg_t_tys :: "target \<Rightarrow> fty list" where
  "sctp_peeloff_flags_arg_t_tys t =
     [TBlob 4 8, TU32]"

definition sctp_peeloff_flags_arg_t_fields :: "target \<Rightarrow> sctp_peeloff_flags_arg_t \<Rightarrow> field list" where
  "sctp_peeloff_flags_arg_t_fields t r =
     [FBlob 4 (struct_bytes t False (sctp_peeloff_arg_t_fields t (p_arg r))),
      FU32 (pflags r)]"

definition sctp_peeloff_flags_arg_t_of_bytes :: "target \<Rightarrow> byte list \<Rightarrow> sctp_peeloff_flags_arg_t" where
  "sctp_peeloff_flags_arg_t_of_bytes t bs =
     \<lparr>p_arg = sctp_peeloff_arg_t_of_bytes t (field_at t False (sctp_peeloff_flags_arg_t_tys t) 0 bs),
      pflags = from_ne_bytes t (field_at t False (sctp_peeloff_flags_arg_t_tys t) 1 bs)\<rparr>"

definition sctp_peeloff_flags_arg_t_ok :: "sctp_peeloff_flags_arg_t \<Rightarrow> bool" where
  "sctp_peeloff_flags_arg_t_ok r \<longleftrightarrow> sctp_peeloff_arg_t_ok (p_arg r)"

interpretation sctp_peeloff_flags_arg_t_cs: c_struct False sctp_peeloff_flags_arg_t_tys sctp_peeloff_flags_arg_t_fields sctp_peeloff_flags_arg_t_of_bytes sctp_peeloff_flags_arg_t_ok
proof
  show "ty_ok t ty" if "ty \<in> set (sctp_peeloff_flags_arg_t_tys t)" for t ty
    using that by (auto simp: sctp_peeloff_flags_arg_t_tys_def)
next
  show "map ty_of (sctp_peeloff_flags_arg_t_fields t r) = sctp_peeloff_flags_arg_t_tys t" if "sctp_peeloff_flags_arg_t_ok r" for t r
    using that by (simp add: sctp_peeloff_flags_arg_t_fields_def sctp_peeloff_flags_arg_t_tys_def sctp_peeloff_flags_arg_t_ok_def sctp_peeloff_arg_t_cs.of_to_bytes_exact sctp_peeloff_arg_t_cs.to_bytes_length sctp_peeloff_arg_t_size)
next
  fix t r bs
  assume "sctp_peeloff_flags_arg_t_ok r"
    and "\<And>i. i < length (sctp_peeloff_flags_arg_t_fields t r) \<Longrightarrow>
      field_at t False (sctp_peeloff_flags_arg_t_tys t) i bs = field_bytes t (sctp_peeloff_flags_arg_t_fields t r ! i)"
  then show "sctp_peeloff_flags_arg_t_of_bytes t bs = r"
    by (simp add: sctp_peeloff_flags_arg_t_of_bytes_def sctp_peeloff_flags_arg_t_fields_def sctp_peeloff_flags_arg_t_ok_def
        from_to_ne_bytes sctp_peeloff_arg_t_cs.of_to_bytes_exact sctp_peeloff_arg_t_cs.to_bytes_length sctp_peeloff_arg_t_size)
qed

lemma sctp_peeloff_flags_arg_t_size [simp]: "struct_size t False (sctp_peeloff_flags_arg_t_tys t) = 12"
  by (simp add: sctp_peeloff_flags_arg_t_tys_def layout_simps flip: numeral_2_eq_2)

record sctp_getaddrs =
  ga_assoc_id :: i32
  ga_addr_num :: u32

definition sctp_getaddrs_tys :: "target \<Rightarrow> fty list" where
  "sctp_getaddrs_tys t =
     [TU32, TU32]"

definition sctp_getaddrs_fields :: "target \<Rightarrow> sctp_getaddrs \<Rightarrow> field list" where
  "sctp_getaddrs_fields t r =
     [FU32 (ga_assoc_id r), FU32 (ga_addr_num r)]"

definition sctp_getaddrs_of_bytes :: "target \<Rightarrow> byte list \<Rightarrow> sctp_getaddrs" where
  "sctp_getaddrs_of_bytes t bs =
     \<lparr>ga_assoc_id = from_ne_bytes t (field_at t False (sctp_getaddrs_tys t) 0 bs),
      ga_addr_num = from_ne_bytes t (field_at t False (sctp_getaddrs_tys t) 1 bs)\<rparr>"

definition sctp_getaddrs_ok :: "sctp_getaddrs \<Rightarrow> bool" where
  "sctp_getaddrs_ok r \<longleftrightarrow> True"

interpretation sctp_getaddrs_cs: c_struct False sctp_getaddrs_tys sctp_getaddrs_fields sctp_getaddrs_of_bytes sctp_getaddrs_ok
proof
  show "ty_ok t ty" if "ty \<in> set (sctp_getaddrs_tys t)" for t ty
    using that by (auto simp: sctp_getaddrs_tys_def)
next
  show "map ty_of (sctp_getaddrs_fields t r) = sctp_getaddrs_tys t" if "sctp_getaddrs_ok r" for t r
    using that by (simp add: sctp_getaddrs_fields_def sctp_getaddrs_tys_def sctp_getaddrs_ok_def)
next
  fix t r bs
  assume "sctp_getaddrs_ok r"
    and "\<And>i. i < length (sctp_getaddrs_fields t r) \<Longrightarrow>
      field_at t False (sctp_getaddrs_tys t) i bs = field_bytes t (sctp_getaddrs_fields t r ! i)"
  then show "sctp_getaddrs_of_bytes t bs = r"
    by (simp add: sctp_getaddrs_of_bytes_def sctp_getaddrs_fields_def sctp_getaddrs_ok_def
        from_to_ne_bytes)
qed

lemma sctp_getaddrs_size [simp]: "struct_size t False (sctp_getaddrs_tys t) = 8"
  by (simp add: sctp_getaddrs_tys_def layout_simps flip: numeral_2_eq_2)

section \<open>Association statistics\<close>

text \<open>
  \<open>sctp_assoc_stats\<close> has the padding field \<open>_pad\<close> on 64-bit targets only. No code reads it and
  it is only ever written by \<open>Default\<close>, so the record leaves it out and the layout has it as a
  zero \<open>u32\<close> where the target has it.
\<close>

record sctp_assoc_stats =
  sas_assoc_id :: i32
  sas_obs_rto_ipaddr :: sockaddr_storage
  sas_maxrto :: u64
  sas_isacks :: u64
  sas_osacks :: u64
  sas_opackets :: u64
  sas_ipackets :: u64
  sas_rtxchunks :: u64
  sas_outofseqtsns :: u64
  sas_idupchunks :: u64
  sas_gapcnt :: u64
  sas_ouodchunks :: u64
  sas_iuodchunks :: u64
  sas_oodchunks :: u64
  sas_iodchunks :: u64
  sas_octrlchunks :: u64
  sas_ictrlchunks :: u64

definition sctp_assoc_stats_tys :: "target \<Rightarrow> fty list" where
  "sctp_assoc_stats_tys t =
     TU32 # (if usize_bytes t = 8 then [TU32] else []) @ TBlob 1 128 # replicate 15 TU64"

definition sctp_assoc_stats_fields :: "target \<Rightarrow> sctp_assoc_stats \<Rightarrow> field list" where
  "sctp_assoc_stats_fields t r =
     FU32 (sas_assoc_id r) # (if usize_bytes t = 8 then [FU32 0] else []) @
     [FBlob 1 (storage_bytes (sas_obs_rto_ipaddr r)),
      FU64 (sas_maxrto r), FU64 (sas_isacks r), FU64 (sas_osacks r),
      FU64 (sas_opackets r), FU64 (sas_ipackets r), FU64 (sas_rtxchunks r),
      FU64 (sas_outofseqtsns r), FU64 (sas_idupchunks r), FU64 (sas_gapcnt r),
      FU64 (sas_ouodchunks r), FU64 (sas_iuodchunks r), FU64 (sas_oodchunks r),
      FU64 (sas_iodchunks r), FU64 (sas_octrlchunks r), FU64 (sas_ictrlchunks r)]"

definition sctp_assoc_stats_of_bytes :: "target \<Rightarrow> byte list \<Rightarrow> sctp_assoc_stats" where
  "sctp_assoc_stats_of_bytes t bs =
     (let k = (if usize_bytes t = 8 then 1 else 0);
          fld = (\<lambda>i. field_at t False (sctp_assoc_stats_tys t) i bs)
      in \<lparr>sas_assoc_id = from_ne_bytes t (fld 0),
          sas_obs_rto_ipaddr = \<lparr>storage_bytes = fld (1 + k)\<rparr>,
          sas_maxrto = from_ne_bytes t (fld (2 + k)),
          sas_isacks = from_ne_bytes t (fld (3 + k)),
          sas_osacks = from_ne_bytes t (fld (4 + k)),
          sas_opackets = from_ne_bytes t (fld (5 + k)),
          sas_ipackets = from_ne_bytes t (fld (6 + k)),
          sas_rtxchunks = from_ne_bytes t (fld (7 + k)),
          sas_outofseqtsns = from_ne_bytes t (fld (8 + k)),
          sas_idupchunks = from_ne_bytes t (fld (9 + k)),
          sas_gapcnt = from_ne_bytes t (fld (10 + k)),
          sas_ouodchunks = from_ne_bytes t (fld (11 + k)),
          sas_iuodchunks = from_ne_bytes t (fld (12 + k)),
          sas_oodchunks = from_ne_bytes t (fld (13 + k)),
          sas_iodchunks = from_ne_bytes t (fld (14 + k)),
          sas_octrlchunks = from_ne_bytes t (fld (15 + k)),
          sas_ictrlchunks = from_ne_bytes t (fld (16 + k))\<rparr>)"

definition sctp_assoc_stats_ok :: "sctp_assoc_stats \<Rightarrow> bool" where
  "sctp_assoc_stats_ok r \<longleftrightarrow> length (storage_bytes (sas_obs_rto_ipaddr r)) = 128"

lemma replicate_15_TU64:
  "replicate 15 TU64 = [TU64, TU64, TU64, TU64, TU64, TU64, TU64, TU64, TU64, TU64, TU64,
     TU64, TU64, TU64, TU64]"
  by (simp add: numeral_eq_Suc)

interpretation sctp_assoc_stats_cs: c_struct False sctp_assoc_stats_tys sctp_assoc_stats_fields
  sctp_assoc_stats_of_bytes sctp_assoc_stats_ok
proof
  show "ty_ok t ty" if "ty \<in> set (sctp_assoc_stats_tys t)" for t ty
    using that by (auto simp: sctp_assoc_stats_tys_def split: if_splits)
next
  show "map ty_of (sctp_assoc_stats_fields t r) = sctp_assoc_stats_tys t"
    if "sctp_assoc_stats_ok r" for t r
    using that by (simp add: sctp_assoc_stats_fields_def sctp_assoc_stats_tys_def
        sctp_assoc_stats_ok_def replicate_15_TU64)
next
  fix t r bs
  assume "sctp_assoc_stats_ok r"
    and "\<And>i. i < length (sctp_assoc_stats_fields t r) \<Longrightarrow>
      field_at t False (sctp_assoc_stats_tys t) i bs =
        field_bytes t (sctp_assoc_stats_fields t r ! i)"
  then show "sctp_assoc_stats_of_bytes t bs = r"
    by (cases "usize_bytes t = 8")
      (simp_all add: sctp_assoc_stats_of_bytes_def sctp_assoc_stats_fields_def
        sctp_assoc_stats_ok_def from_to_ne_bytes)
qed

section \<open>The connectx argument\<close>

text \<open>
  \<open>sctp_getaddrs_old\<close> holds a user pointer; the kernel reads the packed addresses through it.
  The pointer value is opaque: an object of the target's pointer size and alignment.
\<close>

record sctp_getaddrs_old =
  gao_assoc_id :: i32
  gao_addr_num :: i32
  gao_addrs :: "byte list"  \<comment> \<open>the packed addresses the pointer refers to\<close>

definition sctp_getaddrs_old_tys :: "target \<Rightarrow> fty list" where
  "sctp_getaddrs_old_tys t = [TU32, TU32, TBlob (usize_bytes t) (usize_bytes t)]"

section \<open>Default values\<close>

definition sctp_rtoinfo_default :: sctp_rtoinfo where
  "sctp_rtoinfo_default = \<lparr>srto_assoc_id = 0, srto_initial = 0, srto_max = 0, srto_min = 0\<rparr>"

definition sctp_assocparams_default :: sctp_assocparams where
  "sctp_assocparams_default =
     \<lparr>sasoc_assoc_id = 0, sasoc_asocmaxrxt = 0, sasoc_number_peer_destinations = 0,
      sasoc_peer_rwnd = 0, sasoc_local_rwnd = 0, sasoc_cookie_life = 0\<rparr>"

definition sctp_sack_info_default :: sctp_sack_info where
  "sctp_sack_info_default = \<lparr>sack_assoc_id = 0, sack_delay = 0, sack_freq = 0\<rparr>"

definition sctp_paddrinfo_default :: sctp_paddrinfo where
  "sctp_paddrinfo_default =
     \<lparr>spinfo_assoc_id = 0, spinfo_address = sockaddr_storage_zeroed, spinfo_state = 0,
      spinfo_cwnd = 0, spinfo_srtt = 0, spinfo_rto = 0, spinfo_mtu = 0\<rparr>"

definition sctp_status_default :: sctp_status where
  "sctp_status_default =
     \<lparr>sstat_assoc_id = 0, sstat_state = 0, sstat_rwnd = 0, sstat_unackdata = 0,
      sstat_penddata = 0, sstat_instrms = 0, sstat_outstrms = 0,
      sstat_fragmentation_point = 0, sstat_primary = sctp_paddrinfo_default\<rparr>"

definition sctp_paddrparams_default :: sctp_paddrparams where
  "sctp_paddrparams_default =
     \<lparr>spp_assoc_id = 0, spp_address = sockaddr_storage_zeroed, spp_hbinterval = 0,
      spp_pathmaxrxt = 0, spp_pathmtu = 0, spp_sackdelay = 0, spp_flags = 0,
      spp_ipv6_flowlabel = 0, spp_dscp = 0, spp_pad = 0\<rparr>"

definition sctp_assoc_stats_default :: sctp_assoc_stats where
  "sctp_assoc_stats_default =
     \<lparr>sas_assoc_id = 0, sas_obs_rto_ipaddr = sockaddr_storage_zeroed,
      sas_maxrto = 0, sas_isacks = 0, sas_osacks = 0,
      sas_opackets = 0, sas_ipackets = 0, sas_rtxchunks = 0,
      sas_outofseqtsns = 0, sas_idupchunks = 0, sas_gapcnt = 0,
      sas_ouodchunks = 0, sas_iuodchunks = 0, sas_oodchunks = 0,
      sas_iodchunks = 0, sas_octrlchunks = 0, sas_ictrlchunks = 0\<rparr>"

lemma defaults_ok [simp]:
  "sctp_paddrinfo_ok sctp_paddrinfo_default" "sctp_status_ok sctp_status_default"
  "sctp_paddrparams_ok sctp_paddrparams_default" "sctp_assoc_stats_ok sctp_assoc_stats_default"
  by (simp_all add: sctp_paddrinfo_ok_def sctp_status_ok_def sctp_paddrparams_ok_def
      sctp_assoc_stats_ok_def sctp_paddrinfo_default_def sctp_status_default_def
      sctp_paddrparams_default_def sctp_assoc_stats_default_def)

section \<open>The layouts are those of the kernel ABI\<close>

lemma sctp_assoc_stats_size:
  assumes "usize_bytes t = 8 \<and> align_u64 t = 8 \<and> n = 256 \<or>
    usize_bytes t = 4 \<and> align_u64 t = 4 \<and> n = 252 \<or>
    usize_bytes t = 4 \<and> align_u64 t = 8 \<and> n = 256"
  shows "struct_size t False (sctp_assoc_stats_tys t) = n"
proof -
  have 1: "struct_size t False (sctp_assoc_stats_tys t) = 256"
    if "usize_bytes t = 8" "align_u64 t = 8"
    unfolding struct_size_def struct_align_def sctp_assoc_stats_tys_def replicate_15_TU64
    by (simp add: that align_ty.simps) (simp add: round_up_def)
  have 2: "struct_size t False (sctp_assoc_stats_tys t) = 252"
    if "usize_bytes t = 4" "align_u64 t = 4"
    unfolding struct_size_def struct_align_def sctp_assoc_stats_tys_def replicate_15_TU64
    by (simp add: that align_ty.simps) (simp add: round_up_def)
  have 3: "struct_size t False (sctp_assoc_stats_tys t) = 256"
    if "usize_bytes t = 4" "align_u64 t = 8"
    unfolding struct_size_def struct_align_def sctp_assoc_stats_tys_def replicate_15_TU64
    by (simp add: that align_ty.simps) (simp add: round_up_def)
  from assms 1 2 3 show ?thesis by blast
qed

lemma sctp_assoc_stats_layout:
  "struct_size t False (sctp_assoc_stats_tys t) =
     (if usize_bytes t = 8 then 256 else round_up (align_u64 t) 132 + 120)"
  by (rule sctp_assoc_stats_size) (use align_u64_cases[of t] in \<open>auto simp: round_up_def\<close>)

lemmas struct_tys_defs =
  sctp_sndrcvinfo_tys_def sctp_rcvinfo_tys_def sctp_sndinfo_tys_def sctp_paddrinfo_tys_def
  sctp_status_tys_def sctp_paddrparams_tys_def sctp_event_tys_def

lemmas offset_simps =
  offset_of_def round_up_def align_ty.simps Let_def

text \<open>
  For every supported target the structures exchanged with the kernel have the sizes of the
  kernel ABI: \<open>sctp_paddrparams\<close> packs its members without padding up to 155 bytes and pads the
  end to 156, \<open>sctp_status\<close> includes the packed \<open>sctp_paddrinfo\<close>, \<open>sctp_assoc_stats\<close> restores
  the pointer alignment of its address, and the argument of connectx is pointer-width dependent.
\<close>

theorem struct_sizes_match_kernel_abi:
  "struct_size t False (sctp_initmsg_tys t) = 8 \<and>
    struct_size t False (sctp_sndrcvinfo_tys t) = 32 \<and>
    struct_size t False (sctp_sndinfo_tys t) = 16 \<and>
    struct_size t False (sctp_rcvinfo_tys t) = 28 \<and>
    struct_size t False (sctp_event_tys t) = 8 \<and>
    struct_size t False (sctp_assocparams_tys t) = 20 \<and>
    struct_size t True (sctp_paddrinfo_tys t) = 152 \<and>
    struct_size t False (sctp_status_tys t) = 176 \<and>
    struct_size t True (sctp_prim_tys t) = 132 \<and>
    struct_size t True (sctp_paddrparams_tys t) = 156 \<and>
    struct_size t False (sctp_peeloff_flags_arg_t_tys t) = 12 \<and>
    struct_size t False (sctp_assoc_stats_tys t) =
      (if usize_bytes t = 8 then 256 else round_up (align_u64 t) 132 + 120) \<and>
    struct_size t False (sctp_getaddrs_old_tys t) = 8 + usize_bytes t"
proof -
  have "struct_size t False (sctp_getaddrs_old_tys t) = 8 + usize_bytes t"
    using usize_bytes_cases[of t] by (auto simp: sctp_getaddrs_old_tys_def layout_simps)
  then show ?thesis
    by (simp add: sctp_assoc_stats_layout)
qed

text \<open>
  The images of the structures, field by field: what \<open>linux/sctp.h\<close> lays down for any compiler
  that follows the C ABI, written as the bytes in memory order.
\<close>

lemmas image_simps =
  struct_bytes_def struct_size_def struct_align_def round_up_def align_ty.simps Let_def

lemmas struct_ok_defs =
  sctp_sndinfo_ok_def sctp_rcvinfo_ok_def sctp_sndrcvinfo_ok_def sctp_initmsg_ok_def sctp_event_ok_def
  sctp_assocparams_ok_def sctp_paddrinfo_ok_def sctp_prim_ok_def sctp_paddrparams_ok_def sctp_status_ok_def

lemma message_info_images:
  "struct_bytes t False (sctp_sndinfo_fields t si) =
     to_ne_bytes t (snd_sid si) @ to_ne_bytes t (snd_flags si) @ to_ne_bytes t (snd_ppid si) @
     to_ne_bytes t (snd_context si) @ to_ne_bytes t (snd_assoc_id si)"
  "struct_bytes t False (sctp_rcvinfo_fields t ri) =
     to_ne_bytes t (rcv_sid ri) @ to_ne_bytes t (rcv_ssn ri) @ to_ne_bytes t (rcv_flags ri) @
     replicate 2 (pad_byte t) @ to_ne_bytes t (rcv_ppid ri) @ to_ne_bytes t (rcv_tsn ri) @
     to_ne_bytes t (rcv_cumtsn ri) @ to_ne_bytes t (rcv_context ri) @ to_ne_bytes t (rcv_assoc_id ri)"
  "struct_bytes t False (sctp_sndrcvinfo_fields t sr) =
     to_ne_bytes t (sinfo_stream sr) @ to_ne_bytes t (sinfo_ssn sr) @ to_ne_bytes t (sinfo_flags sr) @
     replicate 2 (pad_byte t) @ to_ne_bytes t (sinfo_ppid sr) @ to_ne_bytes t (sinfo_context sr) @
     to_ne_bytes t (sinfo_timetolive sr) @ to_ne_bytes t (sinfo_tsn sr) @
     to_ne_bytes t (sinfo_cumtsn sr) @ to_ne_bytes t (sinfo_assoc_id sr)"
  by (simp_all add: sctp_sndinfo_fields_def sctp_rcvinfo_fields_def sctp_sndrcvinfo_fields_def
      image_simps flip: numeral_2_eq_2)

lemma option_images:
  "struct_bytes t False (sctp_initmsg_fields t im) =
     to_ne_bytes t (sinit_num_ostreams im) @ to_ne_bytes t (sinit_max_instreams im) @
     to_ne_bytes t (sinit_max_attempts im) @ to_ne_bytes t (sinit_max_init_timeo im)"
  "struct_bytes t False (sctp_event_fields t ev) =
     to_ne_bytes t (se_assoc_id ev) @ to_ne_bytes t (se_type ev) @ to_ne_bytes t (se_on ev) @ [pad_byte t]"
  "struct_bytes t False (sctp_assocparams_fields t ap) =
     to_ne_bytes t (sasoc_assoc_id ap) @ to_ne_bytes t (sasoc_asocmaxrxt ap) @
     to_ne_bytes t (sasoc_number_peer_destinations ap) @ to_ne_bytes t (sasoc_peer_rwnd ap) @
     to_ne_bytes t (sasoc_local_rwnd ap) @ to_ne_bytes t (sasoc_cookie_life ap)"
  by (simp_all add: sctp_initmsg_fields_def sctp_event_fields_def sctp_assocparams_fields_def
      image_simps flip: numeral_2_eq_2)

lemma peer_images:
  "length (storage_bytes (spinfo_address pi)) = 128 \<Longrightarrow>
   struct_bytes t True (sctp_paddrinfo_fields t pi) =
     to_ne_bytes t (spinfo_assoc_id pi) @ storage_bytes (spinfo_address pi) @
     to_ne_bytes t (spinfo_state pi) @ to_ne_bytes t (spinfo_cwnd pi) @ to_ne_bytes t (spinfo_srtt pi) @
     to_ne_bytes t (spinfo_rto pi) @ to_ne_bytes t (spinfo_mtu pi)"
  "length (storage_bytes (ssp_addr pr)) = 128 \<Longrightarrow>
   struct_bytes t True (sctp_prim_fields t pr) =
     to_ne_bytes t (ssp_assoc_id pr) @ storage_bytes (ssp_addr pr)"
  "length (storage_bytes (spp_address pp)) = 128 \<Longrightarrow>
   struct_bytes t True (sctp_paddrparams_fields t pp) =
     to_ne_bytes t (spp_assoc_id pp) @ storage_bytes (spp_address pp) @ to_ne_bytes t (spp_hbinterval pp) @
     to_ne_bytes t (spp_pathmaxrxt pp) @ to_ne_bytes t (spp_pathmtu pp) @ to_ne_bytes t (spp_sackdelay pp) @
     to_ne_bytes t (spp_flags pp) @ to_ne_bytes t (spp_ipv6_flowlabel pp) @
     to_ne_bytes t (spp_dscp pp) @ to_ne_bytes t (spp_pad pp)"
  by (simp_all add: sctp_paddrinfo_fields_def sctp_prim_fields_def sctp_paddrparams_fields_def
      image_simps flip: numeral_2_eq_2)

lemma status_image:
  assumes "length (storage_bytes (spinfo_address (sstat_primary st))) = 128"
  shows "struct_bytes t False (sctp_status_fields t st) =
     to_ne_bytes t (sstat_assoc_id st) @ to_ne_bytes t (sstat_state st) @ to_ne_bytes t (sstat_rwnd st) @
     to_ne_bytes t (sstat_unackdata st) @ to_ne_bytes t (sstat_penddata st) @
     to_ne_bytes t (sstat_instrms st) @ to_ne_bytes t (sstat_outstrms st) @
     to_ne_bytes t (sstat_fragmentation_point st) @
     struct_bytes t True (sctp_paddrinfo_fields t (sstat_primary st))"
proof -
  have "length (struct_bytes t True (sctp_paddrinfo_fields t (sstat_primary st))) = 152"
    using assms sctp_paddrinfo_cs.to_bytes_length by (simp add: sctp_paddrinfo_ok_def)
  then show ?thesis
    by (subst struct_bytes_def) (simp add: sctp_status_fields_def struct_size_def struct_align_def
        round_up_def align_ty.simps Let_def flip: numeral_2_eq_2)
qed

text \<open>
  C31: the memory images are those of the kernel ABI. For every target and every value,
  ten structures (send, receive and old-style information, initialisation, events, association
  parameters, peer information, primary path, path parameters, status) occupy exactly the bytes
  \<open>linux/sctp.h\<close> prescribes, field by field in its order and its gaps in place: two bytes before
  \<open>rcv_ppid\<close> and \<open>sinfo_ppid\<close>, one at the end of an event, none before the unaligned \<open>spp_pathmtu\<close>
  of the packed \<open>sctp_paddrparams\<close>, the packed peer information at the end of a status. And reading
  such an image back, whatever follows it in memory, gives the value.
\<close>

theorem struct_images_match_kernel_abi:
  assumes "length (storage_bytes (spinfo_address pi)) = 128"
    and "length (storage_bytes (ssp_addr pr)) = 128"
    and "length (storage_bytes (spp_address pp)) = 128"
    and "length (storage_bytes (spinfo_address (sstat_primary st))) = 128"
  shows
  "struct_bytes t False (sctp_sndinfo_fields t si) =
     to_ne_bytes t (snd_sid si) @ to_ne_bytes t (snd_flags si) @ to_ne_bytes t (snd_ppid si) @
     to_ne_bytes t (snd_context si) @ to_ne_bytes t (snd_assoc_id si) \<and>
   sctp_sndinfo_of_bytes t (struct_bytes t False (sctp_sndinfo_fields t si) @ rest) = si \<and>
   struct_bytes t False (sctp_rcvinfo_fields t ri) =
     to_ne_bytes t (rcv_sid ri) @ to_ne_bytes t (rcv_ssn ri) @ to_ne_bytes t (rcv_flags ri) @
     replicate 2 (pad_byte t) @ to_ne_bytes t (rcv_ppid ri) @ to_ne_bytes t (rcv_tsn ri) @
     to_ne_bytes t (rcv_cumtsn ri) @ to_ne_bytes t (rcv_context ri) @ to_ne_bytes t (rcv_assoc_id ri) \<and>
   sctp_rcvinfo_of_bytes t (struct_bytes t False (sctp_rcvinfo_fields t ri) @ rest) = ri \<and>
   struct_bytes t False (sctp_sndrcvinfo_fields t sr) =
     to_ne_bytes t (sinfo_stream sr) @ to_ne_bytes t (sinfo_ssn sr) @ to_ne_bytes t (sinfo_flags sr) @
     replicate 2 (pad_byte t) @ to_ne_bytes t (sinfo_ppid sr) @ to_ne_bytes t (sinfo_context sr) @
     to_ne_bytes t (sinfo_timetolive sr) @ to_ne_bytes t (sinfo_tsn sr) @
     to_ne_bytes t (sinfo_cumtsn sr) @ to_ne_bytes t (sinfo_assoc_id sr) \<and>
   sctp_sndrcvinfo_of_bytes t (struct_bytes t False (sctp_sndrcvinfo_fields t sr) @ rest) = sr \<and>
   struct_bytes t False (sctp_initmsg_fields t im) =
     to_ne_bytes t (sinit_num_ostreams im) @ to_ne_bytes t (sinit_max_instreams im) @
     to_ne_bytes t (sinit_max_attempts im) @ to_ne_bytes t (sinit_max_init_timeo im) \<and>
   sctp_initmsg_of_bytes t (struct_bytes t False (sctp_initmsg_fields t im) @ rest) = im \<and>
   struct_bytes t False (sctp_event_fields t ev) =
     to_ne_bytes t (se_assoc_id ev) @ to_ne_bytes t (se_type ev) @ to_ne_bytes t (se_on ev) @ [pad_byte t] \<and>
   sctp_event_of_bytes t (struct_bytes t False (sctp_event_fields t ev) @ rest) = ev \<and>
   struct_bytes t False (sctp_assocparams_fields t ap) =
     to_ne_bytes t (sasoc_assoc_id ap) @ to_ne_bytes t (sasoc_asocmaxrxt ap) @
     to_ne_bytes t (sasoc_number_peer_destinations ap) @ to_ne_bytes t (sasoc_peer_rwnd ap) @
     to_ne_bytes t (sasoc_local_rwnd ap) @ to_ne_bytes t (sasoc_cookie_life ap) \<and>
   sctp_assocparams_of_bytes t (struct_bytes t False (sctp_assocparams_fields t ap) @ rest) = ap \<and>
   struct_bytes t True (sctp_paddrinfo_fields t pi) =
     to_ne_bytes t (spinfo_assoc_id pi) @ storage_bytes (spinfo_address pi) @
     to_ne_bytes t (spinfo_state pi) @ to_ne_bytes t (spinfo_cwnd pi) @ to_ne_bytes t (spinfo_srtt pi) @
     to_ne_bytes t (spinfo_rto pi) @ to_ne_bytes t (spinfo_mtu pi) \<and>
   sctp_paddrinfo_of_bytes t (struct_bytes t True (sctp_paddrinfo_fields t pi) @ rest) = pi \<and>
   struct_bytes t True (sctp_prim_fields t pr) =
     to_ne_bytes t (ssp_assoc_id pr) @ storage_bytes (ssp_addr pr) \<and>
   sctp_prim_of_bytes t (struct_bytes t True (sctp_prim_fields t pr) @ rest) = pr \<and>
   struct_bytes t True (sctp_paddrparams_fields t pp) =
     to_ne_bytes t (spp_assoc_id pp) @ storage_bytes (spp_address pp) @ to_ne_bytes t (spp_hbinterval pp) @
     to_ne_bytes t (spp_pathmaxrxt pp) @ to_ne_bytes t (spp_pathmtu pp) @ to_ne_bytes t (spp_sackdelay pp) @
     to_ne_bytes t (spp_flags pp) @ to_ne_bytes t (spp_ipv6_flowlabel pp) @
     to_ne_bytes t (spp_dscp pp) @ to_ne_bytes t (spp_pad pp) \<and>
   sctp_paddrparams_of_bytes t (struct_bytes t True (sctp_paddrparams_fields t pp) @ rest) = pp \<and>
   struct_bytes t False (sctp_status_fields t st) =
     to_ne_bytes t (sstat_assoc_id st) @ to_ne_bytes t (sstat_state st) @ to_ne_bytes t (sstat_rwnd st) @
     to_ne_bytes t (sstat_unackdata st) @ to_ne_bytes t (sstat_penddata st) @
     to_ne_bytes t (sstat_instrms st) @ to_ne_bytes t (sstat_outstrms st) @
     to_ne_bytes t (sstat_fragmentation_point st) @
     struct_bytes t True (sctp_paddrinfo_fields t (sstat_primary st)) \<and>
   sctp_status_of_bytes t (struct_bytes t False (sctp_status_fields t st) @ rest) = st"
  unfolding message_info_images[symmetric] option_images[symmetric] peer_images(1)[OF assms(1), symmetric]
    peer_images(2)[OF assms(2), symmetric] peer_images(3)[OF assms(3), symmetric]
    status_image[OF assms(4), symmetric]
  using assms
  by (simp add: sctp_sndinfo_cs.of_to_bytes sctp_rcvinfo_cs.of_to_bytes sctp_sndrcvinfo_cs.of_to_bytes
      sctp_initmsg_cs.of_to_bytes sctp_event_cs.of_to_bytes sctp_assocparams_cs.of_to_bytes
      sctp_paddrinfo_cs.of_to_bytes sctp_prim_cs.of_to_bytes sctp_paddrparams_cs.of_to_bytes
      sctp_status_cs.of_to_bytes struct_ok_defs)

theorem struct_images_match_kernel_abi_witness:
  "let pp = sctp_paddrparams_default\<lparr>spp_assoc_id := 7, spp_pathmaxrxt := 5, spp_pathmtu := 1400\<rparr>
   in struct_bytes linux_x86_64 True (sctp_paddrparams_fields linux_x86_64 pp) =
        [7, 0, 0, 0] @ replicate 132 0 @ [5, 0, 0x78, 5] @ replicate 16 0 \<and>
      sctp_paddrparams_of_bytes linux_x86_64
        (([7, 0, 0, 0] @ replicate 132 0 @ [5, 0, 0x78, 5] @ replicate 16 0) @ [1, 2]) = pp"
proof -
  define pp where "pp = sctp_paddrparams_default\<lparr>spp_assoc_id := 7, spp_pathmaxrxt := 5, spp_pathmtu := 1400\<rparr>"
  have len: "length (storage_bytes (spp_address pp)) = 128"
    "length (storage_bytes (spinfo_address sctp_paddrinfo_default)) = 128"
    "length (storage_bytes (ssp_addr \<lparr>ssp_assoc_id = 0, ssp_addr = sockaddr_storage_zeroed\<rparr>)) = 128"
    "length (storage_bytes (spinfo_address (sstat_primary sctp_status_default))) = 128"
    using defaults_ok by (simp_all add: pp_def struct_ok_defs sctp_paddrparams_default_def sockaddr_storage_zeroed_def)
  note abi = struct_images_match_kernel_abi[OF len(2,3,1,4), where t = linux_x86_64 and rest = "[1, 2]"]
  have ne: "to_ne_bytes linux_x86_64 (7 :: i32) = [7, 0, 0, 0]" "to_ne_bytes linux_x86_64 (0 :: u32) = [0, 0, 0, 0]"
    "to_ne_bytes linux_x86_64 (5 :: u16) = [5, 0]" "to_ne_bytes linux_x86_64 (1400 :: u32) = [0x78, 5, 0, 0]"
    "to_ne_bytes linux_x86_64 (0 :: byte) = [0]"
    by (simp_all add: to_ne_bytes_def ne_bytes_def le_bytes_numeral)
  have pp: "spp_assoc_id pp = 7" "spp_address pp = sockaddr_storage_zeroed" "spp_hbinterval pp = 0"
    "spp_pathmaxrxt pp = 5" "spp_pathmtu pp = 1400" "spp_sackdelay pp = 0" "spp_flags pp = 0"
    "spp_ipv6_flowlabel pp = 0" "spp_dscp pp = 0" "spp_pad pp = 0"
    by (simp_all add: pp_def sctp_paddrparams_default_def)
  have z: "replicate 4 (0 :: byte) = [0, 0, 0, 0]"
    "concat (replicate 3 [0, 0, 0, 0 :: byte]) @ concat (replicate 2 [0 :: byte]) = replicate 14 0"
    "[0, 0] @ replicate 14 (0 :: byte) = replicate 16 0"
    by code_simp+
  have "struct_bytes linux_x86_64 True (sctp_paddrparams_fields linux_x86_64 pp) =
      to_ne_bytes linux_x86_64 (7 :: i32) @ storage_bytes sockaddr_storage_zeroed @ to_ne_bytes linux_x86_64 (0 :: u32) @
      to_ne_bytes linux_x86_64 (5 :: u16) @ to_ne_bytes linux_x86_64 (1400 :: u32) @
      concat (replicate 3 (to_ne_bytes linux_x86_64 (0 :: u32))) @ concat (replicate 2 (to_ne_bytes linux_x86_64 (0 :: byte)))"
    using abi unfolding pp by (simp add: numeral_3_eq_3 numeral_2_eq_2)
  also have "\<dots> = [7, 0, 0, 0] @ replicate 132 0 @ [5, 0, 0x78, 5] @ replicate 16 0"
    unfolding ne sockaddr_storage_zeroed_def using replicate_add[of 128 4 "0 :: byte"] z by simp
  finally have img: "struct_bytes linux_x86_64 True (sctp_paddrparams_fields linux_x86_64 pp) =
      [7, 0, 0, 0] @ replicate 132 0 @ [5, 0, 0x78, 5] @ replicate 16 0" .
  have "sctp_paddrparams_of_bytes linux_x86_64
      (struct_bytes linux_x86_64 True (sctp_paddrparams_fields linux_x86_64 pp) @ [1, 2]) = pp"
    using abi by blast
  then show ?thesis
    unfolding Let_def pp_def[symmetric] img by simp
qed

end
