(* ===== verification/Addr.thy ===== *)
theory Addr
  imports Sys_Structs
begin

text \<open>
  \<open>src/src/addr.rs\<close>: conversion between \<open>SocketAddr\<close> and the Linux layout of \<open>sockaddr_in\<close> and
  \<open>sockaddr_in6\<close>, and the packed address lists of bindx, connectx and the address queries. An
  \<open>Ipv4Addr\<close> is the 32-bit number and an \<open>Ipv6Addr\<close> the 128-bit number whose big-endian bytes
  are its octets. Writing goes through a caller's buffer and panics when it is too short; the
  lemmas show which bytes are written and that reading inverts writing. The sockaddr format is a
  provider of \<open>seq_codec\<close>, from which the list results follow.
\<close>

section \<open>Definitions\<close>

datatype SocketAddr =
    V4 u32 u16                  \<comment> \<open>ip, port\<close>
  | V6 "128 word" u16 u32 u32   \<comment> \<open>ip, port, flowinfo, scope id\<close>

definition SOCKADDR_IN_LEN :: nat where
  "SOCKADDR_IN_LEN = 16"

definition SOCKADDR_IN6_LEN :: nat where
  "SOCKADDR_IN6_LEN = 28"

definition fill_zero :: "nat \<Rightarrow> byte list \<Rightarrow> byte list io_result" where
  "fill_zero n out = copy_at 0 (replicate n 0) out"

fun write_sockaddr :: "target \<Rightarrow> SocketAddr \<Rightarrow> byte list \<Rightarrow> (byte list \<times> nat) io_result" where
  "write_sockaddr t (V4 ip port) out =
     try_bind (fill_zero SOCKADDR_IN_LEN out) (\<lambda>out.
     try_bind (copy_at 0 (to_ne_bytes t AF_INET) out) (\<lambda>out.
     try_bind (copy_at 2 (to_be_bytes port) out) (\<lambda>out.
     try_bind (copy_at 4 (to_be_bytes ip) out) (\<lambda>out.
     Ok (out, SOCKADDR_IN_LEN)))))"
| "write_sockaddr t (V6 ip port flowinfo scope_id) out =
     try_bind (fill_zero SOCKADDR_IN6_LEN out) (\<lambda>out.
     try_bind (copy_at 0 (to_ne_bytes t AF_INET6) out) (\<lambda>out.
     try_bind (copy_at 2 (to_be_bytes port) out) (\<lambda>out.
     try_bind (copy_at 4 (to_ne_bytes t flowinfo) out) (\<lambda>out.
     try_bind (copy_at 8 (to_be_bytes ip) out) (\<lambda>out.
     try_bind (copy_at 24 (to_ne_bytes t scope_id) out) (\<lambda>out.
     Ok (out, SOCKADDR_IN6_LEN)))))))"

definition read_sockaddr :: "target \<Rightarrow> byte list \<Rightarrow> (SocketAddr \<times> nat) option" where
  "read_sockaddr t buf =
     (if length buf < 2 then None
      else
        let family = from_ne_bytes t (take 2 buf) :: u16
        in if family = AF_INET \<and> SOCKADDR_IN_LEN \<le> length buf then
             let port = from_be_bytes (take 2 (drop 2 buf));
                 ip = from_be_bytes (take 4 (drop 4 buf))
             in Some (V4 ip port, SOCKADDR_IN_LEN)
           else if family = AF_INET6 \<and> SOCKADDR_IN6_LEN \<le> length buf then
             let port = from_be_bytes (take 2 (drop 2 buf));
                 flowinfo = from_ne_bytes t (take 4 (drop 4 buf));
                 octets = take 16 (drop 8 buf);
                 scope_id = from_ne_bytes t (take 4 (drop 24 buf))
             in Some (V6 (from_be_bytes octets) port flowinfo scope_id, SOCKADDR_IN6_LEN)
           else None)"

text \<open>
  The loop of \<open>pack_addr_list\<close>: \<open>tmp\<close> is one scratch buffer reused for every address, so what a
  longer address left behind is still in it when a shorter one is written.
\<close>

fun pack_loop :: "target \<Rightarrow> SocketAddr list \<Rightarrow> byte list \<Rightarrow> byte list \<Rightarrow> byte list io_result" where
  "pack_loop t [] tmp out = Ok out"
| "pack_loop t (addr # addrs) tmp out =
     try_bind (write_sockaddr t addr tmp) (\<lambda>(tmp, n).
     try_bind (slice_to tmp n) (\<lambda>written.
     pack_loop t addrs tmp (out @ written)))"

definition pack_addr_list :: "target \<Rightarrow> SocketAddr list \<Rightarrow> byte list io_result" where
  "pack_addr_list t addrs = pack_loop t addrs (replicate SOCKADDR_IN6_LEN 0) []"

text \<open>
  The slice \<open>&buf[consumed..]\<close> is in range, because \<open>read_sockaddr\<close> consumes at most the buffer
  (\<open>read_sockaddr_consumed\<close>).
\<close>

fun read_addr_list :: "target \<Rightarrow> byte list \<Rightarrow> nat \<Rightarrow> SocketAddr list" where
  "read_addr_list t buf 0 = []"
| "read_addr_list t buf (Suc count) =
     (case read_sockaddr t buf of
        Some (addr, consumed) \<Rightarrow> addr # read_addr_list t (drop consumed buf) count
      | None \<Rightarrow> [])"

section \<open>The wire form of one address\<close>

fun sockaddr_bytes :: "target \<Rightarrow> SocketAddr \<Rightarrow> byte list" where
  "sockaddr_bytes t (V4 ip port) =
     to_ne_bytes t AF_INET @ to_be_bytes port @ to_be_bytes ip @ replicate 8 0"
| "sockaddr_bytes t (V6 ip port flowinfo scope_id) =
     to_ne_bytes t AF_INET6 @ to_be_bytes port @ to_ne_bytes t flowinfo @ to_be_bytes ip
       @ to_ne_bytes t scope_id"

fun sockaddr_len :: "SocketAddr \<Rightarrow> nat" where
  "sockaddr_len (V4 ip port) = SOCKADDR_IN_LEN"
| "sockaddr_len (V6 ip port flowinfo scope_id) = SOCKADDR_IN6_LEN"

lemmas addr_len_defs = SOCKADDR_IN_LEN_def SOCKADDR_IN6_LEN_def

lemma length_sockaddr_bytes [simp]: "length (sockaddr_bytes t addr) = sockaddr_len addr"
  by (cases addr) (auto simp: addr_len_defs)

lemma sockaddr_len_bounds: "SOCKADDR_IN_LEN \<le> sockaddr_len addr" "sockaddr_len addr \<le> SOCKADDR_IN6_LEN"
  by (cases addr; simp add: addr_len_defs)+

text \<open>A chain of \<open>copy_from_slice\<close> calls over a zeroed prefix, one call at a time.\<close>

lemma copy_at_append:
  "length a = off \<Longrightarrow> length bs \<le> length b \<Longrightarrow>
     copy_at off bs (a @ b) = Ok (a @ bs @ drop (length bs) b)"
  by (simp add: copy_at_def)

lemma write_sockaddr_ok:
  assumes "sockaddr_len addr \<le> length out"
  shows "write_sockaddr t addr out =
    Ok (sockaddr_bytes t addr @ drop (sockaddr_len addr) out, sockaddr_len addr)"
proof (cases addr)
  case (V4 ip port)
  have "fill_zero SOCKADDR_IN_LEN out = Ok (replicate 16 0 @ drop 16 out)"
    using assms V4 by (simp add: fill_zero_def copy_at_def addr_len_defs)
  then show ?thesis
    by (simp add: V4 copy_at_def addr_len_defs min_def)
next
  case (V6 ip port flowinfo scope_id)
  have "fill_zero SOCKADDR_IN6_LEN out = Ok (replicate 28 0 @ drop 28 out)"
    using assms V6 by (simp add: fill_zero_def copy_at_def addr_len_defs)
  then show ?thesis
    by (simp add: V6 copy_at_def addr_len_defs min_def)
qed

lemma write_sockaddr_short:
  "length out < sockaddr_len addr \<Longrightarrow> write_sockaddr t addr out = panic"
  by (cases addr) (auto simp: fill_zero_def copy_at_def addr_len_defs)

section \<open>Reading\<close>

lemma AF_bytes_inj [simp]:
  "from_ne_bytes t (to_ne_bytes t AF_INET) = AF_INET"
  "from_ne_bytes t (to_ne_bytes t AF_INET6) = AF_INET6"
  by (simp_all add: from_to_ne_bytes)

lemma AF_distinct [simp]: "AF_INET \<noteq> AF_INET6" "AF_INET6 \<noteq> AF_INET"
  by (simp_all add: AF_INET_def AF_INET6_def)

lemma read_sockaddr_bytes:
  "read_sockaddr t (sockaddr_bytes t addr @ rest) = Some (addr, sockaddr_len addr)"
  by (cases addr)
    (simp_all add: read_sockaddr_def addr_len_defs from_to_ne_bytes from_to_be_bytes Let_def)

lemma read_sockaddr_consumed:
  "read_sockaddr t buf = Some (addr, n) \<Longrightarrow> n = sockaddr_len addr \<and> n \<le> length buf"
  by (auto simp: read_sockaddr_def Let_def split: if_splits)

lemma read_sockaddr_None_iff:
  "read_sockaddr t buf = None \<longleftrightarrow>
     length buf < 2 \<or>
     (let family = from_ne_bytes t (take 2 buf) :: u16
      in \<not> (family = AF_INET \<and> 16 \<le> length buf) \<and> \<not> (family = AF_INET6 \<and> 28 \<le> length buf))"
  by (auto simp: read_sockaddr_def Let_def addr_len_defs)

text \<open>The address format is a self-delimiting wire format.\<close>

interpretation addr_codec: seq_codec "sockaddr_bytes t" "read_sockaddr t" "\<lambda>_. True" for t
proof
  show "read_sockaddr t (sockaddr_bytes t addr @ rest) =
      Some (addr, length (sockaddr_bytes t addr))" for addr rest
    by (simp add: read_sockaddr_bytes)
  show "0 < n \<and> n \<le> length buf" if "read_sockaddr t buf = Some (addr, n)" for buf addr n
    using read_sockaddr_consumed[OF that] sockaddr_len_bounds(1)[of addr]
    by (simp add: addr_len_defs)
qed

lemma read_addr_list_items: "read_addr_list t buf count = addr_codec.take_items t count buf"
  by (induction count arbitrary: buf) (auto split: option.splits)

lemma pack_loop_ok:
  "SOCKADDR_IN6_LEN \<le> length tmp \<Longrightarrow>
     pack_loop t addrs tmp out = Ok (out @ concat (map (sockaddr_bytes t) addrs))"
proof (induction addrs arbitrary: tmp out)
  case Nil
  then show ?case by simp
next
  case (Cons addr addrs)
  have len: "sockaddr_len addr \<le> length tmp"
    using Cons.prems sockaddr_len_bounds(2)[of addr] by simp
  let ?tmp = "sockaddr_bytes t addr @ drop (sockaddr_len addr) tmp"
  have "SOCKADDR_IN6_LEN \<le> length ?tmp"
    using Cons.prems len by simp
  then show ?case
    by (simp add: write_sockaddr_ok[OF len] slice_to_def Cons.IH)
qed

lemma pack_addr_list_ok: "pack_addr_list t addrs = Ok (concat (map (sockaddr_bytes t) addrs))"
  by (simp add: pack_addr_list_def pack_loop_ok)

lemma length_packed:
  "length (concat (map (sockaddr_bytes t) addrs)) = sum_list (map sockaddr_len addrs)"
  by (induction addrs) auto

lemma read_addr_list_length: "length (read_addr_list t buf count) * 16 \<le> length buf"
proof (induction count arbitrary: buf)
  case 0
  then show ?case by simp
next
  case (Suc count)
  show ?case
  proof (cases "read_sockaddr t buf")
    case (Some p)
    then obtain addr n where p: "read_sockaddr t buf = Some (addr, n)"
      by (cases p) auto
    have "16 \<le> n" "n \<le> length buf"
      using read_sockaddr_consumed[OF p] sockaddr_len_bounds(1)[of addr]
      by (simp_all add: addr_len_defs)
    with Suc.IH[of "drop n buf"] p show ?thesis by simp
  qed simp
qed

section \<open>Properties\<close>

text \<open>
  C29: writing an address into a buffer panics exactly when the buffer is shorter than the
  address's layout; otherwise it overwrites that many bytes, reports their number and leaves the
  rest of the buffer alone, and reading the result gives the address back.
\<close>

theorem write_read_sockaddr:
  "(case write_sockaddr t addr out of
      Inl e \<Rightarrow> e = Panicked \<and> length out < sockaddr_len addr
    | Inr (out', n) \<Rightarrow> n = sockaddr_len addr \<and> n \<le> length out \<and> length out' = length out \<and>
        drop n out' = drop n out \<and> read_sockaddr t out' = Some (addr, n))"
proof (cases "sockaddr_len addr \<le> length out")
  case True
  then show ?thesis
    by (simp add: write_sockaddr_ok read_sockaddr_bytes)
next
  case False
  then show ?thesis
    by (simp add: write_sockaddr_short)
qed

text \<open>
  C30: packing a list of addresses never panics, and whatever the mix of families the scratch
  buffer leaks nothing from one address to the next: reading back as many addresses as were
  packed returns the list, whatever follows it in the buffer, and reading fewer returns the
  corresponding prefix.
\<close>

theorem pack_read_addr_list:
  "\<exists>packed. pack_addr_list t addrs = Ok packed \<and>
     length packed = sum_list (map sockaddr_len addrs) \<and>
     read_addr_list t (packed @ rest) (length addrs) = addrs \<and>
     read_addr_list t (packed @ rest) (min k (length addrs)) = take k addrs"
  using addr_codec.take_items_prefix[of addrs "length addrs" t rest]
    addr_codec.take_items_prefix[of addrs "min k (length addrs)" t rest]
  by (simp add: min_def pack_addr_list_ok length_packed read_addr_list_items)

text \<open>
  Reading a packed list trusts neither the count nor the contents: the result has at most
  \<open>count\<close> entries and never more than one per 16 bytes of buffer, the capacity the code reserves.
\<close>

theorem read_addr_list_capacity:
  "length (read_addr_list t buf count) \<le> min count (length buf div SOCKADDR_IN_LEN)"
proof -
  have "length (read_addr_list t buf count) \<le> length buf div 16"
    using read_addr_list_length[of t buf count] by (simp add: less_eq_div_iff_mult_less_eq)
  then show ?thesis
    using addr_codec.take_items_length[of t count buf]
    by (simp add: read_addr_list_items addr_len_defs)
qed

end
