(* ===== verification/Cmsg.thy ===== *)
theory Cmsg
  imports Addr
begin

text \<open>
  \<open>src/src/cmsg.rs\<close>: control messages written into and walked out of an ancillary-data buffer by
  hand. \<open>align\<close> is the mask expression of the source over unbounded integers (a length is at most
  \<open>isize::MAX\<close>, so the sum cannot wrap: \<open>align_no_overflow\<close>). The iterator is a function from
  the unread buffer to the message at its head and the buffer after it. Control messages are the
  second provider of \<open>seq_codec\<close>.
\<close>

section \<open>Definitions\<close>

definition align :: "target \<Rightarrow> nat \<Rightarrow> nat" where
  "align t n = nat ((int n + int (usize_bytes t) - 1) AND NOT (int (usize_bytes t) - 1))"

definition HDR_LEN :: "target \<Rightarrow> nat" where
  "HDR_LEN t = align t (usize_bytes t + 4 + 4)"

definition space :: "target \<Rightarrow> nat \<Rightarrow> nat" where
  "space t data_len = HDR_LEN t + align t data_len"

definition cmsg_len :: "target \<Rightarrow> nat \<Rightarrow> nat" where
  "cmsg_len t data_len = HDR_LEN t + data_len"

definition cmsg_write ::
    "target \<Rightarrow> byte list \<Rightarrow> i32 \<Rightarrow> i32 \<Rightarrow> byte list \<Rightarrow> (byte list \<times> nat) io_result" where
  "cmsg_write t buf level ty data =
     (let total = space t (length data); p = usize_bytes t
      in if \<not> total \<le> length buf then panic
         else
           try_bind (fill_zero total buf) (\<lambda>buf.
           try_bind (copy_at 0 (ne_bytes t p (cmsg_len t (length data))) buf) (\<lambda>buf.
           try_bind (copy_at p (to_ne_bytes t level) buf) (\<lambda>buf.
           try_bind (copy_at (p + 4) (to_ne_bytes t ty) buf) (\<lambda>buf.
           try_bind (copy_at (HDR_LEN t) data buf) (\<lambda>buf.
           Ok (buf, total)))))))"

type_synonym cmsg = "i32 \<times> i32 \<times> byte list"

text \<open>
  \<open>Iter::next\<close>: the item and what is left in \<open>self.buf\<close>. Each of the five slices is the checked
  one, so an index out of range is a panic; that none ever is belongs to the properties below.
\<close>

definition Iter_next :: "target \<Rightarrow> byte list \<Rightarrow> (cmsg \<times> byte list) option io_result" where
  "Iter_next t buf =
     (if length buf < HDR_LEN t then Ok None
      else
        let p = usize_bytes t
        in try_bind (slice_to buf p) (\<lambda>len_bytes.
           let clen = ne_val t len_bytes
           in if clen < HDR_LEN t \<or> length buf < clen then Ok None
              else
                try_bind (slice_range buf p (p + 4)) (\<lambda>level.
                try_bind (slice_range buf (p + 4) (p + 8)) (\<lambda>ty.
                try_bind (slice_range buf (HDR_LEN t) clen) (\<lambda>data.
                try_bind (slice_from buf (min (align t clen) (length buf))) (\<lambda>rest.
                Ok (Some ((from_ne_bytes t level, from_ne_bytes t ty, data), rest))))))))"

section \<open>Alignment\<close>

lemma and_not_mask: "(x :: int) AND NOT (mask n) = x div 2 ^ n * 2 ^ n"
proof -
  have "x AND NOT (mask n) = push_bit n (drop_bit n x)"
    by (rule bit_eqI) (auto simp: bit_simps)
  then show ?thesis
    by (simp add: push_bit_eq_mult drop_bit_eq_div)
qed

lemma align_round_up: "align t n = round_up (usize_bytes t) n"
proof -
  obtain k where k: "usize_bytes t = 2 ^ k" "int (usize_bytes t) - 1 = mask k"
  proof (cases "usize_bytes t = 4")
    case True
    then show ?thesis
      by (intro that[of 2]) (simp_all add: mask_eq_exp_minus_1)
  next
    case False
    then have "usize_bytes t = 8"
      using usize_bytes_cases by blast
    then show ?thesis
      by (intro that[of 3]) (simp_all add: mask_eq_exp_minus_1)
  qed
  have "int n + int (usize_bytes t) - 1 = int (n + usize_bytes t - 1)"
    using usize_bytes_pos[of t] by linarith
  then have "align t n = nat (int (n + usize_bytes t - 1) div 2 ^ k * 2 ^ k)"
    by (simp only: align_def k(2) and_not_mask)
  also have "\<dots> = (n + usize_bytes t - 1) div 2 ^ k * 2 ^ k"
    by (metis nat_int of_nat_mult of_nat_numeral of_nat_power zdiv_int)
  finally show ?thesis
    by (simp add: round_up_def k(1))
qed

lemma align_ge: "n \<le> align t n"
  by (simp add: align_round_up round_up_ge)

lemma align_less: "align t n < n + usize_bytes t"
proof -
  have "align t n \<le> n + usize_bytes t - 1"
    by (simp add: align_round_up round_up_def)
  then show ?thesis
    using usize_bytes_pos[of t] by linarith
qed

lemma align_dvd: "usize_bytes t dvd align t n"
  by (simp add: align_round_up round_up_def)

lemma align_no_overflow:
  "n < 2 ^ (8 * usize_bytes t - 1) \<Longrightarrow> n + usize_bytes t - 1 < 2 ^ (8 * usize_bytes t)"
  using usize_bytes_cases[of t] by auto

lemma HDR_LEN_cases: "HDR_LEN t = usize_bytes t + 8"
  using usize_bytes_cases[of t] by (auto simp: HDR_LEN_def align_round_up round_up_def)

lemma round_up_add_mult: "0 < a \<Longrightarrow> round_up a (a * k + n) = a * k + round_up a n"
proof -
  assume "0 < a"
  then have "a * k + n + a - 1 = (n + a - 1) + k * a"
    by (simp add: algebra_simps)
  then have "(a * k + n + a - 1) div a = k + (n + a - 1) div a"
    using \<open>0 < a\<close> by (metis add.commute div_mult_self1 less_irrefl)
  then show ?thesis
    by (simp add: round_up_def algebra_simps)
qed

lemma align_HDR: "align t (HDR_LEN t + n) = HDR_LEN t + align t n"
proof -
  have "HDR_LEN t = usize_bytes t * (if usize_bytes t = 8 then 2 else 3)"
    using usize_bytes_cases[of t] by (auto simp: HDR_LEN_cases)
  then show ?thesis
    by (simp add: align_round_up round_up_add_mult)
qed

section \<open>Writing and reading one message\<close>

fun cmsg_bytes :: "target \<Rightarrow> cmsg \<Rightarrow> byte list" where
  "cmsg_bytes t (level, ty, data) =
     ne_bytes t (usize_bytes t) (cmsg_len t (length data)) @ to_ne_bytes t level @ to_ne_bytes t ty
       @ data @ replicate (align t (length data) - length data) 0"

text \<open>A payload whose \<open>cmsg_len\<close> is representable in a \<open>usize\<close>: every Rust slice has one.\<close>

fun cmsg_fits :: "target \<Rightarrow> cmsg \<Rightarrow> bool" where
  "cmsg_fits t (level, ty, data) = (cmsg_len t (length data) < 256 ^ usize_bytes t)"

lemma length_cmsg_bytes [simp]: "length (cmsg_bytes t (level, ty, data)) = space t (length data)"
  using align_ge[of "length data" t] by (simp add: space_def HDR_LEN_cases)

lemma copy_at_zeros:
  assumes "length a = off" and "length bs \<le> n"
  shows "copy_at off bs (a @ replicate n 0 @ r) = Ok ((a @ bs) @ replicate (n - length bs) 0 @ r)"
proof -
  have "copy_at off bs (a @ replicate n 0 @ r) = Ok (a @ bs @ drop (length bs) (replicate n 0 @ r))"
    using assms by (intro copy_at_append) auto
  then show ?thesis
    using assms(2) by simp
qed

lemma cmsg_write_ok:
  assumes "space t (length data) \<le> length buf"
  shows "cmsg_write t buf level ty data =
    Ok (cmsg_bytes t (level, ty, data) @ drop (space t (length data)) buf, space t (length data))"
proof -
  let ?n = "space t (length data)" and ?p = "usize_bytes t" and ?a = "align t (length data)"
  let ?h = "ne_bytes t ?p (cmsg_len t (length data))" and ?r = "drop ?n buf"
  let ?l = "to_ne_bytes t level" and ?y = "to_ne_bytes t ty"
  have n: "?n = ?p + 8 + ?a"
    by (simp add: space_def HDR_LEN_cases)
  have "fill_zero ?n buf = Ok (replicate ?n 0 @ ?r)"
    using assms by (simp add: fill_zero_def copy_at_def)
  moreover have "copy_at 0 ?h (replicate ?n 0 @ ?r) = Ok (?h @ replicate (8 + ?a) 0 @ ?r)"
    using copy_at_zeros[of "[]" 0 ?h ?n ?r] by (simp add: n)
  moreover have "copy_at ?p ?l (?h @ replicate (8 + ?a) 0 @ ?r) =
      Ok (?h @ ?l @ replicate (4 + ?a) 0 @ ?r)"
    using copy_at_zeros[of ?h ?p ?l "8 + ?a" ?r] by simp
  moreover have "copy_at (?p + 4) ?y (?h @ ?l @ replicate (4 + ?a) 0 @ ?r) =
      Ok (?h @ ?l @ ?y @ replicate ?a 0 @ ?r)"
    using copy_at_zeros[of "?h @ ?l" "?p + 4" ?y "4 + ?a" ?r] by simp
  moreover have "copy_at (HDR_LEN t) data (?h @ ?l @ ?y @ replicate ?a 0 @ ?r) =
      Ok (?h @ ?l @ ?y @ data @ replicate (?a - length data) 0 @ ?r)"
    using copy_at_zeros[of "?h @ ?l @ ?y" "HDR_LEN t" data ?a ?r] align_ge[of "length data" t]
    by (simp add: HDR_LEN_cases)
  ultimately show ?thesis
    using assms by (simp add: cmsg_write_def Let_def)
qed

lemma cmsg_write_short:
  "length buf < space t (length data) \<Longrightarrow> cmsg_write t buf level ty data = panic"
  by (simp add: cmsg_write_def Let_def)

text \<open>
  The iterator on a buffer that starts with a written message. The last message may lack its
  tail padding, as the kernel's reported control length does.
\<close>

lemma Iter_next_bytes:
  assumes "cmsg_fits t (level, ty, data)"
  shows "Iter_next t (cmsg_bytes t (level, ty, data) @ rest) = Ok (Some ((level, ty, data), rest))"
proof -
  define b where "b = cmsg_bytes t (level, ty, data)"
  define buf where "buf = b @ rest"
  note eqs = buf_def b_def
  have len: "ne_val t (take (usize_bytes t) buf) = HDR_LEN t + length data"
    using assms by (simp add: eqs ne_val_ne_bytes cmsg_len_def)
  have adv: "align t (HDR_LEN t + length data) = length b"
    by (simp add: b_def align_HDR space_def del: cmsg_bytes.simps)
  have lev: "from_ne_bytes t (take 4 (drop (usize_bytes t) buf)) = level"
    by (simp add: eqs from_to_ne_bytes)
  have ty4: "from_ne_bytes t (take 4 (drop (usize_bytes t + 4) buf)) = ty"
    by (simp add: eqs from_to_ne_bytes)
  have dat: "take (length data) (drop (HDR_LEN t) buf) = data"
    using HDR_LEN_cases[of t] by (simp add: eqs)
  have le: "HDR_LEN t + length data \<le> length buf"
    using align_ge[of "length data" t] by (simp add: eqs HDR_LEN_cases)
  have rst: "drop (min (length b) (length buf)) buf = rest"
    by (simp add: buf_def)
  have "usize_bytes t + 8 \<le> length buf"
    using le by (simp add: HDR_LEN_cases)
  then have "Iter_next t buf = Ok (Some ((level, ty, data), rest))"
    using le
    by (simp add: Iter_next_def slice_to_def slice_from_def slice_range_def len adv lev ty4 dat rst Let_def)
  then show ?thesis
    by (simp only: eqs)
qed

text \<open>
  One step on any bytes: it never panics, and an item it yields is cut off the front of the
  buffer, its payload starting right behind the header.
\<close>

definition cut_off :: "target \<Rightarrow> byte list \<Rightarrow> cmsg \<Rightarrow> bool" where
  "cut_off t chunk m \<longleftrightarrow>
     (case m of (level, ty, data) \<Rightarrow>
        (\<exists>hdr pad. chunk = hdr @ data @ pad \<and> length hdr = HDR_LEN t \<and> length pad < usize_bytes t \<and>
           ne_val t (take (usize_bytes t) hdr) = HDR_LEN t + length data \<and>
           from_ne_bytes t (take 4 (drop (usize_bytes t) hdr)) = level \<and>
           from_ne_bytes t (take 4 (drop (usize_bytes t + 4) hdr)) = ty))"

lemma Iter_next_cases:
  obtains (stop) "Iter_next t buf = Ok None"
    | (item) m chunk rest where "Iter_next t buf = Ok (Some (m, rest))" "buf = chunk @ rest"
        "cut_off t chunk m"
proof (cases "length buf < HDR_LEN t \<or> ne_val t (take (usize_bytes t) buf) < HDR_LEN t \<or>
    length buf < ne_val t (take (usize_bytes t) buf)")
  case True
  then show ?thesis
    by (intro stop) (auto simp: Iter_next_def slice_to_def HDR_LEN_cases Let_def)
next
  case False
  let ?p = "usize_bytes t" and ?h = "HDR_LEN t" and ?clen = "ne_val t (take (usize_bytes t) buf)"
  let ?n = "min (align t ?clen) (length buf)"
  let ?data = "take (?clen - ?h) (drop ?h buf)" and ?chunk = "take ?n buf"
  have h: "?h \<le> ?clen" "?clen \<le> length buf" "?clen \<le> ?n" "?n < ?clen + ?p" "?h = ?p + 8"
    using False align_ge[of ?clen t] align_less[of t ?clen] by (simp_all add: HDR_LEN_cases)
  have step: "Iter_next t buf = Ok (Some ((from_ne_bytes t (take 4 (drop ?p buf)),
      from_ne_bytes t (take 4 (drop (?p + 4) buf)), ?data), drop ?n buf))"
    using h by (simp add: Iter_next_def slice_to_def slice_from_def slice_range_def Let_def)
  have "?chunk = take ?h buf @ ?data @ take (?n - ?clen) (drop ?clen buf)"
    using h take_add[of ?h "?n - ?h" buf] take_add[of "?clen - ?h" "?n - ?clen" "drop ?h buf"] by simp
  moreover have "take 4 (drop ?p (take ?h buf)) = take 4 (drop ?p buf)"
    "take 4 (drop (?p + 4) (take ?h buf)) = take 4 (drop (?p + 4) buf)"
    "take ?p (take ?h buf) = take ?p buf"
    using h by (simp_all add: drop_take)
  ultimately have "cut_off t ?chunk (from_ne_bytes t (take 4 (drop ?p buf)),
      from_ne_bytes t (take 4 (drop (?p + 4) buf)), ?data)"
    unfolding cut_off_def prod.case
    by (intro exI[of _ "take ?h buf"] exI[of _ "take (?n - ?clen) (drop ?clen buf)"]) (use h in auto)
  with step show ?thesis
    by (intro item[of _ "drop ?n buf" ?chunk]) simp_all
qed

lemma cut_off_length:
  "cut_off t chunk (level, ty, data) \<Longrightarrow> HDR_LEN t + length data \<le> length chunk"
  by (auto simp: cut_off_def)

lemma Iter_next_shorter:
  assumes "Iter_next t buf = Ok (Some (m, rest))"
  shows "length rest < length buf"
proof (rule Iter_next_cases[of t buf])
  fix m' chunk rest'
  assume "Iter_next t buf = Ok (Some (m', rest'))" "buf = chunk @ rest'" "cut_off t chunk m'"
  then show ?thesis
    using assms cut_off_length[of t chunk] by (cases m') (auto simp: HDR_LEN_cases)
qed (use assms in simp)

section \<open>Walking a whole buffer\<close>

function cmsg_iter :: "target \<Rightarrow> byte list \<Rightarrow> cmsg list io_result" where
  "cmsg_iter t buf =
     (case Iter_next t buf of
        Inl e \<Rightarrow> Inl e
      | Inr None \<Rightarrow> Ok []
      | Inr (Some (item, rest)) \<Rightarrow> try_bind (cmsg_iter t rest) (\<lambda>items. Ok (item # items)))"
  by pat_completeness auto
termination
  by (relation "measure (\<lambda>(t, buf). length buf)") (auto dest: Iter_next_shorter)

declare cmsg_iter.simps [simp del]

definition cmsg_parse :: "target \<Rightarrow> byte list \<Rightarrow> (cmsg \<times> nat) option" where
  "cmsg_parse t buf =
     (case Iter_next t buf of
        Inr (Some (item, rest)) \<Rightarrow> Some (item, length buf - length rest)
      | _ \<Rightarrow> None)"

interpretation cmsg_codec: seq_codec "cmsg_bytes t" "cmsg_parse t" "cmsg_fits t" for t
proof
  show "cmsg_parse t (cmsg_bytes t x @ rest) = Some (x, length (cmsg_bytes t x))"
    if "cmsg_fits t x" for x rest
    using that by (cases x) (simp add: cmsg_parse_def Iter_next_bytes del: cmsg_bytes.simps)
  show "0 < n \<and> n \<le> length buf" if "cmsg_parse t buf = Some (x, n)" for buf x n
    using that Iter_next_shorter[of t buf]
    by (auto simp: cmsg_parse_def split: sum.splits option.splits)
qed

lemma cmsg_iter_stop: "Iter_next t buf = Ok None \<Longrightarrow> cmsg_iter t buf = Ok []"
  by (subst cmsg_iter.simps) simp

lemma cmsg_iter_short: "length buf < HDR_LEN t \<Longrightarrow> cmsg_iter t buf = Ok []"
  by (simp add: cmsg_iter_stop Iter_next_def)

lemma cmsg_iter_append:
  "\<forall>m \<in> set msgs. cmsg_fits t m \<Longrightarrow>
     cmsg_iter t (concat (map (cmsg_bytes t) msgs) @ rest) =
       try_bind (cmsg_iter t rest) (\<lambda>items. Ok (msgs @ items))"
proof (induction msgs)
  case Nil
  then show ?case
    by (cases "cmsg_iter t rest") simp_all
next
  case (Cons m msgs)
  have "Iter_next t (cmsg_bytes t m @ r) = Ok (Some (m, r))" for r
    using Cons.prems by (cases m) (simp add: Iter_next_bytes del: cmsg_bytes.simps)
  with Cons show ?case
    by (subst cmsg_iter.simps) (cases "cmsg_iter t rest"; simp)
qed

lemma cmsg_iter_written:
  "\<forall>m \<in> set msgs. cmsg_fits t m \<Longrightarrow> cmsg_iter t (concat (map (cmsg_bytes t) msgs)) = Ok msgs"
  using cmsg_iter_append[of msgs t "[]"] by (simp add: cmsg_iter_short HDR_LEN_cases)

text \<open>The whole walk cuts the buffer into the pieces of its items and a rest it does not read.\<close>

lemma cmsg_iter_chunks:
  "\<exists>items chunks rest. cmsg_iter t buf = Ok items \<and> buf = concat chunks @ rest \<and>
     list_all2 (cut_off t) chunks items"
proof (induction t buf rule: cmsg_iter.induct)
  case (1 t buf)
  show ?case
  proof (rule Iter_next_cases[of t buf])
    assume "Iter_next t buf = Ok None"
    then show ?thesis
      by (intro exI[of _ "[]"] exI[of _ buf]) (simp add: cmsg_iter_stop)
  next
    fix m chunk rest
    assume *: "Iter_next t buf = Ok (Some (m, rest))" "buf = chunk @ rest" "cut_off t chunk m"
    from "1.IH"[OF *(1) refl refl] obtain items chunks rest' where
      "cmsg_iter t rest = Ok items" "rest = concat chunks @ rest'" "list_all2 (cut_off t) chunks items"
      by blast
    with * show ?thesis
      by (intro exI[of _ "m # items"] exI[of _ "chunk # chunks"] exI[of _ rest'])
        (subst cmsg_iter.simps, simp)
  qed
qed

lemma cmsg_iter_no_panic [simp]: "cmsg_iter t buf \<noteq> Inl e"
  using cmsg_iter_chunks[of t buf] by auto

lemma cut_off_sum:
  "list_all2 (cut_off t) chunks items \<Longrightarrow>
     (\<Sum>(level, ty, data) \<leftarrow> items. HDR_LEN t + length data) \<le> length (concat chunks)"
  by (induction rule: list_all2_induct) (auto dest!: cut_off_length)

section \<open>Properties\<close>

text \<open>
  \<open>align\<close> rounds up to the next multiple of the word size, and the three length functions
  agree with the kernel's \<open>CMSG_ALIGN\<close>, \<open>CMSG_SPACE\<close> and \<open>CMSG_LEN\<close>: the header takes 16 bytes
  on 64-bit targets and 12 on 32-bit ones.
\<close>

theorem cmsg_lengths:
  "usize_bytes t dvd align t n \<and> n \<le> align t n \<and> align t n < n + usize_bytes t \<and>
   HDR_LEN t = (case pointer_width t of W64 \<Rightarrow> 16 | W32 \<Rightarrow> 12) \<and>
   cmsg_len t n \<le> space t n \<and> space t n < cmsg_len t n + usize_bytes t"
  using align_ge[of n t] align_less[of t n] align_dvd[of t n]
  by (simp add: HDR_LEN_cases space_def cmsg_len_def usize_bytes_def
      split: pointer_width.splits)

text \<open>
  A message written into a buffer is what the iterator yields first, whatever follows it, and
  the iterator then stands right behind it; writing panics exactly when the buffer is shorter
  than \<open>space\<close> and changes nothing beyond it.
\<close>

theorem cmsg_write_then_next:
  assumes "cmsg_len t (length data) < 256 ^ usize_bytes t"
  shows "(case cmsg_write t buf level ty data of
      Inl e \<Rightarrow> e = Panicked \<and> length buf < space t (length data)
    | Inr (buf', used) \<Rightarrow> used = space t (length data) \<and> length buf' = length buf \<and>
        drop used buf' = drop used buf \<and>
        Iter_next t buf' = Ok (Some ((level, ty, data), drop used buf)))"
proof (cases "space t (length data) \<le> length buf")
  case True
  have "Iter_next t (cmsg_bytes t (level, ty, data) @ drop (space t (length data)) buf) =
      Ok (Some ((level, ty, data), drop (space t (length data)) buf))"
    using assms by (intro Iter_next_bytes) simp
  then show ?thesis
    using True by (simp add: cmsg_write_ok del: cmsg_bytes.simps)
next
  case False
  then show ?thesis
    by (simp add: cmsg_write_short)
qed

theorem cmsg_write_then_next_witness:
  "cmsg_len linux_x86_64 (length [1, 2, 3 :: byte]) < 256 ^ usize_bytes linux_x86_64 \<and>
   (\<exists>buf'. cmsg_write linux_x86_64 (replicate 64 0) 1 10 [1, 2, 3] = Ok (buf', 24) \<and>
      Iter_next linux_x86_64 buf' = Ok (Some ((1, 10, [1, 2, 3]), replicate 40 0)))"
proof -
  have s: "HDR_LEN linux_x86_64 = 16" "space linux_x86_64 (length [1, 2, 3 :: byte]) = 24"
    by (simp_all add: HDR_LEN_cases space_def align_round_up round_up_def)
  have h: "cmsg_len linux_x86_64 (length [1, 2, 3 :: byte]) < 256 ^ usize_bytes linux_x86_64"
    by (simp add: cmsg_len_def s)
  show ?thesis
    using cmsg_write_then_next[OF h, of "replicate 64 0" 1 10] h unfolding s
    by (auto split: sum.splits)
qed

text \<open>
  C27: iterating over messages written back to back yields exactly them, in order, and then
  continues with what follows in the buffer; it does not panic, whatever that is.
\<close>

theorem cmsg_iter_messages:
  assumes "\<forall>m \<in> set msgs. cmsg_fits t m"
  shows "\<exists>items. cmsg_iter t rest = Ok items \<and>
    cmsg_iter t (concat (map (cmsg_bytes t) msgs) @ rest) = Ok (msgs @ items)"
  using cmsg_iter_append[OF assms, of rest] cmsg_iter_chunks[of t rest] by auto

theorem cmsg_iter_messages_witness:
  "list_all (cmsg_fits linux_x86_64) [(1, 10, [1, 2, 3]), (2, 20, replicate 28 4)] \<and>
   cmsg_iter linux_x86_64
     (concat (map (cmsg_bytes linux_x86_64) [(1, 10, [1, 2, 3]), (2, 20, replicate 28 4)]) @ [])
     = Ok [(1, 10, [1, 2, 3]), (2, 20, replicate 28 4)]"
proof -
  have h: "\<forall>m \<in> set [(1, 10, [1, 2, 3]), (2, 20, replicate 28 4)]. cmsg_fits linux_x86_64 m"
    by (simp add: cmsg_len_def HDR_LEN_cases)
  have "cmsg_iter linux_x86_64 [] = Ok []"
    by (simp add: cmsg_iter_short HDR_LEN_cases)
  then show ?thesis
    using h cmsg_iter_messages[OF h, of "[]"] by (simp add: list_all_iff)
qed

text \<open>
  C28: whatever bytes the control buffer holds, walking it never panics and stops, and the items
  are cut out of the buffer one behind the other: the buffer is a sequence of pieces, one per
  item, and a rest that is not read, and each item's piece is a header that announces just that
  item's length, level and type, the payload itself, and less than a word of padding. So no payload
  reaches beyond the buffer or into another one.
\<close>

theorem cmsg_iter_within_buffer:
  "\<exists>items chunks rest. cmsg_iter t buf = Ok items \<and> buf = concat chunks @ rest \<and>
     list_all2 (cut_off t) chunks items \<and>
     (\<Sum>(level, ty, data) \<leftarrow> items. HDR_LEN t + length data) \<le> length buf"
proof -
  obtain items chunks rest where *: "cmsg_iter t buf = Ok items" "buf = concat chunks @ rest"
    "list_all2 (cut_off t) chunks items"
    using cmsg_iter_chunks by blast
  then have "(\<Sum>(level, ty, data) \<leftarrow> items. HDR_LEN t + length data) \<le> length buf"
    using cut_off_sum[OF *(3)] by simp
  with * show ?thesis
    by blast
qed

end
