(* ===== verification/Types.thy ===== *)
theory Types
  imports Cmsg
begin

text \<open>
  \<open>src/src/types.rs\<close>: the public types and their conversion to and from the kernel structures.
  Newtypes are one-constructor datatypes, structs are records, enums are datatypes. Two locales
  state what several of these types share: \<open>flag_set\<close> for the bit-flag newtypes and \<open>raw_enum\<close>
  for the enumerations decoded from a kernel integer with a catch-all.
\<close>

section \<open>Identifiers\<close>

datatype AssocId = AssocId (assoc_raw: i32)

definition FUTURE :: AssocId where
  "FUTURE = AssocId SCTP_FUTURE_ASSOC"

definition CURRENT :: AssocId where
  "CURRENT = AssocId SCTP_CURRENT_ASSOC"

definition ALL_ASSOC :: AssocId where
  "ALL_ASSOC = AssocId SCTP_ALL_ASSOC"

datatype Ppid = Ppid (ppid_raw: u32)

definition Ppid_UNSPECIFIED :: Ppid where
  "Ppid_UNSPECIFIED = Ppid 0"

definition Ppid_IUA :: Ppid where
  "Ppid_IUA = Ppid 1"

definition Ppid_M2UA :: Ppid where
  "Ppid_M2UA = Ppid 2"

definition Ppid_M3UA :: Ppid where
  "Ppid_M3UA = Ppid 3"

definition Ppid_SUA :: Ppid where
  "Ppid_SUA = Ppid 4"

definition Ppid_M2PA :: Ppid where
  "Ppid_M2PA = Ppid 5"

definition Ppid_S1AP :: Ppid where
  "Ppid_S1AP = Ppid 18"

definition Ppid_X2AP :: Ppid where
  "Ppid_X2AP = Ppid 27"

definition Ppid_DIAMETER :: Ppid where
  "Ppid_DIAMETER = Ppid 46"

definition Ppid_DIAMETER_DTLS :: Ppid where
  "Ppid_DIAMETER_DTLS = Ppid 47"

definition Ppid_NGAP :: Ppid where
  "Ppid_NGAP = Ppid 60"

definition Ppid_XNAP :: Ppid where
  "Ppid_XNAP = Ppid 61"

definition Ppid_F1AP :: Ppid where
  "Ppid_F1AP = Ppid 62"

definition Ppid_E1AP :: Ppid where
  "Ppid_E1AP = Ppid 64"

definition to_wire :: "target \<Rightarrow> Ppid \<Rightarrow> u32" where
  "to_wire t p = to_be t (ppid_raw p)"

definition from_wire :: "target \<Rightarrow> u32 \<Rightarrow> Ppid" where
  "from_wire t v = Ppid (from_be t v)"

section \<open>Socket construction parameters\<close>

datatype Family = Ipv4 | Ipv6

datatype Style = OneToOne | OneToMany

section \<open>Send and receive metadata\<close>

datatype SendFlags = SendFlags u16

definition SendFlags_NONE :: SendFlags where
  "SendFlags_NONE = SendFlags 0"

definition SendFlags_UNORDERED :: SendFlags where
  "SendFlags_UNORDERED = SendFlags SCTP_UNORDERED"

definition SendFlags_ADDR_OVER :: SendFlags where
  "SendFlags_ADDR_OVER = SendFlags SCTP_ADDR_OVER"

definition SendFlags_ABORT :: SendFlags where
  "SendFlags_ABORT = SendFlags SCTP_ABORT"

definition SendFlags_SACK_IMMEDIATELY :: SendFlags where
  "SendFlags_SACK_IMMEDIATELY = SendFlags SCTP_SACK_IMMEDIATELY"

definition SendFlags_EOF :: SendFlags where
  "SendFlags_EOF = SendFlags SCTP_EOF"

primrec SendFlags_bits :: "SendFlags \<Rightarrow> u16" where
  "SendFlags_bits (SendFlags b) = b"

definition SendFlags_from_bits :: "u16 \<Rightarrow> SendFlags" where
  "SendFlags_from_bits b = SendFlags b"

definition SendFlags_contains :: "SendFlags \<Rightarrow> SendFlags \<Rightarrow> bool" where
  "SendFlags_contains f g \<longleftrightarrow> SendFlags_bits f AND SendFlags_bits g = SendFlags_bits g"

definition SendFlags_bitor :: "SendFlags \<Rightarrow> SendFlags \<Rightarrow> SendFlags" where
  "SendFlags_bitor f g = SendFlags (SendFlags_bits f OR SendFlags_bits g)"

record SendInfo =
  si_sid :: u16
  si_ppid :: Ppid
  si_flags :: SendFlags
  si_context :: u32
  si_assoc_id :: AssocId

definition SendInfo_to_sys :: "target \<Rightarrow> SendInfo \<Rightarrow> sctp_sndinfo" where
  "SendInfo_to_sys t info =
     \<lparr>snd_sid = si_sid info,
      snd_flags = SendFlags_bits (si_flags info),
      snd_ppid = to_wire t (si_ppid info),
      snd_context = si_context info,
      snd_assoc_id = assoc_raw (si_assoc_id info)\<rparr>"

datatype RcvFlags = RcvFlags (rcv_bits: u16)

definition RcvFlags_unordered :: "RcvFlags \<Rightarrow> bool" where
  "RcvFlags_unordered f \<longleftrightarrow> rcv_bits f AND SCTP_UNORDERED \<noteq> 0"

record RcvInfo =
  ri_sid :: u16
  ri_ssn :: u16
  ri_flags :: RcvFlags
  ri_ppid :: Ppid
  ri_tsn :: u32
  ri_cumtsn :: u32
  ri_context :: u32
  ri_assoc_id :: AssocId

definition RcvInfo_from_sys :: "target \<Rightarrow> sctp_rcvinfo \<Rightarrow> RcvInfo" where
  "RcvInfo_from_sys t raw =
     \<lparr>ri_sid = rcv_sid raw,
      ri_ssn = rcv_ssn raw,
      ri_flags = RcvFlags (rcv_flags raw),
      ri_ppid = from_wire t (rcv_ppid raw),
      ri_tsn = rcv_tsn raw,
      ri_cumtsn = rcv_cumtsn raw,
      ri_context = rcv_context raw,
      ri_assoc_id = AssocId (rcv_assoc_id raw)\<rparr>"

section \<open>Socket and association parameters\<close>

record InitParams =
  ip_num_ostreams :: u16
  ip_max_instreams :: u16
  ip_max_attempts :: u16
  ip_max_init_timeo :: u16

definition InitParams_to_sys :: "InitParams \<Rightarrow> sctp_initmsg" where
  "InitParams_to_sys p =
     \<lparr>sinit_num_ostreams = ip_num_ostreams p,
      sinit_max_instreams = ip_max_instreams p,
      sinit_max_attempts = ip_max_attempts p,
      sinit_max_init_timeo = ip_max_init_timeo p\<rparr>"

definition InitParams_from_sys :: "sctp_initmsg \<Rightarrow> InitParams" where
  "InitParams_from_sys raw =
     \<lparr>ip_num_ostreams = sinit_num_ostreams raw,
      ip_max_instreams = sinit_max_instreams raw,
      ip_max_attempts = sinit_max_attempts raw,
      ip_max_init_timeo = sinit_max_init_timeo raw\<rparr>"

record RtoInfo =
  rto_initial :: u32
  rto_max :: u32
  rto_min :: u32

record AssocInfo =
  ai_asocmaxrxt :: u16
  ai_number_peer_destinations :: u16
  ai_peer_rwnd :: u32
  ai_local_rwnd :: u32
  ai_cookie_life :: u32

record SackInfo =
  sk_delay_ms :: u32
  sk_freq :: u32

record AssocStats =
  as_assoc_id :: AssocId
  as_retransmitted_chunks :: u64
  as_gap_acks :: u64
  as_out_of_sequence_tsns :: u64
  as_sacks_sent :: u64
  as_sacks_received :: u64
  as_control_chunks_sent :: u64
  as_control_chunks_received :: u64
  as_ordered_data_chunks_sent :: u64
  as_ordered_data_chunks_received :: u64
  as_unordered_data_chunks_sent :: u64
  as_unordered_data_chunks_received :: u64
  as_duplicate_chunks_received :: u64
  as_packets_sent :: u64
  as_packets_received :: u64
  as_max_rto_kernel_ticks :: u64
  as_max_rto_address :: "SocketAddr option"

definition AssocStats_from_sys :: "target \<Rightarrow> sctp_assoc_stats \<Rightarrow> AssocStats" where
  "AssocStats_from_sys t raw =
     \<lparr>as_assoc_id = AssocId (sas_assoc_id raw),
      as_retransmitted_chunks = sas_rtxchunks raw,
      as_gap_acks = sas_gapcnt raw,
      as_out_of_sequence_tsns = sas_outofseqtsns raw,
      as_sacks_sent = sas_osacks raw,
      as_sacks_received = sas_isacks raw,
      as_control_chunks_sent = sas_octrlchunks raw,
      as_control_chunks_received = sas_ictrlchunks raw,
      as_ordered_data_chunks_sent = sas_oodchunks raw,
      as_ordered_data_chunks_received = sas_iodchunks raw,
      as_unordered_data_chunks_sent = sas_ouodchunks raw,
      as_unordered_data_chunks_received = sas_iuodchunks raw,
      as_duplicate_chunks_received = sas_idupchunks raw,
      as_packets_sent = sas_opackets raw,
      as_packets_received = sas_ipackets raw,
      as_max_rto_kernel_ticks = sas_maxrto raw,
      as_max_rto_address = map_option fst (read_sockaddr t (storage_bytes (sas_obs_rto_ipaddr raw)))\<rparr>"

section \<open>Enumerations decoded from kernel integers\<close>

text \<open>
  The contract of a \<open>from_raw\<close> function: a table of the values the crate knows, and a catch-all
  constructor that keeps every other value.
\<close>

locale raw_enum =
  fixes from_raw :: "'w \<Rightarrow> 'e"
    and table :: "('w \<times> 'e) list"
    and unknown :: "'w \<Rightarrow> 'e"
  assumes from_raw_table:
      "from_raw v = (case map_of table v of Some e \<Rightarrow> e | None \<Rightarrow> unknown v)"
    and distinct_keys: "distinct (map fst table)"
    and distinct_vals: "distinct (map snd table)"
    and unknown_fresh: "unknown v \<notin> snd ` set table"
    and inj_unknown: "inj unknown"
begin

lemma from_raw_known: "(v, e) \<in> set table \<Longrightarrow> from_raw v = e"
  using from_raw_table distinct_keys by simp

lemma from_raw_unknown: "v \<notin> fst ` set table \<Longrightarrow> from_raw v = unknown v"
  using from_raw_table by (metis map_of_eq_None_iff option.case(1))

text \<open>Decoding loses nothing: different kernel values give different states.\<close>

lemma inj_from_raw: "inj from_raw"
proof (rule injI)
  fix v w
  assume eq: "from_raw v = from_raw w"
  show "v = w"
  proof (cases "map_of table v")
    case None
    then have v: "from_raw v = unknown v"
      by (simp add: from_raw_table)
    with eq have "map_of table w = None"
      using from_raw_table[of w] unknown_fresh[of v]
      by (cases "map_of table w") (auto dest!: map_of_SomeD intro: rev_image_eqI)
    with eq v show ?thesis
      using inj_unknown by (simp add: from_raw_table inj_eq)
  next
    case (Some e)
    then have ve: "(v, e) \<in> set table" "from_raw v = e"
      by (auto simp: from_raw_table dest: map_of_SomeD)
    with eq have "map_of table w = Some e"
      using from_raw_table[of w] unknown_fresh[of w]
      by (cases "map_of table w") (auto intro: rev_image_eqI)
    then have "(w, e) \<in> set table"
      by (rule map_of_SomeD)
    with ve(1) distinct_vals show ?thesis
      by (fastforce simp: distinct_map inj_on_def)
  qed
qed

lemma from_raw_unknown_iff: "from_raw v = unknown v \<longleftrightarrow> v \<notin> fst ` set table"
proof
  assume eq: "from_raw v = unknown v"
  show "v \<notin> fst ` set table"
  proof
    assume "v \<in> fst ` set table"
    then obtain e where "(v, e) \<in> set table" by auto
    then have "unknown v \<in> snd ` set table"
      using eq from_raw_known by force
    with unknown_fresh show False by blast
  qed
qed (rule from_raw_unknown)

end

datatype AssocState =
    Empty
  | Closed
  | CookieWait
  | CookieEchoed
  | Established
  | ShutdownPending
  | ShutdownSent
  | ShutdownReceived
  | ShutdownAckSent
  | AssocState_Unknown i32

definition AssocState_from_raw :: "i32 \<Rightarrow> AssocState" where
  "AssocState_from_raw v =
     (if v = SCTP_STATE_EMPTY then Empty
      else if v = SCTP_STATE_CLOSED then Closed
      else if v = SCTP_STATE_COOKIE_WAIT then CookieWait
      else if v = SCTP_STATE_COOKIE_ECHOED then CookieEchoed
      else if v = SCTP_STATE_ESTABLISHED then Established
      else if v = SCTP_STATE_SHUTDOWN_PENDING then ShutdownPending
      else if v = SCTP_STATE_SHUTDOWN_SENT then ShutdownSent
      else if v = SCTP_STATE_SHUTDOWN_RECEIVED then ShutdownReceived
      else if v = SCTP_STATE_SHUTDOWN_ACK_SENT then ShutdownAckSent
      else AssocState_Unknown v)"

definition AssocState_table :: "(i32 \<times> AssocState) list" where
  "AssocState_table =
     [(SCTP_STATE_EMPTY, Empty),
      (SCTP_STATE_CLOSED, Closed),
      (SCTP_STATE_COOKIE_WAIT, CookieWait),
      (SCTP_STATE_COOKIE_ECHOED, CookieEchoed),
      (SCTP_STATE_ESTABLISHED, Established),
      (SCTP_STATE_SHUTDOWN_PENDING, ShutdownPending),
      (SCTP_STATE_SHUTDOWN_SENT, ShutdownSent),
      (SCTP_STATE_SHUTDOWN_RECEIVED, ShutdownReceived),
      (SCTP_STATE_SHUTDOWN_ACK_SENT, ShutdownAckSent)]"

interpretation AssocState_enum: raw_enum AssocState_from_raw AssocState_table AssocState_Unknown
  by unfold_locales
    (auto simp: AssocState_from_raw_def AssocState_table_def sys_consts inj_def)

datatype PeerAddrState =
    Inactive
  | PathPotentiallyFailed
  | Active
  | Unconfirmed
  | PeerAddrState_Unknown i32

definition PeerAddrState_from_raw :: "i32 \<Rightarrow> PeerAddrState" where
  "PeerAddrState_from_raw v =
     (if v = SCTP_INACTIVE then Inactive
      else if v = SCTP_PF then PathPotentiallyFailed
      else if v = SCTP_ACTIVE then Active
      else if v = SCTP_UNCONFIRMED then Unconfirmed
      else PeerAddrState_Unknown v)"

definition PeerAddrState_table :: "(i32 \<times> PeerAddrState) list" where
  "PeerAddrState_table =
     [(SCTP_INACTIVE, Inactive),
      (SCTP_PF, PathPotentiallyFailed),
      (SCTP_ACTIVE, Active),
      (SCTP_UNCONFIRMED, Unconfirmed)]"

interpretation PeerAddrState_enum: raw_enum PeerAddrState_from_raw PeerAddrState_table PeerAddrState_Unknown
  by unfold_locales
    (auto simp: PeerAddrState_from_raw_def PeerAddrState_table_def sys_consts inj_def)

section \<open>Per-path information and association status\<close>

record PeerAddrInfo =
  pi_assoc_id :: AssocId
  pi_address :: "SocketAddr option"
  pi_state :: PeerAddrState
  pi_cwnd :: u32
  pi_srtt :: u32
  pi_rto :: u32
  pi_mtu :: u32

definition PeerAddrInfo_from_sys :: "target \<Rightarrow> sctp_paddrinfo \<Rightarrow> PeerAddrInfo" where
  "PeerAddrInfo_from_sys t raw =
     \<lparr>pi_assoc_id = AssocId (spinfo_assoc_id raw),
      pi_address = map_option fst (read_sockaddr t (storage_bytes (spinfo_address raw))),
      pi_state = PeerAddrState_from_raw (spinfo_state raw),
      pi_cwnd = spinfo_cwnd raw,
      pi_srtt = spinfo_srtt raw,
      pi_rto = spinfo_rto raw,
      pi_mtu = spinfo_mtu raw\<rparr>"

datatype SppFlags = SppFlags u32

definition SppFlags_NONE :: SppFlags where
  "SppFlags_NONE = SppFlags 0"

definition SppFlags_HB_ENABLE :: SppFlags where
  "SppFlags_HB_ENABLE = SppFlags SPP_HB_ENABLE"

definition SppFlags_HB_DISABLE :: SppFlags where
  "SppFlags_HB_DISABLE = SppFlags SPP_HB_DISABLE"

definition SppFlags_HB_DEMAND :: SppFlags where
  "SppFlags_HB_DEMAND = SppFlags SPP_HB_DEMAND"

definition SppFlags_PMTUD_ENABLE :: SppFlags where
  "SppFlags_PMTUD_ENABLE = SppFlags SPP_PMTUD_ENABLE"

definition SppFlags_PMTUD_DISABLE :: SppFlags where
  "SppFlags_PMTUD_DISABLE = SppFlags SPP_PMTUD_DISABLE"

definition SppFlags_SACKDELAY_ENABLE :: SppFlags where
  "SppFlags_SACKDELAY_ENABLE = SppFlags SPP_SACKDELAY_ENABLE"

definition SppFlags_SACKDELAY_DISABLE :: SppFlags where
  "SppFlags_SACKDELAY_DISABLE = SppFlags SPP_SACKDELAY_DISABLE"

definition SppFlags_HB_TIME_IS_ZERO :: SppFlags where
  "SppFlags_HB_TIME_IS_ZERO = SppFlags SPP_HB_TIME_IS_ZERO"

definition SppFlags_IPV6_FLOWLABEL :: SppFlags where
  "SppFlags_IPV6_FLOWLABEL = SppFlags SPP_IPV6_FLOWLABEL"

definition SppFlags_DSCP :: SppFlags where
  "SppFlags_DSCP = SppFlags SPP_DSCP"

primrec SppFlags_bits :: "SppFlags \<Rightarrow> u32" where
  "SppFlags_bits (SppFlags b) = b"

definition SppFlags_from_bits :: "u32 \<Rightarrow> SppFlags" where
  "SppFlags_from_bits b = SppFlags b"

definition SppFlags_contains :: "SppFlags \<Rightarrow> SppFlags \<Rightarrow> bool" where
  "SppFlags_contains f g \<longleftrightarrow> SppFlags_bits f AND SppFlags_bits g = SppFlags_bits g"

definition SppFlags_bitor :: "SppFlags \<Rightarrow> SppFlags \<Rightarrow> SppFlags" where
  "SppFlags_bitor f g = SppFlags (SppFlags_bits f OR SppFlags_bits g)"

record PeerAddrParams =
  pp_hb_interval :: u32
  pp_path_max_rxt :: u16
  pp_path_mtu :: u32
  pp_sack_delay :: u32
  pp_flags :: SppFlags
  pp_ipv6_flowlabel :: u32
  pp_dscp :: byte

definition PeerAddrParams_from_sys :: "sctp_paddrparams \<Rightarrow> PeerAddrParams" where
  "PeerAddrParams_from_sys raw =
     \<lparr>pp_hb_interval = spp_hbinterval raw,
      pp_path_max_rxt = spp_pathmaxrxt raw,
      pp_path_mtu = spp_pathmtu raw,
      pp_sack_delay = spp_sackdelay raw,
      pp_flags = SppFlags (spp_flags raw),
      pp_ipv6_flowlabel = spp_ipv6_flowlabel raw,
      pp_dscp = spp_dscp raw\<rparr>"

record AssocStatus =
  st_assoc_id :: AssocId
  st_state :: AssocState
  st_rwnd :: u32
  st_unackdata :: u16
  st_penddata :: u16
  st_instrms :: u16
  st_outstrms :: u16
  st_fragmentation_point :: u32
  st_primary :: PeerAddrInfo

definition AssocStatus_from_sys :: "target \<Rightarrow> sctp_status \<Rightarrow> AssocStatus" where
  "AssocStatus_from_sys t raw =
     \<lparr>st_assoc_id = AssocId (sstat_assoc_id raw),
      st_state = AssocState_from_raw (sstat_state raw),
      st_rwnd = sstat_rwnd raw,
      st_unackdata = sstat_unackdata raw,
      st_penddata = sstat_penddata raw,
      st_instrms = sstat_instrms raw,
      st_outstrms = sstat_outstrms raw,
      st_fragmentation_point = sstat_fragmentation_point raw,
      st_primary = PeerAddrInfo_from_sys t (sstat_primary raw)\<rparr>"

section \<open>Event subscription\<close>

datatype EventType =
    Ev_AssocChange
  | Ev_PeerAddrChange
  | Ev_SendFailed
  | Ev_RemoteError
  | Ev_Shutdown
  | Ev_PartialDelivery
  | Ev_AdaptationIndication
  | Ev_Authentication
  | Ev_SenderDry
  | Ev_StreamReset
  | Ev_AssocReset
  | Ev_StreamChange
  | Ev_SendFailedEvent

primrec EventType_to_raw :: "EventType \<Rightarrow> u16" where
  "EventType_to_raw Ev_AssocChange = SCTP_ASSOC_CHANGE"
| "EventType_to_raw Ev_PeerAddrChange = SCTP_PEER_ADDR_CHANGE"
| "EventType_to_raw Ev_SendFailed = SCTP_SEND_FAILED"
| "EventType_to_raw Ev_RemoteError = SCTP_REMOTE_ERROR"
| "EventType_to_raw Ev_Shutdown = SCTP_SHUTDOWN_EVENT"
| "EventType_to_raw Ev_PartialDelivery = SCTP_PARTIAL_DELIVERY_EVENT"
| "EventType_to_raw Ev_AdaptationIndication = SCTP_ADAPTATION_INDICATION"
| "EventType_to_raw Ev_Authentication = SCTP_AUTHENTICATION_EVENT"
| "EventType_to_raw Ev_SenderDry = SCTP_SENDER_DRY_EVENT"
| "EventType_to_raw Ev_StreamReset = SCTP_STREAM_RESET_EVENT"
| "EventType_to_raw Ev_AssocReset = SCTP_ASSOC_RESET_EVENT"
| "EventType_to_raw Ev_StreamChange = SCTP_STREAM_CHANGE_EVENT"
| "EventType_to_raw Ev_SendFailedEvent = SCTP_SEND_FAILED_EVENT"

lemma EventType_to_raw_inj: "EventType_to_raw a = EventType_to_raw b \<longleftrightarrow> a = b"
  by (cases a; cases b) (simp_all add: sys_consts)

section \<open>Bit flags\<close>

text \<open>The interface of the bit-flag newtypes.\<close>

locale flag_set =
  fixes bits :: "'f \<Rightarrow> 'a::len word"
    and from_bits :: "'a word \<Rightarrow> 'f"
    and contains :: "'f \<Rightarrow> 'f \<Rightarrow> bool"
    and bitor :: "'f \<Rightarrow> 'f \<Rightarrow> 'f"
  assumes bits_from_bits: "bits (from_bits b) = b"
    and from_bits_bits: "from_bits (bits f) = f"
    and contains_bits: "contains f g \<longleftrightarrow> bits f AND bits g = bits g"
    and bits_bitor: "bits (bitor f g) = bits f OR bits g"
begin

lemma bits_inject: "bits f = bits g \<longleftrightarrow> f = g"
  using from_bits_bits by metis

lemma contains_iff: "contains f g \<longleftrightarrow> (\<forall>i. bit (bits g) i \<longrightarrow> bit (bits f) i)"
  unfolding contains_bits by (auto simp: bit_eq_iff bit_simps dest: bit_imp_le_length)

lemma contains_refl: "contains f f"
  by (simp add: contains_iff)

lemma contains_trans: "contains f g \<Longrightarrow> contains g h \<Longrightarrow> contains f h"
  by (auto simp: contains_iff)

lemma contains_antisym: "contains f g \<Longrightarrow> contains g f \<Longrightarrow> f = g"
  by (auto simp: contains_iff bits_inject[symmetric] bit_eq_iff)

lemma contains_bitor_iff: "contains h (bitor f g) \<longleftrightarrow> contains h f \<and> contains h g"
  by (auto simp: contains_iff bits_bitor bit_simps)

lemma bitor_contains: "contains (bitor f g) f" "contains (bitor f g) g"
  using contains_bitor_iff[of "bitor f g" f g] contains_refl by auto

end

interpretation send_flags: flag_set SendFlags_bits SendFlags_from_bits SendFlags_contains
  SendFlags_bitor
proof
  show "SendFlags_from_bits (SendFlags_bits f) = f" for f
    by (cases f) (simp add: SendFlags_from_bits_def)
qed (simp_all add: SendFlags_from_bits_def SendFlags_contains_def SendFlags_bitor_def)

interpretation spp_flags: flag_set SppFlags_bits SppFlags_from_bits SppFlags_contains
  SppFlags_bitor
proof
  show "SppFlags_from_bits (SppFlags_bits f) = f" for f
    by (cases f) (simp add: SppFlags_from_bits_def)
qed (simp_all add: SppFlags_from_bits_def SppFlags_contains_def SppFlags_bitor_def)

section \<open>Marshalling\<close>

lemma from_wire_to_wire [simp]: "from_wire t (to_wire t p) = p"
  by (simp add: from_wire_def to_wire_def)

lemma to_wire_from_wire [simp]: "to_wire t (from_wire t v) = v"
  by (simp add: from_wire_def to_wire_def)

text \<open>The 16 bytes of the \<open>SCTP_SNDINFO\<close> payload, obtained by transmuting the structure.\<close>

definition sndinfo_bytes :: "target \<Rightarrow> SendInfo \<Rightarrow> byte list" where
  "sndinfo_bytes t info = struct_bytes t False (sctp_sndinfo_fields t (SendInfo_to_sys t info))"

lemma sndinfo_bytes_eq:
  "sndinfo_bytes t info =
     to_ne_bytes t (si_sid info) @ to_ne_bytes t (SendFlags_bits (si_flags info)) @
     to_be_bytes (ppid_raw (si_ppid info)) @ to_ne_bytes t (si_context info) @
     to_ne_bytes t (assoc_raw (si_assoc_id info))"
  by (simp add: sndinfo_bytes_def sctp_sndinfo_fields_def SendInfo_to_sys_def struct_bytes_def
      layout_simps to_wire_def to_ne_bytes_to_be flip: numeral_2_eq_2)

lemma length_sndinfo_bytes [simp]: "length (sndinfo_bytes t info) = 16"
  by (simp add: sndinfo_bytes_eq)

section \<open>Properties\<close>

text \<open>
  The control payload of a send is 16 bytes with the payload protocol identifier in network
  byte order at offset 4, whatever the byte order of the target; the kernel's view of those bytes
  is the structure the caller's parameters convert to.
\<close>

theorem sndinfo_wire_form:
  "length (sndinfo_bytes t info) = 16 \<and>
   take 4 (drop 4 (sndinfo_bytes t info)) = to_be_bytes (ppid_raw (si_ppid info)) \<and>
   sctp_sndinfo_of_bytes t (sndinfo_bytes t info) = SendInfo_to_sys t info"
proof -
  have "sctp_sndinfo_of_bytes t (sndinfo_bytes t info) = SendInfo_to_sys t info"
    unfolding sndinfo_bytes_def
    by (rule sctp_sndinfo_cs.of_to_bytes_exact) (simp add: sctp_sndinfo_ok_def)
  then show ?thesis
    by (simp add: sndinfo_bytes_eq)
qed

text \<open>
  The send flags form a lattice of bit sets: \<open>contains\<close> is a partial order and \<open>|\<close> is its
  least upper bound, so a combination contains exactly what both its parts contain together.
\<close>

theorem send_flags_lattice:
  "reflp SendFlags_contains \<and> transp SendFlags_contains \<and> antisymp SendFlags_contains \<and>
   (SendFlags_contains h (SendFlags_bitor f g) \<longleftrightarrow>
      SendFlags_contains h f \<and> SendFlags_contains h g) \<and>
   SendFlags_contains (SendFlags_bitor f g) f \<and> SendFlags_contains (SendFlags_bitor f g) g"
  using send_flags.contains_bitor_iff send_flags.bitor_contains
  by (auto intro!: reflpI transpI antisympI send_flags.contains_refl
      intro: send_flags.contains_trans send_flags.contains_antisym)

text \<open>
  Decoding an association state or a path state loses nothing: distinct kernel values give
  distinct states, and a value outside the known range is kept verbatim. In the other direction
  the event types have distinct kernel numbers, so subscribing to one never selects another.
\<close>

theorem states_decoded_injectively:
  "inj AssocState_from_raw \<and> inj PeerAddrState_from_raw \<and>
   (AssocState_from_raw v = AssocState_Unknown v \<longleftrightarrow> v \<notin> fst ` set AssocState_table) \<and>
   (PeerAddrState_from_raw v = PeerAddrState_Unknown v \<longleftrightarrow> v \<notin> fst ` set PeerAddrState_table) \<and>
   inj EventType_to_raw"
  using AssocState_enum.inj_from_raw PeerAddrState_enum.inj_from_raw
    AssocState_enum.from_raw_unknown_iff PeerAddrState_enum.from_raw_unknown_iff
    injI[of EventType_to_raw, OF iffD1[OF EventType_to_raw_inj]] by blast

end
