(* ===== verification/Notification.thy ===== *)
theory Notification
  imports Types
begin

text \<open>
  \<open>src/src/notification.rs\<close>: the notification types and the parser for the payload of a receive
  that had \<open>MSG_NOTIFICATION\<close> set. The parser reads fields at explicit offsets and turns every
  out-of-range read into an error. On the specification side, \<open>kernel_event\<close> and \<open>event_bytes\<close>
  describe what the kernel puts in the buffer for each event, built from the structures of
  \<open>sys.rs\<close>; the main results are that the parser inverts it and that it fails exactly on buffers
  shorter than the event's fixed part.
\<close>

section \<open>Notification types\<close>

datatype AssocChangeState =
    CommUp
  | CommLost
  | Restart
  | ShutdownComplete
  | CantStartAssoc
  | AssocChangeState_Unknown u16

definition AssocChangeState_from_raw :: "u16 \<Rightarrow> AssocChangeState" where
  "AssocChangeState_from_raw v =
     (if v = SCTP_COMM_UP then CommUp
      else if v = SCTP_COMM_LOST then CommLost
      else if v = SCTP_RESTART then Restart
      else if v = SCTP_SHUTDOWN_COMP then ShutdownComplete
      else if v = SCTP_CANT_STR_ASSOC then CantStartAssoc
      else AssocChangeState_Unknown v)"

definition AssocChangeState_table :: "(u16 \<times> AssocChangeState) list" where
  "AssocChangeState_table =
     [(SCTP_COMM_UP, CommUp),
      (SCTP_COMM_LOST, CommLost),
      (SCTP_RESTART, Restart),
      (SCTP_SHUTDOWN_COMP, ShutdownComplete),
      (SCTP_CANT_STR_ASSOC, CantStartAssoc)]"

interpretation AssocChangeState_enum: raw_enum AssocChangeState_from_raw AssocChangeState_table AssocChangeState_Unknown
  by unfold_locales
    (auto simp: AssocChangeState_from_raw_def AssocChangeState_table_def sys_consts inj_def)

record AssocChange =
  ac_state :: AssocChangeState
  ac_error :: u16
  ac_outbound_streams :: u16
  ac_inbound_streams :: u16
  ac_assoc_id :: AssocId
  ac_info :: "byte list"

datatype PeerAddrChangeState =
    Available
  | Unreachable
  | Removed
  | Added
  | MadePrimary
  | Confirmed
  | PotentiallyFailed
  | PeerAddrChangeState_Unknown i32

definition PeerAddrChangeState_from_raw :: "i32 \<Rightarrow> PeerAddrChangeState" where
  "PeerAddrChangeState_from_raw v =
     (if v = SCTP_ADDR_AVAILABLE then Available
      else if v = SCTP_ADDR_UNREACHABLE then Unreachable
      else if v = SCTP_ADDR_REMOVED then Removed
      else if v = SCTP_ADDR_ADDED then Added
      else if v = SCTP_ADDR_MADE_PRIM then MadePrimary
      else if v = SCTP_ADDR_CONFIRMED then Confirmed
      else if v = SCTP_ADDR_POTENTIALLY_FAILED then PotentiallyFailed
      else PeerAddrChangeState_Unknown v)"

definition PeerAddrChangeState_table :: "(i32 \<times> PeerAddrChangeState) list" where
  "PeerAddrChangeState_table =
     [(SCTP_ADDR_AVAILABLE, Available),
      (SCTP_ADDR_UNREACHABLE, Unreachable),
      (SCTP_ADDR_REMOVED, Removed),
      (SCTP_ADDR_ADDED, Added),
      (SCTP_ADDR_MADE_PRIM, MadePrimary),
      (SCTP_ADDR_CONFIRMED, Confirmed),
      (SCTP_ADDR_POTENTIALLY_FAILED, PotentiallyFailed)]"

interpretation PeerAddrChangeState_enum: raw_enum PeerAddrChangeState_from_raw PeerAddrChangeState_table PeerAddrChangeState_Unknown
  by unfold_locales
    (auto simp: PeerAddrChangeState_from_raw_def PeerAddrChangeState_table_def sys_consts inj_def)

record PeerAddrChange =
  pc_address :: "SocketAddr option"
  pc_state :: PeerAddrChangeState
  pc_error :: i32
  pc_assoc_id :: AssocId

record RemoteError =
  re_error :: u16
  re_assoc_id :: AssocId
  re_data :: "byte list"

record SendFailed =
  sf_unsent :: bool
  sf_error :: u32
  sf_sid :: u16
  sf_ppid :: Ppid
  sf_context :: u32
  sf_assoc_id :: AssocId
  sf_payload :: "byte list"

record ShutdownEvent =
  se_event_assoc_id :: AssocId

record PartialDeliveryEvent =
  pd_indication :: u32
  pd_assoc_id :: AssocId
  pd_stream :: u32
  pd_seq :: u32

record AdaptationIndication =
  ad_indication :: u32
  ad_assoc_id :: AssocId

record AuthenticationEvent =
  au_key_number :: u16
  au_alt_key_number :: u16
  au_indication :: u32
  au_assoc_id :: AssocId

record SenderDryEvent =
  sd_assoc_id :: AssocId

record StreamResetEvent =
  sr_flags :: u16
  sr_assoc_id :: AssocId
  sr_streams :: "u16 list"

record AssocResetEvent =
  ar_flags :: u16
  ar_assoc_id :: AssocId
  ar_local_tsn :: u32
  ar_remote_tsn :: u32

record StreamChangeEvent =
  sc_flags :: u16
  sc_assoc_id :: AssocId
  sc_instrms :: u16
  sc_outstrms :: u16

record RawNotification =
  rn_sn_type :: u16
  rn_sn_flags :: u16
  rn_data :: "byte list"

datatype Notification =
    N_AssocChange AssocChange
  | N_PeerAddrChange PeerAddrChange
  | N_RemoteError RemoteError
  | N_SendFailed SendFailed
  | N_Shutdown ShutdownEvent
  | N_PartialDelivery PartialDeliveryEvent
  | N_AdaptationIndication AdaptationIndication
  | N_Authentication AuthenticationEvent
  | N_SenderDry SenderDryEvent
  | N_StreamReset StreamResetEvent
  | N_AssocReset AssocResetEvent
  | N_StreamChange StreamChangeEvent
  | N_Unknown RawNotification

text \<open>One received item (\<open>RecvMsg\<close> of \<open>types.rs\<close>): \<open>Data len info eor\<close> or a notification.\<close>

datatype RecvMsg =
    Data nat "RcvInfo option" bool
  | RecvNotification Notification

section \<open>Parser\<close>

definition err :: "string \<Rightarrow> io_error" where
  "err msg = Custom InvalidData (''sctp notification: '' @ msg)"

definition u16_at :: "target \<Rightarrow> byte list \<Rightarrow> nat \<Rightarrow> u16 io_result" where
  "u16_at t buf off =
     ok_or (map_option (from_ne_bytes t) (get_range buf off 2)) (err ''truncated'')"

definition u32_at :: "target \<Rightarrow> byte list \<Rightarrow> nat \<Rightarrow> u32 io_result" where
  "u32_at t buf off =
     ok_or (map_option (from_ne_bytes t) (get_range buf off 4)) (err ''truncated'')"

text \<open>The cast \<open>u32 as i32\<close> keeps the bits; both types are 32-bit words here.\<close>

definition i32_at :: "target \<Rightarrow> byte list \<Rightarrow> nat \<Rightarrow> i32 io_result" where
  "i32_at t buf off = try_bind (u32_at t buf off) (\<lambda>v. Ok v)"

definition assoc_at :: "target \<Rightarrow> byte list \<Rightarrow> nat \<Rightarrow> AssocId io_result" where
  "assoc_at t buf off = try_bind (i32_at t buf off) (\<lambda>v. Ok (AssocId v))"

definition tail :: "byte list \<Rightarrow> nat \<Rightarrow> byte list" where
  "tail buf off = (if off \<le> length buf then drop off buf else [])"

function stream_loop :: "target \<Rightarrow> byte list \<Rightarrow> nat \<Rightarrow> u16 list \<Rightarrow> u16 list io_result" where
  "stream_loop t buf off streams =
     (if off + 2 \<le> length buf
      then try_bind (u16_at t buf off) (\<lambda>v. stream_loop t buf (off + 2) (streams @ [v]))
      else Ok streams)"
  by pat_completeness auto
termination
  by (relation "measure (\<lambda>(t, buf, off, streams). length buf - off)") auto

declare stream_loop.simps [simp del]

text \<open>The \<open>match\<close> on the notification type, once the header has been read.\<close>

definition parse_body :: "target \<Rightarrow> byte list \<Rightarrow> u16 \<Rightarrow> u16 \<Rightarrow> Notification io_result" where
  "parse_body t buf sn_type sn_flags =
    (if sn_type = SCTP_ASSOC_CHANGE then
       try_bind (u16_at t buf 8) (\<lambda>state.
       try_bind (u16_at t buf 10) (\<lambda>error.
       try_bind (u16_at t buf 12) (\<lambda>outbound.
       try_bind (u16_at t buf 14) (\<lambda>inbound.
       try_bind (assoc_at t buf 16) (\<lambda>assoc_id.
       Ok (N_AssocChange
         \<lparr>ac_state = AssocChangeState_from_raw state, ac_error = error,
          ac_outbound_streams = outbound, ac_inbound_streams = inbound,
          ac_assoc_id = assoc_id, ac_info = tail buf 20\<rparr>))))))
     else if sn_type = SCTP_PEER_ADDR_CHANGE then
       try_bind (ok_or (get_range buf 8 128) (err ''truncated paddr_change'')) (\<lambda>addr_bytes.
       try_bind (i32_at t buf 136) (\<lambda>state.
       try_bind (i32_at t buf 140) (\<lambda>error.
       try_bind (assoc_at t buf 144) (\<lambda>assoc_id.
       Ok (N_PeerAddrChange
         \<lparr>pc_address = map_option fst (read_sockaddr t addr_bytes),
          pc_state = PeerAddrChangeState_from_raw state, pc_error = error,
          pc_assoc_id = assoc_id\<rparr>)))))
     else if sn_type = SCTP_REMOTE_ERROR then
       try_bind (u16_at t buf 8) (\<lambda>error.
       try_bind (assoc_at t buf 12) (\<lambda>assoc_id.
       Ok (N_RemoteError
         \<lparr>re_error = from_be t error, re_assoc_id = assoc_id, re_data = tail buf 16\<rparr>)))
     else if sn_type = SCTP_SEND_FAILED then
       try_bind (u32_at t buf 8) (\<lambda>error.
       try_bind (u16_at t buf 12) (\<lambda>sid.
       try_bind (u32_at t buf 20) (\<lambda>ppid.
       try_bind (u32_at t buf 24) (\<lambda>context.
       try_bind (assoc_at t buf 44) (\<lambda>assoc_id.
       Ok (N_SendFailed
         \<lparr>sf_unsent = (sn_flags = SCTP_DATA_UNSENT), sf_error = error, sf_sid = sid,
          sf_ppid = from_wire t ppid, sf_context = context, sf_assoc_id = assoc_id,
          sf_payload = tail buf 48\<rparr>))))))
     else if sn_type = SCTP_SEND_FAILED_EVENT then
       try_bind (u32_at t buf 8) (\<lambda>error.
       try_bind (u16_at t buf 12) (\<lambda>sid.
       try_bind (u32_at t buf 16) (\<lambda>ppid.
       try_bind (u32_at t buf 20) (\<lambda>context.
       try_bind (assoc_at t buf 28) (\<lambda>assoc_id.
       Ok (N_SendFailed
         \<lparr>sf_unsent = (sn_flags = SCTP_DATA_UNSENT), sf_error = error, sf_sid = sid,
          sf_ppid = from_wire t ppid, sf_context = context, sf_assoc_id = assoc_id,
          sf_payload = tail buf 32\<rparr>))))))
     else if sn_type = SCTP_SHUTDOWN_EVENT then
       try_bind (assoc_at t buf 8) (\<lambda>assoc_id.
       Ok (N_Shutdown \<lparr>se_event_assoc_id = assoc_id\<rparr>))
     else if sn_type = SCTP_PARTIAL_DELIVERY_EVENT then
       try_bind (u32_at t buf 8) (\<lambda>indication.
       try_bind (assoc_at t buf 12) (\<lambda>assoc_id.
       try_bind (u32_at t buf 16) (\<lambda>stream.
       try_bind (u32_at t buf 20) (\<lambda>seq.
       Ok (N_PartialDelivery
         \<lparr>pd_indication = indication, pd_assoc_id = assoc_id, pd_stream = stream,
          pd_seq = seq\<rparr>)))))
     else if sn_type = SCTP_ADAPTATION_INDICATION then
       try_bind (u32_at t buf 8) (\<lambda>indication.
       try_bind (assoc_at t buf 12) (\<lambda>assoc_id.
       Ok (N_AdaptationIndication \<lparr>ad_indication = indication, ad_assoc_id = assoc_id\<rparr>)))
     else if sn_type = SCTP_AUTHENTICATION_EVENT then
       try_bind (u16_at t buf 8) (\<lambda>key_number.
       try_bind (u16_at t buf 10) (\<lambda>alt_key_number.
       try_bind (u32_at t buf 12) (\<lambda>indication.
       try_bind (assoc_at t buf 16) (\<lambda>assoc_id.
       Ok (N_Authentication
         \<lparr>au_key_number = key_number, au_alt_key_number = alt_key_number,
          au_indication = indication, au_assoc_id = assoc_id\<rparr>)))))
     else if sn_type = SCTP_SENDER_DRY_EVENT then
       try_bind (assoc_at t buf 8) (\<lambda>assoc_id.
       Ok (N_SenderDry \<lparr>sd_assoc_id = assoc_id\<rparr>))
     else if sn_type = SCTP_STREAM_RESET_EVENT then
       try_bind (stream_loop t buf 12 []) (\<lambda>streams.
       try_bind (assoc_at t buf 8) (\<lambda>assoc_id.
       Ok (N_StreamReset
         \<lparr>sr_flags = sn_flags, sr_assoc_id = assoc_id, sr_streams = streams\<rparr>)))
     else if sn_type = SCTP_ASSOC_RESET_EVENT then
       try_bind (assoc_at t buf 8) (\<lambda>assoc_id.
       try_bind (u32_at t buf 12) (\<lambda>local_tsn.
       try_bind (u32_at t buf 16) (\<lambda>remote_tsn.
       Ok (N_AssocReset
         \<lparr>ar_flags = sn_flags, ar_assoc_id = assoc_id, ar_local_tsn = local_tsn,
          ar_remote_tsn = remote_tsn\<rparr>))))
     else if sn_type = SCTP_STREAM_CHANGE_EVENT then
       try_bind (assoc_at t buf 8) (\<lambda>assoc_id.
       try_bind (u16_at t buf 12) (\<lambda>instrms.
       try_bind (u16_at t buf 14) (\<lambda>outstrms.
       Ok (N_StreamChange
         \<lparr>sc_flags = sn_flags, sc_assoc_id = assoc_id, sc_instrms = instrms,
          sc_outstrms = outstrms\<rparr>))))
     else
       Ok (N_Unknown \<lparr>rn_sn_type = sn_type, rn_sn_flags = sn_flags, rn_data = buf\<rparr>))"

definition parse :: "target \<Rightarrow> byte list \<Rightarrow> Notification io_result" where
  "parse t buf =
     try_bind (u16_at t buf 0) (\<lambda>sn_type.
     try_bind (u16_at t buf 2) (\<lambda>sn_flags.
     parse_body t buf sn_type sn_flags))"

section \<open>Reads as conditionals\<close>

text \<open>\<open>rd16\<close> and \<open>rd32\<close> are the values a successful read returns.\<close>

definition rd16 :: "target \<Rightarrow> byte list \<Rightarrow> nat \<Rightarrow> u16" where
  "rd16 t buf off = from_ne_bytes t (take 2 (drop off buf))"

definition rd32 :: "target \<Rightarrow> byte list \<Rightarrow> nat \<Rightarrow> u32" where
  "rd32 t buf off = from_ne_bytes t (take 4 (drop off buf))"

lemma u16_at_if:
  "u16_at t buf off = (if off + 2 \<le> length buf then Ok (rd16 t buf off) else Err (err ''truncated''))"
  by (simp add: u16_at_def get_range_def rd16_def)

lemma u32_at_if:
  "u32_at t buf off = (if off + 4 \<le> length buf then Ok (rd32 t buf off) else Err (err ''truncated''))"
  by (simp add: u32_at_def get_range_def rd32_def)

lemma i32_at_if:
  "i32_at t buf off = (if off + 4 \<le> length buf then Ok (rd32 t buf off) else Err (err ''truncated''))"
  by (simp add: i32_at_def u32_at_if)

lemma assoc_at_if:
  "assoc_at t buf off =
     (if off + 4 \<le> length buf then Ok (AssocId (rd32 t buf off)) else Err (err ''truncated''))"
  by (simp add: assoc_at_def i32_at_if)

lemma try_bind_if:
  "try_bind (if b then Inr x else Inl e) f = (if b then f x else Inl e)"
  by simp

lemmas read_ifs = u16_at_if u32_at_if i32_at_if assoc_at_if try_bind_if

lemma stream_loop_ok:
  "\<exists>ws. stream_loop t buf off streams = Ok (streams @ ws) \<and> length ws = (length buf - off) div 2"
proof (induction t buf off streams rule: stream_loop.induct)
  case (1 t buf off streams)
  show ?case
  proof (cases "off + 2 \<le> length buf")
    case True
    then obtain ws where "stream_loop t buf (off + 2) (streams @ [rd16 t buf off]) =
        Ok (streams @ [rd16 t buf off] @ ws)" "length ws = (length buf - (off + 2)) div 2"
      using "1.IH"[of "rd16 t buf off"] by (auto simp: u16_at_if)
    moreover have "(length buf - off) div 2 = Suc ((length buf - (off + 2)) div 2)"
      using True by (simp add: div_if[of "length buf - off" 2])
    ultimately show ?thesis
      using True by (subst stream_loop.simps) (auto simp: u16_at_if)
  next
    case False
    then show ?thesis
      by (subst stream_loop.simps) auto
  qed
qed

lemma stream_loop_decode:
  assumes "length pre = off"
  shows "stream_loop t (pre @ concat (map (to_ne_bytes t) ws)) off streams = Ok (streams @ ws)"
  using assms
proof (induction ws arbitrary: pre off streams)
  case Nil
  then show ?case by (subst stream_loop.simps) simp
next
  case (Cons w ws)
  let ?buf = "pre @ to_ne_bytes t w @ concat (map (to_ne_bytes t) ws)"
  have "u16_at t ?buf off = Ok w"
    using Cons.prems by (simp add: u16_at_if rd16_def from_to_ne_bytes)
  moreover have "stream_loop t ((pre @ to_ne_bytes t w) @ concat (map (to_ne_bytes t) ws)) (off + 2)
      (streams @ [w]) = Ok ((streams @ [w]) @ ws)"
    using Cons.prems by (intro Cons.IH) simp
  ultimately show ?case
    using Cons.prems by (subst stream_loop.simps) simp
qed

section \<open>What the parser accepts\<close>

text \<open>The length of the fixed part of each notification structure.\<close>

definition min_len :: "u16 \<Rightarrow> nat" where
  "min_len ty =
     (if ty = SCTP_ASSOC_CHANGE then 20
      else if ty = SCTP_PEER_ADDR_CHANGE then 148
      else if ty = SCTP_REMOTE_ERROR then 16
      else if ty = SCTP_SEND_FAILED then 48
      else if ty = SCTP_SEND_FAILED_EVENT then 32
      else if ty = SCTP_SHUTDOWN_EVENT then 12
      else if ty = SCTP_PARTIAL_DELIVERY_EVENT then 24
      else if ty = SCTP_ADAPTATION_INDICATION then 16
      else if ty = SCTP_AUTHENTICATION_EVENT then 20
      else if ty = SCTP_SENDER_DRY_EVENT then 12
      else if ty = SCTP_STREAM_RESET_EVENT then 12
      else if ty = SCTP_ASSOC_RESET_EVENT then 20
      else if ty = SCTP_STREAM_CHANGE_EVENT then 16
      else 4)"

lemma parse_short:
  "length buf < 4 \<Longrightarrow> parse t buf = Err (err ''truncated'')"
  by (simp add: parse_def read_ifs)

lemma parse_header:
  "4 \<le> length buf \<Longrightarrow> parse t buf = parse_body t buf (rd16 t buf 0) (rd16 t buf 2)"
  by (simp add: parse_def read_ifs)

text \<open>One equation per branch of the \<open>match\<close>: what is returned, and from which length on.\<close>

lemma parse_assoc_change:
  "parse_body t buf SCTP_ASSOC_CHANGE fl =
     (if 20 \<le> length buf then
        Ok (N_AssocChange
          \<lparr>ac_state = AssocChangeState_from_raw (rd16 t buf 8), ac_error = rd16 t buf 10,
           ac_outbound_streams = rd16 t buf 12, ac_inbound_streams = rd16 t buf 14,
           ac_assoc_id = AssocId (rd32 t buf 16), ac_info = drop 20 buf\<rparr>)
      else Err (err ''truncated''))"
  by (simp add: parse_body_def sys_consts read_ifs tail_def)

lemma parse_peer_addr_change:
  "parse_body t buf SCTP_PEER_ADDR_CHANGE fl =
     (if 148 \<le> length buf then
        Ok (N_PeerAddrChange
          \<lparr>pc_address = map_option fst (read_sockaddr t (take 128 (drop 8 buf))),
           pc_state = PeerAddrChangeState_from_raw (rd32 t buf 136), pc_error = rd32 t buf 140,
           pc_assoc_id = AssocId (rd32 t buf 144)\<rparr>)
      else Err (err (if 136 \<le> length buf then ''truncated'' else ''truncated paddr_change'')))"
  by (simp add: parse_body_def sys_consts read_ifs get_range_def)

lemma parse_remote_error:
  "parse_body t buf SCTP_REMOTE_ERROR fl =
     (if 16 \<le> length buf then
        Ok (N_RemoteError
          \<lparr>re_error = from_be t (rd16 t buf 8), re_assoc_id = AssocId (rd32 t buf 12),
           re_data = drop 16 buf\<rparr>)
      else Err (err ''truncated''))"
  by (simp add: parse_body_def sys_consts read_ifs tail_def)

lemma parse_send_failed:
  "parse_body t buf SCTP_SEND_FAILED fl =
     (if 48 \<le> length buf then
        Ok (N_SendFailed
          \<lparr>sf_unsent = (fl = SCTP_DATA_UNSENT), sf_error = rd32 t buf 8, sf_sid = rd16 t buf 12,
           sf_ppid = from_wire t (rd32 t buf 20), sf_context = rd32 t buf 24,
           sf_assoc_id = AssocId (rd32 t buf 44), sf_payload = drop 48 buf\<rparr>)
      else Err (err ''truncated''))"
  by (simp add: parse_body_def sys_consts read_ifs tail_def)

lemma parse_send_failed_event:
  "parse_body t buf SCTP_SEND_FAILED_EVENT fl =
     (if 32 \<le> length buf then
        Ok (N_SendFailed
          \<lparr>sf_unsent = (fl = SCTP_DATA_UNSENT), sf_error = rd32 t buf 8, sf_sid = rd16 t buf 12,
           sf_ppid = from_wire t (rd32 t buf 16), sf_context = rd32 t buf 20,
           sf_assoc_id = AssocId (rd32 t buf 28), sf_payload = drop 32 buf\<rparr>)
      else Err (err ''truncated''))"
  by (simp add: parse_body_def sys_consts read_ifs tail_def)

lemma parse_shutdown:
  "parse_body t buf SCTP_SHUTDOWN_EVENT fl =
     (if 12 \<le> length buf then
        Ok (N_Shutdown \<lparr>se_event_assoc_id = AssocId (rd32 t buf 8)\<rparr>)
      else Err (err ''truncated''))"
  by (simp add: parse_body_def sys_consts read_ifs)

lemma parse_partial_delivery:
  "parse_body t buf SCTP_PARTIAL_DELIVERY_EVENT fl =
     (if 24 \<le> length buf then
        Ok (N_PartialDelivery
          \<lparr>pd_indication = rd32 t buf 8, pd_assoc_id = AssocId (rd32 t buf 12),
           pd_stream = rd32 t buf 16, pd_seq = rd32 t buf 20\<rparr>)
      else Err (err ''truncated''))"
  by (simp add: parse_body_def sys_consts read_ifs)

lemma parse_adaptation:
  "parse_body t buf SCTP_ADAPTATION_INDICATION fl =
     (if 16 \<le> length buf then
        Ok (N_AdaptationIndication
          \<lparr>ad_indication = rd32 t buf 8, ad_assoc_id = AssocId (rd32 t buf 12)\<rparr>)
      else Err (err ''truncated''))"
  by (simp add: parse_body_def sys_consts read_ifs)

lemma parse_authentication:
  "parse_body t buf SCTP_AUTHENTICATION_EVENT fl =
     (if 20 \<le> length buf then
        Ok (N_Authentication
          \<lparr>au_key_number = rd16 t buf 8, au_alt_key_number = rd16 t buf 10,
           au_indication = rd32 t buf 12, au_assoc_id = AssocId (rd32 t buf 16)\<rparr>)
      else Err (err ''truncated''))"
  by (simp add: parse_body_def sys_consts read_ifs)

lemma parse_sender_dry:
  "parse_body t buf SCTP_SENDER_DRY_EVENT fl =
     (if 12 \<le> length buf then
        Ok (N_SenderDry \<lparr>sd_assoc_id = AssocId (rd32 t buf 8)\<rparr>)
      else Err (err ''truncated''))"
  by (simp add: parse_body_def sys_consts read_ifs)

text \<open>The stream ids that the loop collects.\<close>

definition reset_streams :: "target \<Rightarrow> byte list \<Rightarrow> u16 list" where
  "reset_streams t buf = (case stream_loop t buf 12 [] of Inr ws \<Rightarrow> ws | Inl e \<Rightarrow> [])"

lemma stream_loop_reset_streams: "stream_loop t buf 12 [] = Ok (reset_streams t buf)"
  using stream_loop_ok[of t buf 12 "[]"] by (auto simp: reset_streams_def)

lemma parse_stream_reset:
  "parse_body t buf SCTP_STREAM_RESET_EVENT fl =
     (if 12 \<le> length buf then
        Ok (N_StreamReset
          \<lparr>sr_flags = fl, sr_assoc_id = AssocId (rd32 t buf 8),
           sr_streams = reset_streams t buf\<rparr>)
      else Err (err ''truncated''))"
  by (simp add: parse_body_def sys_consts read_ifs stream_loop_reset_streams)

lemma parse_assoc_reset:
  "parse_body t buf SCTP_ASSOC_RESET_EVENT fl =
     (if 20 \<le> length buf then
        Ok (N_AssocReset
          \<lparr>ar_flags = fl, ar_assoc_id = AssocId (rd32 t buf 8), ar_local_tsn = rd32 t buf 12,
           ar_remote_tsn = rd32 t buf 16\<rparr>)
      else Err (err ''truncated''))"
  by (simp add: parse_body_def sys_consts read_ifs)

lemma parse_stream_change:
  "parse_body t buf SCTP_STREAM_CHANGE_EVENT fl =
     (if 16 \<le> length buf then
        Ok (N_StreamChange
          \<lparr>sc_flags = fl, sc_assoc_id = AssocId (rd32 t buf 8), sc_instrms = rd16 t buf 12,
           sc_outstrms = rd16 t buf 14\<rparr>)
      else Err (err ''truncated''))"
  by (simp add: parse_body_def sys_consts read_ifs)

lemmas parse_branches =
  parse_assoc_change parse_peer_addr_change parse_remote_error parse_send_failed
  parse_send_failed_event parse_shutdown parse_partial_delivery parse_adaptation
  parse_authentication parse_sender_dry parse_stream_reset parse_assoc_reset
  parse_stream_change

definition known_types :: "u16 list" where
  "known_types =
     [SCTP_ASSOC_CHANGE, SCTP_PEER_ADDR_CHANGE, SCTP_REMOTE_ERROR, SCTP_SEND_FAILED,
      SCTP_SEND_FAILED_EVENT, SCTP_SHUTDOWN_EVENT, SCTP_PARTIAL_DELIVERY_EVENT,
      SCTP_ADAPTATION_INDICATION, SCTP_AUTHENTICATION_EVENT, SCTP_SENDER_DRY_EVENT,
      SCTP_STREAM_RESET_EVENT, SCTP_ASSOC_RESET_EVENT, SCTP_STREAM_CHANGE_EVENT]"

lemma parse_unknown:
  "ty \<notin> set known_types \<Longrightarrow> parse_body t buf ty fl =
     Ok (N_Unknown \<lparr>rn_sn_type = ty, rn_sn_flags = fl, rn_data = buf\<rparr>)"
  by (simp add: known_types_def parse_body_def)

lemma min_len_known:
  "min_len SCTP_ASSOC_CHANGE = 20" "min_len SCTP_PEER_ADDR_CHANGE = 148"
  "min_len SCTP_REMOTE_ERROR = 16" "min_len SCTP_SEND_FAILED = 48"
  "min_len SCTP_SEND_FAILED_EVENT = 32" "min_len SCTP_SHUTDOWN_EVENT = 12"
  "min_len SCTP_PARTIAL_DELIVERY_EVENT = 24" "min_len SCTP_ADAPTATION_INDICATION = 16"
  "min_len SCTP_AUTHENTICATION_EVENT = 20" "min_len SCTP_SENDER_DRY_EVENT = 12"
  "min_len SCTP_STREAM_RESET_EVENT = 12" "min_len SCTP_ASSOC_RESET_EVENT = 20"
  "min_len SCTP_STREAM_CHANGE_EVENT = 16"
  by (simp_all add: min_len_def sys_consts)

lemma min_len_unknown: "ty \<notin> set known_types \<Longrightarrow> min_len ty = 4"
  by (simp add: known_types_def min_len_def)

lemma parse_body_outcome:
  assumes "4 \<le> length buf"
  shows "if min_len ty \<le> length buf then (\<exists>n. parse_body t buf ty fl = Ok n)
    else (\<exists>msg. parse_body t buf ty fl = Err (err msg))"
proof (cases "ty \<in> set known_types")
  case True
  then show ?thesis
    unfolding known_types_def
    by (auto simp: parse_branches min_len_known)
next
  case False
  then show ?thesis
    using assms by (simp add: parse_unknown min_len_unknown)
qed

section \<open>What the kernel puts in the buffer\<close>

text \<open>
  The members of \<open>union sctp_notification\<close>, with the fields of the kernel structures. The header
  carries the type, the flags and the length.
\<close>

datatype kernel_event =
    K_assoc_change u16 u16 u16 u16 i32 "byte list"
  | K_paddr_change SocketAddr i32 i32 i32
  | K_remote_error u16 i32 "byte list"
  | K_send_failed u32 sctp_sndrcvinfo i32 "byte list"
  | K_send_failed_event u32 sctp_sndinfo i32 "byte list"
  | K_shutdown_event i32
  | K_pdapi_event u32 i32 u32 u32
  | K_adaptation_event u32 i32
  | K_authkey_event u16 u16 u32 i32
  | K_sender_dry_event i32
  | K_stream_reset_event i32 "u16 list"
  | K_assoc_reset_event i32 u32 u32
  | K_stream_change_event i32 u16 u16

fun event_type :: "kernel_event \<Rightarrow> u16" where
  "event_type (K_assoc_change _ _ _ _ _ _) = SCTP_ASSOC_CHANGE"
| "event_type (K_paddr_change _ _ _ _) = SCTP_PEER_ADDR_CHANGE"
| "event_type (K_remote_error _ _ _) = SCTP_REMOTE_ERROR"
| "event_type (K_send_failed _ _ _ _) = SCTP_SEND_FAILED"
| "event_type (K_send_failed_event _ _ _ _) = SCTP_SEND_FAILED_EVENT"
| "event_type (K_shutdown_event _) = SCTP_SHUTDOWN_EVENT"
| "event_type (K_pdapi_event _ _ _ _) = SCTP_PARTIAL_DELIVERY_EVENT"
| "event_type (K_adaptation_event _ _) = SCTP_ADAPTATION_INDICATION"
| "event_type (K_authkey_event _ _ _ _) = SCTP_AUTHENTICATION_EVENT"
| "event_type (K_sender_dry_event _) = SCTP_SENDER_DRY_EVENT"
| "event_type (K_stream_reset_event _ _) = SCTP_STREAM_RESET_EVENT"
| "event_type (K_assoc_reset_event _ _ _) = SCTP_ASSOC_RESET_EVENT"
| "event_type (K_stream_change_event _ _ _) = SCTP_STREAM_CHANGE_EVENT"

fun event_body :: "target \<Rightarrow> kernel_event \<Rightarrow> byte list" where
  "event_body t (K_assoc_change st er outs ins aid info) =
     to_ne_bytes t st @ to_ne_bytes t er @ to_ne_bytes t outs @ to_ne_bytes t ins
       @ to_ne_bytes t aid @ info"
| "event_body t (K_paddr_change addr st er aid) =
     (sockaddr_bytes t addr @ replicate (128 - sockaddr_len addr) 0)
       @ to_ne_bytes t st @ to_ne_bytes t er @ to_ne_bytes t aid"
| "event_body t (K_remote_error er aid data) =
     to_be_bytes er @ replicate 2 (pad_byte t) @ to_ne_bytes t aid @ data"
| "event_body t (K_send_failed er info aid data) =
     to_ne_bytes t er @ struct_bytes t False (sctp_sndrcvinfo_fields t info)
       @ to_ne_bytes t aid @ data"
| "event_body t (K_send_failed_event er info aid data) =
     to_ne_bytes t er @ struct_bytes t False (sctp_sndinfo_fields t info)
       @ to_ne_bytes t aid @ data"
| "event_body t (K_shutdown_event aid) = to_ne_bytes t aid"
| "event_body t (K_pdapi_event ind aid stream seq) =
     to_ne_bytes t ind @ to_ne_bytes t aid @ to_ne_bytes t stream @ to_ne_bytes t seq"
| "event_body t (K_adaptation_event ind aid) = to_ne_bytes t ind @ to_ne_bytes t aid"
| "event_body t (K_authkey_event key alt ind aid) =
     to_ne_bytes t key @ to_ne_bytes t alt @ to_ne_bytes t ind @ to_ne_bytes t aid"
| "event_body t (K_sender_dry_event aid) = to_ne_bytes t aid"
| "event_body t (K_stream_reset_event aid streams) =
     to_ne_bytes t aid @ concat (map (to_ne_bytes t) streams)"
| "event_body t (K_assoc_reset_event aid ltsn rtsn) =
     to_ne_bytes t aid @ to_ne_bytes t ltsn @ to_ne_bytes t rtsn"
| "event_body t (K_stream_change_event aid ins outs) =
     to_ne_bytes t aid @ to_ne_bytes t ins @ to_ne_bytes t outs"

definition event_bytes :: "target \<Rightarrow> u16 \<Rightarrow> u32 \<Rightarrow> kernel_event \<Rightarrow> byte list" where
  "event_bytes t fl len ev =
     to_ne_bytes t (event_type ev) @ to_ne_bytes t fl @ to_ne_bytes t len @ event_body t ev"

text \<open>The notification an application expects for an event.\<close>

fun event_notification :: "target \<Rightarrow> u16 \<Rightarrow> kernel_event \<Rightarrow> Notification" where
  "event_notification t fl (K_assoc_change st er outs ins aid info) =
     N_AssocChange
       \<lparr>ac_state = AssocChangeState_from_raw st, ac_error = er, ac_outbound_streams = outs,
        ac_inbound_streams = ins, ac_assoc_id = AssocId aid, ac_info = info\<rparr>"
| "event_notification t fl (K_paddr_change addr st er aid) =
     N_PeerAddrChange
       \<lparr>pc_address = Some addr, pc_state = PeerAddrChangeState_from_raw st, pc_error = er,
        pc_assoc_id = AssocId aid\<rparr>"
| "event_notification t fl (K_remote_error er aid data) =
     N_RemoteError \<lparr>re_error = er, re_assoc_id = AssocId aid, re_data = data\<rparr>"
| "event_notification t fl (K_send_failed er info aid data) =
     N_SendFailed
       \<lparr>sf_unsent = (fl = SCTP_DATA_UNSENT), sf_error = er, sf_sid = sinfo_stream info,
        sf_ppid = from_wire t (sinfo_ppid info), sf_context = sinfo_context info,
        sf_assoc_id = AssocId aid, sf_payload = data\<rparr>"
| "event_notification t fl (K_send_failed_event er info aid data) =
     N_SendFailed
       \<lparr>sf_unsent = (fl = SCTP_DATA_UNSENT), sf_error = er, sf_sid = snd_sid info,
        sf_ppid = from_wire t (snd_ppid info), sf_context = snd_context info,
        sf_assoc_id = AssocId aid, sf_payload = data\<rparr>"
| "event_notification t fl (K_shutdown_event aid) = N_Shutdown \<lparr>se_event_assoc_id = AssocId aid\<rparr>"
| "event_notification t fl (K_pdapi_event ind aid stream seq) =
     N_PartialDelivery
       \<lparr>pd_indication = ind, pd_assoc_id = AssocId aid, pd_stream = stream, pd_seq = seq\<rparr>"
| "event_notification t fl (K_adaptation_event ind aid) =
     N_AdaptationIndication \<lparr>ad_indication = ind, ad_assoc_id = AssocId aid\<rparr>"
| "event_notification t fl (K_authkey_event key alt ind aid) =
     N_Authentication
       \<lparr>au_key_number = key, au_alt_key_number = alt, au_indication = ind,
        au_assoc_id = AssocId aid\<rparr>"
| "event_notification t fl (K_sender_dry_event aid) = N_SenderDry \<lparr>sd_assoc_id = AssocId aid\<rparr>"
| "event_notification t fl (K_stream_reset_event aid streams) =
     N_StreamReset \<lparr>sr_flags = fl, sr_assoc_id = AssocId aid, sr_streams = streams\<rparr>"
| "event_notification t fl (K_assoc_reset_event aid ltsn rtsn) =
     N_AssocReset
       \<lparr>ar_flags = fl, ar_assoc_id = AssocId aid, ar_local_tsn = ltsn, ar_remote_tsn = rtsn\<rparr>"
| "event_notification t fl (K_stream_change_event aid ins outs) =
     N_StreamChange
       \<lparr>sc_flags = fl, sc_assoc_id = AssocId aid, sc_instrms = ins, sc_outstrms = outs\<rparr>"

text \<open>The two send-parameter structures as byte sequences, from their layouts.\<close>

lemma sndrcvinfo_image:
  "struct_bytes t False (sctp_sndrcvinfo_fields t r) =
     to_ne_bytes t (sinfo_stream r) @ to_ne_bytes t (sinfo_ssn r) @ to_ne_bytes t (sinfo_flags r)
       @ replicate 2 (pad_byte t) @ to_ne_bytes t (sinfo_ppid r) @ to_ne_bytes t (sinfo_context r)
       @ to_ne_bytes t (sinfo_timetolive r) @ to_ne_bytes t (sinfo_tsn r)
       @ to_ne_bytes t (sinfo_cumtsn r) @ to_ne_bytes t (sinfo_assoc_id r)"
  by (simp add: sctp_sndrcvinfo_fields_def struct_bytes_def layout_simps flip: numeral_2_eq_2)

lemma sndinfo_image:
  "struct_bytes t False (sctp_sndinfo_fields t r) =
     to_ne_bytes t (snd_sid r) @ to_ne_bytes t (snd_flags r) @ to_ne_bytes t (snd_ppid r)
       @ to_ne_bytes t (snd_context r) @ to_ne_bytes t (snd_assoc_id r)"
  by (simp add: sctp_sndinfo_fields_def struct_bytes_def layout_simps flip: numeral_2_eq_2)

lemma rd16_be: "from_be t (from_ne_bytes t (to_be_bytes (w :: u16))) = w"
proof -
  have "from_ne_bytes t (to_be_bytes w) = (to_be t w :: u16)"
    using from_to_ne_bytes[of t "to_be t w"] by (simp add: to_ne_bytes_to_be)
  then show ?thesis by simp
qed

lemma rd_event_header:
  "rd16 t (event_bytes t fl len ev) 0 = event_type ev" "rd16 t (event_bytes t fl len ev) 2 = fl"
  "4 \<le> length (event_bytes t fl len ev)"
  by (simp_all add: event_bytes_def rd16_def from_to_ne_bytes)

lemmas event_reads =
  event_bytes_def rd16_def rd32_def from_to_ne_bytes rd16_be sndrcvinfo_image sndinfo_image

lemma reset_streams_event:
  "reset_streams t (event_bytes t fl len (K_stream_reset_event aid streams)) = streams"
  using stream_loop_decode[of "to_ne_bytes t SCTP_STREAM_RESET_EVENT @ to_ne_bytes t fl @
      to_ne_bytes t len @ to_ne_bytes t aid" 12 t streams "[]"]
  by (simp add: reset_streams_def event_bytes_def)

lemma paddr_storage:
  "take 128 (drop 8 (event_bytes t fl len (K_paddr_change addr st er aid))) =
     sockaddr_bytes t addr @ replicate (128 - sockaddr_len addr) 0"
  using sockaddr_len_bounds(2)[of addr] by (simp add: event_bytes_def addr_len_defs)

lemma paddr_drop:
  "136 \<le> n \<Longrightarrow> drop n (event_bytes t fl len (K_paddr_change addr st er aid)) =
     drop (n - 136) (to_ne_bytes t st @ to_ne_bytes t er @ to_ne_bytes t aid)"
  using sockaddr_len_bounds(2)[of addr]
  by (simp add: event_bytes_def addr_len_defs del: drop_append) simp

lemma length_paddr_event: "length (event_bytes t fl len (K_paddr_change addr st er aid)) = 148"
  using sockaddr_len_bounds(2)[of addr] by (simp add: event_bytes_def addr_len_defs)

section \<open>Properties\<close>

lemma parse_event:
  "parse t (event_bytes t fl len ev) = Ok (event_notification t fl ev)"
proof -
  let ?b = "event_bytes t fl len ev"
  have "parse t ?b = parse_body t ?b (event_type ev) fl"
    by (simp add: parse_header rd_event_header)
  also have "\<dots> = Ok (event_notification t fl ev)"
  proof (cases ev)
    case (K_paddr_change addr st er aid)
    then show ?thesis
      by (simp add: parse_branches length_paddr_event paddr_storage read_sockaddr_bytes
          rd32_def paddr_drop from_to_ne_bytes)
  next
    case (K_stream_reset_event aid streams)
    have "rd32 t ?b 8 = aid"
      by (simp add: K_stream_reset_event event_reads)
    moreover have "12 \<le> length ?b"
      by (simp add: K_stream_reset_event event_bytes_def)
    ultimately show ?thesis
      by (simp add: K_stream_reset_event parse_branches reset_streams_event)
  qed (simp_all add: parse_branches event_reads)
  finally show ?thesis .
qed

text \<open>
  C6: the parser inverts the kernel's layout. For each of the thirteen events, every value of
  its fields, every flag word and trailing data, and on every target, parsing the bytes of the
  event gives the notification with exactly those values: the offsets hard-coded in the parser
  are those of the structures, the error cause and the payload protocol identifier come back in
  host byte order, and both send-failure layouts give the same shape.
\<close>

theorem parse_kernel_event:
  "parse t (event_bytes t fl len ev) = Ok (event_notification t fl ev)"
  by (rule parse_event)

text \<open>
  C26: the parser fails exactly on truncated input: on a buffer of fewer than four bytes, which
  does not hold the type and the flags, or one shorter than the fixed part of the structure its
  type announces (\<open>min_len\<close>). The length field behind the flags is neither read nor required: a
  type the crate does not know needs only the first four of the eight header bytes. Every
  failure is an error of kind \<open>InvalidData\<close>; no input makes the parser panic.
\<close>

theorem parse_fails_iff_truncated:
  "(case parse t buf of
      Ok n \<Rightarrow> 4 \<le> length buf \<and> min_len (rd16 t buf 0) \<le> length buf
    | Inl e \<Rightarrow> (length buf < 4 \<or> length buf < min_len (rd16 t buf 0)) \<and>
        (\<exists>msg. e = IoErr (Custom InvalidData msg)))"
proof (cases "4 \<le> length buf")
  case True
  then show ?thesis
    using parse_body_outcome[OF True, of "rd16 t buf 0" t "rd16 t buf 2"]
    by (auto simp: parse_header err_def split: if_splits)
next
  case False
  then show ?thesis
    by (simp add: parse_short err_def)
qed

text \<open>
  A notification of a type the crate does not know is handed over whole: type, flags and
  every byte received. Four bytes suffice, so \<open>data\<close> need not contain the whole header of
  eight bytes.
\<close>

theorem parse_unknown_preserved:
  assumes "4 \<le> length buf" and "rd16 t buf 0 \<notin> set known_types"
  shows "parse t buf =
    Ok (N_Unknown \<lparr>rn_sn_type = rd16 t buf 0, rn_sn_flags = rd16 t buf 2, rn_data = buf\<rparr>)"
  using assms by (simp add: parse_header parse_unknown)

theorem parse_unknown_preserved_witness:
  "4 \<le> length [0x99, 0x99, 1, 0, 12 :: byte] \<and>
   rd16 linux_x86_64 [0x99, 0x99, 1, 0, 12] 0 \<notin> set known_types \<and>
   parse linux_x86_64 [0x99, 0x99, 1, 0, 12] =
     Ok (N_Unknown \<lparr>rn_sn_type = 0x9999, rn_sn_flags = 1, rn_data = [0x99, 0x99, 1, 0, 12]\<rparr>)"
proof -
  let ?b = "[0x99, 0x99, 1, 0, 12] :: byte list"
  have r: "rd16 linux_x86_64 ?b 0 = 0x9999" "rd16 linux_x86_64 ?b 2 = 1"
    by (simp_all add: rd16_def from_ne_bytes_def ne_val_def)
  have h: "rd16 linux_x86_64 ?b 0 \<notin> set known_types"
    by (simp add: r known_types_def sys_consts)
  have l: "4 \<le> length ?b"
    by simp
  show ?thesis
    using parse_unknown_preserved[OF l h] l h by (simp add: r)
qed

end
