(* ===== verification/Env.thy ===== *)
theory Env
  imports Notification "HOL-Library.Multiset"
begin

text \<open>
  The boundary of the crate. The Linux kernel (behind the \<open>libc\<close> wrappers) and the Tokio reactor
  are not part of the sources, so they are a parameter: an environment \<open>E\<close> that answers a call
  with a result and a new state of its own, of any type \<open>'k\<close>. An operation of the crate is a
  function from a world (the environment's state and the ghost list of the calls made so far) to
  its result and the new world, or to \<open>None\<close> if it does not return. The theory also sets up the
  ownership accounting of file descriptors: which of them a stretch of the trace opened and
  closed, and the rules that compose ownership contracts.
\<close>

named_theorems own_intros \<open>ownership contracts of the operations\<close>

section \<open>Calls and their results\<close>

type_synonym fd = int

text \<open>
  Option payloads: the memory of a structure of \<open>sys.rs\<close> or an integer is passed as bytes; the
  two structures of \<open>libc\<close> itself, whose layout is the crate's, as values.
\<close>

datatype payload = PBytes "byte list" | PTimeval int int | PLinger i32 i32

datatype call =
    C_socket i32 i32 i32
  | C_close fd
  | C_setsockopt fd i32 i32 payload
  | C_getsockopt fd i32 i32 "byte list"
  | C_getsockopt_timeval fd i32 i32
  | C_getsockopt_connectx3 fd sctp_getaddrs_old
  | C_bind fd "byte list"
  | C_listen fd i32
  | C_accept4 fd nat i32
  | C_connect fd "byte list"
  | C_fcntl_getfl fd
  | C_fcntl_setfl fd i32
  | C_sendmsg fd "byte list option" "byte list" "byte list" i32
  | C_recvmsg fd nat nat nat i32  \<comment> \<open>iov length, name length, control length, flags\<close>
  | C_getsockname fd nat
  | C_getpeername fd nat
  | C_shutdown fd i32
  | C_reactor_register fd
  | C_reactor_readable fd
  | C_reactor_writable fd
  | C_reactor_clear_ready fd

text \<open>
  What a call leaves behind: its return value and \<open>errno\<close>, the bytes written to the buffer it was
  given and the value-result lengths. A call sets the fields it has outputs for.
\<close>

record sysret =
  sr_ret :: int
  sr_errno :: i32
  sr_out :: "byte list"
  sr_name :: "byte list"
  sr_namelen :: nat
  sr_control :: "byte list"
  sr_controllen :: nat
  sr_msg_flags :: i32
  sr_assoc :: i32
  sr_timeval :: "int \<times> int"

definition sr_ok :: sysret where
  "sr_ok = \<lparr>sr_ret = 0, sr_errno = 0, sr_out = [], sr_name = [], sr_namelen = 0,
     sr_control = [], sr_controllen = 0, sr_msg_flags = 0, sr_assoc = 0, sr_timeval = (0, 0)\<rparr>"

definition sr_fail :: "i32 \<Rightarrow> sysret" where
  "sr_fail e = sr_ok\<lparr>sr_ret := -1, sr_errno := e\<rparr>"

lemma sr_ok_simps [simp]:
  "sr_ret sr_ok = 0" "sr_out sr_ok = []" "sr_name sr_ok = []"
  "sr_namelen sr_ok = 0" "sr_control sr_ok = []" "sr_controllen sr_ok = 0"
  "sr_msg_flags sr_ok = 0" "sr_assoc sr_ok = 0" "sr_timeval sr_ok = (0, 0)"
  by (simp_all add: sr_ok_def)

lemma sr_fail_simps [simp]: "sr_ret (sr_fail e) = -1" "sr_errno (sr_fail e) = e"
  by (simp_all add: sr_fail_def)

text \<open>
  The kernel writes at the start of a buffer it was lent and never beyond its end: \<open>overlay\<close> is
  the buffer afterwards.
\<close>

definition overlay :: "byte list \<Rightarrow> byte list \<Rightarrow> byte list" where
  "overlay out buf = take (length buf) out @ drop (length out) buf"

lemma length_overlay [simp]: "length (overlay out buf) = length buf"
  by (auto simp: overlay_def)

lemma overlay_full: "length out = length buf \<Longrightarrow> overlay out buf = out"
  by (simp add: overlay_def)

section \<open>Worlds and operations\<close>

record 'k world =
  kst :: 'k
  trace :: "(call \<times> sysret) list"

type_synonym 'k env = "call \<Rightarrow> 'k \<Rightarrow> sysret \<times> 'k"

type_synonym ('k, 'a) io = "'k world \<Rightarrow> ('a io_result \<times> 'k world) option"

definition sys_call :: "'k env \<Rightarrow> call \<Rightarrow> 'k world \<Rightarrow> sysret \<times> 'k world" where
  "sys_call E c w =
     (let (r, k') = E c (kst w) in (r, w\<lparr>kst := k', trace := trace w @ [(c, r)]\<rparr>))"

definition io_lift :: "'a io_result \<Rightarrow> ('k, 'a) io" where
  "io_lift r = (\<lambda>w. Some (r, w))"

abbreviation io_return :: "'a \<Rightarrow> ('k, 'a) io" where
  "io_return x \<equiv> io_lift (Ok x)"

abbreviation io_err :: "io_error \<Rightarrow> ('k, 'a) io" where
  "io_err e \<equiv> io_lift (Err e)"

definition io_bind :: "('k, 'a) io \<Rightarrow> ('a \<Rightarrow> ('k, 'b) io) \<Rightarrow> ('k, 'b) io" where
  "io_bind m f =
     (\<lambda>w. case m w of
        None \<Rightarrow> None
      | Some (Inl e, w') \<Rightarrow> Some (Inl e, w')
      | Some (Inr x, w') \<Rightarrow> f x w')"

definition do_call :: "'k env \<Rightarrow> call \<Rightarrow> ('k, sysret) io" where
  "do_call E c = (\<lambda>w. let (r, w') = sys_call E c w in Some (Ok r, w'))"

text \<open>
  A value that owns a descriptor closes it when it is dropped, which happens to a local of a
  function that returns early with an error or unwinds.
\<close>

definition dropping :: "'k env \<Rightarrow> fd \<Rightarrow> ('k, 'a) io \<Rightarrow> ('k, 'a) io" where
  "dropping E d m =
     (\<lambda>w. case m w of
        None \<Rightarrow> None
      | Some (Inl e, w') \<Rightarrow> (let (r, w'') = sys_call E (C_close d) w' in Some (Inl e, w''))
      | Some (Inr x, w') \<Rightarrow> Some (Inr x, w'))"

lemma io_bind_lift [simp]:
  "io_bind (io_return x) f = f x" "io_bind (io_lift (Inl e)) f = io_lift (Inl e)"
  by (simp_all add: io_bind_def io_lift_def)

lemma io_bind_lift_lift: "io_bind (io_lift r) (\<lambda>x. io_lift (f x)) = io_lift (try_bind r f)"
  by (cases r) simp_all

lemma io_bind_assoc: "io_bind (io_bind m f) g = io_bind m (\<lambda>x. io_bind (f x) g)"
  by (auto simp: io_bind_def fun_eq_iff split: option.splits sum.splits)

lemma io_bind_Some_iff:
  "io_bind m f w = Some (r, w') \<longleftrightarrow>
     (\<exists>e. m w = Some (Inl e, w') \<and> r = Inl e) \<or>
     (\<exists>x w1. m w = Some (Inr x, w1) \<and> f x w1 = Some (r, w'))"
  by (auto simp: io_bind_def split: option.splits sum.splits)

lemma sys_call_run [io_simps]:
  "E c (kst w) = (r, k') \<Longrightarrow> sys_call E c w = (r, w\<lparr>kst := k', trace := trace w @ [(c, r)]\<rparr>)"
  by (simp add: sys_call_def)

lemma sys_call_trace: "sys_call E c w = (r, w') \<Longrightarrow> trace w' = trace w @ [(c, r)]"
  by (auto simp: sys_call_def split: prod.splits)

section \<open>Ownership of descriptors\<close>

text \<open>
  The descriptors a call hands out and takes back. \<open>accept4\<close> and \<open>socket\<close> return one, the peeloff
  option writes one into its argument (\<open>-1\<close> is what the caller put there).
\<close>

fun opened1 :: "target \<Rightarrow> call \<times> sysret \<Rightarrow> fd multiset" where
  "opened1 t (C_socket _ _ _, r) = (if sr_ret r < 0 then {#} else {#sr_ret r#})"
| "opened1 t (C_accept4 _ _ _, r) = (if sr_ret r < 0 then {#} else {#sr_ret r#})"
| "opened1 t (C_getsockopt _ level opt buf, r) =
     (if level = SOL_SCTP \<and> opt = SCTP_SOCKOPT_PEELOFF_FLAGS \<and> \<not> sr_ret r < 0 then
        let d = sint (sd (p_arg (sctp_peeloff_flags_arg_t_of_bytes t (overlay (sr_out r) buf))))
        in if d = -1 then {#} else {#d#}
      else {#})"
| "opened1 t (_, r) = {#}"

fun closed1 :: "call \<times> sysret \<Rightarrow> fd multiset" where
  "closed1 (C_close d, r) = {#d#}"
| "closed1 (_, r) = {#}"

definition opened :: "target \<Rightarrow> (call \<times> sysret) list \<Rightarrow> fd multiset" where
  "opened t tr = sum_list (map (opened1 t) tr)"

definition closed :: "(call \<times> sysret) list \<Rightarrow> fd multiset" where
  "closed tr = sum_list (map closed1 tr)"

lemma opened_simps [simp]:
  "opened t [] = {#}" "opened t (x # tr) = opened1 t x + opened t tr"
  "opened t (tr @ tr') = opened t tr + opened t tr'"
  by (simp_all add: opened_def)

lemma closed_simps [simp]:
  "closed [] = {#}" "closed (x # tr) = closed1 x + closed tr" "closed (tr @ tr') = closed tr + closed tr'"
  by (simp_all add: closed_def)

text \<open>
  \<open>owns t p q e m\<close>: an operation that takes over the descriptors \<open>p\<close>, passes \<open>q x\<close> on with a
  result \<open>x\<close> and \<open>e\<close> back with a failure. What it held and opened is what it passes on and closed.
\<close>

definition owns ::
    "target \<Rightarrow> fd multiset \<Rightarrow> ('a \<Rightarrow> fd multiset) \<Rightarrow> fd multiset \<Rightarrow> ('k, 'a) io \<Rightarrow> bool" where
  "owns t p q e m \<longleftrightarrow>
     (\<forall>w r w'. m w = Some (r, w') \<longrightarrow>
        (\<exists>tr. trace w' = trace w @ tr \<and>
           p + opened t tr = (case r of Inr x \<Rightarrow> q x | Inl _ \<Rightarrow> e) + closed tr))"

text \<open>Operations on a socket that is borrowed: no descriptor changes hands.\<close>

abbreviation borrows :: "target \<Rightarrow> ('k, 'a) io \<Rightarrow> bool" where
  "borrows t m \<equiv> owns t {#} (\<lambda>_. {#}) {#} m"

lemma ownsI:
  assumes "\<And>w r w'. m w = Some (r, w') \<Longrightarrow>
    \<exists>tr. trace w' = trace w @ tr \<and>
      p + opened t tr = (case r of Inr x \<Rightarrow> q x | Inl _ \<Rightarrow> e) + closed tr"
  shows "owns t p q e m"
  using assms by (auto simp: owns_def)

lemma owns_return [intro]: "p = q x \<Longrightarrow> owns t p q e (io_return x)"
  by (auto simp: owns_def io_lift_def)

lemma owns_fail [intro]: "p = e \<Longrightarrow> owns t p q e (io_lift (Inl x))"
  by (auto simp: owns_def io_lift_def)

lemma owns_lift: "p = e \<Longrightarrow> (\<And>x. r = Inr x \<Longrightarrow> p = q x) \<Longrightarrow> owns t p q e (io_lift r)"
  by (cases r) auto

lemma owns_bind:
  assumes "owns t p q e m" and "\<And>x. owns t (q x) q' e (f x)"
  shows "owns t p q' e (io_bind m f)"
proof (rule ownsI)
  fix w r w'
  assume "io_bind m f w = Some (r, w')"
  then consider (err) x where "m w = Some (Inl x, w')" "r = Inl x"
    | (ok) x w1 where "m w = Some (Inr x, w1)" "f x w1 = Some (r, w')"
    by (auto simp: io_bind_Some_iff)
  then show "\<exists>tr. trace w' = trace w @ tr \<and>
      p + opened t tr = (case r of Inr x \<Rightarrow> q' x | Inl _ \<Rightarrow> e) + closed tr"
  proof cases
    case err
    then show ?thesis
      using assms(1) unfolding owns_def by fastforce
  next
    case ok
    obtain tr1 where 1: "trace w1 = trace w @ tr1" "p + opened t tr1 = q x + closed tr1"
      using assms(1) ok(1) unfolding owns_def by fastforce
    obtain tr2 where 2: "trace w' = trace w1 @ tr2"
      "q x + opened t tr2 = (case r of Inr x \<Rightarrow> q' x | Inl _ \<Rightarrow> e) + closed tr2"
      using assms(2) ok(2) unfolding owns_def by blast
    have "p + opened t (tr1 @ tr2) = q x + closed tr1 + opened t tr2"
      using 1(2) by (simp flip: add.assoc)
    also have "\<dots> = (case r of Inr x \<Rightarrow> q' x | Inl _ \<Rightarrow> e) + closed (tr1 @ tr2)"
      using 2(2) by (simp add: add.commute add.left_commute)
    finally show ?thesis
      using 1(1) 2(1) by auto
  qed
qed

lemma owns_frame:
  assumes "owns t p q e m"
  shows "owns t (p + f) (\<lambda>x. q x + f) (e + f) m"
proof (rule ownsI)
  fix w r w'
  assume "m w = Some (r, w')"
  then obtain tr where "trace w' = trace w @ tr"
    "p + opened t tr = (case r of Inr x \<Rightarrow> q x | Inl _ \<Rightarrow> e) + closed tr"
    using assms unfolding owns_def by blast
  then show "\<exists>tr. trace w' = trace w @ tr \<and>
      p + f + opened t tr = (case r of Inr x \<Rightarrow> q x + f | Inl _ \<Rightarrow> e + f) + closed tr"
    by (intro exI[of _ tr]) (auto simp: ac_simps split: sum.splits)
qed

text \<open>A borrowed operation leaves whatever the caller holds in the caller's hands.\<close>

lemma borrows_frame: "borrows t m \<Longrightarrow> owns t p (\<lambda>_. p) p m"
  using owns_frame[of t "{#}" "\<lambda>_. {#}" "{#}" m p] by simp

lemma owns_bind_borrowed:
  "borrows t m \<Longrightarrow> (\<And>x. owns t p q e (f x)) \<Longrightarrow> p = e \<Longrightarrow> owns t p q e (io_bind m f)"
  using owns_bind[OF borrows_frame[of t m p]] by blast

lemma borrows_lift [own_intros]: "borrows t (io_lift r)"
  by (auto intro: owns_lift)

lemma borrows_bind [own_intros]:
  "borrows t m \<Longrightarrow> (\<And>x. borrows t (f x)) \<Longrightarrow> borrows t (io_bind m f)"
  by (rule owns_bind)

lemma borrows_if [own_intros]:
  "borrows t m \<Longrightarrow> borrows t m' \<Longrightarrow> borrows t (if b then m else m')"
  by simp

text \<open>Dropping an owner on failure closes what it holds.\<close>

lemma owns_dropping:
  assumes "owns t p q (add_mset d e) m"
  shows "owns t p q e (dropping E d m)"
proof (rule ownsI)
  fix w r w'
  assume run: "dropping E d m w = Some (r, w')"
  show "\<exists>tr. trace w' = trace w @ tr \<and>
      p + opened t tr = (case r of Inr x \<Rightarrow> q x | Inl _ \<Rightarrow> e) + closed tr"
  proof (cases "m w")
    case None
    with run show ?thesis by (simp add: dropping_def)
  next
    case (Some a)
    then obtain r1 w1 where m: "m w = Some (r1, w1)"
      by (cases a) auto
    then obtain tr where tr: "trace w1 = trace w @ tr"
      "p + opened t tr = (case r1 of Inr x \<Rightarrow> q x | Inl _ \<Rightarrow> add_mset d e) + closed tr"
      using assms unfolding owns_def by blast
    show ?thesis
    proof (cases r1)
      case (Inl x)
      obtain s w2 where s: "sys_call E (C_close d) w1 = (s, w2)"
        by (cases "sys_call E (C_close d) w1") auto
      with run m Inl have "r = Inl x" "w' = w2"
        by (simp_all add: dropping_def)
      then show ?thesis
        using tr Inl sys_call_trace[OF s] by (intro exI[of _ "tr @ [(C_close d, s)]"]) simp
    next
      case (Inr x)
      with run m tr show ?thesis by (auto simp: dropping_def)
    qed
  qed
qed

lemma owns_dropping_borrowed: "borrows t m \<Longrightarrow> owns t {#d#} (\<lambda>_. {#d#}) {#} (dropping E d m)"
  by (rule owns_dropping) (rule borrows_frame)

section \<open>Return values\<close>

definition cvt :: "sysret \<Rightarrow> int io_result" where
  "cvt r = (if sr_ret r < 0 then Err (Os (sr_errno r)) else Ok (sr_ret r))"

definition cvt_size :: "sysret \<Rightarrow> nat io_result" where
  "cvt_size r = (if sr_ret r < 0 then Err (Os (sr_errno r)) else Ok (nat (sr_ret r)))"

text \<open>A call whose return value goes through \<open>cvt\<close>, for its outputs.\<close>

definition call_cvt :: "'k env \<Rightarrow> call \<Rightarrow> ('k, sysret) io" where
  "call_cvt E c = io_bind (do_call E c) (\<lambda>r. io_bind (io_lift (cvt r)) (\<lambda>_. io_return r))"

text \<open>Calls that hand out no descriptor and close none.\<close>

definition plain_call :: "call \<Rightarrow> bool" where
  "plain_call c \<longleftrightarrow> (\<forall>t r. opened1 t (c, r) = {#} \<and> closed1 (c, r) = {#})"

lemma borrows_do_call [own_intros]: "plain_call c \<Longrightarrow> borrows t (do_call E c)"
  by (rule ownsI) (auto simp: do_call_def plain_call_def split: prod.splits dest: sys_call_trace)

lemma borrows_call_cvt [own_intros]: "plain_call c \<Longrightarrow> borrows t (call_cvt E c)"
  unfolding call_cvt_def by (intro own_intros)

lemma plain_calls [simp]:
  "plain_call (C_setsockopt d l op pay)" "plain_call (C_getsockopt_timeval d l op)"
  "plain_call (C_getsockopt_connectx3 d p)" "plain_call (C_bind d bs)" "plain_call (C_listen d backlog)"
  "plain_call (C_connect d bs)" "plain_call (C_fcntl_getfl d)" "plain_call (C_fcntl_setfl d fl)"
  "plain_call (C_sendmsg d name iov ctl fl)" "plain_call (C_recvmsg d a b n fl)"
  "plain_call (C_getsockname d n)" "plain_call (C_getpeername d n)" "plain_call (C_shutdown d h)"
  "plain_call (C_reactor_register d)" "plain_call (C_reactor_readable d)"
  "plain_call (C_reactor_writable d)" "plain_call (C_reactor_clear_ready d)"
  by (simp_all add: plain_call_def)

lemma plain_getsockopt [simp]:
  "\<not> (l = SOL_SCTP \<and> op = SCTP_SOCKOPT_PEELOFF_FLAGS) \<Longrightarrow> plain_call (C_getsockopt d l op buf)"
  by (auto simp: plain_call_def)

text \<open>Calls that hand out a descriptor: the caller holds it when the call succeeds.\<close>

abbreviation fd_mset :: "fd \<Rightarrow> fd multiset" where
  "fd_mset d \<equiv> (if d = -1 then {#} else {#d#})"

lemma owns_call_cvt:
  assumes "\<And>r. closed1 (c, r) = {#}"
    and "\<And>r. sr_ret r < 0 \<Longrightarrow> opened1 t (c, r) = {#}"
    and "\<And>r. \<not> sr_ret r < 0 \<Longrightarrow> opened1 t (c, r) = q r"
  shows "owns t {#} q {#} (call_cvt E c)"
proof (rule ownsI)
  fix w r w'
  assume run: "call_cvt E c w = Some (r, w')"
  obtain s w1 where s: "sys_call E c w = (s, w1)"
    by (cases "sys_call E c w")
  with run have "w' = w1" "r = (if sr_ret s < 0 then Err (Os (sr_errno s)) else Ok s)"
    by (simp_all add: call_cvt_def io_bind_def do_call_def cvt_def io_lift_def split: if_splits)
  then show "\<exists>tr. trace w' = trace w @ tr \<and>
      {#} + opened t tr = (case r of Inr x \<Rightarrow> q x | Inl _ \<Rightarrow> {#}) + closed tr"
    using sys_call_trace[OF s] assms by (intro exI[of _ "[(c, s)]"]) auto
qed

lemma owns_socket: "owns t {#} (\<lambda>r. fd_mset (sr_ret r)) {#} (call_cvt E (C_socket d ty p))"
  by (rule owns_call_cvt) auto

lemma owns_accept4: "owns t {#} (\<lambda>r. fd_mset (sr_ret r)) {#} (call_cvt E (C_accept4 d n fl))"
  by (rule owns_call_cvt) auto

text \<open>Running an operation on a world whose next answers are known.\<close>

lemma do_call_run [io_simps]: "sys_call E c w = (r, w') \<Longrightarrow> do_call E c w = Some (Ok r, w')"
  by (simp add: do_call_def)

lemma call_cvt_run [io_simps]:
  "sys_call E c w = (r, w') \<Longrightarrow>
     call_cvt E c w = Some (if sr_ret r < 0 then Err (Os (sr_errno r)) else Ok r, w')"
  by (simp add: call_cvt_def io_bind_def do_call_def cvt_def io_lift_def)

lemma dropping_run [io_simps]:
  "m w = Some (Inr x, w') \<Longrightarrow> dropping E d m w = Some (Inr x, w')"
  "m w = Some (Inl e, w') \<Longrightarrow> dropping E d m w = Some (Inl e, snd (sys_call E (C_close d) w'))"
  by (simp_all add: dropping_def split: prod.splits)

lemma io_bind_run [io_simps]:
  "m w = Some (Inr x, w') \<Longrightarrow> io_bind m f w = f x w'"
  "m w = Some (Inl e, w') \<Longrightarrow> io_bind m f w = Some (Inl e, w')"
  by (simp_all add: io_bind_def)

lemma io_bind_do_call [io_simps]:
  "sys_call E c w = (r, w') \<Longrightarrow> io_bind (do_call E c) f w = f r w'"
  by (simp add: io_bind_def do_call_run)

lemma io_bind_call_cvt [io_simps]:
  "sys_call E c w = (r, w') \<Longrightarrow>
     io_bind (call_cvt E c) f w = (if sr_ret r < 0 then Some (Err (Os (sr_errno r)), w') else f r w')"
  by (simp add: io_bind_def call_cvt_run)

lemma io_lift_run [io_simps]: "io_lift r w = Some (r, w)"
  by (simp add: io_lift_def)

lemma call_cvt_okE:
  assumes "call_cvt E c w = Some (Ok r, w')"
  shows "trace w' = trace w @ [(c, r)] \<and> \<not> sr_ret r < 0"
proof -
  obtain r' w1 where s: "sys_call E c w = (r', w1)"
    by (cases "sys_call E c w")
  with assms show ?thesis
    using sys_call_trace[OF s] by (auto simp: call_cvt_run[OF s] split: if_splits)
qed

lemma dropping_okD: "dropping E d m w = Some (Ok x, w') \<Longrightarrow> m w = Some (Ok x, w')"
  by (auto simp: dropping_def split: option.splits sum.splits prod.splits)

lemma io_lift_okD: "io_lift r w = Some (Ok x, w') \<Longrightarrow> r = Ok x \<and> w' = w"
  by (simp add: io_lift_def)

text \<open>Every success of \<open>m\<close> ends with the successful call \<open>c x\<close>, \<open>x\<close> being the result.\<close>

definition ends_with :: "('k, 'a) io \<Rightarrow> ('a \<Rightarrow> call) \<Rightarrow> bool" where
  "ends_with m c \<longleftrightarrow>
     (\<forall>w x w'. m w = Some (Ok x, w') \<longrightarrow>
        (\<exists>tr r. trace w' = trace w @ tr @ [(c x, r)] \<and> \<not> sr_ret r < 0))"

definition extends :: "('k, 'a) io \<Rightarrow> bool" where
  "extends m \<longleftrightarrow> (\<forall>w r w'. m w = Some (r, w') \<longrightarrow> (\<exists>tr. trace w' = trace w @ tr))"

lemma extends_owns: "owns t p q e m \<Longrightarrow> extends m"
  unfolding owns_def extends_def by blast

lemma ends_with_bind:
  assumes "extends m" and "\<And>x. ends_with (f x) c"
  shows "ends_with (io_bind m f) c"
  unfolding ends_with_def
proof (intro allI impI)
  fix w x w'
  assume "io_bind m f w = Some (Ok x, w')"
  then obtain y w1 where 1: "m w = Some (Inr y, w1)" "f y w1 = Some (Ok x, w')"
    by (auto simp: io_bind_Some_iff)
  obtain tr where "trace w1 = trace w @ tr"
    using assms(1) 1(1) unfolding extends_def by blast
  moreover obtain tr' r where "trace w' = trace w1 @ tr' @ [(c x, r)]" "\<not> sr_ret r < 0"
    using assms(2) 1(2) unfolding ends_with_def by blast
  ultimately show "\<exists>tr r. trace w' = trace w @ tr @ [(c x, r)] \<and> \<not> sr_ret r < 0"
    by (intro exI[of _ "tr @ tr'"] exI[of _ r]) simp
qed

lemma ends_with_dropping: "ends_with m c \<Longrightarrow> ends_with (dropping E d m) c"
  unfolding ends_with_def using dropping_okD by fast

lemma ends_with_call_return:
  "(\<And>x y. f x = Inr y \<Longrightarrow> c y = cl) \<Longrightarrow> ends_with (io_bind (call_cvt E cl) (\<lambda>x. io_lift (f x))) c"
  unfolding ends_with_def
  by (auto simp: io_bind_Some_iff dest!: call_cvt_okE io_lift_okD)

section \<open>Sequences of calls\<close>

text \<open>
  Calls made one after another until one fails, for their effect only.
\<close>

fun make_calls :: "'k env \<Rightarrow> call list \<Rightarrow> ('k, unit) io" where
  "make_calls E [] = io_return ()"
| "make_calls E (c # cs) = io_bind (call_cvt E c) (\<lambda>_. make_calls E cs)"

text \<open>All answers are successes; the failure an answer stands for.\<close>

abbreviation all_ok :: "sysret list \<Rightarrow> bool" where
  "all_ok \<equiv> list_all (\<lambda>r. 0 \<le> sr_ret r)"

abbreviation os_failure :: "sysret \<Rightarrow> exn" where
  "os_failure r \<equiv> IoErr (Os (sr_errno r))"

lemma make_calls_append: "make_calls E (cs @ cs') = io_bind (make_calls E cs) (\<lambda>_. make_calls E cs')"
  by (induction cs) (simp_all add: io_bind_assoc)

lemma make_calls_single: "make_calls E [c] = io_bind (call_cvt E c) (\<lambda>_. io_return ())"
  by simp

lemma make_calls_outcome:
  "\<exists>r w' rs. make_calls E cs w = Some (r, w') \<and>
     trace w' = trace w @ zip cs rs \<and> length rs \<le> length cs \<and> all_ok (butlast rs) \<and>
     (case r of
        Inr _ \<Rightarrow> length rs = length cs \<and> all_ok rs
      | Inl e \<Rightarrow> rs \<noteq> [] \<and> sr_ret (last rs) < 0 \<and> e = os_failure (last rs))"
proof (induction cs arbitrary: w)
  case Nil
  show ?case
    by (simp add: io_lift_run)
next
  case (Cons c cs)
  obtain x w1 where x: "sys_call E c w = (x, w1)"
    by fastforce
  show ?case
  proof (cases "sr_ret x < 0")
    case True
    then show ?thesis
      using sys_call_trace[OF x]
      by (intro exI[of _ "Err (Os (sr_errno x))"] exI[of _ w1] exI[of _ "[x]"])
        (simp add: io_bind_call_cvt[OF x])
  next
    case False
    obtain r w' rs where "make_calls E cs w1 = Some (r, w')"
      "trace w' = trace w1 @ zip cs rs" "length rs \<le> length cs" "all_ok (butlast rs)"
      "case r of Inr _ \<Rightarrow> length rs = length cs \<and> all_ok rs
       | Inl e \<Rightarrow> rs \<noteq> [] \<and> sr_ret (last rs) < 0 \<and> e = os_failure (last rs)"
      using Cons.IH by blast
    then show ?thesis
      using sys_call_trace[OF x] False
      by (intro exI[of _ r] exI[of _ w'] exI[of _ "x # rs"])
        (auto simp: io_bind_call_cvt[OF x] split: sum.splits)
  qed
qed

lemma borrows_make_calls: "list_all plain_call cs \<Longrightarrow> borrows t (make_calls E cs)"
  by (induction cs) (auto intro: own_intros)

text \<open>Steps that each drop the same owner on failure drop it once.\<close>

lemma dropping_bind: "dropping E d (io_bind m f) = io_bind (dropping E d m) (\<lambda>x. dropping E d (f x))"
  by (auto simp: fun_eq_iff dropping_def io_bind_def split: option.splits sum.splits prod.splits)

lemma dropping_return [simp]: "dropping E d (io_return x) = io_return x"
  by (simp add: fun_eq_iff dropping_def io_lift_def)

section \<open>A scripted environment\<close>

text \<open>Answers calls from a list, for evaluating operations at concrete inputs.\<close>

fun scripted :: "sysret list env" where
  "scripted c (r # rs) = (r, rs)"
| "scripted c [] = (sr_ok\<lparr>sr_ret := -1\<rparr>, [])"

lemma sys_call_scripted [simp]:
  "sys_call scripted c \<lparr>kst = r # rs, trace = tr\<rparr> = (r, \<lparr>kst = rs, trace = tr @ [(c, r)]\<rparr>)"
  by (simp add: sys_call_def)

end
