(* ===== verification/Kernel_Socket.thy ===== *)
theory Kernel_Socket
  imports Env
begin

text \<open>
  The first half of \<open>imp/kernel.rs\<close>: the socket that owns a descriptor, the plumbing around
  \<open>getsockopt\<close> and \<open>setsockopt\<close>, creation and address binding, \<open>accept\<close>, \<open>connect\<close>,
  \<open>connectx\<close>, \<open>peeloff\<close> and \<open>shutdown\<close>. Operations carry the prefix \<open>imp_\<close> of their module.
  The lemmas show that no descriptor leaks on any path and how each failure is reported.
\<close>

section \<open>Sockets and options\<close>

datatype imp_Socket = imp_Socket (raw: fd)

text \<open>\<open>OwnedFd::from_raw_fd\<close> asserts that the descriptor is not \<open>-1\<close>.\<close>

definition from_raw_fd :: "fd \<Rightarrow> imp_Socket io_result" where
  "from_raw_fd d = (if d = -1 then panic else Ok (imp_Socket d))"

definition imp_setsockopt :: "'k env \<Rightarrow> imp_Socket \<Rightarrow> i32 \<Rightarrow> i32 \<Rightarrow> payload \<Rightarrow> ('k, unit) io" where
  "imp_setsockopt E s level opt val =
     io_bind (call_cvt E (C_setsockopt (raw s) level opt val)) (\<lambda>_. io_return ())"

text \<open>
  \<open>getsockopt::<T>\<close> lends the kernel a zeroed \<open>T\<close>, \<open>getsockopt_inout\<close> a \<open>T\<close> whose fields are
  inputs. The result is the memory of \<open>T\<close> afterwards: what the kernel did not write is unchanged.
\<close>

definition imp_getsockopt_inout ::
    "'k env \<Rightarrow> imp_Socket \<Rightarrow> i32 \<Rightarrow> i32 \<Rightarrow> byte list \<Rightarrow> ('k, byte list) io" where
  "imp_getsockopt_inout E s level opt val =
     io_bind (call_cvt E (C_getsockopt (raw s) level opt val)) (\<lambda>r.
     io_return (overlay (sr_out r) val))"

definition imp_getsockopt :: "'k env \<Rightarrow> imp_Socket \<Rightarrow> i32 \<Rightarrow> i32 \<Rightarrow> nat \<Rightarrow> ('k, byte list) io" where
  "imp_getsockopt E s level opt n = imp_getsockopt_inout E s level opt (replicate n 0)"

text \<open>The two instances at an integer type.\<close>

definition imp_getsockopt_i32 :: "'k env \<Rightarrow> target \<Rightarrow> imp_Socket \<Rightarrow> i32 \<Rightarrow> i32 \<Rightarrow> ('k, i32) io" where
  "imp_getsockopt_i32 E t s level opt =
     io_bind (imp_getsockopt E s level opt 4) (\<lambda>bs. io_return (from_ne_bytes t bs))"

definition imp_setsockopt_i32 ::
    "'k env \<Rightarrow> target \<Rightarrow> imp_Socket \<Rightarrow> i32 \<Rightarrow> i32 \<Rightarrow> i32 \<Rightarrow> ('k, unit) io" where
  "imp_setsockopt_i32 E t s level opt v = imp_setsockopt E s level opt (PBytes (to_ne_bytes t v))"

definition enable_rcvinfo :: "'k env \<Rightarrow> target \<Rightarrow> imp_Socket \<Rightarrow> ('k, unit) io" where
  "enable_rcvinfo E t s = imp_setsockopt_i32 E t s SOL_SCTP SCTP_RECVRCVINFO 1"

definition imp_new :: "'k env \<Rightarrow> target \<Rightarrow> Family \<Rightarrow> Style \<Rightarrow> ('k, imp_Socket) io" where
  "imp_new E t family style =
     (let domain = (case family of Ipv4 \<Rightarrow> LIBC_AF_INET (libc t) | Ipv6 \<Rightarrow> LIBC_AF_INET6 (libc t));
          ty = (case style of OneToOne \<Rightarrow> SOCK_STREAM (libc t) | OneToMany \<Rightarrow> SOCK_SEQPACKET (libc t))
      in io_bind (call_cvt E (C_socket domain (ty OR SOCK_CLOEXEC (libc t)) IPPROTO_SCTP)) (\<lambda>r.
         io_bind (io_lift (from_raw_fd (sr_ret r))) (\<lambda>sock.
         dropping E (raw sock) (io_bind (enable_rcvinfo E t sock) (\<lambda>_. io_return sock)))))"

section \<open>Addresses and connection setup\<close>

text \<open>
  \<open>bind\<close> and \<open>connect\<close> pass the first \<open>len\<close> bytes of a zeroed 128-byte buffer.
\<close>

definition sockaddr_arg :: "target \<Rightarrow> SocketAddr \<Rightarrow> byte list io_result" where
  "sockaddr_arg t addr =
     try_bind (write_sockaddr t addr (replicate 128 0)) (\<lambda>(storage, len). Ok (take len storage))"

definition imp_bind :: "'k env \<Rightarrow> target \<Rightarrow> imp_Socket \<Rightarrow> SocketAddr \<Rightarrow> ('k, unit) io" where
  "imp_bind E t s addr =
     io_bind (io_lift (sockaddr_arg t addr)) (\<lambda>name.
     io_bind (call_cvt E (C_bind (raw s) name)) (\<lambda>_. io_return ()))"

definition imp_bindx :: "'k env \<Rightarrow> target \<Rightarrow> imp_Socket \<Rightarrow> SocketAddr list \<Rightarrow> i32 \<Rightarrow> ('k, unit) io" where
  "imp_bindx E t s addrs opt =
     io_bind (io_lift (pack_addr_list t addrs)) (\<lambda>packed.
     io_bind (call_cvt E (C_setsockopt (raw s) SOL_SCTP opt (PBytes packed))) (\<lambda>_. io_return ()))"

definition imp_bindx_add :: "'k env \<Rightarrow> target \<Rightarrow> imp_Socket \<Rightarrow> SocketAddr list \<Rightarrow> ('k, unit) io" where
  "imp_bindx_add E t s addrs = imp_bindx E t s addrs SCTP_SOCKOPT_BINDX_ADD"

definition imp_bindx_remove :: "'k env \<Rightarrow> target \<Rightarrow> imp_Socket \<Rightarrow> SocketAddr list \<Rightarrow> ('k, unit) io" where
  "imp_bindx_remove E t s addrs = imp_bindx E t s addrs SCTP_SOCKOPT_BINDX_REM"

definition imp_listen :: "'k env \<Rightarrow> imp_Socket \<Rightarrow> i32 \<Rightarrow> ('k, unit) io" where
  "imp_listen E s backlog = io_bind (call_cvt E (C_listen (raw s) backlog)) (\<lambda>_. io_return ())"

text \<open>
  The address the kernel wrote to a zeroed 128-byte buffer, of the length it reports: the slice
  panics if that length is larger than the buffer.
\<close>

definition sockaddr_result :: "target \<Rightarrow> sysret \<Rightarrow> string \<Rightarrow> SocketAddr io_result" where
  "sockaddr_result t r msg =
     try_bind (slice_to (overlay (sr_name r) (replicate 128 0)) (sr_namelen r)) (\<lambda>buf.
     ok_or (map_option fst (read_sockaddr t buf)) (Custom InvalidData msg))"

definition accept_with_flags ::
    "'k env \<Rightarrow> target \<Rightarrow> imp_Socket \<Rightarrow> i32 \<Rightarrow> ('k, imp_Socket \<times> SocketAddr) io" where
  "accept_with_flags E t s flags =
     io_bind (call_cvt E (C_accept4 (raw s) 128 flags)) (\<lambda>r.
     io_bind (io_lift (from_raw_fd (sr_ret r))) (\<lambda>sock.
     dropping E (raw sock)
       (io_bind (enable_rcvinfo E t sock) (\<lambda>_.
        io_bind (io_lift (sockaddr_result t r ''bad peer sockaddr'')) (\<lambda>peer.
        io_return (sock, peer))))))"

definition imp_accept :: "'k env \<Rightarrow> target \<Rightarrow> imp_Socket \<Rightarrow> ('k, imp_Socket \<times> SocketAddr) io" where
  "imp_accept E t s = accept_with_flags E t s (SOCK_CLOEXEC (libc t))"

definition accept_nonblocking ::
    "'k env \<Rightarrow> target \<Rightarrow> imp_Socket \<Rightarrow> ('k, imp_Socket \<times> SocketAddr) io" where
  "accept_nonblocking E t s =
     accept_with_flags E t s (SOCK_CLOEXEC (libc t) OR SOCK_NONBLOCK (libc t))"

definition imp_connect :: "'k env \<Rightarrow> target \<Rightarrow> imp_Socket \<Rightarrow> SocketAddr \<Rightarrow> ('k, unit) io" where
  "imp_connect E t s addr =
     io_bind (io_lift (sockaddr_arg t addr)) (\<lambda>name.
     io_bind (call_cvt E (C_connect (raw s) name)) (\<lambda>_. io_return ()))"

definition classify_connectx_error :: "target \<Rightarrow> io_error \<Rightarrow> i32 \<Rightarrow> unit io_result" where
  "classify_connectx_error t e fl_flags =
     (if raw_os_error e \<noteq> Some (EINPROGRESS (libc t)) then Err e
      else if fl_flags AND O_NONBLOCK (libc t) \<noteq> 0 then Ok ()
      else Err (Custom TimedOut ''SCTP association setup timed out (SO_SNDTIMEO)''))"

definition imp_connectx :: "'k env \<Rightarrow> target \<Rightarrow> imp_Socket \<Rightarrow> SocketAddr list \<Rightarrow> ('k, AssocId) io" where
  "imp_connectx E t s addrs =
     (if addrs = [] then io_err (Custom InvalidInput ''no addresses'')
      else
        io_bind (io_lift (pack_addr_list t addrs)) (\<lambda>packed.
        let param = \<lparr>gao_assoc_id = 0, gao_addr_num = word_of_nat (length packed),
                     gao_addrs = packed\<rparr>
        in io_bind (do_call E (C_getsockopt_connectx3 (raw s) param)) (\<lambda>r.
           if sr_ret r = 0 then io_return (AssocId (sr_assoc r))
           else
             let e = Os (sr_errno r)
             in io_bind (if raw_os_error e = Some (EINPROGRESS (libc t))
                         then io_bind (call_cvt E (C_fcntl_getfl (raw s)))
                                (\<lambda>fl. io_return (word_of_int (sr_ret fl)))
                         else io_return 0) (\<lambda>fl_flags.
                io_bind (io_lift (classify_connectx_error t e fl_flags)) (\<lambda>_.
                io_return (AssocId (sr_assoc r)))))))"

section \<open>Association management\<close>

definition imp_style :: "'k env \<Rightarrow> target \<Rightarrow> imp_Socket \<Rightarrow> ('k, Style) io" where
  "imp_style E t s =
     io_bind (imp_getsockopt_i32 E t s (SOL_SOCKET (libc t)) (SO_TYPE (libc t))) (\<lambda>kind.
     if kind = SOCK_STREAM (libc t) then io_return OneToOne
     else if kind = SOCK_SEQPACKET (libc t) then io_return OneToMany
     else io_err (Custom InvalidInput ''socket type is neither SOCK_STREAM nor SOCK_SEQPACKET''))"

definition peeloff_with_flags ::
    "'k env \<Rightarrow> target \<Rightarrow> imp_Socket \<Rightarrow> AssocId \<Rightarrow> i32 \<Rightarrow> ('k, imp_Socket) io" where
  "peeloff_with_flags E t s assoc_id fl =
     (let flags_arg =
        \<lparr>p_arg = \<lparr>associd = assoc_raw assoc_id, sd = -1\<rparr>, pflags = fl\<rparr>
      in io_bind (imp_getsockopt_inout E s SOL_SCTP SCTP_SOCKOPT_PEELOFF_FLAGS
           (struct_bytes t False (sctp_peeloff_flags_arg_t_fields t flags_arg))) (\<lambda>bs.
         let flags_arg = sctp_peeloff_flags_arg_t_of_bytes t bs
         in io_bind (io_lift (from_raw_fd (sint (sd (p_arg flags_arg))))) (\<lambda>sock.
            dropping E (raw sock) (io_bind (enable_rcvinfo E t sock) (\<lambda>_. io_return sock)))))"

definition imp_peeloff :: "'k env \<Rightarrow> target \<Rightarrow> imp_Socket \<Rightarrow> AssocId \<Rightarrow> ('k, imp_Socket) io" where
  "imp_peeloff E t s assoc_id = peeloff_with_flags E t s assoc_id (SOCK_CLOEXEC (libc t))"

definition peeloff_nonblocking ::
    "'k env \<Rightarrow> target \<Rightarrow> imp_Socket \<Rightarrow> AssocId \<Rightarrow> ('k, imp_Socket) io" where
  "peeloff_nonblocking E t s assoc_id =
     peeloff_with_flags E t s assoc_id (SOCK_CLOEXEC (libc t) OR SOCK_NONBLOCK (libc t))"

datatype Shutdown = Read | Write | Both

definition imp_shutdown :: "'k env \<Rightarrow> target \<Rightarrow> imp_Socket \<Rightarrow> Shutdown \<Rightarrow> ('k, unit) io" where
  "imp_shutdown E t s how =
     io_bind (imp_style E t s) (\<lambda>style.
     if style = OneToMany
     then io_err (Custom Unsupported ''shutdown(2) does not close one-to-many SCTP associations; use SCTP_EOF or close the socket'')
     else
       let how = (case how of Read \<Rightarrow> SHUT_RD (libc t) | Write \<Rightarrow> SHUT_WR (libc t)
                            | Both \<Rightarrow> SHUT_RDWR (libc t))
       in io_bind (call_cvt E (C_shutdown (raw s) how)) (\<lambda>_. io_return ()))"

lemma sockaddr_arg_ok: "sockaddr_arg t addr = Ok (sockaddr_bytes t addr)"
  using sockaddr_len_bounds(2)[of addr]
  by (simp add: sockaddr_arg_def write_sockaddr_ok addr_len_defs)

section \<open>Ownership\<close>

lemma borrows_getsockopt_inout [own_intros]:
  "\<not> (level = SOL_SCTP \<and> opt = SCTP_SOCKOPT_PEELOFF_FLAGS) \<Longrightarrow>
     borrows t (imp_getsockopt_inout E s level opt val)"
  unfolding imp_getsockopt_inout_def by (intro own_intros) simp

lemma borrows_getsockopt [own_intros]:
  "\<not> (level = SOL_SCTP \<and> opt = SCTP_SOCKOPT_PEELOFF_FLAGS) \<Longrightarrow>
     borrows t (imp_getsockopt E s level opt n)"
  unfolding imp_getsockopt_def by (intro own_intros)

lemma borrows_getsockopt_i32 [own_intros]:
  "\<not> (level = SOL_SCTP \<and> opt = SCTP_SOCKOPT_PEELOFF_FLAGS) \<Longrightarrow>
     borrows t (imp_getsockopt_i32 E t' s level opt)"
  unfolding imp_getsockopt_i32_def by (intro own_intros)

lemma borrows_setsockopt [own_intros]: "borrows t (imp_setsockopt E s level opt val)"
  unfolding imp_setsockopt_def by (intro own_intros plain_calls)

lemma borrows_setsockopt_i32 [own_intros]: "borrows t (imp_setsockopt_i32 E t' s level opt v)"
  unfolding imp_setsockopt_i32_def by (intro own_intros)

lemma borrows_enable_rcvinfo [own_intros]: "borrows t (enable_rcvinfo E t' s)"
  unfolding enable_rcvinfo_def by (intro own_intros)

lemma borrows_setup [own_intros]:
  "borrows t (imp_bind E t' s addr)" "borrows t (imp_connect E t' s addr)"
  "borrows t (imp_bindx E t' s addrs opt)" "borrows t (imp_bindx_add E t' s addrs)"
  "borrows t (imp_bindx_remove E t' s addrs)" "borrows t (imp_listen E s backlog)"
  unfolding imp_bind_def imp_connect_def imp_bindx_add_def imp_bindx_remove_def imp_bindx_def
    imp_listen_def
  by (intro own_intros plain_calls)+

lemma borrows_connectx [own_intros]: "borrows t (imp_connectx E t' s addrs)"
  unfolding imp_connectx_def Let_def by (intro own_intros plain_calls)

text \<open>
  A step that produces an owned socket, and the way every caller continues: the socket is
  dropped if the rest fails.
\<close>

lemma owns_from_raw_fd: "owns t (fd_mset d) (\<lambda>s. {#raw s#}) {#} (io_lift (from_raw_fd d))"
  by (auto simp: from_raw_fd_def)

lemma owns_then_drop:
  assumes "borrows t m" and "\<And>x. q (f x) = {#d#}"
  shows "owns t {#d#} q {#} (dropping E d (io_bind m (\<lambda>x. io_return (f x))))"
proof (rule owns_dropping)
  have "owns t {#d#} (\<lambda>_. {#d#}) {#d#} m"
    using borrows_frame[OF assms(1)] by simp
  then show "owns t {#d#} q (add_mset d {#}) (io_bind m (\<lambda>x. io_return (f x)))"
    by (rule owns_bind) (use assms(2) in auto)
qed

locale socket_source =
  fixes t :: target
    and source :: "('k, 'a) io"
    and socket_of :: "'a \<Rightarrow> imp_Socket"
  assumes source_owns: "owns t {#} (\<lambda>x. {#raw (socket_of x)#}) {#} source"
begin

end

interpretation new_source: socket_source t "imp_new E t family style" "\<lambda>s. s"
  for t E family style
proof
  show "owns t {#} (\<lambda>s. {#raw s#}) {#} (imp_new E t family style)"
    unfolding imp_new_def Let_def
    by (intro owns_bind[OF owns_socket] owns_bind[OF owns_from_raw_fd] owns_then_drop own_intros refl)
qed

interpretation accept_source: socket_source t "accept_with_flags E t s fl" fst
  for t E s fl
proof
  show "owns t {#} (\<lambda>x. {#raw (fst x)#}) {#} (accept_with_flags E t s fl)"
    unfolding accept_with_flags_def io_bind_assoc[symmetric]
    by (intro owns_bind[OF owns_accept4] owns_bind[OF owns_from_raw_fd] owns_then_drop own_intros)
      simp
qed

interpretation peeloff_source: socket_source t "peeloff_with_flags E t s a fl" "\<lambda>s. s"
  for t E s a fl
proof
  have "owns t {#} (\<lambda>bs. fd_mset (sint (sd (p_arg (sctp_peeloff_flags_arg_t_of_bytes t bs))))) {#}
      (imp_getsockopt_inout E s SOL_SCTP SCTP_SOCKOPT_PEELOFF_FLAGS val)" for val
    unfolding imp_getsockopt_inout_def
    by (rule owns_bind, rule owns_call_cvt[where q = "\<lambda>r. fd_mset (sint (sd (p_arg
        (sctp_peeloff_flags_arg_t_of_bytes t (overlay (sr_out r) val)))))"]) auto
  then show "owns t {#} (\<lambda>s. {#raw s#}) {#} (peeloff_with_flags E t s a fl)"
    unfolding peeloff_with_flags_def Let_def
    by (rule owns_bind) (intro owns_bind[OF owns_from_raw_fd] owns_then_drop own_intros refl)
qed

section \<open>Receive information is always enabled\<close>

abbreviation rcvinfo_call :: "target \<Rightarrow> imp_Socket \<Rightarrow> call" where
  "rcvinfo_call t s \<equiv> C_setsockopt (raw s) SOL_SCTP SCTP_RECVRCVINFO (PBytes (to_ne_bytes t (1 :: i32)))"

lemma ends_with_rcvinfo:
  assumes "\<And>y. r = Ok y \<Longrightarrow> c y = rcvinfo_call t s"
  shows "ends_with (dropping E d (io_bind (enable_rcvinfo E t s) (\<lambda>_. io_lift r))) c"
proof (rule ends_with_dropping)
  show "ends_with (io_bind (enable_rcvinfo E t s) (\<lambda>_. io_lift r)) c"
    unfolding enable_rcvinfo_def imp_setsockopt_i32_def imp_setsockopt_def io_bind_assoc io_bind_lift
    by (rule ends_with_call_return) (use assms in simp)
qed

lemmas extends_socket_calls =
  extends_owns[OF owns_socket] extends_owns[OF owns_accept4] extends_owns[OF borrows_lift]

lemma new_ends_with: "ends_with (imp_new E t family style) (rcvinfo_call t)"
  unfolding imp_new_def Let_def from_raw_fd_def
  by (intro ends_with_bind extends_socket_calls ends_with_rcvinfo) simp

lemma accept_ends_with: "ends_with (accept_with_flags E t s fl) (\<lambda>x. rcvinfo_call t (fst x))"
  unfolding accept_with_flags_def io_bind_lift_lift
  by (intro ends_with_bind extends_socket_calls ends_with_rcvinfo) (auto simp: try_bind_eq_Inr)

lemma peeloff_ends_with: "ends_with (peeloff_with_flags E t s a fl) (rcvinfo_call t)"
proof -
  have "extends (imp_getsockopt_inout E s level opt val)" for level opt val
    unfolding imp_getsockopt_inout_def extends_def
    by (auto simp: io_bind_Some_iff call_cvt_def do_call_def io_lift_def
        dest!: sys_call_trace split: prod.splits)
  then show ?thesis
    unfolding peeloff_with_flags_def Let_def
    by (intro ends_with_bind extends_socket_calls ends_with_rcvinfo) simp_all
qed

section \<open>Properties\<close>

text \<open>
  C23: descriptors do not leak. Creating a socket, accepting one (blocking or not) and peeling an
  association off each hand exactly one open descriptor to the caller when they succeed; when
  they fail after the kernel handed one out, because \<open>SCTP_RECVRCVINFO\<close> could not be enabled,
  the peer address does not decode or the slice panics, that descriptor has been closed.
\<close>

theorem new_sockets_owned:
  "owns t {#} (\<lambda>s. {#raw s#}) {#} (imp_new E t family style) \<and>
   owns t {#} (\<lambda>(s, peer). {#raw s#}) {#} (imp_accept E t s) \<and>
   owns t {#} (\<lambda>(s, peer). {#raw s#}) {#} (accept_nonblocking E t s) \<and>
   owns t {#} (\<lambda>s. {#raw s#}) {#} (imp_peeloff E t s a) \<and>
   owns t {#} (\<lambda>s. {#raw s#}) {#} (peeloff_nonblocking E t s a)"
  by (simp add: imp_accept_def accept_nonblocking_def imp_peeloff_def peeloff_nonblocking_def
      case_prod_unfold new_source.source_owns accept_source.source_owns peeloff_source.source_owns)

text \<open>
  C37: every socket the crate creates, accepts or peels off has \<open>SCTP_RECVRCVINFO\<close> enabled when
  the caller gets it: the last call of each successful run is the option set to 1 on the very
  descriptor that is returned, and it succeeded. The receive path depends on it.
\<close>

theorem new_sockets_deliver_rcvinfo:
  "ends_with (imp_new E t family style) (rcvinfo_call t) \<and>
   ends_with (imp_accept E t s) (\<lambda>(s, peer). rcvinfo_call t s) \<and>
   ends_with (accept_nonblocking E t s) (\<lambda>(s, peer). rcvinfo_call t s) \<and>
   ends_with (imp_peeloff E t s a) (rcvinfo_call t) \<and>
   ends_with (peeloff_nonblocking E t s a) (rcvinfo_call t)"
  by (simp add: imp_accept_def accept_nonblocking_def imp_peeloff_def peeloff_nonblocking_def
      case_prod_unfold new_ends_with accept_ends_with peeloff_ends_with)

text \<open>
  C34: \<open>connectx\<close> hands the kernel a buffer that decodes to exactly the caller's addresses and
  reports the answer: an association id on success, the same id when establishment goes on in the
  background of a non-blocking socket, \<open>TimedOut\<close> when the same errno means that the send timeout
  of a blocking socket expired, and any other errno as it is, without a second call.
\<close>

theorem connectx_outcome:
  "let packed = concat (map (sockaddr_bytes t) addrs);
       param = \<lparr>gao_assoc_id = 0, gao_addr_num = word_of_nat (length packed), gao_addrs = packed\<rparr>;
       (r, w1) = sys_call E (C_getsockopt_connectx3 (raw s) param) w;
       (fl, w2) = sys_call E (C_fcntl_getfl (raw s)) w1
   in read_addr_list t packed (length addrs) = addrs \<and>
      imp_connectx E t s addrs w = Some
        (if addrs = [] then (Err (Custom InvalidInput ''no addresses''), w)
         else if sr_ret r = 0 then (Ok (AssocId (sr_assoc r)), w1)
         else if sr_errno r \<noteq> EINPROGRESS (libc t) then (Err (Os (sr_errno r)), w1)
         else if sr_ret fl < 0 then (Err (Os (sr_errno fl)), w2)
         else if word_of_int (sr_ret fl) AND O_NONBLOCK (libc t) \<noteq> 0
           then (Ok (AssocId (sr_assoc r)), w2)
         else (Err (Custom TimedOut ''SCTP association setup timed out (SO_SNDTIMEO)''), w2))"
proof -
  have "read_addr_list t (concat (map (sockaddr_bytes t) addrs)) (length addrs) = addrs"
    using addr_codec.take_items_emit[of addrs t "[]"] by (simp add: read_addr_list_items)
  then show ?thesis
    by (auto simp: imp_connectx_def pack_addr_list_ok io_bind_def do_call_def io_lift_def
        call_cvt_run classify_connectx_error_def Let_def split: prod.splits)
qed

text \<open>
  C39: \<open>shutdown\<close> never reaches the kernel on a one-to-many socket, where it would silently do
  nothing: it asks for the socket type, and unless that is \<open>SOCK_STREAM\<close> it makes no second call
  and fails, with \<open>Unsupported\<close> for a one-to-many socket.
\<close>

theorem shutdown_only_one_to_one:
  "let (r, w1) = sys_call E
         (C_getsockopt (raw s) (SOL_SOCKET (libc t)) (SO_TYPE (libc t)) (replicate 4 0)) w;
       kind = from_ne_bytes t (overlay (sr_out r) (replicate 4 0));
       code = (case how of Read \<Rightarrow> SHUT_RD (libc t) | Write \<Rightarrow> SHUT_WR (libc t)
                         | Both \<Rightarrow> SHUT_RDWR (libc t));
       (r', w2) = sys_call E (C_shutdown (raw s) code) w1
   in \<exists>msg. imp_shutdown E t s how w = Some
        (if sr_ret r < 0 then (Err (Os (sr_errno r)), w1)
         else if kind = SOCK_STREAM (libc t)
           then (if sr_ret r' < 0 then Err (Os (sr_errno r')) else Ok (), w2)
         else if kind = SOCK_SEQPACKET (libc t) then (Err (Custom Unsupported msg), w1)
         else (Err (Custom InvalidInput msg), w1))"
proof -
  let ?get = "C_getsockopt (raw s) (SOL_SOCKET (libc t)) (SO_TYPE (libc t)) (replicate 4 0)"
  let ?code = "case how of Read \<Rightarrow> SHUT_RD (libc t) | Write \<Rightarrow> SHUT_WR (libc t)
    | Both \<Rightarrow> SHUT_RDWR (libc t)"
  obtain r w1 where 1: "sys_call E ?get w = (r, w1)"
    by fastforce
  obtain r' w2 where 2: "sys_call E (C_shutdown (raw s) ?code) w1 = (r', w2)"
    by fastforce
  define kind where "kind = (from_ne_bytes t (overlay (sr_out r) (replicate 4 0)) :: i32)"
  have style: "imp_style E t s w =
      (if sr_ret r < 0 then Some (Err (Os (sr_errno r)), w1)
       else if kind = SOCK_STREAM (libc t) then Some (Ok OneToOne, w1)
       else if kind = SOCK_SEQPACKET (libc t) then Some (Ok OneToMany, w1)
       else Some (Err (Custom InvalidInput
         ''socket type is neither SOCK_STREAM nor SOCK_SEQPACKET''), w1))"
    unfolding kind_def imp_style_def imp_getsockopt_i32_def imp_getsockopt_def
      imp_getsockopt_inout_def io_bind_def call_cvt_run[OF 1]
    by (simp add: io_lift_def)
  show ?thesis
    unfolding Let_def 1 2 kind_def[symmetric] prod.case imp_shutdown_def io_bind_def style
    by (cases "sr_ret r < 0"; cases "kind = SOCK_STREAM (libc t)";
        cases "kind = SOCK_SEQPACKET (libc t)")
      (simp_all add: io_lift_def call_cvt_run[OF 2])
qed

end
