(* ===== verification/Kernel_Data.thy ===== *)
theory Kernel_Data
  imports Kernel_Socket
begin

text \<open>
  The data path of \<open>imp/kernel.rs\<close>: \<open>send_msg\<close>, \<open>recv_msg\<close> and the reassembly of a notification
  that the kernel delivers in pieces. The lemmas show what the kernel is given, what the caller
  gets for each of the kernel's answers, and that fragmentation is invisible to the caller.
\<close>

section \<open>Sending\<close>

definition SND_CMSG_SPACE :: "target \<Rightarrow> nat" where
  "SND_CMSG_SPACE t = space t (struct_size t False (sctp_sndinfo_tys t))"

definition RCV_CMSG_SPACE :: nat where
  "RCV_CMSG_SPACE = 192"

definition imp_send_msg ::
    "'k env \<Rightarrow> target \<Rightarrow> imp_Socket \<Rightarrow> byte list \<Rightarrow> SocketAddr option \<Rightarrow> SendInfo \<Rightarrow> ('k, nat) io" where
  "imp_send_msg E t s buf dest info =
     io_bind (io_lift (cmsg_write t (replicate (SND_CMSG_SPACE t) 0)
       IPPROTO_SCTP SCTP_CMSG_SNDINFO (sndinfo_bytes t info))) (\<lambda>(control, clen).
     io_bind (io_lift (case dest of
         Some a \<Rightarrow> try_bind (sockaddr_arg t a) (\<lambda>name. Ok (Some name))
       | None \<Rightarrow> Ok None)) (\<lambda>name.
     io_bind (do_call E (C_sendmsg (raw s) name buf (take clen control) (MSG_NOSIGNAL (libc t))))
       (\<lambda>r. io_lift (cvt_size r))))"

section \<open>Receiving\<close>

text \<open>
  The loop over the control messages: the last \<open>SCTP_RCVINFO\<close> long enough to hold the structure
  wins. \<open>read_unaligned\<close> reads the structure from the start of the payload.
\<close>

fun rcvinfo_loop :: "target \<Rightarrow> RcvInfo option \<Rightarrow> cmsg list \<Rightarrow> RcvInfo option" where
  "rcvinfo_loop t info [] = info"
| "rcvinfo_loop t info ((level, ty, data) # msgs) =
     rcvinfo_loop t
       (if level = IPPROTO_SCTP \<and> ty = SCTP_CMSG_RCVINFO \<and>
           struct_size t False (sctp_rcvinfo_tys t) \<le> length data
        then Some (RcvInfo_from_sys t (sctp_rcvinfo_of_bytes t data))
        else info) msgs"

definition MAX_NOTIFICATION :: nat where
  "MAX_NOTIFICATION = 2 ^ 20"

text \<open>
  One iteration of \<open>reassemble_notification\<close> per unfolding: \<open>out\<close>, \<open>oversized\<close> and \<open>scratch\<close> are
  the locals the loop updates. It runs until the kernel fails the call, breaks the sequence or
  marks the end of the record.
\<close>

partial_function (option) reassemble_loop ::
    "'k env \<Rightarrow> imp_Socket \<Rightarrow> byte list \<Rightarrow> bool \<Rightarrow> byte list \<Rightarrow> 'k world \<Rightarrow>
     (byte list io_result \<times> 'k world) option" where
  "reassemble_loop E s out oversized scratch w =
     (let (r, w') = sys_call E (C_recvmsg (raw s) (length scratch) 0 0 0) w;
          scratch = overlay (sr_out r) scratch
      in case cvt_size r of
           Inl e \<Rightarrow> Some (Inl e, w')
         | Inr n \<Rightarrow>
             if sr_msg_flags r AND MSG_NOTIFICATION = 0
             then Some (Err (Custom InvalidData ''sctp notification reassembly desynchronized''), w')
             else
               (case (if MAX_NOTIFICATION < length out + n then Ok (out, True)
                      else try_bind (slice_to scratch n) (\<lambda>part. Ok (out @ part, oversized))) of
                  Inl e \<Rightarrow> Some (Inl e, w')
                | Inr (out, oversized) \<Rightarrow>
                    if sr_msg_flags r AND MSG_EOR \<noteq> 0 then
                      Some (if oversized
                            then Err (Custom InvalidData ''sctp notification larger than 1 MiB discarded'')
                            else Ok out, w')
                    else reassemble_loop E s out oversized scratch w'))"

definition reassemble_notification :: "'k env \<Rightarrow> imp_Socket \<Rightarrow> byte list \<Rightarrow> ('k, byte list) io" where
  "reassemble_notification E s first = reassemble_loop E s first False (replicate 4096 0)"

text \<open>
  The caller's buffer is passed in and returned as the kernel left it. The value of a failing call
  is the error alone; what such a call left in the buffer is \<open>buf_after\<close> below.
\<close>

definition imp_recv_msg ::
    "'k env \<Rightarrow> target \<Rightarrow> imp_Socket \<Rightarrow> byte list \<Rightarrow> bool \<Rightarrow>
     ('k, (RecvMsg \<times> SocketAddr option) \<times> byte list) io" where
  "imp_recv_msg E t s buf want_from =
     io_bind (do_call E (C_recvmsg (raw s) (length buf) (if want_from then 128 else 0)
       RCV_CMSG_SPACE 0)) (\<lambda>r.
     io_bind (io_lift (cvt_size r)) (\<lambda>n.
     let flags = sr_msg_flags r;
         eor = (flags AND MSG_EOR \<noteq> 0);
         buf = overlay (sr_out r) buf
     in io_bind (io_lift
          (if want_from \<and> 0 < sr_namelen r
           then try_bind (slice_to (overlay (sr_name r) (replicate 128 0)) (sr_namelen r))
                  (\<lambda>name. Ok (map_option fst (read_sockaddr t name)))
           else Ok None)) (\<lambda>from.
        if flags AND MSG_NOTIFICATION \<noteq> 0 then
          io_bind (io_lift (slice_to buf n)) (\<lambda>first.
          if \<not> eor then
            io_bind (reassemble_notification E s first) (\<lambda>assembled.
            io_bind (io_lift (parse t assembled)) (\<lambda>parsed.
            io_return ((RecvNotification parsed, from), buf)))
          else
            io_bind (io_lift (parse t first)) (\<lambda>parsed.
            io_return ((RecvNotification parsed, from), buf)))
        else
          io_bind (io_lift (slice_to (overlay (sr_control r) (replicate RCV_CMSG_SPACE 0))
            (sr_controllen r))) (\<lambda>control.
          io_bind (io_lift (cmsg_iter t control)) (\<lambda>items.
          io_return ((Data n (rcvinfo_loop t None items) eor, from), buf))))))"

abbreviation recv_call :: "imp_Socket \<Rightarrow> byte list \<Rightarrow> bool \<Rightarrow> call" where
  "recv_call s buf want_from \<equiv>
     C_recvmsg (raw s) (length buf) (if want_from then 128 else 0) RCV_CMSG_SPACE 0"

text \<open>
  \<open>recv_msg\<close> borrows the buffer mutably: what its first \<open>recvmsg\<close> wrote stays there even when the
  call fails later, in the reassembly of a notification that does not fit. The contents it leaves
  when it is called in the world \<open>w\<close> are those the kernel's answer there determines.
\<close>

definition buf_after :: "'k env \<Rightarrow> bool \<Rightarrow> byte list \<Rightarrow> imp_Socket \<Rightarrow> 'k world \<Rightarrow> byte list" where
  "buf_after E want_from buf s w =
     overlay (sr_out (fst (sys_call E (recv_call s buf want_from) w))) buf"

section \<open>What the kernel is given\<close>

text \<open>The control buffer of a send holds one message, and the address is the packed destination.\<close>

lemma send_msg_run:
  "imp_send_msg E t s buf dest info w =
     (let (r, w') = sys_call E (C_sendmsg (raw s) (map_option (sockaddr_bytes t) dest) buf
            (cmsg_bytes t (IPPROTO_SCTP, SCTP_CMSG_SNDINFO, sndinfo_bytes t info))
            (MSG_NOSIGNAL (libc t))) w
      in Some (cvt_size r, w'))"
proof -
  have "cmsg_write t (replicate (SND_CMSG_SPACE t) 0) IPPROTO_SCTP SCTP_CMSG_SNDINFO
      (sndinfo_bytes t info) =
    Ok (cmsg_bytes t (IPPROTO_SCTP, SCTP_CMSG_SNDINFO, sndinfo_bytes t info), SND_CMSG_SPACE t)"
    by (subst cmsg_write_ok) (simp_all add: SND_CMSG_SPACE_def del: cmsg_bytes.simps)
  moreover have "length (cmsg_bytes t (IPPROTO_SCTP, SCTP_CMSG_SNDINFO, sndinfo_bytes t info)) =
      SND_CMSG_SPACE t"
    by (simp add: SND_CMSG_SPACE_def del: cmsg_bytes.simps)
  ultimately show ?thesis
    by (cases dest)
      (simp_all add: imp_send_msg_def sockaddr_arg_ok io_bind_def do_call_def io_lift_def
        split: prod.splits del: cmsg_bytes.simps)
qed

lemma cmsg_iter_single: "cmsg_fits t m \<Longrightarrow> cmsg_iter t (cmsg_bytes t m) = Ok [m]"
  using cmsg_iter_written[of "[m]" t] by simp

lemma sndinfo_fits: "cmsg_fits t (level, ty, sndinfo_bytes t info)"
  using usize_bytes_cases[of t] by (auto simp: cmsg_len_def HDR_LEN_cases)

section \<open>Reassembly\<close>

text \<open>
  A kernel that hands over the fragments \<open>fs\<close> of a record, none of them the last: each call fills
  the front of the scratch buffer, reports the notification flag and no end of record.
\<close>

fun hands_over :: "'k env \<Rightarrow> imp_Socket \<Rightarrow> byte list list \<Rightarrow> 'k world \<Rightarrow> 'k world \<Rightarrow> bool" where
  "hands_over E s [] w w' \<longleftrightarrow> w' = w"
| "hands_over E s (f # fs) w w' \<longleftrightarrow>
     (let (r, w1) = sys_call E (C_recvmsg (raw s) 4096 0 0 0) w
      in sr_ret r = int (length f) \<and> sr_out r = f \<and> length f \<le> 4096 \<and>
         sr_msg_flags r AND MSG_NOTIFICATION \<noteq> 0 \<and> sr_msg_flags r AND MSG_EOR = 0 \<and>
         hands_over E s fs w1 w')"

lemma slice_overlay:
  "length f \<le> length buf \<Longrightarrow> slice_to (overlay f buf) (length f) = Ok f"
  by (simp add: slice_to_def overlay_def)

lemma reassemble_fragments:
  assumes "hands_over E s fs w w1" and "length scratch = 4096"
  shows "\<exists>out' over' scratch'. length scratch' = 4096 \<and>
    reassemble_loop E s out over scratch w = reassemble_loop E s out' over' scratch' w1 \<and>
    (\<not> over' \<longrightarrow> \<not> over \<and> out' = out @ concat fs) \<and>
    (over' \<longrightarrow> over \<or> MAX_NOTIFICATION < length out + length (concat fs))"
  using assms
proof (induction fs arbitrary: out over scratch w)
  case Nil
  then show ?case by auto
next
  case (Cons f fs)
  obtain r w2 where r: "sys_call E (C_recvmsg (raw s) 4096 0 0 0) w = (r, w2)"
    by fastforce
  have f: "sr_ret r = int (length f)" "sr_out r = f" "length f \<le> 4096"
    "sr_msg_flags r AND MSG_NOTIFICATION \<noteq> 0" "sr_msg_flags r AND MSG_EOR = 0"
    and rest: "hands_over E s fs w2 w1"
    using Cons.prems(1) by (simp_all add: r)
  let ?sc = "overlay f scratch"
  show ?case
  proof (cases "MAX_NOTIFICATION < length out + length f")
    case True
    have "reassemble_loop E s out over scratch w = reassemble_loop E s out True ?sc w2"
      using True f Cons.prems(2) by (subst reassemble_loop.simps) (simp add: r cvt_size_def)
    then show ?thesis
      using Cons.IH[OF rest, of ?sc out True] Cons.prems True by fastforce
  next
    case False
    have "reassemble_loop E s out over scratch w = reassemble_loop E s (out @ f) over ?sc w2"
      using False f Cons.prems(2)
      by (subst reassemble_loop.simps) (simp add: r cvt_size_def slice_overlay)
    then show ?thesis
      using Cons.IH[OF rest, of ?sc "out @ f" over] Cons.prems False by fastforce
  qed
qed

text \<open>The answer that ends the loop, after any number of fragments.\<close>

definition ends_reassembly :: "sysret \<Rightarrow> bool" where
  "ends_reassembly r \<longleftrightarrow>
     sr_ret r < 0 \<or> sr_msg_flags r AND MSG_NOTIFICATION = 0 \<or>
     sr_msg_flags r AND MSG_EOR \<noteq> 0 \<and> sr_ret r = int (length (sr_out r)) \<and> length (sr_out r) \<le> 4096"

definition reassembled :: "byte list \<Rightarrow> sysret \<Rightarrow> byte list io_result" where
  "reassembled before r =
     (if sr_ret r < 0 then Err (Os (sr_errno r))
      else if sr_msg_flags r AND MSG_NOTIFICATION = 0
        then Err (Custom InvalidData ''sctp notification reassembly desynchronized'')
      else if MAX_NOTIFICATION < length before + length (sr_out r)
        then Err (Custom InvalidData ''sctp notification larger than 1 MiB discarded'')
      else Ok (before @ sr_out r))"

lemma reassemble_last:
  assumes "sys_call E (C_recvmsg (raw s) 4096 0 0 0) w = (r, w')" and "ends_reassembly r"
    and "length scratch = 4096"
  shows "reassemble_loop E s out over scratch w =
    Some (if over \<and> \<not> sr_ret r < 0 \<and> sr_msg_flags r AND MSG_NOTIFICATION \<noteq> 0
          then Err (Custom InvalidData ''sctp notification larger than 1 MiB discarded'')
          else reassembled out r, w')"
  using assms
  by (subst reassemble_loop.simps)
    (auto simp: cvt_size_def ends_reassembly_def reassembled_def slice_overlay)

lemma reassemble_run:
  assumes "hands_over E s fs w w1"
    and "sys_call E (C_recvmsg (raw s) 4096 0 0 0) w1 = (r, w2)" and "ends_reassembly r"
  shows "reassemble_notification E s first w = Some (reassembled (first @ concat fs) r, w2)"
proof -
  obtain out' over' scratch' where *: "length scratch' = 4096"
    "reassemble_loop E s first False (replicate 4096 0) w =
       reassemble_loop E s out' over' scratch' w1"
    "\<not> over' \<longrightarrow> out' = first @ concat fs"
    "over' \<longrightarrow> MAX_NOTIFICATION < length first + length (concat fs)"
    using reassemble_fragments[OF assms(1), of "replicate 4096 0" first False] by fastforce
  show ?thesis
    unfolding reassemble_notification_def *(2)
    using reassemble_last[OF assms(2,3) *(1), of out' over'] *(3,4)
    by (cases over') (auto simp: reassembled_def)
qed

section \<open>What the caller gets\<close>

text \<open>
  The answer of a kernel that delivers the bytes \<open>payload\<close>, sent from \<open>src\<close>, with the control
  messages \<open>ms\<close>: it stays within the buffers it was lent and reports the lengths it wrote.
\<close>

definition delivers ::
    "target \<Rightarrow> sysret \<Rightarrow> nat \<Rightarrow> byte list \<Rightarrow> SocketAddr option \<Rightarrow> cmsg list \<Rightarrow> bool" where
  "delivers t r room payload src ms \<longleftrightarrow>
     sr_ret r = int (length payload) \<and> sr_out r = payload \<and> length payload \<le> room \<and>
     sr_name r = (case src of None \<Rightarrow> [] | Some a \<Rightarrow> sockaddr_bytes t a) \<and>
     sr_namelen r = length (sr_name r) \<and>
     sr_control r = concat (map (cmsg_bytes t) ms) \<and> (\<forall>m \<in> set ms. cmsg_fits t m) \<and>
     sr_controllen r = length (sr_control r) \<and> sr_controllen r \<le> RCV_CMSG_SPACE"

definition is_rcvinfo :: "cmsg \<Rightarrow> bool" where
  "is_rcvinfo m \<longleftrightarrow>
     (case m of (level, ty, data) \<Rightarrow>
        level = IPPROTO_SCTP \<and> ty = SCTP_CMSG_RCVINFO \<and> 28 \<le> length data)"

definition last_rcvinfo :: "target \<Rightarrow> cmsg list \<Rightarrow> RcvInfo option" where
  "last_rcvinfo t ms =
     (let infos = filter is_rcvinfo ms
      in if infos = [] then None
         else Some (RcvInfo_from_sys t (sctp_rcvinfo_of_bytes t (snd (snd (last infos))))))"

lemma rcvinfo_loop_eq:
  "rcvinfo_loop t info ms = (if filter is_rcvinfo ms = [] then info else last_rcvinfo t ms)"
proof -
  have "is_rcvinfo (level, ty, data) \<longleftrightarrow>
      level = IPPROTO_SCTP \<and> ty = SCTP_CMSG_RCVINFO \<and> 28 \<le> length data" for level ty data
    by (simp add: is_rcvinfo_def)
  then show ?thesis
    by (induction t info ms rule: rcvinfo_loop.induct) (auto simp: last_rcvinfo_def)
qed

text \<open>A receive that succeeds returns the buffer it leaves.\<close>

lemma recv_msg_buf:
  assumes "imp_recv_msg E t s buf want_from w = Some (Ok (m, buf'), w')"
  shows "buf' = buf_after E want_from buf s w"
proof -
  obtain r w1 where r: "sys_call E (recv_call s buf want_from) w = (r, w1)"
    by fastforce
  show ?thesis
    using assms
    by (auto simp: imp_recv_msg_def io_bind_do_call[OF r] buf_after_def r Let_def io_bind_Some_iff io_lift_def
        split: if_splits)
qed

lemma length_buf_after [simp]: "length (buf_after E want_from buf s w) = length buf"
  by (simp add: buf_after_def overlay_def)

lemma recv_name:
  assumes "delivers t r room payload src ms"
  shows "(if want_from \<and> 0 < sr_namelen r
      then try_bind (slice_to (overlay (sr_name r) (replicate 128 0)) (sr_namelen r))
             (\<lambda>name. Ok (map_option fst (read_sockaddr t name)))
      else Ok None) = Ok (if want_from then src else None)"
proof (cases src)
  case None
  then show ?thesis
    using assms by (simp add: delivers_def)
next
  case (Some a)
  moreover have "read_sockaddr t (sockaddr_bytes t a) = Some (a, sockaddr_len a)"
    using read_sockaddr_bytes[of t a "[]"] by simp
  ultimately show ?thesis
    using assms sockaddr_len_bounds(1,2)[of a]
    by (auto simp: delivers_def addr_len_defs slice_to_def overlay_def)
qed

lemma recv_msg_head:
  assumes "sys_call E (recv_call s buf want_from) w = (r, w')"
    and "delivers t r (length buf) payload src ms"
  shows "imp_recv_msg E t s buf want_from w =
    (let from = (if want_from then src else None);
         buf = overlay payload buf
     in if sr_msg_flags r AND MSG_NOTIFICATION \<noteq> 0 then
          io_bind (if sr_msg_flags r AND MSG_EOR \<noteq> 0 then io_return payload
                   else reassemble_notification E s payload) (\<lambda>bs.
          io_bind (io_lift (parse t bs)) (\<lambda>parsed.
          io_return ((RecvNotification parsed, from), buf))) w'
        else Some (Ok ((Data (length payload) (last_rcvinfo t ms)
               (sr_msg_flags r AND MSG_EOR \<noteq> 0), from), buf), w'))"
proof -
  have ctl: "slice_to (overlay (sr_control r) (replicate RCV_CMSG_SPACE 0)) (sr_controllen r) =
      Ok (concat (map (cmsg_bytes t) ms))"
    using assms(2) slice_overlay[of "sr_control r" "replicate RCV_CMSG_SPACE 0"]
    by (auto simp: delivers_def)
  have it: "cmsg_iter t (concat (map (cmsg_bytes t) ms)) = Ok ms"
    using assms(2) by (intro cmsg_iter_written) (simp add: delivers_def)
  have info: "rcvinfo_loop t None ms = last_rcvinfo t ms"
    by (simp add: rcvinfo_loop_eq last_rcvinfo_def)
  have sl: "slice_to (overlay payload buf) (length payload) = Ok payload"
    and n: "cvt_size r = Ok (length payload)" "sr_out r = payload"
    using assms(2) by (auto simp: delivers_def cvt_size_def intro: slice_overlay)
  show ?thesis
    unfolding imp_recv_msg_def io_bind_do_call[OF assms(1)] n io_bind_lift Let_def
      recv_name[OF assms(2)] ctl it info sl
    by (simp add: io_lift_run)
qed

section \<open>Properties\<close>

text \<open>
  C4: sending makes exactly one \<open>sendmsg\<close>, with \<open>MSG_NOSIGNAL\<close> and the caller's bytes, and returns
  its result; no input makes it panic. The control buffer the kernel gets parses to one message,
  the \<open>SCTP_SNDINFO\<close> whose structure is the caller's parameters, and the address, when there is
  one, decodes to the caller's destination.
\<close>

theorem send_msg_passes_parameters:
  "\<exists>name control data. imp_send_msg E t s buf dest info w =
       (let (r, w') = sys_call E (C_sendmsg (raw s) name buf control (MSG_NOSIGNAL (libc t))) w
        in Some (if sr_ret r < 0 then Err (Os (sr_errno r)) else Ok (nat (sr_ret r)), w')) \<and>
     cmsg_iter t control = Ok [(IPPROTO_SCTP, SCTP_CMSG_SNDINFO, data)] \<and>
     sctp_sndinfo_of_bytes t data = SendInfo_to_sys t info \<and>
     map_option (read_sockaddr t) name = map_option (\<lambda>a. Some (a, sockaddr_len a)) dest"
proof -
  have "map_option (read_sockaddr t) (map_option (sockaddr_bytes t) dest) =
      map_option (\<lambda>a. Some (a, sockaddr_len a)) dest"
    using read_sockaddr_bytes[of t _ "[]"] by (cases dest) auto
  moreover have "sctp_sndinfo_of_bytes t (sndinfo_bytes t info) = SendInfo_to_sys t info"
    unfolding sndinfo_bytes_def
    by (rule sctp_sndinfo_cs.of_to_bytes_exact) (simp add: sctp_sndinfo_ok_def)
  ultimately show ?thesis
    unfolding send_msg_run cvt_size_def using cmsg_iter_single[OF sndinfo_fits] by blast
qed

text \<open>
  C2: reassembly terminates and is right for any number of fragments of any size. It returns the
  first part followed by every fragment in order; beyond 1 MiB it still drains the record to its
  end and then fails; an error of a later call is reported; a part that is not a notification
  is refused.
\<close>

theorem reassemble_outcome:
  assumes "hands_over E s fs w w1"
    and "sys_call E (C_recvmsg (raw s) 4096 0 0 0) w1 = (r, w2)"
    and "ends_reassembly r"
  shows "reassemble_notification E s first w = Some
    (if sr_ret r < 0 then Err (Os (sr_errno r))
     else if sr_msg_flags r AND MSG_NOTIFICATION = 0
       then Err (Custom InvalidData ''sctp notification reassembly desynchronized'')
     else if 1048576 < length (first @ concat fs @ sr_out r)
       then Err (Custom InvalidData ''sctp notification larger than 1 MiB discarded'')
     else Ok (first @ concat fs @ sr_out r), w2)"
  using reassemble_run[OF assms, of first] by (simp add: reassembled_def MAX_NOTIFICATION_def)

theorem reassemble_outcome_witness:
  "let frag = \<lambda>bs. sr_ok\<lparr>sr_ret := int (length bs), sr_out := bs, sr_msg_flags := MSG_NOTIFICATION\<rparr>;
       fin = (frag [5])\<lparr>sr_msg_flags := MSG_NOTIFICATION OR MSG_EOR\<rparr>
   in map_option fst (reassemble_notification scripted (imp_Socket 3) [1, 2]
        \<lparr>kst = [frag [3], frag [4, 4], fin], trace = []\<rparr>) = Some (Ok [1, 2, 3, 4, 4, 5])"
proof -
  define frag where "frag = (\<lambda>bs :: byte list. sr_ok\<lparr>sr_ret := int (length bs), sr_out := bs,
    sr_msg_flags := MSG_NOTIFICATION\<rparr>)"
  define fin where "fin = (frag [5])\<lparr>sr_msg_flags := MSG_NOTIFICATION OR MSG_EOR\<rparr>"
  define c where "c = C_recvmsg 3 4096 0 0 0"
  define w1 :: "sysret list world" where
    "w1 = \<lparr>kst = [fin], trace = [(c, frag [3]), (c, frag [4, 4])]\<rparr>"
  have 1: "hands_over scripted (imp_Socket 3) [[3], [4, 4]]
      \<lparr>kst = [frag [3], frag [4, 4], fin], trace = []\<rparr> w1"
    by (simp add: frag_def w1_def c_def MSG_NOTIFICATION_def MSG_EOR_def)
  have 2: "sys_call scripted (C_recvmsg (raw (imp_Socket 3)) 4096 0 0 0) w1 =
      (fin, \<lparr>kst = [], trace = [(c, frag [3]), (c, frag [4, 4]), (c, fin)]\<rparr>)"
    by (simp add: w1_def c_def)
  have 3: "ends_reassembly fin"
    by (simp add: ends_reassembly_def fin_def frag_def MSG_NOTIFICATION_def MSG_EOR_def)
  show ?thesis
    unfolding Let_def
    using reassemble_outcome[OF 1 2 3, of "[1, 2]"]
    by (simp add: fin_def frag_def MSG_NOTIFICATION_def MSG_EOR_def)
qed

text \<open>
  C3: receiving user data returns the length, the end-of-record mark and the buffer with the
  payload at its front and the rest untouched; the receive information is that of the last
  \<open>SCTP_RCVINFO\<close> among the control messages the kernel attached, whatever else they are; the
  sender is reported exactly when asked for.
\<close>

theorem recv_msg_data:
  assumes "sys_call E (recv_call s buf want_from) w = (r, w')"
    and "delivers t r (length buf) payload src ms"
    and "sr_msg_flags r AND MSG_NOTIFICATION = 0"
  shows "imp_recv_msg E t s buf want_from w =
    Some (Ok ((Data (length payload) (last_rcvinfo t ms) (sr_msg_flags r AND MSG_EOR \<noteq> 0),
              if want_from then src else None),
            payload @ drop (length payload) buf), w')"
  using recv_msg_head[OF assms(1,2)] assms(2,3) by (simp add: Let_def overlay_def delivers_def)

theorem recv_msg_data_witness:
  "let ri = \<lparr>rcv_sid = 1, rcv_ssn = 2, rcv_flags = 0, rcv_ppid = 3, rcv_tsn = 4, rcv_cumtsn = 5,
         rcv_context = 6, rcv_assoc_id = 7\<rparr>;
       ms = [(1, 99, [1, 2, 3]),
         (IPPROTO_SCTP, SCTP_CMSG_RCVINFO, struct_bytes linux_x86_64 False (sctp_rcvinfo_fields linux_x86_64 ri))];
       control = concat (map (cmsg_bytes linux_x86_64) ms);
       r = sr_ok\<lparr>sr_ret := 2, sr_out := [7, 8], sr_name := sockaddr_bytes linux_x86_64 (V4 0x7f000001 80),
         sr_namelen := 16, sr_control := control, sr_controllen := length control,
         sr_msg_flags := MSG_EOR\<rparr>
   in map_option fst (imp_recv_msg scripted linux_x86_64 (imp_Socket 3) [0, 0, 0, 0] True
        \<lparr>kst = [r], trace = []\<rparr>) =
      Some (Ok ((Data 2 (Some (RcvInfo_from_sys linux_x86_64 ri)) True, Some (V4 0x7f000001 80)),
        [7, 8, 0, 0]))"
proof -
  let ?t = linux_x86_64 and ?s = "imp_Socket 3" and ?buf = "[0, 0, 0, 0] :: byte list"
  define ri where "ri = \<lparr>rcv_sid = 1, rcv_ssn = 2, rcv_flags = 0, rcv_ppid = 3, rcv_tsn = 4,
    rcv_cumtsn = 5, rcv_context = 6, rcv_assoc_id = 7\<rparr>"
  define data where "data = struct_bytes ?t False (sctp_rcvinfo_fields ?t ri)"
  define ms where "ms = [(1, 99, [1, 2, 3]), (IPPROTO_SCTP, SCTP_CMSG_RCVINFO, data)]"
  define control where "control = concat (map (cmsg_bytes ?t) ms)"
  define r where "r = sr_ok\<lparr>sr_ret := 2, sr_out := [7, 8],
    sr_name := sockaddr_bytes ?t (V4 0x7f000001 80), sr_namelen := 16, sr_control := control,
    sr_controllen := length control, sr_msg_flags := MSG_EOR\<rparr>"
  have data: "length data = 28" "sctp_rcvinfo_of_bytes ?t data = ri"
    unfolding data_def
    by (simp_all add: sctp_rcvinfo_cs.to_bytes_length sctp_rcvinfo_cs.of_to_bytes_exact
        sctp_rcvinfo_ok_def)
  have "length control = 72"
    by (simp add: control_def ms_def data space_def HDR_LEN_cases align_round_up round_up_def
        del: cmsg_bytes.simps)
  then have 1: "delivers ?t r (length ?buf) [7, 8] (Some (V4 0x7f000001 80)) ms"
    by (simp add: delivers_def r_def control_def RCV_CMSG_SPACE_def ms_def data cmsg_len_def
        HDR_LEN_cases addr_len_defs del: cmsg_bytes.simps sockaddr_bytes.simps)
  have 2: "sr_msg_flags r AND MSG_NOTIFICATION = 0"
    by (simp add: r_def MSG_EOR_def MSG_NOTIFICATION_def)
  have "last_rcvinfo ?t ms = Some (RcvInfo_from_sys ?t ri)"
    by (simp add: last_rcvinfo_def ms_def is_rcvinfo_def data IPPROTO_SCTP_def)
  then show ?thesis
    unfolding Let_def ri_def[symmetric] data_def[symmetric] ms_def[symmetric]
      control_def[symmetric] r_def[symmetric]
    using recv_msg_data[OF sys_call_scripted 1 2]
    by (simp add: r_def MSG_EOR_def)
qed

text \<open>
  C1: fragmentation is invisible. If the kernel delivers an event in pieces, the first into the
  caller's buffer and the others one after the other, the caller gets the same notification as
  when the whole event fits the buffer, for every way of cutting an event of at most 1 MiB.
\<close>

theorem recv_msg_notification:
  assumes "sys_call E (recv_call s buf want_from) w = (r, w1)"
    and "delivers t r (length buf) first src ms"
    and "sr_msg_flags r AND MSG_NOTIFICATION \<noteq> 0" and "sr_msg_flags r AND MSG_EOR = 0"
    and "hands_over E s fs w1 w2"
    and "sys_call E (C_recvmsg (raw s) 4096 0 0 0) w2 = (r', w3)" and "ends_reassembly r'"
    and "\<not> sr_ret r' < 0" and "sr_msg_flags r' AND MSG_NOTIFICATION \<noteq> 0"
    and "first @ concat fs @ sr_out r' = event_bytes t fl len ev"
    and "length (event_bytes t fl len ev) \<le> 1048576"
  shows "imp_recv_msg E t s buf want_from w =
    Some (Ok ((RecvNotification (event_notification t fl ev), if want_from then src else None),
            first @ drop (length first) buf), w3)"
proof -
  have "reassembled (first @ concat fs) r' = Ok (event_bytes t fl len ev)"
    using assms(8-11)
    by (simp add: reassembled_def MAX_NOTIFICATION_def flip: assms(10))
  then have "reassemble_notification E s first w1 = Some (Ok (event_bytes t fl len ev), w3)"
    using reassemble_run[OF assms(5-7), of first] by simp
  then show ?thesis
    using recv_msg_head[OF assms(1,2)] assms(2-4)
    by (simp add: Let_def overlay_def delivers_def io_bind_run(1) parse_event io_lift_run)
qed

theorem recv_msg_notification_witness:
  "let bs = event_bytes linux_x86_64 0 12 (K_shutdown_event 7);
       frag = \<lambda>part. sr_ok\<lparr>sr_ret := int (length part), sr_out := part,
         sr_msg_flags := MSG_NOTIFICATION\<rparr>;
       fin = (frag (drop 7 bs))\<lparr>sr_msg_flags := MSG_NOTIFICATION OR MSG_EOR\<rparr>
   in map_option fst (imp_recv_msg scripted linux_x86_64 (imp_Socket 3) [0, 0, 0] False
        \<lparr>kst = [frag (take 3 bs), frag (take 4 (drop 3 bs)), fin], trace = []\<rparr>) =
      Some (Ok ((RecvNotification (N_Shutdown \<lparr>se_event_assoc_id = AssocId 7\<rparr>), None), take 3 bs))"
proof -
  let ?t = linux_x86_64 and ?s = "imp_Socket 3" and ?buf = "[0, 0, 0] :: byte list"
  define bs where "bs = event_bytes ?t 0 12 (K_shutdown_event 7)"
  define frag where "frag = (\<lambda>part :: byte list. sr_ok\<lparr>sr_ret := int (length part),
    sr_out := part, sr_msg_flags := MSG_NOTIFICATION\<rparr>)"
  define fin where "fin = (frag (drop 7 bs))\<lparr>sr_msg_flags := MSG_NOTIFICATION OR MSG_EOR\<rparr>"
  define p q where "p = take 3 bs" and "q = take 4 (drop 3 bs)"
  have len: "length bs = 12" "length p = 3" "length q = 4"
    by (simp_all add: p_def q_def bs_def event_bytes_def)
  note flags = MSG_NOTIFICATION_def MSG_EOR_def
  have 1: "delivers ?t (frag p) (length ?buf) p None []"
    by (simp add: delivers_def frag_def len)
  have 2: "sr_msg_flags (frag p) AND MSG_NOTIFICATION \<noteq> 0" "sr_msg_flags (frag p) AND MSG_EOR = 0"
    by (simp_all add: frag_def flags)
  let ?c = "recv_call ?s ?buf False" and ?c' = "C_recvmsg 3 4096 0 0 0"
  have 3: "hands_over scripted ?s [q] \<lparr>kst = [frag q, fin], trace = [] @ [(?c, frag p)]\<rparr>
      \<lparr>kst = [fin], trace = [(?c, frag p), (?c', frag q)]\<rparr>"
    by (simp add: frag_def len flags)
  have 4: "sys_call scripted (C_recvmsg (raw ?s) 4096 0 0 0)
      \<lparr>kst = [fin], trace = [(?c, frag p), (?c', frag q)]\<rparr> =
      (fin, \<lparr>kst = [], trace = [(?c, frag p), (?c', frag q), (?c', fin)]\<rparr>)"
    by simp
  have 5: "ends_reassembly fin" "\<not> sr_ret fin < 0" "sr_msg_flags fin AND MSG_NOTIFICATION \<noteq> 0"
    by (simp_all add: ends_reassembly_def fin_def frag_def len flags)
  have cut: "drop 3 bs = q @ drop 7 bs"
    using append_take_drop_id[of 4 "drop 3 bs"] by (simp add: q_def)
  then have 6: "p @ concat [q] @ sr_out fin = event_bytes ?t 0 12 (K_shutdown_event 7)"
    using append_take_drop_id[of 3 bs]
    by (simp add: p_def fin_def frag_def bs_def[symmetric])
  have 7: "length (event_bytes ?t 0 12 (K_shutdown_event 7)) \<le> 1048576"
    using len(1) by (simp add: bs_def)
  show ?thesis
    unfolding Let_def frag_def[symmetric] bs_def[symmetric] fin_def[symmetric] p_def[symmetric]
      q_def[symmetric]
    using recv_msg_notification[OF sys_call_scripted 1 2 3 4 5 6 7] by (simp add: len)
qed

end
