(* ===== verification/Kernel_Opts.thy ===== *)
theory Kernel_Opts
  imports Kernel_Socket
begin

text \<open>
  The socket options of \<open>imp/kernel.rs\<close>: blocking mode, event subscription, socket-level and
  association-level parameters, buffer sizes, timeouts and the pending error. The lemmas show
  that each setter passes a structure that decodes to the caller's values, that each query
  decodes what the kernel wrote, and the conversions between \<open>Duration\<close> and \<open>timeval\<close>.
\<close>

section \<open>Memory images of the option structures\<close>

abbreviation event_mem :: "target \<Rightarrow> sctp_event \<Rightarrow> byte list" where
  "event_mem t r \<equiv> struct_bytes t False (sctp_event_fields t r)"

abbreviation initmsg_mem :: "target \<Rightarrow> sctp_initmsg \<Rightarrow> byte list" where
  "initmsg_mem t r \<equiv> struct_bytes t False (sctp_initmsg_fields t r)"

abbreviation status_mem :: "target \<Rightarrow> sctp_status \<Rightarrow> byte list" where
  "status_mem t r \<equiv> struct_bytes t False (sctp_status_fields t r)"

abbreviation paddrinfo_mem :: "target \<Rightarrow> sctp_paddrinfo \<Rightarrow> byte list" where
  "paddrinfo_mem t r \<equiv> struct_bytes t True (sctp_paddrinfo_fields t r)"

abbreviation paddrparams_mem :: "target \<Rightarrow> sctp_paddrparams \<Rightarrow> byte list" where
  "paddrparams_mem t r \<equiv> struct_bytes t True (sctp_paddrparams_fields t r)"

abbreviation rtoinfo_mem :: "target \<Rightarrow> sctp_rtoinfo \<Rightarrow> byte list" where
  "rtoinfo_mem t r \<equiv> struct_bytes t False (sctp_rtoinfo_fields t r)"

abbreviation assocparams_mem :: "target \<Rightarrow> sctp_assocparams \<Rightarrow> byte list" where
  "assocparams_mem t r \<equiv> struct_bytes t False (sctp_assocparams_fields t r)"

abbreviation assoc_stats_mem :: "target \<Rightarrow> sctp_assoc_stats \<Rightarrow> byte list" where
  "assoc_stats_mem t r \<equiv> struct_bytes t False (sctp_assoc_stats_fields t r)"

abbreviation sack_info_mem :: "target \<Rightarrow> sctp_sack_info \<Rightarrow> byte list" where
  "sack_info_mem t r \<equiv> struct_bytes t False (sctp_sack_info_fields t r)"

abbreviation prim_mem :: "target \<Rightarrow> sctp_prim \<Rightarrow> byte list" where
  "prim_mem t r \<equiv> struct_bytes t True (sctp_prim_fields t r)"

section \<open>Blocking mode, events and initialisation\<close>

definition imp_set_nonblocking :: "'k env \<Rightarrow> target \<Rightarrow> imp_Socket \<Rightarrow> bool \<Rightarrow> ('k, unit) io" where
  "imp_set_nonblocking E t s nonblocking =
     io_bind (call_cvt E (C_fcntl_getfl (raw s))) (\<lambda>r.
     let flags = word_of_int (sr_ret r) :: i32;
         new = (if nonblocking then flags OR O_NONBLOCK (libc t)
                else flags AND NOT (O_NONBLOCK (libc t)))
     in if new \<noteq> flags
        then io_bind (call_cvt E (C_fcntl_setfl (raw s) new)) (\<lambda>_. io_return ())
        else io_return ())"

definition imp_subscribe_event_for ::
    "'k env \<Rightarrow> target \<Rightarrow> imp_Socket \<Rightarrow> AssocId \<Rightarrow> EventType \<Rightarrow> bool \<Rightarrow> ('k, unit) io" where
  "imp_subscribe_event_for E t s assoc_id event on =
     (let ev = \<lparr>se_assoc_id = assoc_raw assoc_id, se_type = EventType_to_raw event,
                se_on = (if on then 1 else 0)\<rparr>
      in imp_setsockopt E s SOL_SCTP SCTP_EVENT (PBytes (event_mem t ev)))"

definition imp_subscribe_event ::
    "'k env \<Rightarrow> target \<Rightarrow> imp_Socket \<Rightarrow> EventType \<Rightarrow> bool \<Rightarrow> ('k, unit) io" where
  "imp_subscribe_event E t s event on = imp_subscribe_event_for E t s FUTURE event on"

definition imp_init_params :: "'k env \<Rightarrow> target \<Rightarrow> imp_Socket \<Rightarrow> ('k, InitParams) io" where
  "imp_init_params E t s =
     io_bind (imp_getsockopt E s SOL_SCTP SCTP_INITMSG (struct_size t False (sctp_initmsg_tys t)))
       (\<lambda>bs. io_return (InitParams_from_sys (sctp_initmsg_of_bytes t bs)))"

definition imp_set_init_params :: "'k env \<Rightarrow> target \<Rightarrow> imp_Socket \<Rightarrow> InitParams \<Rightarrow> ('k, unit) io" where
  "imp_set_init_params E t s params =
     imp_setsockopt E s SOL_SCTP SCTP_INITMSG (PBytes (initmsg_mem t (InitParams_to_sys params)))"

section \<open>Flags\<close>

definition bool_i32 :: "bool \<Rightarrow> i32" where
  "bool_i32 b = (if b then 1 else 0)"

definition imp_nodelay :: "'k env \<Rightarrow> target \<Rightarrow> imp_Socket \<Rightarrow> ('k, bool) io" where
  "imp_nodelay E t s =
     io_bind (imp_getsockopt_i32 E t s SOL_SCTP SCTP_NODELAY) (\<lambda>v. io_return (v \<noteq> 0))"

definition imp_set_nodelay :: "'k env \<Rightarrow> target \<Rightarrow> imp_Socket \<Rightarrow> bool \<Rightarrow> ('k, unit) io" where
  "imp_set_nodelay E t s nodelay = imp_setsockopt_i32 E t s SOL_SCTP SCTP_NODELAY (bool_i32 nodelay)"

definition imp_reuse_address :: "'k env \<Rightarrow> target \<Rightarrow> imp_Socket \<Rightarrow> ('k, bool) io" where
  "imp_reuse_address E t s =
     io_bind (imp_getsockopt_i32 E t s (SOL_SOCKET (libc t)) (SO_REUSEADDR (libc t)))
       (\<lambda>v. io_return (v \<noteq> 0))"

definition imp_set_reuse_address :: "'k env \<Rightarrow> target \<Rightarrow> imp_Socket \<Rightarrow> bool \<Rightarrow> ('k, unit) io" where
  "imp_set_reuse_address E t s enabled =
     imp_setsockopt_i32 E t s (SOL_SOCKET (libc t)) (SO_REUSEADDR (libc t)) (bool_i32 enabled)"

definition imp_reuse_port :: "'k env \<Rightarrow> target \<Rightarrow> imp_Socket \<Rightarrow> ('k, bool) io" where
  "imp_reuse_port E t s =
     io_bind (imp_getsockopt_i32 E t s SOL_SCTP SCTP_REUSE_PORT) (\<lambda>v. io_return (v \<noteq> 0))"

definition imp_set_reuse_port :: "'k env \<Rightarrow> target \<Rightarrow> imp_Socket \<Rightarrow> bool \<Rightarrow> ('k, unit) io" where
  "imp_set_reuse_port E t s enabled =
     imp_setsockopt_i32 E t s SOL_SCTP SCTP_REUSE_PORT (bool_i32 enabled)"

definition set_abort_on_close :: "'k env \<Rightarrow> target \<Rightarrow> imp_Socket \<Rightarrow> ('k, unit) io" where
  "set_abort_on_close E t s =
     imp_setsockopt E s (SOL_SOCKET (libc t)) (SO_LINGER (libc t)) (PLinger 1 0)"

definition is_listening :: "'k env \<Rightarrow> target \<Rightarrow> imp_Socket \<Rightarrow> ('k, bool) io" where
  "is_listening E t s =
     io_bind (imp_getsockopt_i32 E t s (SOL_SOCKET (libc t)) (SO_ACCEPTCONN (libc t)))
       (\<lambda>v. io_return (v \<noteq> 0))"

definition imp_set_autoclose :: "'k env \<Rightarrow> target \<Rightarrow> imp_Socket \<Rightarrow> u32 \<Rightarrow> ('k, unit) io" where
  "imp_set_autoclose E t s seconds =
     imp_setsockopt E s SOL_SCTP SCTP_AUTOCLOSE (PBytes (to_ne_bytes t seconds))"

section \<open>Association queries and parameters\<close>

definition imp_status :: "'k env \<Rightarrow> target \<Rightarrow> imp_Socket \<Rightarrow> AssocId \<Rightarrow> ('k, AssocStatus) io" where
  "imp_status E t s assoc_id =
     (let raw = sctp_status_default\<lparr>sstat_assoc_id := assoc_raw assoc_id\<rparr>
      in io_bind (imp_getsockopt_inout E s SOL_SCTP SCTP_STATUS (status_mem t raw)) (\<lambda>bs.
         io_return (AssocStatus_from_sys t (sctp_status_of_bytes t bs))))"

text \<open>\<open>storage.bytes\<close> of a zeroed \<open>sockaddr_storage\<close> after \<open>write_sockaddr\<close>.\<close>

definition pack_addr :: "target \<Rightarrow> SocketAddr \<Rightarrow> sockaddr_storage io_result" where
  "pack_addr t addr =
     try_bind (write_sockaddr t addr (storage_bytes sockaddr_storage_zeroed)) (\<lambda>(bs, _).
     Ok (sockaddr_storage_zeroed\<lparr>storage_bytes := bs\<rparr>))"

definition pack_optional_addr :: "target \<Rightarrow> SocketAddr option \<Rightarrow> sockaddr_storage io_result" where
  "pack_optional_addr t addr =
     (case addr of Some a \<Rightarrow> pack_addr t a | None \<Rightarrow> Ok sockaddr_storage_zeroed)"

definition imp_peer_addr_info ::
    "'k env \<Rightarrow> target \<Rightarrow> imp_Socket \<Rightarrow> AssocId \<Rightarrow> SocketAddr \<Rightarrow> ('k, PeerAddrInfo) io" where
  "imp_peer_addr_info E t s assoc_id addr =
     io_bind (io_lift (pack_addr t addr)) (\<lambda>storage.
     let raw = sctp_paddrinfo_default
           \<lparr>spinfo_assoc_id := assoc_raw assoc_id, spinfo_address := storage\<rparr>
     in io_bind (imp_getsockopt_inout E s SOL_SCTP SCTP_GET_PEER_ADDR_INFO (paddrinfo_mem t raw))
          (\<lambda>bs. io_return (PeerAddrInfo_from_sys t (sctp_paddrinfo_of_bytes t bs))))"

definition imp_peer_addr_params ::
    "'k env \<Rightarrow> target \<Rightarrow> imp_Socket \<Rightarrow> AssocId \<Rightarrow> SocketAddr option \<Rightarrow> ('k, PeerAddrParams) io" where
  "imp_peer_addr_params E t s assoc_id addr =
     io_bind (io_lift (pack_optional_addr t addr)) (\<lambda>storage.
     let raw = sctp_paddrparams_default
           \<lparr>spp_assoc_id := assoc_raw assoc_id, spp_address := storage\<rparr>
     in io_bind (imp_getsockopt_inout E s SOL_SCTP SCTP_PEER_ADDR_PARAMS (paddrparams_mem t raw))
          (\<lambda>bs. io_return (PeerAddrParams_from_sys (sctp_paddrparams_of_bytes t bs))))"

definition imp_set_peer_addr_params ::
    "'k env \<Rightarrow> target \<Rightarrow> imp_Socket \<Rightarrow> AssocId \<Rightarrow> SocketAddr option \<Rightarrow> PeerAddrParams \<Rightarrow>
     ('k, unit) io" where
  "imp_set_peer_addr_params E t s assoc_id addr params =
     io_bind (io_lift (pack_optional_addr t addr)) (\<lambda>storage.
     let raw = sctp_paddrparams_default
           \<lparr>spp_assoc_id := assoc_raw assoc_id, spp_address := storage,
            spp_hbinterval := pp_hb_interval params, spp_pathmaxrxt := pp_path_max_rxt params,
            spp_pathmtu := pp_path_mtu params, spp_sackdelay := pp_sack_delay params,
            spp_flags := SppFlags_bits (pp_flags params),
            spp_ipv6_flowlabel := pp_ipv6_flowlabel params, spp_dscp := pp_dscp params\<rparr>
     in imp_setsockopt E s SOL_SCTP SCTP_PEER_ADDR_PARAMS (PBytes (paddrparams_mem t raw)))"

definition imp_rto_info :: "'k env \<Rightarrow> target \<Rightarrow> imp_Socket \<Rightarrow> AssocId \<Rightarrow> ('k, RtoInfo) io" where
  "imp_rto_info E t s assoc_id =
     (let raw = sctp_rtoinfo_default\<lparr>srto_assoc_id := assoc_raw assoc_id\<rparr>
      in io_bind (imp_getsockopt_inout E s SOL_SCTP SCTP_RTOINFO (rtoinfo_mem t raw)) (\<lambda>bs.
         let raw = sctp_rtoinfo_of_bytes t bs
         in io_return \<lparr>rto_initial = srto_initial raw, rto_max = srto_max raw,
              rto_min = srto_min raw\<rparr>))"

definition imp_assoc_info :: "'k env \<Rightarrow> target \<Rightarrow> imp_Socket \<Rightarrow> AssocId \<Rightarrow> ('k, AssocInfo) io" where
  "imp_assoc_info E t s assoc_id =
     (let raw = sctp_assocparams_default\<lparr>sasoc_assoc_id := assoc_raw assoc_id\<rparr>
      in io_bind (imp_getsockopt_inout E s SOL_SCTP SCTP_ASSOCINFO (assocparams_mem t raw)) (\<lambda>bs.
         let raw = sctp_assocparams_of_bytes t bs
         in io_return \<lparr>ai_asocmaxrxt = sasoc_asocmaxrxt raw,
              ai_number_peer_destinations = sasoc_number_peer_destinations raw,
              ai_peer_rwnd = sasoc_peer_rwnd raw, ai_local_rwnd = sasoc_local_rwnd raw,
              ai_cookie_life = sasoc_cookie_life raw\<rparr>))"

definition imp_assoc_stats :: "'k env \<Rightarrow> target \<Rightarrow> imp_Socket \<Rightarrow> AssocId \<Rightarrow> ('k, AssocStats) io" where
  "imp_assoc_stats E t s assoc_id =
     (let raw = sctp_assoc_stats_default\<lparr>sas_assoc_id := assoc_raw assoc_id\<rparr>
      in io_bind (imp_getsockopt_inout E s SOL_SCTP SCTP_GET_ASSOC_STATS (assoc_stats_mem t raw))
           (\<lambda>bs. io_return (AssocStats_from_sys t (sctp_assoc_stats_of_bytes t bs))))"

definition imp_set_assoc_info ::
    "'k env \<Rightarrow> target \<Rightarrow> imp_Socket \<Rightarrow> AssocId \<Rightarrow> AssocInfo \<Rightarrow> ('k, unit) io" where
  "imp_set_assoc_info E t s assoc_id info =
     (let raw = sctp_assocparams_default
            \<lparr>sasoc_assoc_id := assoc_raw assoc_id, sasoc_asocmaxrxt := ai_asocmaxrxt info,
             sasoc_cookie_life := ai_cookie_life info\<rparr>
      in imp_setsockopt E s SOL_SCTP SCTP_ASSOCINFO (PBytes (assocparams_mem t raw)))"

definition imp_delayed_sack :: "'k env \<Rightarrow> target \<Rightarrow> imp_Socket \<Rightarrow> AssocId \<Rightarrow> ('k, SackInfo) io" where
  "imp_delayed_sack E t s assoc_id =
     (let raw = sctp_sack_info_default\<lparr>sack_assoc_id := assoc_raw assoc_id\<rparr>
      in io_bind (imp_getsockopt_inout E s SOL_SCTP SCTP_DELAYED_SACK (sack_info_mem t raw)) (\<lambda>bs.
         let raw = sctp_sack_info_of_bytes t bs
         in io_return \<lparr>sk_delay_ms = sack_delay raw, sk_freq = sack_freq raw\<rparr>))"

definition imp_set_delayed_sack ::
    "'k env \<Rightarrow> target \<Rightarrow> imp_Socket \<Rightarrow> AssocId \<Rightarrow> SackInfo \<Rightarrow> ('k, unit) io" where
  "imp_set_delayed_sack E t s assoc_id info =
     (let raw = \<lparr>sack_assoc_id = assoc_raw assoc_id, sack_delay = sk_delay_ms info,
                 sack_freq = sk_freq info\<rparr>
      in imp_setsockopt E s SOL_SCTP SCTP_DELAYED_SACK (PBytes (sack_info_mem t raw)))"

definition imp_set_rto_info ::
    "'k env \<Rightarrow> target \<Rightarrow> imp_Socket \<Rightarrow> AssocId \<Rightarrow> RtoInfo \<Rightarrow> ('k, unit) io" where
  "imp_set_rto_info E t s assoc_id rto =
     (let raw = \<lparr>srto_assoc_id = assoc_raw assoc_id, srto_initial = rto_initial rto,
                 srto_max = rto_max rto, srto_min = rto_min rto\<rparr>
      in imp_setsockopt E s SOL_SCTP SCTP_RTOINFO (PBytes (rtoinfo_mem t raw)))"

definition imp_set_primary ::
    "'k env \<Rightarrow> target \<Rightarrow> imp_Socket \<Rightarrow> AssocId \<Rightarrow> SocketAddr \<Rightarrow> ('k, unit) io" where
  "imp_set_primary E t s assoc_id addr =
     io_bind (io_lift (pack_addr t addr)) (\<lambda>storage.
     let raw = \<lparr>ssp_assoc_id = assoc_raw assoc_id, ssp_addr = storage\<rparr>
     in imp_setsockopt E s SOL_SCTP SCTP_PRIMARY_ADDR (PBytes (prim_mem t raw)))"

section \<open>Buffer sizes, timeouts and the pending error\<close>

definition checked_buffer_size :: "nat \<Rightarrow> i32 io_result" where
  "checked_buffer_size n =
     (if n < 2 ^ 31 then Ok (word_of_nat n)
      else Err (Custom InvalidInput ''socket buffer size exceeds i32::MAX''))"

text \<open>\<open>v as usize\<close> sign-extends to the pointer width.\<close>

definition i32_as_usize :: "target \<Rightarrow> i32 \<Rightarrow> nat" where
  "i32_as_usize t v = nat (sint v mod 2 ^ (8 * usize_bytes t))"

definition imp_send_buffer_size :: "'k env \<Rightarrow> target \<Rightarrow> imp_Socket \<Rightarrow> ('k, nat) io" where
  "imp_send_buffer_size E t s =
     io_bind (imp_getsockopt_i32 E t s (SOL_SOCKET (libc t)) (SO_SNDBUF (libc t)))
       (\<lambda>v. io_return (i32_as_usize t v))"

definition imp_set_send_buffer_size :: "'k env \<Rightarrow> target \<Rightarrow> imp_Socket \<Rightarrow> nat \<Rightarrow> ('k, unit) io" where
  "imp_set_send_buffer_size E t s n =
     io_bind (io_lift (checked_buffer_size n)) (\<lambda>v.
     imp_setsockopt_i32 E t s (SOL_SOCKET (libc t)) (SO_SNDBUF (libc t)) v)"

definition imp_recv_buffer_size :: "'k env \<Rightarrow> target \<Rightarrow> imp_Socket \<Rightarrow> ('k, nat) io" where
  "imp_recv_buffer_size E t s =
     io_bind (imp_getsockopt_i32 E t s (SOL_SOCKET (libc t)) (SO_RCVBUF (libc t)))
       (\<lambda>v. io_return (i32_as_usize t v))"

definition imp_set_recv_buffer_size :: "'k env \<Rightarrow> target \<Rightarrow> imp_Socket \<Rightarrow> nat \<Rightarrow> ('k, unit) io" where
  "imp_set_recv_buffer_size E t s n =
     io_bind (io_lift (checked_buffer_size n)) (\<lambda>v.
     imp_setsockopt_i32 E t s (SOL_SOCKET (libc t)) (SO_RCVBUF (libc t)) v)"

text \<open>
  \<open>std::time::Duration\<close>: whole seconds below \<open>2 ^ 64\<close> and nanoseconds below \<open>10 ^ 9\<close>.
\<close>

record Duration =
  secs :: nat
  nanos :: nat

definition Duration_ok :: "Duration \<Rightarrow> bool" where
  "Duration_ok d \<longleftrightarrow> secs d < 2 ^ 64 \<and> nanos d < 10 ^ 9"

definition is_zero :: "Duration \<Rightarrow> bool" where
  "is_zero d \<longleftrightarrow> secs d = 0 \<and> nanos d = 0"

definition subsec_micros :: "Duration \<Rightarrow> nat" where
  "subsec_micros d = nanos d div 1000"

definition from_micros :: "nat \<Rightarrow> Duration" where
  "from_micros n = \<lparr>secs = n div 1000000, nanos = n mod 1000000 * 1000\<rparr>"

text \<open>\<open>Duration + Duration\<close> carries the nanoseconds and panics when the seconds overflow.\<close>

definition Duration_add :: "Duration \<Rightarrow> Duration \<Rightarrow> Duration io_result" where
  "Duration_add a b =
     (let n = nanos a + nanos b; sec = secs a + secs b + n div 10 ^ 9
      in if sec < 2 ^ 64 then Ok \<lparr>secs = sec, nanos = n mod 10 ^ 9\<rparr> else panic)"

definition set_timeout ::
    "'k env \<Rightarrow> target \<Rightarrow> imp_Socket \<Rightarrow> i32 \<Rightarrow> Duration option \<Rightarrow> ('k, unit) io" where
  "set_timeout E t s opt dur =
     (case dur of
        Some d \<Rightarrow>
          if is_zero d then io_err (Custom InvalidInput ''cannot set a zero duration timeout'')
          else imp_setsockopt E s (SOL_SOCKET (libc t)) opt
            (PTimeval (int (min (secs d) (TIME_T_MAX (libc t))))
              (int (max (subsec_micros d) (if secs d = 0 then 1 else 0))))
      | None \<Rightarrow> imp_setsockopt E s (SOL_SOCKET (libc t)) opt (PTimeval 0 0))"

definition timeout :: "'k env \<Rightarrow> target \<Rightarrow> imp_Socket \<Rightarrow> i32 \<Rightarrow> ('k, Duration option) io" where
  "timeout E t s opt =
     io_bind (call_cvt E (C_getsockopt_timeval (raw s) (SOL_SOCKET (libc t)) opt)) (\<lambda>r.
     case sr_timeval r of (tv_sec, tv_usec) \<Rightarrow>
       if tv_sec = 0 \<and> tv_usec = 0 then io_return None
       else
         io_bind (io_lift (Duration_add \<lparr>secs = nat (max tv_sec 0), nanos = 0\<rparr>
           (from_micros (nat (max tv_usec 0))))) (\<lambda>d.
         io_return (Some d)))"

definition imp_set_recv_timeout ::
    "'k env \<Rightarrow> target \<Rightarrow> imp_Socket \<Rightarrow> Duration option \<Rightarrow> ('k, unit) io" where
  "imp_set_recv_timeout E t s dur = set_timeout E t s (SO_RCVTIMEO (libc t)) dur"

definition imp_recv_timeout :: "'k env \<Rightarrow> target \<Rightarrow> imp_Socket \<Rightarrow> ('k, Duration option) io" where
  "imp_recv_timeout E t s = timeout E t s (SO_RCVTIMEO (libc t))"

definition imp_set_send_timeout ::
    "'k env \<Rightarrow> target \<Rightarrow> imp_Socket \<Rightarrow> Duration option \<Rightarrow> ('k, unit) io" where
  "imp_set_send_timeout E t s dur = set_timeout E t s (SO_SNDTIMEO (libc t)) dur"

definition imp_send_timeout :: "'k env \<Rightarrow> target \<Rightarrow> imp_Socket \<Rightarrow> ('k, Duration option) io" where
  "imp_send_timeout E t s = timeout E t s (SO_SNDTIMEO (libc t))"

definition imp_take_error :: "'k env \<Rightarrow> target \<Rightarrow> imp_Socket \<Rightarrow> ('k, io_error option) io" where
  "imp_take_error E t s =
     io_bind (imp_getsockopt_i32 E t s (SOL_SOCKET (libc t)) (SO_ERROR (libc t))) (\<lambda>v.
     io_return (if v = 0 then None else Some (Os v)))"

section \<open>Running the options\<close>

lemma setsockopt_run:
  "imp_setsockopt E s level opt val w =
     (let (r, w') = sys_call E (C_setsockopt (raw s) level opt val) w
      in Some (if sr_ret r < 0 then Err (Os (sr_errno r)) else Ok (), w'))"
  by (simp add: imp_setsockopt_def io_bind_def call_cvt_run io_lift_def split: prod.splits)

lemma getsockopt_inout_run:
  "imp_getsockopt_inout E s level opt val w =
     (let (r, w') = sys_call E (C_getsockopt (raw s) level opt val) w
      in Some (if sr_ret r < 0 then Err (Os (sr_errno r)) else Ok (overlay (sr_out r) val), w'))"
  by (simp add: imp_getsockopt_inout_def io_bind_def call_cvt_run io_lift_def split: prod.splits)

text \<open>
  The kernel answers a query for \<open>opt\<close> whose argument is \<open>mem\<close> by overwriting it with \<open>out\<close>.
\<close>

definition answers ::
    "'k env \<Rightarrow> imp_Socket \<Rightarrow> i32 \<Rightarrow> i32 \<Rightarrow> byte list \<Rightarrow> byte list \<Rightarrow> 'k world \<Rightarrow> 'k world \<Rightarrow> bool" where
  "answers E s level opt mem out w w' \<longleftrightarrow>
     (let (r, w1) = sys_call E (C_getsockopt (raw s) level opt mem) w
      in \<not> sr_ret r < 0 \<and> sr_out r = out \<and> length out = length mem \<and> w1 = w')"

lemma answers_run:
  "answers E s level opt mem out w w' \<Longrightarrow> imp_getsockopt_inout E s level opt mem w = Some (Ok out, w')"
  by (auto simp: answers_def getsockopt_inout_run overlay_full split: prod.splits)

lemma answers_bind:
  "answers E s level opt mem out w w' \<Longrightarrow>
     io_bind (imp_getsockopt_inout E s level opt mem) f w = f out w'"
  by (simp add: io_bind_def answers_run)

text \<open>
  The contract of an option's memory image, and its client. The kernel accepts the memory \<open>val\<close>
  and reports \<open>out\<close> when it is asked next; reading the option after the write then gives the value
  whose image \<open>out\<close> is. A flag is reported as it was written.
\<close>

definition stores ::
    "'k env \<Rightarrow> imp_Socket \<Rightarrow> i32 \<Rightarrow> i32 \<Rightarrow> byte list \<Rightarrow> byte list \<Rightarrow> 'k world \<Rightarrow> bool" where
  "stores E s level opt val out w \<longleftrightarrow>
     (let (r, w1) = sys_call E (C_setsockopt (raw s) level opt (PBytes val)) w
      in \<not> sr_ret r < 0 \<and>
         (\<exists>w2. answers E s level opt (replicate (length val) 0) out w1 w2))"

text \<open>
  What the kernel keeps of initialisation parameters, as \<open>types.rs\<close> documents it for
  \<open>SCTP_INITMSG\<close>: a field that is zero leaves the value \<open>old\<close> it has.
\<close>

definition merge_init :: "sctp_initmsg \<Rightarrow> sctp_initmsg \<Rightarrow> sctp_initmsg" where
  "merge_init old new =
     (let keep = \<lambda>o' n :: u16. if n = 0 then o' else n
      in \<lparr>sinit_num_ostreams = keep (sinit_num_ostreams old) (sinit_num_ostreams new),
          sinit_max_instreams = keep (sinit_max_instreams old) (sinit_max_instreams new),
          sinit_max_attempts = keep (sinit_max_attempts old) (sinit_max_attempts new),
          sinit_max_init_timeo = keep (sinit_max_init_timeo old) (sinit_max_init_timeo new)\<rparr>)"

locale sockopt_codec =
  fixes to_mem :: "'a \<Rightarrow> byte list"
    and of_mem :: "byte list \<Rightarrow> 'a"
    and size_mem :: nat
  assumes of_to_mem: "of_mem (to_mem x) = x"
    and length_to_mem: "length (to_mem x) = size_mem"
begin

lemma set_then_get:
  assumes "stores E s level opt (to_mem x) (to_mem y) w"
  shows "\<exists>w'. io_bind (imp_setsockopt E s level opt (PBytes (to_mem x))) (\<lambda>_.
      io_bind (imp_getsockopt E s level opt size_mem) (\<lambda>bs. io_return (of_mem bs))) w
    = Some (Ok y, w')"
proof -
  obtain r w1 where r: "sys_call E (C_setsockopt (raw s) level opt (PBytes (to_mem x))) w = (r, w1)"
    by fastforce
  then obtain w2 where "\<not> sr_ret r < 0"
    and a: "answers E s level opt (replicate size_mem 0) (to_mem y) w1 w2"
    using assms by (auto simp: stores_def length_to_mem)
  then have "imp_setsockopt E s level opt (PBytes (to_mem x)) w = Some (Ok (), w1)"
    by (simp add: setsockopt_run r)
  then show ?thesis
    by (simp add: io_bind_run(1) imp_getsockopt_def answers_bind[OF a] of_to_mem io_lift_run)
qed

end

interpretation bool_opt: sockopt_codec
  "\<lambda>b. to_ne_bytes t (bool_i32 b)" "\<lambda>bs. (from_ne_bytes t bs :: i32) \<noteq> 0" 4 for t
  by unfold_locales (simp_all add: from_to_ne_bytes bool_i32_def)

interpretation initmsg_opt: sockopt_codec
  "\<lambda>p. initmsg_mem t (InitParams_to_sys p)"
  "\<lambda>bs. InitParams_from_sys (sctp_initmsg_of_bytes t bs)" 8 for t
  by unfold_locales
    (simp_all add: sctp_initmsg_cs.of_to_bytes_exact sctp_initmsg_cs.to_bytes_length
      sctp_initmsg_ok_def InitParams_to_sys_def InitParams_from_sys_def)

lemma get_bool_codec:
  "io_bind (imp_getsockopt_i32 E t s level opt) (\<lambda>v. io_return (v \<noteq> 0)) =
     io_bind (imp_getsockopt E s level opt 4) (\<lambda>bs. io_return ((from_ne_bytes t bs :: i32) \<noteq> 0))"
  by (simp add: imp_getsockopt_i32_def io_bind_assoc)

lemma SppFlags_eta: "SppFlags (SppFlags_bits f) = f"
  by (cases f) simp

lemma i32_as_usize_nat: "n < 2 ^ 31 \<Longrightarrow> i32_as_usize t (word_of_nat n) = n"
proof -
  assume n: "n < 2 ^ 31"
  then have "sint (word_of_nat n :: i32) = int n"
    by (subst signed_of_nat) (simp add: signed_take_bit_int_eq_self)
  moreover have "int n < 2 ^ (8 * usize_bytes t)"
    using n usize_bytes_cases[of t] by auto
  ultimately show ?thesis
    by (simp add: i32_as_usize_def)
qed

lemma pack_addr_ok:
  "pack_addr t addr = Ok \<lparr>storage_bytes = sockaddr_bytes t addr @ replicate (128 - sockaddr_len addr) 0\<rparr>"
  using sockaddr_len_bounds(2)[of addr]
  by (simp add: pack_addr_def write_sockaddr_ok sockaddr_storage_zeroed_def addr_len_defs)

lemma packed_storage_length:
  "length (sockaddr_bytes t addr @ replicate (128 - sockaddr_len addr) 0) = 128"
  using sockaddr_len_bounds(2)[of addr] by (simp add: addr_len_defs)

definition packed_storage :: "target \<Rightarrow> SocketAddr option \<Rightarrow> sockaddr_storage" where
  "packed_storage t addr =
     \<lparr>storage_bytes = (case addr of
        Some a \<Rightarrow> sockaddr_bytes t a @ replicate (128 - sockaddr_len a) 0
      | None \<Rightarrow> replicate 128 0)\<rparr>"

lemma pack_optional_addr_ok: "pack_optional_addr t addr = Ok (packed_storage t addr)"
  by (simp add: pack_optional_addr_def packed_storage_def pack_addr_ok sockaddr_storage_zeroed_def
      split: option.splits)

lemma pack_addr_packed: "pack_addr t addr = Ok (packed_storage t (Some addr))"
  by (simp add: pack_addr_ok packed_storage_def)

lemma length_packed_storage [simp]: "length (storage_bytes (packed_storage t addr)) = 128"
  using packed_storage_length[of t] by (simp add: packed_storage_def split: option.splits)

lemma read_packed_storage:
  "map_option fst (read_sockaddr t (storage_bytes (packed_storage t addr))) = addr"
proof (cases addr)
  case None
  have "read_sockaddr t (replicate 128 0) = None"
  proof -
    have "(from_ne_bytes t [0, 0] :: u16) = 0"
      by (simp add: from_ne_bytes_def ne_val_def be_val_def split: endian.splits)
    moreover have "take 2 (replicate 128 (0 :: byte)) = [0, 0]"
      by (simp add: numeral_2_eq_2)
    ultimately show ?thesis
      by (simp add: read_sockaddr_None_iff AF_INET_def AF_INET6_def)
  qed
  then show ?thesis
    by (simp add: None packed_storage_def)
next
  case (Some a)
  then show ?thesis
    by (simp add: packed_storage_def read_sockaddr_bytes)
qed

section \<open>Properties\<close>

text \<open>
  C40: changing the blocking mode changes nothing else. The new status flags agree with the old
  ones outside \<open>O_NONBLOCK\<close> and have that flag exactly as asked; they are written back only when
  they differ, so that a socket already in the requested mode costs one call.
\<close>

theorem set_nonblocking_only_mode:
  "let nb = O_NONBLOCK (libc t);
       (r, w1) = sys_call E (C_fcntl_getfl (raw s)) w;
       flags = word_of_int (sr_ret r) :: i32
   in \<exists>new. new AND NOT nb = flags AND NOT nb \<and> new AND nb = (if b then nb else 0) \<and>
      imp_set_nonblocking E t s b w =
        (if sr_ret r < 0 then Some (Err (Os (sr_errno r)), w1)
         else if new = flags then Some (Ok (), w1)
         else let (r', w2) = sys_call E (C_fcntl_setfl (raw s) new) w1
              in Some (if sr_ret r' < 0 then Err (Os (sr_errno r')) else Ok (), w2))"
proof -
  let ?nb = "O_NONBLOCK (libc t)"
  obtain r w1 where r: "sys_call E (C_fcntl_getfl (raw s)) w = (r, w1)"
    by fastforce
  define flags where "flags = (word_of_int (sr_ret r) :: i32)"
  define new where "new = (if b then flags OR ?nb else flags AND NOT ?nb)"
  have bits: "new AND NOT ?nb = flags AND NOT ?nb" "new AND ?nb = (if b then ?nb else 0)"
    by (auto simp: new_def intro!: bit_word_eqI simp: bit_simps)
  have "imp_set_nonblocking E t s b w =
        (if sr_ret r < 0 then Some (Err (Os (sr_errno r)), w1)
         else if new = flags then Some (Ok (), w1)
         else let (r', w2) = sys_call E (C_fcntl_setfl (raw s) new) w1
              in Some (if sr_ret r' < 0 then Err (Os (sr_errno r')) else Ok (), w2))"
    unfolding imp_set_nonblocking_def io_bind_call_cvt[OF r] Let_def flags_def[symmetric]
      new_def[symmetric]
    by (simp add: io_bind_def call_cvt_run io_lift_def split: prod.splits)
  then show ?thesis
    unfolding Let_def r prod.case flags_def[symmetric] using bits by (intro exI[of _ new]) simp
qed

text \<open>
  C32: every setter of a structured option makes one \<open>setsockopt\<close> whose memory the kernel decodes
  to the caller's values, under the association they are meant for: event subscriptions,
  initialisation, RTO and association parameters, delayed SACK, the primary address and the
  per-path parameters, where the zeroed address stands for no address. Of the association
  parameters the retransmission limit and the cookie lifetime are passed; the three that are
  read-only on Linux go out as zero, whatever the caller's record holds.
\<close>

theorem setters_pass_parameters:
  "(\<exists>m. imp_subscribe_event_for E t s a ev on w =
        imp_setsockopt E s SOL_SCTP SCTP_EVENT (PBytes m) w \<and>
      sctp_event_of_bytes t m =
        \<lparr>se_assoc_id = assoc_raw a, se_type = EventType_to_raw ev, se_on = (if on then 1 else 0)\<rparr>) \<and>
   (\<exists>m. imp_set_rto_info E t s a rto w = imp_setsockopt E s SOL_SCTP SCTP_RTOINFO (PBytes m) w \<and>
      sctp_rtoinfo_of_bytes t m = \<lparr>srto_assoc_id = assoc_raw a, srto_initial = rto_initial rto,
        srto_max = rto_max rto, srto_min = rto_min rto\<rparr>) \<and>
   (\<exists>m raw. imp_set_assoc_info E t s a info w =
        imp_setsockopt E s SOL_SCTP SCTP_ASSOCINFO (PBytes m) w \<and>
      sctp_assocparams_of_bytes t m = raw \<and> sasoc_assoc_id raw = assoc_raw a \<and>
      sasoc_asocmaxrxt raw = ai_asocmaxrxt info \<and> sasoc_cookie_life raw = ai_cookie_life info \<and>
      sasoc_number_peer_destinations raw = 0 \<and> sasoc_peer_rwnd raw = 0 \<and> sasoc_local_rwnd raw = 0) \<and>
   (\<exists>m. imp_set_delayed_sack E t s a sack w =
        imp_setsockopt E s SOL_SCTP SCTP_DELAYED_SACK (PBytes m) w \<and>
      sctp_sack_info_of_bytes t m =
        \<lparr>sack_assoc_id = assoc_raw a, sack_delay = sk_delay_ms sack, sack_freq = sk_freq sack\<rparr>) \<and>
   (\<exists>m raw. imp_set_primary E t s a addr w =
        imp_setsockopt E s SOL_SCTP SCTP_PRIMARY_ADDR (PBytes m) w \<and>
      sctp_prim_of_bytes t m = raw \<and> ssp_assoc_id raw = assoc_raw a \<and>
      map_option fst (read_sockaddr t (storage_bytes (ssp_addr raw))) = Some addr) \<and>
   (\<exists>m raw. imp_set_peer_addr_params E t s a oaddr params w =
        imp_setsockopt E s SOL_SCTP SCTP_PEER_ADDR_PARAMS (PBytes m) w \<and>
      sctp_paddrparams_of_bytes t m = raw \<and> spp_assoc_id raw = assoc_raw a \<and>
      map_option fst (read_sockaddr t (storage_bytes (spp_address raw))) = oaddr \<and>
      spp_hbinterval raw = pp_hb_interval params \<and> spp_pathmaxrxt raw = pp_path_max_rxt params \<and>
      spp_pathmtu raw = pp_path_mtu params \<and> spp_sackdelay raw = pp_sack_delay params \<and>
      SppFlags (spp_flags raw) = pp_flags params \<and> spp_ipv6_flowlabel raw = pp_ipv6_flowlabel params \<and>
      spp_dscp raw = pp_dscp params) \<and>
   (\<exists>m. imp_set_init_params E t s p w = imp_setsockopt E s SOL_SCTP SCTP_INITMSG (PBytes m) w \<and>
      sctp_initmsg_of_bytes t m = \<lparr>sinit_num_ostreams = ip_num_ostreams p,
        sinit_max_instreams = ip_max_instreams p, sinit_max_attempts = ip_max_attempts p,
        sinit_max_init_timeo = ip_max_init_timeo p\<rparr>)"
proof (intro conjI, goal_cases)
  case 1
  show ?case
    unfolding imp_subscribe_event_for_def Let_def
    by (intro exI conjI, rule refl, rule sctp_event_cs.of_to_bytes_exact)
      (simp add: sctp_event_ok_def)
next
  case 2
  show ?case
    unfolding imp_set_rto_info_def Let_def
    by (intro exI conjI, rule refl, rule sctp_rtoinfo_cs.of_to_bytes_exact)
      (simp add: sctp_rtoinfo_ok_def)
next
  case 3
  show ?case
    unfolding imp_set_assoc_info_def Let_def
    by (intro exI conjI, rule refl, rule sctp_assocparams_cs.of_to_bytes_exact)
      (simp_all add: sctp_assocparams_ok_def sctp_assocparams_default_def)
next
  case 4
  show ?case
    unfolding imp_set_delayed_sack_def Let_def
    by (intro exI conjI, rule refl, rule sctp_sack_info_cs.of_to_bytes_exact)
      (simp add: sctp_sack_info_ok_def)
next
  case 5
  show ?case
    unfolding imp_set_primary_def pack_addr_packed io_bind_lift Let_def
    by (intro exI conjI, rule refl, rule sctp_prim_cs.of_to_bytes_exact)
      (simp_all add: sctp_prim_ok_def read_packed_storage)
next
  case 6
  show ?case
    unfolding imp_set_peer_addr_params_def pack_optional_addr_ok io_bind_lift Let_def
    by (intro exI conjI, rule refl, rule sctp_paddrparams_cs.of_to_bytes_exact)
      (simp_all add: sctp_paddrparams_ok_def read_packed_storage SppFlags_eta)
next
  case 7
  show ?case
    unfolding imp_set_init_params_def InitParams_to_sys_def
    by (intro exI conjI, rule refl, rule sctp_initmsg_cs.of_to_bytes_exact)
      (simp add: sctp_initmsg_ok_def)
qed

text \<open>
  C36: reading an option back gives what was set. For the boolean options, under a kernel that
  reports a flag as it was written, a successful setter followed by the getter yields the same
  value. For the initialisation parameters the kernel keeps the value it has for a field that is
  set to zero and takes every other: the getter then reports each non-zero field as it was set and
  each zero field as it was before.
\<close>

theorem set_then_get_options:
  "(\<forall>flag. flag = to_ne_bytes t (bool_i32 b) \<longrightarrow>
     (stores E s SOL_SCTP SCTP_NODELAY flag flag w \<longrightarrow>
        (\<exists>w'. io_bind (imp_set_nodelay E t s b) (\<lambda>_. imp_nodelay E t s) w = Some (Ok b, w'))) \<and>
     (stores E s (SOL_SOCKET (libc t)) (SO_REUSEADDR (libc t)) flag flag w \<longrightarrow>
        (\<exists>w'. io_bind (imp_set_reuse_address E t s b) (\<lambda>_. imp_reuse_address E t s) w = Some (Ok b, w'))) \<and>
     (stores E s SOL_SCTP SCTP_REUSE_PORT flag flag w \<longrightarrow>
        (\<exists>w'. io_bind (imp_set_reuse_port E t s b) (\<lambda>_. imp_reuse_port E t s) w = Some (Ok b, w')))) \<and>
   (\<forall>mem. mem = initmsg_mem t (InitParams_to_sys p) \<and>
     stores E s SOL_SCTP SCTP_INITMSG mem
       (initmsg_mem t (merge_init old (sctp_initmsg_of_bytes t mem))) w \<longrightarrow>
     (\<exists>w'. io_bind (imp_set_init_params E t s p) (\<lambda>_. imp_init_params E t s) w = Some (Ok
        \<lparr>ip_num_ostreams = (if ip_num_ostreams p = 0 then sinit_num_ostreams old else ip_num_ostreams p),
         ip_max_instreams = (if ip_max_instreams p = 0 then sinit_max_instreams old else ip_max_instreams p),
         ip_max_attempts = (if ip_max_attempts p = 0 then sinit_max_attempts old else ip_max_attempts p),
         ip_max_init_timeo =
           (if ip_max_init_timeo p = 0 then sinit_max_init_timeo old else ip_max_init_timeo p)\<rparr>, w')))"
proof -
  note bool_defs = imp_set_nodelay_def imp_nodelay_def imp_set_reuse_address_def imp_reuse_address_def
    imp_set_reuse_port_def imp_reuse_port_def imp_setsockopt_i32_def get_bool_codec
  let ?q = "InitParams_from_sys (merge_init old (InitParams_to_sys p))"
  have "sctp_initmsg_of_bytes t (initmsg_mem t (InitParams_to_sys p)) = InitParams_to_sys p"
    by (simp add: sctp_initmsg_cs.of_to_bytes_exact sctp_initmsg_ok_def)
  moreover have "InitParams_to_sys ?q = merge_init old (InitParams_to_sys p)"
    by (simp add: InitParams_to_sys_def InitParams_from_sys_def merge_init_def Let_def)
  ultimately have "\<exists>w'. io_bind (imp_set_init_params E t s p) (\<lambda>_. imp_init_params E t s) w = Some (Ok ?q, w')"
    if "mem = initmsg_mem t (InitParams_to_sys p)" "stores E s SOL_SCTP SCTP_INITMSG mem
       (initmsg_mem t (merge_init old (sctp_initmsg_of_bytes t mem))) w" for mem
    using that initmsg_opt.set_then_get[of E s SOL_SCTP SCTP_INITMSG t p ?q w]
    unfolding imp_set_init_params_def imp_init_params_def sctp_initmsg_size by simp
  moreover have "?q =
      \<lparr>ip_num_ostreams = (if ip_num_ostreams p = 0 then sinit_num_ostreams old else ip_num_ostreams p),
       ip_max_instreams = (if ip_max_instreams p = 0 then sinit_max_instreams old else ip_max_instreams p),
       ip_max_attempts = (if ip_max_attempts p = 0 then sinit_max_attempts old else ip_max_attempts p),
       ip_max_init_timeo =
         (if ip_max_init_timeo p = 0 then sinit_max_init_timeo old else ip_max_init_timeo p)\<rparr>"
    by (simp add: InitParams_to_sys_def InitParams_from_sys_def merge_init_def Let_def)
  ultimately show ?thesis
    unfolding bool_defs using bool_opt.set_then_get by (auto simp del: io_bind_assoc)
qed

theorem set_then_get_options_witness:
  "let p = \<lparr>ip_num_ostreams = 10, ip_max_instreams = 0, ip_max_attempts = 3, ip_max_init_timeo = 0\<rparr>;
       old = \<lparr>sinit_num_ostreams = 1, sinit_max_instreams = 100, sinit_max_attempts = 8, sinit_max_init_timeo = 60000\<rparr>;
       now = \<lparr>sinit_num_ostreams = 10, sinit_max_instreams = 100, sinit_max_attempts = 3, sinit_max_init_timeo = 60000\<rparr>;
       get = \<lambda>bs. sr_ok\<lparr>sr_out := bs\<rparr>;
       one = to_ne_bytes linux_x86_64 (bool_i32 True);
       run = \<lambda>m bs. map_option fst (m \<lparr>kst = [sr_ok, get bs], trace = []\<rparr>);
       s = imp_Socket 3; t = linux_x86_64
   in run (io_bind (imp_set_nodelay scripted t s True) (\<lambda>_. imp_nodelay scripted t s)) one = Some (Ok True) \<and>
      run (io_bind (imp_set_reuse_address scripted t s True) (\<lambda>_. imp_reuse_address scripted t s)) one = Some (Ok True) \<and>
      run (io_bind (imp_set_reuse_port scripted t s True) (\<lambda>_. imp_reuse_port scripted t s)) one = Some (Ok True) \<and>
      map_option fst (io_bind (imp_set_init_params scripted t s p) (\<lambda>_. imp_init_params scripted t s)
        \<lparr>kst = [sr_ok, get (initmsg_mem t now)], trace = []\<rparr>) =
        Some (Ok \<lparr>ip_num_ostreams = 10, ip_max_instreams = 100, ip_max_attempts = 3, ip_max_init_timeo = 60000\<rparr>)"
proof -
  let ?t = linux_x86_64 and ?s = "imp_Socket 3"
  define p where "p = \<lparr>ip_num_ostreams = 10, ip_max_instreams = 0, ip_max_attempts = 3,
    ip_max_init_timeo = 0\<rparr>"
  define old where "old = \<lparr>sinit_num_ostreams = 1, sinit_max_instreams = 100, sinit_max_attempts = 8,
    sinit_max_init_timeo = 60000\<rparr>"
  define now where "now = \<lparr>sinit_num_ostreams = 10, sinit_max_instreams = 100, sinit_max_attempts = 3,
    sinit_max_init_timeo = 60000\<rparr>"
  let ?mem = "initmsg_mem ?t (InitParams_to_sys p)" and ?one = "to_ne_bytes ?t (bool_i32 True)"
  have st: "stores scripted ?s level opt bs out \<lparr>kst = [sr_ok, sr_ok\<lparr>sr_out := out\<rparr>], trace = []\<rparr>"
    if "length bs = length out" for level opt bs out
    using that by (simp add: stores_def answers_def)
  have "merge_init old (sctp_initmsg_of_bytes ?t ?mem) = now"
    by (simp add: sctp_initmsg_cs.of_to_bytes_exact sctp_initmsg_ok_def merge_init_def Let_def
        InitParams_to_sys_def old_def now_def p_def)
  then have 2: "stores scripted ?s SOL_SCTP SCTP_INITMSG ?mem
      (initmsg_mem ?t (merge_init old (sctp_initmsg_of_bytes ?t ?mem)))
      \<lparr>kst = [sr_ok, sr_ok\<lparr>sr_out := initmsg_mem ?t now\<rparr>], trace = []\<rparr>"
    using st[of ?mem "initmsg_mem ?t now"]
    by (simp add: sctp_initmsg_cs.to_bytes_length sctp_initmsg_ok_def)
  note get = set_then_get_options[of ?t True scripted ?s _ p old, THEN conjunct1, rule_format, OF refl]
    set_then_get_options[of ?t True scripted ?s _ p old, THEN conjunct2, rule_format, OF conjI[OF refl 2]]
  show ?thesis
    unfolding Let_def p_def[symmetric] now_def[symmetric]
    using get(1)[THEN conjunct1, rule_format, OF st[OF refl]]
      get(1)[THEN conjunct2, THEN conjunct1, rule_format, OF st[OF refl]]
      get(1)[THEN conjunct2, THEN conjunct2, rule_format, OF st[OF refl]] get(2)
    by (auto simp: p_def old_def)
qed

text \<open>
  A buffer size that does not fit an \<open>i32\<close> is refused before any call; any other reaches the
  kernel unchanged, and the conversion of the kernel's answer back to \<open>usize\<close> is exact on every
  size that is accepted.
\<close>

theorem buffer_sizes_checked:
  "imp_set_send_buffer_size E t s n w =
     (if n < 2 ^ 31
      then imp_setsockopt_i32 E t s (SOL_SOCKET (libc t)) (SO_SNDBUF (libc t)) (word_of_nat n) w
      else Some (Err (Custom InvalidInput ''socket buffer size exceeds i32::MAX''), w)) \<and>
   imp_set_recv_buffer_size E t s n w =
     (if n < 2 ^ 31
      then imp_setsockopt_i32 E t s (SOL_SOCKET (libc t)) (SO_RCVBUF (libc t)) (word_of_nat n) w
      else Some (Err (Custom InvalidInput ''socket buffer size exceeds i32::MAX''), w)) \<and>
   i32_as_usize t (word_of_nat (min n (2 ^ 31 - 1))) = min n (2 ^ 31 - 1)"
proof -
  have "i32_as_usize t (word_of_nat (min n (2 ^ 31 - 1))) = min n (2 ^ 31 - 1)"
    by (rule i32_as_usize_nat) simp
  then show ?thesis
    by (simp add: imp_set_send_buffer_size_def imp_set_recv_buffer_size_def
        checked_buffer_size_def io_lift_run)
qed

text \<open>
  C35: timeouts. A zero duration is refused before any call. Any other becomes a normalised
  \<open>timeval\<close> that is never zero, which would mean no timeout; a kernel that reports that \<open>timeval\<close>
  is read back as the duration rounded down to microseconds, except that less than one
  microsecond counts as one, and capped at the largest \<open>time_t\<close>.
\<close>

theorem timeout_conversion:
  assumes "Duration_ok d" and "0 < TIME_T_MAX (libc t)"
  shows "if is_zero d
    then set_timeout E t s opt (Some d) w =
      Some (Err (Custom InvalidInput ''cannot set a zero duration timeout''), w)
    else \<exists>sec usec. (sec, usec) \<noteq> (0, 0) \<and> 0 \<le> sec \<and> sec \<le> int (TIME_T_MAX (libc t)) \<and>
      0 \<le> usec \<and> usec < 1000000 \<and>
      set_timeout E t s opt (Some d) w =
        imp_setsockopt E s (SOL_SOCKET (libc t)) opt (PTimeval sec usec) w \<and>
      (\<forall>w r w'. sys_call E (C_getsockopt_timeval (raw s) (SOL_SOCKET (libc t)) opt) w = (r, w') \<and>
           \<not> sr_ret r < 0 \<and> sr_timeval r = (sec, usec) \<longrightarrow>
         timeout E t s opt w = Some (Ok (Some
           \<lparr>secs = min (secs d) (TIME_T_MAX (libc t)),
            nanos = max (nanos d div 1000 * 1000) (if secs d = 0 then 1000 else 0)\<rparr>), w'))"
proof (cases "is_zero d")
  case True
  then show ?thesis
    by (simp add: set_timeout_def io_lift_run)
next
  case False
  define sec usec where "sec = min (secs d) (TIME_T_MAX (libc t))"
    and "usec = max (subsec_micros d) (if secs d = 0 then 1 else 0)"
  have u: "usec < 1000000" and nz: "sec \<noteq> 0 \<or> usec \<noteq> 0" and sec: "sec < 2 ^ 64"
    using assms by (auto simp: sec_def usec_def subsec_micros_def Duration_ok_def min_def)
  have "usec * 1000 = max (nanos d div 1000 * 1000) (if secs d = 0 then 1000 else 0)"
    by (simp add: usec_def subsec_micros_def max_def)
  then have add: "Duration_add \<lparr>secs = sec, nanos = 0\<rparr> (from_micros usec) =
      Ok \<lparr>secs = sec, nanos = max (nanos d div 1000 * 1000) (if secs d = 0 then 1000 else 0)\<rparr>"
    using u sec by (simp add: Duration_add_def from_micros_def Let_def)
  have "timeout E t s opt w = Some (Ok (Some
      \<lparr>secs = sec, nanos = max (nanos d div 1000 * 1000) (if secs d = 0 then 1000 else 0)\<rparr>), w')"
    if "sys_call E (C_getsockopt_timeval (raw s) (SOL_SOCKET (libc t)) opt) w = (r, w')"
      "\<not> sr_ret r < 0" "sr_timeval r = (int sec, int usec)" for w r w'
    unfolding timeout_def io_bind_call_cvt[OF that(1)] that(3) prod.case
    using that(2) nz by (simp add: add io_lift_run)
  moreover have "set_timeout E t s opt (Some d) w =
      imp_setsockopt E s (SOL_SOCKET (libc t)) opt (PTimeval (int sec) (int usec)) w"
    using False by (simp add: set_timeout_def sec_def usec_def)
  moreover have "(int sec, int usec) \<noteq> (0, 0)" "int sec \<le> int (TIME_T_MAX (libc t))"
    using nz by (auto simp: sec_def)
  ultimately show ?thesis
    unfolding if_not_P[OF False] sec_def[symmetric]
    using u by (intro exI[of _ "int sec"] exI[of _ "int usec"] conjI allI impI) auto
qed

theorem timeout_conversion_witness:
  "let d = \<lparr>secs = 0, nanos = 500\<rparr>; s = imp_Socket 3
   in Duration_ok d \<and> \<not> is_zero d \<and>
      (\<exists>sec usec. (sec, usec) \<noteq> (0, 0) \<and>
        set_timeout scripted linux_x86_64 s 20 (Some d) \<lparr>kst = [sr_ok], trace = []\<rparr> =
          imp_setsockopt scripted s 1 20 (PTimeval sec usec) \<lparr>kst = [sr_ok], trace = []\<rparr> \<and>
        map_option fst (timeout scripted linux_x86_64 s 20
          \<lparr>kst = [sr_ok\<lparr>sr_timeval := (sec, usec)\<rparr>], trace = []\<rparr>) =
          Some (Ok (Some \<lparr>secs = 0, nanos = 1000\<rparr>)))"
proof -
  have d: "Duration_ok \<lparr>secs = 0, nanos = 500\<rparr>" "\<not> is_zero \<lparr>secs = 0, nanos = 500\<rparr>"
    by (simp_all add: Duration_ok_def is_zero_def)
  have m: "0 < TIME_T_MAX (libc linux_x86_64)" "SOL_SOCKET linux_x86_64_libc = 1"
    by (simp_all add: linux_x86_64_libc_def)
  let ?w = "\<lparr>kst = [sr_ok], trace = []\<rparr>"
  obtain sec usec where *: "(sec, usec) \<noteq> (0, 0)"
    "set_timeout scripted linux_x86_64 (imp_Socket 3) 20 (Some \<lparr>secs = 0, nanos = 500\<rparr>) ?w =
       imp_setsockopt scripted (imp_Socket 3) 1 20 (PTimeval sec usec) ?w"
    "\<And>w r w'. sys_call scripted (C_getsockopt_timeval 3 1 20) w = (r, w') \<and>
       \<not> sr_ret r < 0 \<and> sr_timeval r = (sec, usec) \<Longrightarrow>
       timeout scripted linux_x86_64 (imp_Socket 3) 20 w =
         Some (Ok (Some \<lparr>secs = 0, nanos = 1000\<rparr>), w')"
    using timeout_conversion[OF d(1) m(1), of scripted "imp_Socket 3" 20 ?w] d(2)
    by (auto simp: m(2) simp del: not_less)
  have "map_option fst (timeout scripted linux_x86_64 (imp_Socket 3) 20
      \<lparr>kst = [sr_ok\<lparr>sr_timeval := (sec, usec)\<rparr>], trace = []\<rparr>) =
      Some (Ok (Some \<lparr>secs = 0, nanos = 1000\<rparr>))"
    by (subst *(3)[OF conjI[OF sys_call_scripted]]) simp_all
  with *(1,2) d show ?thesis
    unfolding Let_def by blast
qed

text \<open>
  C33: the seven association queries pass the association they ask about, and the path where there
  is one, and decode the structure the kernel writes: for all the values it may hold, each
  field of the caller's record is the field of the kernel's structure that has its meaning.
\<close>

theorem queries_decode_answers:
  "(sctp_status_ok st \<and>
      answers E s SOL_SCTP SCTP_STATUS
        (status_mem t (sctp_status_default\<lparr>sstat_assoc_id := assoc_raw a\<rparr>)) (status_mem t st) w w' \<longrightarrow>
      imp_status E t s a w = Some (Ok
       \<lparr>st_assoc_id = AssocId (sstat_assoc_id st), st_state = AssocState_from_raw (sstat_state st),
        st_rwnd = sstat_rwnd st, st_unackdata = sstat_unackdata st, st_penddata = sstat_penddata st,
        st_instrms = sstat_instrms st, st_outstrms = sstat_outstrms st,
        st_fragmentation_point = sstat_fragmentation_point st, st_primary =
       \<lparr>pi_assoc_id = AssocId (spinfo_assoc_id (sstat_primary st)),
        pi_address = map_option fst (read_sockaddr t (storage_bytes (spinfo_address (sstat_primary st)))),
        pi_state = PeerAddrState_from_raw (spinfo_state (sstat_primary st)), pi_cwnd = spinfo_cwnd (sstat_primary st),
        pi_srtt = spinfo_srtt (sstat_primary st), pi_rto = spinfo_rto (sstat_primary st), pi_mtu = spinfo_mtu (sstat_primary st)\<rparr>\<rparr>, w')) \<and>
   (sctp_paddrinfo_ok pinfo \<and>
      answers E s SOL_SCTP SCTP_GET_PEER_ADDR_INFO
        (paddrinfo_mem t (sctp_paddrinfo_default\<lparr>spinfo_assoc_id := assoc_raw a,
           spinfo_address := packed_storage t (Some addr)\<rparr>)) (paddrinfo_mem t pinfo) w w' \<longrightarrow>
      imp_peer_addr_info E t s a addr w = Some (Ok
       \<lparr>pi_assoc_id = AssocId (spinfo_assoc_id pinfo),
        pi_address = map_option fst (read_sockaddr t (storage_bytes (spinfo_address pinfo))),
        pi_state = PeerAddrState_from_raw (spinfo_state pinfo), pi_cwnd = spinfo_cwnd pinfo,
        pi_srtt = spinfo_srtt pinfo, pi_rto = spinfo_rto pinfo, pi_mtu = spinfo_mtu pinfo\<rparr>, w')) \<and>
   (sctp_paddrparams_ok pp \<and>
      answers E s SOL_SCTP SCTP_PEER_ADDR_PARAMS
        (paddrparams_mem t (sctp_paddrparams_default\<lparr>spp_assoc_id := assoc_raw a,
           spp_address := packed_storage t oaddr\<rparr>)) (paddrparams_mem t pp) w w' \<longrightarrow>
      imp_peer_addr_params E t s a oaddr w = Some (Ok
       \<lparr>pp_hb_interval = spp_hbinterval pp, pp_path_max_rxt = spp_pathmaxrxt pp,
        pp_path_mtu = spp_pathmtu pp, pp_sack_delay = spp_sackdelay pp,
        pp_flags = SppFlags (spp_flags pp), pp_ipv6_flowlabel = spp_ipv6_flowlabel pp,
        pp_dscp = spp_dscp pp\<rparr>, w')) \<and>
   (answers E s SOL_SCTP SCTP_RTOINFO
        (rtoinfo_mem t (sctp_rtoinfo_default\<lparr>srto_assoc_id := assoc_raw a\<rparr>)) (rtoinfo_mem t rto) w w' \<longrightarrow>
      imp_rto_info E t s a w = Some (Ok \<lparr>rto_initial = srto_initial rto, rto_max = srto_max rto,
        rto_min = srto_min rto\<rparr>, w')) \<and>
   (answers E s SOL_SCTP SCTP_ASSOCINFO
        (assocparams_mem t (sctp_assocparams_default\<lparr>sasoc_assoc_id := assoc_raw a\<rparr>))
        (assocparams_mem t ap) w w' \<longrightarrow>
      imp_assoc_info E t s a w = Some (Ok \<lparr>ai_asocmaxrxt = sasoc_asocmaxrxt ap,
        ai_number_peer_destinations = sasoc_number_peer_destinations ap,
        ai_peer_rwnd = sasoc_peer_rwnd ap, ai_local_rwnd = sasoc_local_rwnd ap,
        ai_cookie_life = sasoc_cookie_life ap\<rparr>, w')) \<and>
   (answers E s SOL_SCTP SCTP_DELAYED_SACK
        (sack_info_mem t (sctp_sack_info_default\<lparr>sack_assoc_id := assoc_raw a\<rparr>)) (sack_info_mem t sk) w w' \<longrightarrow>
      imp_delayed_sack E t s a w = Some (Ok \<lparr>sk_delay_ms = sack_delay sk, sk_freq = sack_freq sk\<rparr>, w')) \<and>
   (sctp_assoc_stats_ok stats \<and>
      answers E s SOL_SCTP SCTP_GET_ASSOC_STATS
        (assoc_stats_mem t (sctp_assoc_stats_default\<lparr>sas_assoc_id := assoc_raw a\<rparr>))
        (assoc_stats_mem t stats) w w' \<longrightarrow>
      imp_assoc_stats E t s a w = Some (Ok
       \<lparr>as_assoc_id = AssocId (sas_assoc_id stats),
        as_retransmitted_chunks = sas_rtxchunks stats,
        as_gap_acks = sas_gapcnt stats,
        as_out_of_sequence_tsns = sas_outofseqtsns stats,
        as_sacks_sent = sas_osacks stats,
        as_sacks_received = sas_isacks stats,
        as_control_chunks_sent = sas_octrlchunks stats,
        as_control_chunks_received = sas_ictrlchunks stats,
        as_ordered_data_chunks_sent = sas_oodchunks stats,
        as_ordered_data_chunks_received = sas_iodchunks stats,
        as_unordered_data_chunks_sent = sas_ouodchunks stats,
        as_unordered_data_chunks_received = sas_iuodchunks stats,
        as_duplicate_chunks_received = sas_idupchunks stats,
        as_packets_sent = sas_opackets stats,
        as_packets_received = sas_ipackets stats,
        as_max_rto_kernel_ticks = sas_maxrto stats,
        as_max_rto_address = map_option fst (read_sockaddr t (storage_bytes (sas_obs_rto_ipaddr stats)))\<rparr>, w'))"
  by (auto simp: imp_status_def imp_peer_addr_info_def imp_peer_addr_params_def imp_rto_info_def
      imp_assoc_info_def imp_delayed_sack_def imp_assoc_stats_def Let_def pack_addr_packed
      pack_optional_addr_ok answers_bind io_lift_run sctp_rtoinfo_ok_def sctp_sack_info_ok_def
      sctp_assocparams_ok_def AssocStatus_from_sys_def PeerAddrInfo_from_sys_def
      PeerAddrParams_from_sys_def AssocStats_from_sys_def
      sctp_status_cs.of_to_bytes_exact sctp_paddrinfo_cs.of_to_bytes_exact
      sctp_paddrparams_cs.of_to_bytes_exact sctp_rtoinfo_cs.of_to_bytes_exact
      sctp_assocparams_cs.of_to_bytes_exact
      sctp_sack_info_cs.of_to_bytes_exact sctp_assoc_stats_cs.of_to_bytes_exact)

theorem queries_decode_answers_witness:
  "let t = linux_x86_64; s = imp_Socket 3;
       st = sctp_status_default\<lparr>sstat_assoc_id := 7, sstat_state := 3, sstat_rwnd := 1000\<rparr>;
       rto = \<lparr>srto_assoc_id = 7, srto_initial = 3000, srto_max = 60000, srto_min = 1000\<rparr>;
       ap = \<lparr>sasoc_assoc_id = 7, sasoc_asocmaxrxt = 10, sasoc_number_peer_destinations = 2,
         sasoc_peer_rwnd = 3000, sasoc_local_rwnd = 4000, sasoc_cookie_life = 60000\<rparr>
   in map_option fst (imp_status scripted t s (AssocId 7)
        \<lparr>kst = [sr_ok\<lparr>sr_out := status_mem t st\<rparr>], trace = []\<rparr>) =
        Some (Ok \<lparr>st_assoc_id = AssocId 7, st_state = AssocState_from_raw 3, st_rwnd = 1000,
          st_unackdata = 0, st_penddata = 0, st_instrms = 0, st_outstrms = 0, st_fragmentation_point = 0,
          st_primary = \<lparr>pi_assoc_id = AssocId 0, pi_address = None, pi_state = PeerAddrState_from_raw 0,
            pi_cwnd = 0, pi_srtt = 0, pi_rto = 0, pi_mtu = 0\<rparr>\<rparr>) \<and>
      map_option fst (imp_assoc_info scripted t s (AssocId 7)
        \<lparr>kst = [sr_ok\<lparr>sr_out := assocparams_mem t ap\<rparr>], trace = []\<rparr>) =
        Some (Ok \<lparr>ai_asocmaxrxt = 10, ai_number_peer_destinations = 2, ai_peer_rwnd = 3000,
          ai_local_rwnd = 4000, ai_cookie_life = 60000\<rparr>) \<and>
      map_option fst (imp_rto_info scripted t s (AssocId 7)
        \<lparr>kst = [sr_ok\<lparr>sr_out := rtoinfo_mem t rto\<rparr>], trace = []\<rparr>) =
        Some (Ok \<lparr>rto_initial = 3000, rto_max = 60000, rto_min = 1000\<rparr>)"
proof -
  let ?t = linux_x86_64 and ?s = "imp_Socket 3"
  define st where "st = sctp_status_default\<lparr>sstat_assoc_id := 7, sstat_state := 3, sstat_rwnd := 1000\<rparr>"
  define rto where "rto = \<lparr>srto_assoc_id = 7, srto_initial = 3000, srto_max = 60000, srto_min = 1000\<rparr>"
  define ap where "ap = \<lparr>sasoc_assoc_id = 7, sasoc_asocmaxrxt = 10, sasoc_number_peer_destinations = 2,
    sasoc_peer_rwnd = 3000, sasoc_local_rwnd = 4000, sasoc_cookie_life = 60000\<rparr>"
  have a: "answers scripted ?s level opt mem out \<lparr>kst = [sr_ok\<lparr>sr_out := out\<rparr>], trace = []\<rparr>
      \<lparr>kst = [], trace = [(C_getsockopt 3 level opt mem, sr_ok\<lparr>sr_out := out\<rparr>)]\<rparr>"
    if "length out = length mem" for level opt mem out
    using that by (simp add: answers_def)
  have ok: "sctp_status_ok st"
    by (simp add: st_def sctp_status_default_def sctp_status_ok_def)
  have 1: "length (status_mem ?t st) =
      length (status_mem ?t (sctp_status_default\<lparr>sstat_assoc_id := assoc_raw (AssocId 7)\<rparr>))"
    using ok by (simp add: sctp_status_cs.to_bytes_length sctp_status_ok_def sctp_status_default_def)
  have 2: "length (rtoinfo_mem ?t rto) =
      length (rtoinfo_mem ?t (sctp_rtoinfo_default\<lparr>srto_assoc_id := assoc_raw (AssocId 7)\<rparr>))"
    by (simp add: sctp_rtoinfo_cs.to_bytes_length sctp_rtoinfo_ok_def)
  have 3: "length (assocparams_mem ?t ap) =
      length (assocparams_mem ?t (sctp_assocparams_default\<lparr>sasoc_assoc_id := assoc_raw (AssocId 7)\<rparr>))"
    by (simp add: sctp_assocparams_cs.to_bytes_length sctp_assocparams_ok_def)
  have z: "map_option fst (read_sockaddr ?t (storage_bytes (spinfo_address sctp_paddrinfo_default))) = None"
    using read_packed_storage[of ?t None]
    by (simp add: packed_storage_def sctp_paddrinfo_default_def sockaddr_storage_zeroed_def)
  note queries_decode_answers[THEN conjunct2, THEN conjunct2, THEN conjunct2]
  note rest = this[THEN conjunct1, rule_format, OF a[OF 2]]
    this[THEN conjunct2, THEN conjunct1, rule_format, OF a[OF 3]]
  show ?thesis
    unfolding Let_def st_def[symmetric] rto_def[symmetric] ap_def[symmetric]
    using queries_decode_answers[THEN conjunct1, rule_format, OF conjI[OF ok a[OF 1]]] rest z
    by (simp add: rto_def ap_def) (simp add: st_def sctp_status_default_def sctp_paddrinfo_default_def)
qed

end
