(* ===== verification/Kernel_Addrs.thy ===== *)
theory Kernel_Addrs
  imports Kernel_Socket
begin

text \<open>
  The address queries of \<open>imp/kernel.rs\<close>: \<open>getsockname\<close>, \<open>getpeername\<close> and the loop that asks for
  the list of local or peer addresses with a growing buffer. The lemmas show that the loop
  terminates for every kernel, within a bounded number of calls and a bounded buffer, and that it
  returns the complete list of a kernel that answers \<open>ENOMEM\<close> while the buffer is too small.
\<close>

section \<open>Queries\<close>

definition imp_local_addr :: "'k env \<Rightarrow> target \<Rightarrow> imp_Socket \<Rightarrow> ('k, SocketAddr) io" where
  "imp_local_addr E t s =
     io_bind (call_cvt E (C_getsockname (raw s) 128)) (\<lambda>r.
     io_lift (sockaddr_result t r ''bad local sockaddr''))"

definition imp_peer_addr :: "'k env \<Rightarrow> target \<Rightarrow> imp_Socket \<Rightarrow> ('k, SocketAddr) io" where
  "imp_peer_addr E t s =
     io_bind (call_cvt E (C_getpeername (raw s) 128)) (\<lambda>r.
     io_lift (sockaddr_result t r ''bad peer sockaddr''))"

definition MAX_CAPACITY :: nat where
  "MAX_CAPACITY = 4 * 1024 * 1024"

text \<open>What a successful call is decoded to: the count at offset 4 and the addresses from 8 on.\<close>

definition getaddrs_result :: "target \<Rightarrow> byte list \<Rightarrow> SocketAddr list io_result" where
  "getaddrs_result t buf =
     (case get_range buf 4 4 of
        None \<Rightarrow> panic
      | Some c \<Rightarrow>
          let count = unat (from_ne_bytes t c :: u32)
          in try_bind (slice_from buf 8) (\<lambda>rest. Ok (read_addr_list t rest count)))"

partial_function (option) getaddrs_loop ::
    "'k env \<Rightarrow> target \<Rightarrow> imp_Socket \<Rightarrow> AssocId \<Rightarrow> i32 \<Rightarrow> nat \<Rightarrow> 'k world \<Rightarrow>
     (SocketAddr list io_result \<times> 'k world) option" where
  "getaddrs_loop E t s assoc_id opt capacity w =
     (case copy_at 0 (to_ne_bytes t (assoc_raw assoc_id)) (replicate capacity 0) of
        Inl e \<Rightarrow> Some (Inl e, w)
      | Inr buf \<Rightarrow>
          let (r, w') = sys_call E (C_getsockopt (raw s) SOL_SCTP opt buf) w
          in case cvt r of
               Inr _ \<Rightarrow> Some (getaddrs_result t (overlay (sr_out r) buf), w')
             | Inl e \<Rightarrow>
                 if e = IoErr (Os (ENOMEM (libc t))) \<and> capacity < MAX_CAPACITY
                 then getaddrs_loop E t s assoc_id opt (min (capacity * 2) MAX_CAPACITY) w'
                 else Some (Inl e, w'))"

definition getaddrs_with_capacity ::
    "'k env \<Rightarrow> target \<Rightarrow> imp_Socket \<Rightarrow> AssocId \<Rightarrow> i32 \<Rightarrow> nat \<Rightarrow> ('k, SocketAddr list) io" where
  "getaddrs_with_capacity E t s assoc_id opt initial_capacity =
     getaddrs_loop E t s assoc_id opt (max initial_capacity 8)"

definition getaddrs :: "'k env \<Rightarrow> target \<Rightarrow> imp_Socket \<Rightarrow> AssocId \<Rightarrow> i32 \<Rightarrow> ('k, SocketAddr list) io" where
  "getaddrs E t s assoc_id opt =
     getaddrs_with_capacity E t s assoc_id opt (8 + 64 * SOCKADDR_IN6_LEN)"

definition imp_local_addrs :: "'k env \<Rightarrow> target \<Rightarrow> imp_Socket \<Rightarrow> AssocId \<Rightarrow> ('k, SocketAddr list) io" where
  "imp_local_addrs E t s assoc_id = getaddrs E t s assoc_id SCTP_GET_LOCAL_ADDRS"

definition imp_peer_addrs :: "'k env \<Rightarrow> target \<Rightarrow> imp_Socket \<Rightarrow> AssocId \<Rightarrow> ('k, SocketAddr list) io" where
  "imp_peer_addrs E t s assoc_id = getaddrs E t s assoc_id SCTP_GET_PEER_ADDRS"

section \<open>Termination\<close>

definition query_buf :: "target \<Rightarrow> AssocId \<Rightarrow> nat \<Rightarrow> byte list" where
  "query_buf t a capacity = to_ne_bytes t (assoc_raw a) @ replicate (capacity - 4) 0"

lemma length_query_buf: "8 \<le> capacity \<Longrightarrow> length (query_buf t a capacity) = capacity"
  by (simp add: query_buf_def)

lemma query_buf_copy:
  "8 \<le> capacity \<Longrightarrow>
     copy_at 0 (to_ne_bytes t (assoc_raw a)) (replicate capacity 0) = Ok (query_buf t a capacity)"
  by (simp add: copy_at_def query_buf_def)

lemma getaddrs_result_ok: "8 \<le> length buf \<Longrightarrow> \<exists>addrs. getaddrs_result t buf = Ok addrs"
  by (simp add: getaddrs_result_def get_range_def slice_from_def Let_def)

text \<open>One iteration, for a capacity the loop can have.\<close>

lemma getaddrs_step:
  assumes "8 \<le> capacity"
    and "sys_call E (C_getsockopt (raw s) SOL_SCTP opt (query_buf t a capacity)) w = (r, w')"
  shows "getaddrs_loop E t s a opt capacity w =
    (if \<not> sr_ret r < 0
     then Some (getaddrs_result t (overlay (sr_out r) (query_buf t a capacity)), w')
     else if sr_errno r = ENOMEM (libc t) \<and> capacity < MAX_CAPACITY
     then getaddrs_loop E t s a opt (min (capacity * 2) MAX_CAPACITY) w'
     else Some (Err (Os (sr_errno r)), w'))"
  using assms by (subst getaddrs_loop.simps) (simp add: query_buf_copy cvt_def)

definition bounded_queries :: "imp_Socket \<Rightarrow> i32 \<Rightarrow> nat \<Rightarrow> (call \<times> sysret) list \<Rightarrow> bool" where
  "bounded_queries s opt n tr \<longleftrightarrow>
     (\<forall>(c, x) \<in> set tr. \<exists>buf. c = C_getsockopt (raw s) SOL_SCTP opt buf \<and> length buf \<le> n)"

lemma getaddrs_last:
  assumes "8 \<le> capacity"
    and r: "sys_call E (C_getsockopt (raw s) SOL_SCTP opt (query_buf t a capacity)) w = (r, w')"
    and "\<not> (sr_ret r < 0 \<and> sr_errno r = ENOMEM (libc t) \<and> capacity < MAX_CAPACITY)"
  shows "\<exists>x tr. getaddrs_loop E t s a opt capacity w = Some (x, w') \<and> x \<noteq> panic \<and>
    trace w' = trace w @ tr \<and> length tr = 1 \<and> bounded_queries s opt capacity tr"
proof -
  obtain addrs where "getaddrs_result t (overlay (sr_out r) (query_buf t a capacity)) = Ok addrs"
    using getaddrs_result_ok[of "overlay (sr_out r) (query_buf t a capacity)" t] assms(1)
    by (auto simp: length_query_buf)
  then show ?thesis
    using getaddrs_step[OF assms(1) r] sys_call_trace[OF r] assms(1,3)
    by (auto simp: length_query_buf bounded_queries_def)
qed

lemma getaddrs_loop_returns:
  assumes "8 \<le> capacity" and "MAX_CAPACITY \<le> capacity * 2 ^ k"
  shows "\<exists>x w' tr. getaddrs_loop E t s a opt capacity w = Some (x, w') \<and> x \<noteq> panic \<and>
    trace w' = trace w @ tr \<and> length tr \<le> Suc k \<and>
    bounded_queries s opt (max capacity MAX_CAPACITY) tr"
  using assms
proof (induction k arbitrary: capacity w)
  case 0
  obtain r w' where r:
    "sys_call E (C_getsockopt (raw s) SOL_SCTP opt (query_buf t a capacity)) w = (r, w')"
    by fastforce
  have "max capacity MAX_CAPACITY = capacity"
    using 0 by simp
  then show ?case
    using getaddrs_last[OF 0(1) r] 0 by auto
next
  case (Suc k)
  let ?q = "C_getsockopt (raw s) SOL_SCTP opt (query_buf t a capacity)"
  let ?cap = "min (capacity * 2) MAX_CAPACITY" and ?max = "max capacity MAX_CAPACITY"
  obtain r w1 where r: "sys_call E ?q w = (r, w1)"
    by fastforce
  show ?case
  proof (cases "sr_ret r < 0 \<and> sr_errno r = ENOMEM (libc t) \<and> capacity < MAX_CAPACITY")
    case True
    have "8 \<le> ?cap" "MAX_CAPACITY \<le> ?cap * 2 ^ k" and m: "max ?cap MAX_CAPACITY \<le> ?max"
      using Suc.prems by (auto simp: MAX_CAPACITY_def min_def)
    then obtain x w' tr where *: "getaddrs_loop E t s a opt ?cap w1 = Some (x, w')" "x \<noteq> panic"
      "trace w' = trace w1 @ tr" "length tr \<le> Suc k" "bounded_queries s opt (max ?cap MAX_CAPACITY) tr"
      using Suc.IH[of ?cap w1] by blast
    have "bounded_queries s opt ?max ((?q, r) # tr)"
      using *(5) m Suc.prems(1)
      by (fastforce simp: bounded_queries_def length_query_buf)
    then show ?thesis
      using getaddrs_step[OF Suc.prems(1) r] sys_call_trace[OF r] True *(1-4)
      by (intro exI[of _ x] exI[of _ w'] exI[of _ "(?q, r) # tr"]) simp
  next
    case False
    then obtain x tr where *: "getaddrs_loop E t s a opt capacity w = Some (x, w1)" "x \<noteq> panic"
      "trace w1 = trace w @ tr" "length tr = 1" "bounded_queries s opt capacity tr"
      using getaddrs_last[OF Suc.prems(1) r] by blast
    have "bounded_queries s opt ?max tr"
      using *(5) by (fastforce simp: bounded_queries_def)
    with *(1-4) show ?thesis
      by auto
  qed
qed

section \<open>Completeness\<close>

text \<open>
  The addresses of the association are \<open>addrs\<close> while the kernel is in a state of \<open>K\<close>: a query fails
  with \<open>ENOMEM\<close> when the buffer cannot hold the header and the packed list, writes both otherwise,
  and does not leave \<open>K\<close>.
\<close>

definition reports_addrs ::
    "'k env \<Rightarrow> target \<Rightarrow> imp_Socket \<Rightarrow> AssocId \<Rightarrow> i32 \<Rightarrow> SocketAddr list \<Rightarrow> 'k set \<Rightarrow> bool" where
  "reports_addrs E t s a opt addrs K \<longleftrightarrow>
     (\<forall>buf. \<forall>k \<in> K. take 4 buf = to_ne_bytes t (assoc_raw a) \<longrightarrow>
       (let packed = concat (map (sockaddr_bytes t) addrs);
            (r, k') = E (C_getsockopt (raw s) SOL_SCTP opt buf) k
        in k' \<in> K \<and>
           (if length buf < 8 + length packed
            then sr_ret r < 0 \<and> sr_errno r = ENOMEM (libc t)
            else \<not> sr_ret r < 0 \<and>
              sr_out r = take 4 buf @ to_ne_bytes t (word_of_nat (length addrs) :: u32) @ packed)))"

lemma getaddrs_result_packed:
  assumes "8 + length (concat (map (sockaddr_bytes t) addrs)) \<le> length buf"
    and "length addrs < 2 ^ 32" and "length h = 4"
  shows "getaddrs_result t (overlay
      (h @ to_ne_bytes t (word_of_nat (length addrs) :: u32) @ concat (map (sockaddr_bytes t) addrs)) buf)
    = Ok addrs"
proof -
  let ?p = "concat (map (sockaddr_bytes t) addrs)" and ?c = "word_of_nat (length addrs) :: u32"
  have ov: "overlay (h @ to_ne_bytes t ?c @ ?p) buf =
      h @ to_ne_bytes t ?c @ ?p @ drop (8 + length ?p) buf"
    using assms(1,3) by (simp add: overlay_def)
  have "unat ?c = length addrs"
    using assms(2) by (simp add: unat_of_nat)
  moreover have "read_addr_list t (?p @ r) (length addrs) = addrs" for r
    using addr_codec.take_items_emit[of addrs t r] by (simp add: read_addr_list_items)
  ultimately show ?thesis
    unfolding ov getaddrs_result_def
    using assms(3) by (simp add: get_range_def slice_from_def from_to_ne_bytes Let_def)
qed

text \<open>One iteration against such a kernel: the list, or another round with a larger buffer.\<close>

lemma getaddrs_step_reports:
  assumes "reports_addrs E t s a opt addrs K" and "kst w \<in> K"
    and "length addrs < 2 ^ 32" and "8 \<le> capacity"
  shows "\<exists>w1. kst w1 \<in> K \<and> getaddrs_loop E t s a opt capacity w =
    (if 8 + length (concat (map (sockaddr_bytes t) addrs)) \<le> capacity then Some (Ok addrs, w1)
     else if capacity < MAX_CAPACITY
     then getaddrs_loop E t s a opt (min (capacity * 2) MAX_CAPACITY) w1
     else Some (Err (Os (ENOMEM (libc t))), w1))"
proof -
  let ?buf = "query_buf t a capacity" and ?p = "concat (map (sockaddr_bytes t) addrs)"
  obtain r w1 where r: "sys_call E (C_getsockopt (raw s) SOL_SCTP opt ?buf) w = (r, w1)"
    by fastforce
  have hd4: "take 4 ?buf = to_ne_bytes t (assoc_raw a)"
    by (simp add: query_buf_def)
  have len: "length ?buf = capacity"
    using assms(4) by (rule length_query_buf)
  have k: "kst w1 \<in> K" "if capacity < 8 + length ?p then sr_ret r < 0 \<and> sr_errno r = ENOMEM (libc t)
    else \<not> sr_ret r < 0 \<and>
      sr_out r = to_ne_bytes t (assoc_raw a) @ to_ne_bytes t (word_of_nat (length addrs) :: u32) @ ?p"
    using bspec[OF spec[OF assms(1)[unfolded reports_addrs_def], of ?buf] assms(2)] r hd4
    by (auto simp: sys_call_def Let_def len split: prod.splits)
  show ?thesis
  proof (cases "8 + length ?p \<le> capacity")
    case True
    then have "getaddrs_result t (overlay (sr_out r) ?buf) = Ok addrs"
      using k getaddrs_result_packed[of t addrs ?buf "to_ne_bytes t (assoc_raw a)"] assms(3)
      by (simp add: len)
    with True show ?thesis
      using getaddrs_step[OF assms(4) r] k by auto
  next
    case False
    then show ?thesis
      using getaddrs_step[OF assms(4) r] k by auto
  qed
qed

lemma getaddrs_loop_complete:
  assumes "reports_addrs E t s a opt addrs K" and "kst w \<in> K" and "length addrs < 2 ^ 32"
    and "8 \<le> capacity" and "MAX_CAPACITY \<le> capacity * 2 ^ k" and "capacity \<le> MAX_CAPACITY"
  shows "\<exists>w'. getaddrs_loop E t s a opt capacity w =
    Some (if 8 + length (concat (map (sockaddr_bytes t) addrs)) \<le> MAX_CAPACITY
          then Ok addrs else Err (Os (ENOMEM (libc t))), w')"
  using assms(2,4-6)
proof (induction k arbitrary: capacity w)
  case 0
  then have "capacity = MAX_CAPACITY"
    by simp
  then show ?case
    using getaddrs_step_reports[OF assms(1) 0(1) assms(3) 0(2)] by auto
next
  case (Suc k)
  let ?cap = "min (capacity * 2) MAX_CAPACITY"
  have "8 \<le> ?cap" "MAX_CAPACITY \<le> ?cap * 2 ^ k" "?cap \<le> MAX_CAPACITY"
    using Suc.prems by (auto simp: MAX_CAPACITY_def min_def)
  then show ?case
    using getaddrs_step_reports[OF assms(1) Suc.prems(1) assms(3) Suc.prems(2)] Suc.IH[of _ ?cap] Suc.prems(4)
    by (auto split: if_splits)
qed

text \<open>A kernel with a fixed list of addresses.\<close>

definition addr_kernel :: "target \<Rightarrow> SocketAddr list \<Rightarrow> unit env" where
  "addr_kernel t addrs c k =
     (let packed = concat (map (sockaddr_bytes t) addrs)
      in case c of
           C_getsockopt d level opt buf \<Rightarrow>
             if length buf < 8 + length packed then (sr_fail (ENOMEM (libc t)), k)
             else (sr_ok\<lparr>sr_out := take 4 buf @
               to_ne_bytes t (word_of_nat (length addrs) :: u32) @ packed\<rparr>, k)
         | _ \<Rightarrow> (sr_ok, k))"

lemma addr_kernel_reports: "reports_addrs (addr_kernel t addrs) t s a opt addrs UNIV"
  by (auto simp: reports_addrs_def sys_call_def addr_kernel_def Let_def)

section \<open>Ownership\<close>

lemma borrows_addr [own_intros]:
  "borrows t (imp_local_addr E t' s)" "borrows t (imp_peer_addr E t' s)"
  unfolding imp_local_addr_def imp_peer_addr_def by (intro own_intros plain_calls)+

section \<open>Properties\<close>

text \<open>
  C25: asking for the local or the peer addresses always returns, whatever the kernel answers,
  and never panics: after at most 13 queries, each with a buffer of at most 4 MiB.
\<close>

theorem getaddrs_terminates:
  "(\<exists>x w' tr. imp_local_addrs E t s a w = Some (x, w') \<and> x \<noteq> panic \<and> trace w' = trace w @ tr \<and>
      length tr \<le> 13 \<and> bounded_queries s SCTP_GET_LOCAL_ADDRS (4 * 1024 * 1024) tr) \<and>
   (\<exists>x w' tr. imp_peer_addrs E t s a w = Some (x, w') \<and> x \<noteq> panic \<and> trace w' = trace w @ tr \<and>
      length tr \<le> 13 \<and> bounded_queries s SCTP_GET_PEER_ADDRS (4 * 1024 * 1024) tr)"
  using getaddrs_loop_returns[of 1800 12 E t s a SCTP_GET_LOCAL_ADDRS w]
    getaddrs_loop_returns[of 1800 12 E t s a SCTP_GET_PEER_ADDRS w]
  by (simp add: imp_local_addrs_def imp_peer_addrs_def getaddrs_def getaddrs_with_capacity_def
      addr_len_defs MAX_CAPACITY_def)

text \<open>
  C24: the list is complete. While the kernel refuses a buffer too small for the addresses and fills
  one that is large enough, it gets a large enough buffer in the end, and the caller gets all
  addresses, in order; only a list beyond 4 MiB is reported as \<open>ENOMEM\<close>.
\<close>

theorem getaddrs_complete:
  assumes "reports_addrs E t s a opt addrs K" and "kst w \<in> K" and "length addrs < 2 ^ 32"
  shows "\<exists>w'. getaddrs E t s a opt w =
    Some (if 8 + length (concat (map (sockaddr_bytes t) addrs)) \<le> 4 * 1024 * 1024
          then Ok addrs else Err (Os (ENOMEM (libc t))), w')"
  using getaddrs_loop_complete[OF assms, of 1800 12]
  by (simp add: getaddrs_def getaddrs_with_capacity_def addr_len_defs MAX_CAPACITY_def)

theorem getaddrs_complete_witness:
  "let addrs = [V4 0x7f000001 80, V6 1 443 0 2]
   in reports_addrs (addr_kernel linux_x86_64 addrs) linux_x86_64 (imp_Socket 3) (AssocId 5)
        SCTP_GET_PEER_ADDRS addrs UNIV \<and>
      (\<exists>w'. getaddrs (addr_kernel linux_x86_64 addrs) linux_x86_64 (imp_Socket 3) (AssocId 5)
        SCTP_GET_PEER_ADDRS \<lparr>kst = (), trace = []\<rparr> = Some (Ok addrs, w'))"
  unfolding Let_def
  using addr_kernel_reports getaddrs_complete[OF addr_kernel_reports UNIV_I,
      of "[V4 0x7f000001 80, V6 1 443 0 2]" linux_x86_64 "imp_Socket 3" "AssocId 5"
      SCTP_GET_PEER_ADDRS]
  by (simp add: addr_len_defs)

end
