(* ===== verification/Socket_Api.thy ===== *)
theory Socket_Api
  imports Kernel_Data Kernel_Opts Kernel_Addrs
begin

text \<open>
  The public \<open>SctpSocket\<close> of \<open>socket.rs\<close>, which owns an \<open>imp::Socket\<close> and delegates to it, and the
  constructor of \<open>imp/stub.rs\<close>, the implementation selected on other platforms than Linux. The
  lemmas show the ownership contracts of the delegated operations and what a list of event
  subscriptions does.
\<close>

section \<open>The synchronous socket\<close>

datatype SctpSocket = SctpSocket (inner: imp_Socket)

definition SctpSocket_new :: "'k env \<Rightarrow> target \<Rightarrow> Family \<Rightarrow> Style \<Rightarrow> ('k, SctpSocket) io" where
  "SctpSocket_new E t family style =
     io_bind (imp_new E t family style) (\<lambda>s. io_return (SctpSocket s))"

definition SctpSocket_accept ::
    "'k env \<Rightarrow> target \<Rightarrow> SctpSocket \<Rightarrow> ('k, SctpSocket \<times> SocketAddr) io" where
  "SctpSocket_accept E t s =
     io_bind (imp_accept E t (inner s)) (\<lambda>(sock, addr). io_return (SctpSocket sock, addr))"

definition SctpSocket_peeloff :: "'k env \<Rightarrow> target \<Rightarrow> SctpSocket \<Rightarrow> AssocId \<Rightarrow> ('k, SctpSocket) io" where
  "SctpSocket_peeloff E t s assoc_id =
     io_bind (imp_peeloff E t (inner s) assoc_id) (\<lambda>sock. io_return (SctpSocket sock))"

definition SctpSocket_send_msg ::
    "'k env \<Rightarrow> target \<Rightarrow> SctpSocket \<Rightarrow> byte list \<Rightarrow> SendInfo \<Rightarrow> ('k, nat) io" where
  "SctpSocket_send_msg E t s buf info = imp_send_msg E t (inner s) buf None info"

definition SctpSocket_send_msg_to ::
    "'k env \<Rightarrow> target \<Rightarrow> SctpSocket \<Rightarrow> byte list \<Rightarrow> SocketAddr \<Rightarrow> SendInfo \<Rightarrow> ('k, nat) io" where
  "SctpSocket_send_msg_to E t s buf addr info = imp_send_msg E t (inner s) buf (Some addr) info"

text \<open>As in \<open>imp_recv_msg\<close>, the second component is the caller's buffer afterwards.\<close>

definition SctpSocket_recv_msg ::
    "'k env \<Rightarrow> target \<Rightarrow> SctpSocket \<Rightarrow> byte list \<Rightarrow> ('k, RecvMsg \<times> byte list) io" where
  "SctpSocket_recv_msg E t s buf =
     io_bind (imp_recv_msg E t (inner s) buf False) (\<lambda>((msg, _), buf). io_return (msg, buf))"

definition SctpSocket_recv_msg_from ::
    "'k env \<Rightarrow> target \<Rightarrow> SctpSocket \<Rightarrow> byte list \<Rightarrow>
     ('k, (RecvMsg \<times> SocketAddr option) \<times> byte list) io" where
  "SctpSocket_recv_msg_from E t s buf = imp_recv_msg E t (inner s) buf True"

definition SctpSocket_bind ::
    "'k env \<Rightarrow> target \<Rightarrow> SctpSocket \<Rightarrow> SocketAddr \<Rightarrow> ('k, unit) io" where
  "SctpSocket_bind E t s addr = imp_bind E t (inner s) addr"

definition SctpSocket_bindx_add ::
    "'k env \<Rightarrow> target \<Rightarrow> SctpSocket \<Rightarrow> SocketAddr list \<Rightarrow> ('k, unit) io" where
  "SctpSocket_bindx_add E t s addrs = imp_bindx_add E t (inner s) addrs"

definition SctpSocket_bindx_remove ::
    "'k env \<Rightarrow> target \<Rightarrow> SctpSocket \<Rightarrow> SocketAddr list \<Rightarrow> ('k, unit) io" where
  "SctpSocket_bindx_remove E t s addrs = imp_bindx_remove E t (inner s) addrs"

definition SctpSocket_listen ::
    "'k env \<Rightarrow> SctpSocket \<Rightarrow> i32 \<Rightarrow> ('k, unit) io" where
  "SctpSocket_listen E s backlog = imp_listen E (inner s) backlog"

definition SctpSocket_connect ::
    "'k env \<Rightarrow> target \<Rightarrow> SctpSocket \<Rightarrow> SocketAddr \<Rightarrow> ('k, unit) io" where
  "SctpSocket_connect E t s addr = imp_connect E t (inner s) addr"

definition SctpSocket_connectx ::
    "'k env \<Rightarrow> target \<Rightarrow> SctpSocket \<Rightarrow> SocketAddr list \<Rightarrow> ('k, AssocId) io" where
  "SctpSocket_connectx E t s addrs = imp_connectx E t (inner s) addrs"

definition SctpSocket_set_nonblocking ::
    "'k env \<Rightarrow> target \<Rightarrow> SctpSocket \<Rightarrow> bool \<Rightarrow> ('k, unit) io" where
  "SctpSocket_set_nonblocking E t s nonblocking = imp_set_nonblocking E t (inner s) nonblocking"

definition SctpSocket_subscribe_event ::
    "'k env \<Rightarrow> target \<Rightarrow> SctpSocket \<Rightarrow> EventType \<Rightarrow> bool \<Rightarrow> ('k, unit) io" where
  "SctpSocket_subscribe_event E t s event on = imp_subscribe_event E t (inner s) event on"

definition SctpSocket_subscribe_event_for ::
    "'k env \<Rightarrow> target \<Rightarrow> SctpSocket \<Rightarrow> AssocId \<Rightarrow> EventType \<Rightarrow> bool \<Rightarrow> ('k, unit) io" where
  "SctpSocket_subscribe_event_for E t s assoc_id event on =
     imp_subscribe_event_for E t (inner s) assoc_id event on"

definition SctpSocket_init_params ::
    "'k env \<Rightarrow> target \<Rightarrow> SctpSocket \<Rightarrow> ('k, InitParams) io" where
  "SctpSocket_init_params E t s = imp_init_params E t (inner s)"

definition SctpSocket_set_init_params ::
    "'k env \<Rightarrow> target \<Rightarrow> SctpSocket \<Rightarrow> InitParams \<Rightarrow> ('k, unit) io" where
  "SctpSocket_set_init_params E t s params = imp_set_init_params E t (inner s) params"

definition SctpSocket_nodelay ::
    "'k env \<Rightarrow> target \<Rightarrow> SctpSocket \<Rightarrow> ('k, bool) io" where
  "SctpSocket_nodelay E t s = imp_nodelay E t (inner s)"

definition SctpSocket_set_nodelay ::
    "'k env \<Rightarrow> target \<Rightarrow> SctpSocket \<Rightarrow> bool \<Rightarrow> ('k, unit) io" where
  "SctpSocket_set_nodelay E t s on = imp_set_nodelay E t (inner s) on"

definition SctpSocket_set_autoclose ::
    "'k env \<Rightarrow> target \<Rightarrow> SctpSocket \<Rightarrow> u32 \<Rightarrow> ('k, unit) io" where
  "SctpSocket_set_autoclose E t s seconds = imp_set_autoclose E t (inner s) seconds"

definition SctpSocket_status ::
    "'k env \<Rightarrow> target \<Rightarrow> SctpSocket \<Rightarrow> AssocId \<Rightarrow> ('k, AssocStatus) io" where
  "SctpSocket_status E t s assoc_id = imp_status E t (inner s) assoc_id"

definition SctpSocket_peer_addr_info ::
    "'k env \<Rightarrow> target \<Rightarrow> SctpSocket \<Rightarrow> AssocId \<Rightarrow> SocketAddr \<Rightarrow> ('k, PeerAddrInfo) io" where
  "SctpSocket_peer_addr_info E t s assoc_id addr = imp_peer_addr_info E t (inner s) assoc_id addr"

definition SctpSocket_peer_addr_params ::
    "'k env \<Rightarrow> target \<Rightarrow> SctpSocket \<Rightarrow> AssocId \<Rightarrow> SocketAddr option \<Rightarrow> ('k, PeerAddrParams) io" where
  "SctpSocket_peer_addr_params E t s assoc_id addr =
     imp_peer_addr_params E t (inner s) assoc_id addr"

definition SctpSocket_set_peer_addr_params ::
    "'k env \<Rightarrow> target \<Rightarrow> SctpSocket \<Rightarrow> AssocId \<Rightarrow> SocketAddr option \<Rightarrow> PeerAddrParams \<Rightarrow> ('k, unit) io" where
  "SctpSocket_set_peer_addr_params E t s assoc_id addr params =
     imp_set_peer_addr_params E t (inner s) assoc_id addr params"

definition SctpSocket_rto_info ::
    "'k env \<Rightarrow> target \<Rightarrow> SctpSocket \<Rightarrow> AssocId \<Rightarrow> ('k, RtoInfo) io" where
  "SctpSocket_rto_info E t s assoc_id = imp_rto_info E t (inner s) assoc_id"

definition SctpSocket_set_rto_info ::
    "'k env \<Rightarrow> target \<Rightarrow> SctpSocket \<Rightarrow> AssocId \<Rightarrow> RtoInfo \<Rightarrow> ('k, unit) io" where
  "SctpSocket_set_rto_info E t s assoc_id rto = imp_set_rto_info E t (inner s) assoc_id rto"

definition SctpSocket_assoc_info ::
    "'k env \<Rightarrow> target \<Rightarrow> SctpSocket \<Rightarrow> AssocId \<Rightarrow> ('k, AssocInfo) io" where
  "SctpSocket_assoc_info E t s assoc_id = imp_assoc_info E t (inner s) assoc_id"

definition SctpSocket_assoc_stats ::
    "'k env \<Rightarrow> target \<Rightarrow> SctpSocket \<Rightarrow> AssocId \<Rightarrow> ('k, AssocStats) io" where
  "SctpSocket_assoc_stats E t s assoc_id = imp_assoc_stats E t (inner s) assoc_id"

definition SctpSocket_set_assoc_info ::
    "'k env \<Rightarrow> target \<Rightarrow> SctpSocket \<Rightarrow> AssocId \<Rightarrow> AssocInfo \<Rightarrow> ('k, unit) io" where
  "SctpSocket_set_assoc_info E t s assoc_id info = imp_set_assoc_info E t (inner s) assoc_id info"

definition SctpSocket_delayed_sack ::
    "'k env \<Rightarrow> target \<Rightarrow> SctpSocket \<Rightarrow> AssocId \<Rightarrow> ('k, SackInfo) io" where
  "SctpSocket_delayed_sack E t s assoc_id = imp_delayed_sack E t (inner s) assoc_id"

definition SctpSocket_set_delayed_sack ::
    "'k env \<Rightarrow> target \<Rightarrow> SctpSocket \<Rightarrow> AssocId \<Rightarrow> SackInfo \<Rightarrow> ('k, unit) io" where
  "SctpSocket_set_delayed_sack E t s assoc_id info =
     imp_set_delayed_sack E t (inner s) assoc_id info"

definition SctpSocket_reuse_address ::
    "'k env \<Rightarrow> target \<Rightarrow> SctpSocket \<Rightarrow> ('k, bool) io" where
  "SctpSocket_reuse_address E t s = imp_reuse_address E t (inner s)"

definition SctpSocket_set_reuse_address ::
    "'k env \<Rightarrow> target \<Rightarrow> SctpSocket \<Rightarrow> bool \<Rightarrow> ('k, unit) io" where
  "SctpSocket_set_reuse_address E t s enabled = imp_set_reuse_address E t (inner s) enabled"

definition SctpSocket_reuse_port ::
    "'k env \<Rightarrow> target \<Rightarrow> SctpSocket \<Rightarrow> ('k, bool) io" where
  "SctpSocket_reuse_port E t s = imp_reuse_port E t (inner s)"

definition SctpSocket_set_reuse_port ::
    "'k env \<Rightarrow> target \<Rightarrow> SctpSocket \<Rightarrow> bool \<Rightarrow> ('k, unit) io" where
  "SctpSocket_set_reuse_port E t s enabled = imp_set_reuse_port E t (inner s) enabled"

definition SctpSocket_set_primary ::
    "'k env \<Rightarrow> target \<Rightarrow> SctpSocket \<Rightarrow> AssocId \<Rightarrow> SocketAddr \<Rightarrow> ('k, unit) io" where
  "SctpSocket_set_primary E t s assoc_id addr = imp_set_primary E t (inner s) assoc_id addr"

definition SctpSocket_send_buffer_size ::
    "'k env \<Rightarrow> target \<Rightarrow> SctpSocket \<Rightarrow> ('k, nat) io" where
  "SctpSocket_send_buffer_size E t s = imp_send_buffer_size E t (inner s)"

definition SctpSocket_set_send_buffer_size ::
    "'k env \<Rightarrow> target \<Rightarrow> SctpSocket \<Rightarrow> nat \<Rightarrow> ('k, unit) io" where
  "SctpSocket_set_send_buffer_size E t s n = imp_set_send_buffer_size E t (inner s) n"

definition SctpSocket_recv_buffer_size ::
    "'k env \<Rightarrow> target \<Rightarrow> SctpSocket \<Rightarrow> ('k, nat) io" where
  "SctpSocket_recv_buffer_size E t s = imp_recv_buffer_size E t (inner s)"

definition SctpSocket_set_recv_buffer_size ::
    "'k env \<Rightarrow> target \<Rightarrow> SctpSocket \<Rightarrow> nat \<Rightarrow> ('k, unit) io" where
  "SctpSocket_set_recv_buffer_size E t s n = imp_set_recv_buffer_size E t (inner s) n"

definition SctpSocket_set_recv_timeout ::
    "'k env \<Rightarrow> target \<Rightarrow> SctpSocket \<Rightarrow> Duration option \<Rightarrow> ('k, unit) io" where
  "SctpSocket_set_recv_timeout E t s dur = imp_set_recv_timeout E t (inner s) dur"

definition SctpSocket_recv_timeout ::
    "'k env \<Rightarrow> target \<Rightarrow> SctpSocket \<Rightarrow> ('k, Duration option) io" where
  "SctpSocket_recv_timeout E t s = imp_recv_timeout E t (inner s)"

definition SctpSocket_set_send_timeout ::
    "'k env \<Rightarrow> target \<Rightarrow> SctpSocket \<Rightarrow> Duration option \<Rightarrow> ('k, unit) io" where
  "SctpSocket_set_send_timeout E t s dur = imp_set_send_timeout E t (inner s) dur"

definition SctpSocket_send_timeout ::
    "'k env \<Rightarrow> target \<Rightarrow> SctpSocket \<Rightarrow> ('k, Duration option) io" where
  "SctpSocket_send_timeout E t s = imp_send_timeout E t (inner s)"

definition SctpSocket_take_error ::
    "'k env \<Rightarrow> target \<Rightarrow> SctpSocket \<Rightarrow> ('k, io_error option) io" where
  "SctpSocket_take_error E t s = imp_take_error E t (inner s)"

definition SctpSocket_local_addr ::
    "'k env \<Rightarrow> target \<Rightarrow> SctpSocket \<Rightarrow> ('k, SocketAddr) io" where
  "SctpSocket_local_addr E t s = imp_local_addr E t (inner s)"

definition SctpSocket_peer_addr ::
    "'k env \<Rightarrow> target \<Rightarrow> SctpSocket \<Rightarrow> ('k, SocketAddr) io" where
  "SctpSocket_peer_addr E t s = imp_peer_addr E t (inner s)"

definition SctpSocket_local_addrs ::
    "'k env \<Rightarrow> target \<Rightarrow> SctpSocket \<Rightarrow> AssocId \<Rightarrow> ('k, SocketAddr list) io" where
  "SctpSocket_local_addrs E t s assoc_id = imp_local_addrs E t (inner s) assoc_id"

definition SctpSocket_peer_addrs ::
    "'k env \<Rightarrow> target \<Rightarrow> SctpSocket \<Rightarrow> AssocId \<Rightarrow> ('k, SocketAddr list) io" where
  "SctpSocket_peer_addrs E t s assoc_id = imp_peer_addrs E t (inner s) assoc_id"

definition SctpSocket_shutdown ::
    "'k env \<Rightarrow> target \<Rightarrow> SctpSocket \<Rightarrow> Shutdown \<Rightarrow> ('k, unit) io" where
  "SctpSocket_shutdown E t s how = imp_shutdown E t (inner s) how"

fun SctpSocket_subscribe_events ::
    "'k env \<Rightarrow> target \<Rightarrow> SctpSocket \<Rightarrow> EventType list \<Rightarrow> ('k, unit) io" where
  "SctpSocket_subscribe_events E t s [] = io_return ()"
| "SctpSocket_subscribe_events E t s (ev # events) =
     io_bind (SctpSocket_subscribe_event E t s ev True) (\<lambda>_.
     SctpSocket_subscribe_events E t s events)"

section \<open>Raw descriptors\<close>

text \<open>
  \<open>AsRawFd\<close>, \<open>IntoRawFd\<close> and \<open>FromRawFd\<close>. \<open>into_raw_fd\<close> consumes the socket without closing it; no
  conversion makes a call, so a socket made from a raw descriptor has no receive information
  enabled.
\<close>

definition imp_as_raw_fd :: "imp_Socket \<Rightarrow> fd" where
  "imp_as_raw_fd s = raw s"

definition imp_into_raw_fd :: "imp_Socket \<Rightarrow> ('k, fd) io" where
  "imp_into_raw_fd s = io_return (raw s)"

definition imp_from_raw_fd :: "fd \<Rightarrow> ('k, imp_Socket) io" where
  "imp_from_raw_fd d = io_lift (from_raw_fd d)"

definition SctpSocket_as_raw_fd :: "SctpSocket \<Rightarrow> fd" where
  "SctpSocket_as_raw_fd s = imp_as_raw_fd (inner s)"

definition SctpSocket_into_raw_fd :: "SctpSocket \<Rightarrow> ('k, fd) io" where
  "SctpSocket_into_raw_fd s = imp_into_raw_fd (inner s)"

definition SctpSocket_from_raw_fd :: "fd \<Rightarrow> ('k, SctpSocket) io" where
  "SctpSocket_from_raw_fd d = io_bind (imp_from_raw_fd d) (\<lambda>s. io_return (SctpSocket s))"

section \<open>The stub\<close>

text \<open>
  Off Linux the socket type is uninhabited; the only operation that can run is the constructor.
\<close>

definition unsupported :: io_error where
  "unsupported = Custom Unsupported ''SCTP sockets are only supported on Linux''"

definition stub_new :: "Family \<Rightarrow> Style \<Rightarrow> imp_Socket io_result" where
  "stub_new family style = Err unsupported"

section \<open>Ownership\<close>

text \<open>
  The level of the socket options is not that of the SCTP options, on every Linux target: a
  query at the socket level is not a peeloff.
\<close>

definition levels_ok :: "target \<Rightarrow> bool" where
  "levels_ok t \<longleftrightarrow> SOL_SOCKET (libc t) \<noteq> SOL_SCTP"

lemma linux_levels_ok [simp]: "levels_ok linux_x86_64"
  by (simp add: levels_ok_def linux_x86_64_libc_def SOL_SCTP_def)

text \<open>
  A descriptor changes hands through the conversions without being opened or closed, and a
  socket survives the way there and back; only the descriptor -1 is refused.
\<close>

lemma raw_fd_owned:
  "owns t {#SctpSocket_as_raw_fd s#} (\<lambda>d. {#d#}) {#} (SctpSocket_into_raw_fd s)"
  "owns t {#d#} (\<lambda>s. {#SctpSocket_as_raw_fd s#}) {#d#} (SctpSocket_from_raw_fd d)"
  by (auto simp: owns_def SctpSocket_as_raw_fd_def imp_as_raw_fd_def SctpSocket_into_raw_fd_def
      imp_into_raw_fd_def SctpSocket_from_raw_fd_def imp_from_raw_fd_def from_raw_fd_def
      io_bind_def io_lift_def split: if_splits)

lemma raw_fd_roundtrip:
  "io_bind (SctpSocket_into_raw_fd s) SctpSocket_from_raw_fd w =
     (if SctpSocket_as_raw_fd s = -1 then Some (panic, w) else Some (Ok s, w))"
  by (cases s; cases "inner s")
    (simp add: SctpSocket_as_raw_fd_def imp_as_raw_fd_def SctpSocket_into_raw_fd_def
      imp_into_raw_fd_def SctpSocket_from_raw_fd_def imp_from_raw_fd_def from_raw_fd_def
      io_bind_def io_lift_def)

lemma borrows_sockopts [own_intros]:
  "borrows t (imp_set_nonblocking E t' s nb)" "borrows t (imp_subscribe_event E t' s ev on)"
  "borrows t (imp_subscribe_event_for E t' s a ev on)" "borrows t (imp_set_init_params E t' s p)"
  "borrows t (imp_set_nodelay E t' s b)" "borrows t (imp_set_reuse_address E t' s b)"
  "borrows t (imp_set_reuse_port E t' s b)" "borrows t (imp_set_rto_info E t' s a rto)"
  "borrows t (imp_set_assoc_info E t' s a ai)" "borrows t (imp_set_delayed_sack E t' s a sk)"
  "borrows t (imp_set_peer_addr_params E t' s a oaddr pp)"
  "borrows t (imp_set_send_buffer_size E t' s n)" "borrows t (imp_set_recv_buffer_size E t' s n)"
  "borrows t (set_abort_on_close E t' s)"
  unfolding imp_set_nonblocking_def imp_subscribe_event_def imp_subscribe_event_for_def
    imp_set_init_params_def imp_set_nodelay_def imp_set_reuse_address_def imp_set_reuse_port_def
    imp_set_rto_info_def imp_set_assoc_info_def imp_set_delayed_sack_def
    imp_set_peer_addr_params_def imp_set_send_buffer_size_def imp_set_recv_buffer_size_def
    set_abort_on_close_def Let_def
  by (intro own_intros plain_calls)+

lemma borrows_socket_queries [own_intros]:
  "levels_ok t' \<Longrightarrow> borrows t (imp_style E t' s)"
  "levels_ok t' \<Longrightarrow> borrows t (is_listening E t' s)"
  "levels_ok t' \<Longrightarrow> borrows t (imp_take_error E t' s)"
  unfolding imp_style_def is_listening_def imp_take_error_def
  by (intro own_intros; simp add: levels_ok_def)+

lemma borrows_subscribe_events [own_intros]: "borrows t (SctpSocket_subscribe_events E t' s evs)"
  by (induction evs) (auto simp: SctpSocket_subscribe_event_def intro!: own_intros)

interpretation api_new_source: socket_source t "SctpSocket_new E t family style" inner
  for t E family style
proof
  show "owns t {#} (\<lambda>x. {#raw (inner x)#}) {#} (SctpSocket_new E t family style)"
    unfolding SctpSocket_new_def by (rule owns_bind[OF new_source.source_owns]) auto
qed

section \<open>Properties\<close>

abbreviation event_on_call :: "target \<Rightarrow> SctpSocket \<Rightarrow> EventType \<Rightarrow> call" where
  "event_on_call t s ev \<equiv> C_setsockopt (raw (inner s)) SOL_SCTP SCTP_EVENT
     (PBytes (event_mem t \<lparr>se_assoc_id = assoc_raw FUTURE, se_type = EventType_to_raw ev, se_on = 1\<rparr>))"

lemma subscribe_events_calls:
  "SctpSocket_subscribe_events E t s evs = make_calls E (map (event_on_call t s) evs)"
  by (induction evs)
    (simp_all add: SctpSocket_subscribe_event_def imp_subscribe_event_def imp_subscribe_event_for_def
      imp_setsockopt_def io_bind_assoc)

text \<open>
  Subscribing to a list of events makes one \<open>SCTP_EVENT\<close> call per event, in order, each for
  future associations, until one fails: the calls made are those of a prefix of the list, all
  but possibly the last succeeded, and the operation succeeds exactly when all were made and
  succeeded.
\<close>

theorem subscribe_events_in_order:
  "\<exists>r w' rs. SctpSocket_subscribe_events E t s evs w = Some (r, w') \<and>
     trace w' = trace w @ zip (map (event_on_call t s) evs) rs \<and> length rs \<le> length evs \<and>
     all_ok (butlast rs) \<and>
     (case r of
        Inr _ \<Rightarrow> length rs = length evs \<and> all_ok rs
      | Inl e \<Rightarrow> rs \<noteq> [] \<and> sr_ret (last rs) < 0 \<and> e = os_failure (last rs))"
  unfolding subscribe_events_calls
  using make_calls_outcome[of E "map (event_on_call t s) evs" w] unfolding length_map .

end
