(* ===== verification/Net_Common.thy ===== *)
theory Net_Common
  imports Socket_Api
begin

text \<open>
  The plumbing of the asynchronous sockets, \<open>net/common.rs\<close>: registration with the Tokio reactor,
  the readiness loops \<open>read_op\<close> and \<open>write_op\<close>, and \<open>established\<close>, the loop that waits for the outcome
  of a connect. The loops are partial functions; each is shown equal to a step relation, one
  step per attempt, from which their contracts follow. \<open>AsyncFd\<close> is a parameter: the environment
  answers the registration, the wait for readiness and its clearing. A wait that is never
  answered is a future that never completes; it has no run.
\<close>

section \<open>Registration\<close>

datatype Io = Io (sock: imp_Socket)

text \<open>
  \<open>AsyncFd::new\<close> panics outside a Tokio runtime, which \<open>register\<close> documents as its precondition. The
  environment says so with the return value \<open>-2\<close>; any other negative value is an error of the
  registration. Either way the socket it was given is dropped.
\<close>

definition no_runtime :: "sysret \<Rightarrow> bool" where
  "no_runtime r \<longleftrightarrow> sr_ret r = - 2"

definition reactor_register :: "'k env \<Rightarrow> fd \<Rightarrow> ('k, int) io" where
  "reactor_register E d =
     io_bind (do_call E (C_reactor_register d)) (\<lambda>r. io_lift (if no_runtime r then panic else cvt r))"

definition AsyncFd_new :: "'k env \<Rightarrow> imp_Socket \<Rightarrow> ('k, Io) io" where
  "AsyncFd_new E s =
     dropping E (raw s) (io_bind (reactor_register E (raw s)) (\<lambda>_. io_return (Io s)))"

definition register :: "'k env \<Rightarrow> target \<Rightarrow> imp_Socket \<Rightarrow> ('k, Io) io" where
  "register E t s =
     io_bind (dropping E (raw s) (imp_set_nonblocking E t s True)) (\<lambda>_. AsyncFd_new E s)"

definition register_nonblocking :: "'k env \<Rightarrow> imp_Socket \<Rightarrow> ('k, Io) io" where
  "register_nonblocking E s = AsyncFd_new E s"

section \<open>Readiness loops\<close>

text \<open>\<open>try_io\<close> distinguishes the error kind \<open>WouldBlock\<close>, which \<open>EAGAIN\<close> has.\<close>

fun would_block :: "target \<Rightarrow> 'a io_result \<Rightarrow> bool" where
  "would_block t (Inl (IoErr (Os e))) = (e = EAGAIN (libc t))"
| "would_block t (Inl (IoErr (Custom kind msg))) = (kind = WouldBlock)"
| "would_block t (Inl Panicked) = False"
| "would_block t (Inr x) = False"

text \<open>
  The closure is an \<open>FnMut\<close>: the variables it captures by mutable reference are a state \<open>s\<close>, and
  \<open>after s sock w\<close> is what a call of it in the world \<open>w\<close> leaves in them. A retry sees those, not
  the original ones: a receive buffer holds what an attempt that would block has written to it.
\<close>

partial_function (option) read_op ::
    "'k env \<Rightarrow> target \<Rightarrow> Io \<Rightarrow> ('s \<Rightarrow> imp_Socket \<Rightarrow> ('k, 'a) io) \<Rightarrow>
     ('s \<Rightarrow> imp_Socket \<Rightarrow> 'k world \<Rightarrow> 's) \<Rightarrow> 's \<Rightarrow> 'k world \<Rightarrow> ('a io_result \<times> 'k world) option" where
  "read_op E t io f after s w =
     (case call_cvt E (C_reactor_readable (raw (sock io))) w of
        None \<Rightarrow> None
      | Some (Inl e, w1) \<Rightarrow> Some (Inl e, w1)
      | Some (Inr _, w1) \<Rightarrow>
          (case f s (sock io) w1 of
             None \<Rightarrow> None
           | Some (r, w2) \<Rightarrow>
               if would_block t r
               then read_op E t io f after (after s (sock io) w1)
                 (snd (sys_call E (C_reactor_clear_ready (raw (sock io))) w2))
               else Some (r, w2)))"

partial_function (option) write_op ::
    "'k env \<Rightarrow> target \<Rightarrow> Io \<Rightarrow> ('s \<Rightarrow> imp_Socket \<Rightarrow> ('k, 'a) io) \<Rightarrow>
     ('s \<Rightarrow> imp_Socket \<Rightarrow> 'k world \<Rightarrow> 's) \<Rightarrow> 's \<Rightarrow> 'k world \<Rightarrow> ('a io_result \<times> 'k world) option" where
  "write_op E t io f after s w =
     (case call_cvt E (C_reactor_writable (raw (sock io))) w of
        None \<Rightarrow> None
      | Some (Inl e, w1) \<Rightarrow> Some (Inl e, w1)
      | Some (Inr _, w1) \<Rightarrow>
          (case f s (sock io) w1 of
             None \<Rightarrow> None
           | Some (r, w2) \<Rightarrow>
               if would_block t r
               then write_op E t io f after (after s (sock io) w1)
                 (snd (sys_call E (C_reactor_clear_ready (raw (sock io))) w2))
               else Some (r, w2)))"

text \<open>A closure that captures nothing mutable.\<close>

definition unchanged :: "'s \<Rightarrow> imp_Socket \<Rightarrow> 'k world \<Rightarrow> 's" where
  "unchanged s d w = s"

section \<open>Waiting for an association\<close>

text \<open>What a received item means while the association is being set up.\<close>

datatype verdict = Up | Failed | Ignored | Closed | EarlyData

definition setup_verdict :: "RecvMsg \<Rightarrow> verdict" where
  "setup_verdict m =
     (case m of
        RecvNotification (N_AssocChange ac) \<Rightarrow>
          (case ac_state ac of
             CommUp \<Rightarrow> Up
           | CommLost \<Rightarrow> Failed
           | CantStartAssoc \<Rightarrow> Failed
           | _ \<Rightarrow> Ignored)
      | RecvNotification _ \<Rightarrow> Ignored
      | Data len _ _ \<Rightarrow> (if len = 0 then Closed else EarlyData))"

definition setup_failure :: "'k env \<Rightarrow> target \<Rightarrow> Io \<Rightarrow> ('k, unit) io" where
  "setup_failure E t io =
     io_bind (imp_take_error E t (sock io)) (\<lambda>o'.
     io_err (case o' of
       Some e \<Rightarrow> e
     | None \<Rightarrow> Custom ConnectionRefused ''SCTP association could not be established''))"

partial_function (option) established_loop ::
    "'k env \<Rightarrow> target \<Rightarrow> Io \<Rightarrow> byte list \<Rightarrow> 'k world \<Rightarrow> (unit io_result \<times> 'k world) option" where
  "established_loop E t io buf w =
     (case call_cvt E (C_reactor_readable (raw (sock io))) w of
        None \<Rightarrow> None
      | Some (Inl e, w1) \<Rightarrow> Some (Inl e, w1)
      | Some (Inr _, w1) \<Rightarrow>
          (case imp_recv_msg E t (sock io) buf False w1 of
             None \<Rightarrow> None
           | Some (r, w2) \<Rightarrow>
               if would_block t r
               then established_loop E t io (buf_after E False buf (sock io) w1)
                 (snd (sys_call E (C_reactor_clear_ready (raw (sock io))) w2))
               else
                 (case r of
                    Inl e \<Rightarrow> Some (Inl e, w2)
                  | Inr ((msg, _), buf') \<Rightarrow>
                      if setup_verdict msg = Ignored then established_loop E t io buf' w2
                      else
                        (case setup_verdict msg of
                           Up \<Rightarrow> Some (Ok (), w2)
                         | Failed \<Rightarrow> setup_failure E t io w2
                         | Closed \<Rightarrow> Some (Err (Custom ConnectionReset
                             ''socket closed during association setup''), w2)
                         | _ \<Rightarrow> Some (Err (Custom InvalidData
                             ''user data received before SCTP_COMM_UP''), w2)))))"

definition established :: "'k env \<Rightarrow> target \<Rightarrow> Io \<Rightarrow> ('k, unit) io" where
  "established E t io = established_loop E t io (replicate 512 0)"

section \<open>Attempts as steps\<close>

text \<open>
  A spurious attempt of a readiness loop: the operation would block, the readiness is cleared. A
  decisive attempt ends the loop.
\<close>

inductive spurious ::
    "'k env \<Rightarrow> target \<Rightarrow> (fd \<Rightarrow> call) \<Rightarrow> Io \<Rightarrow> ('s \<Rightarrow> imp_Socket \<Rightarrow> ('k, 'a) io) \<Rightarrow>
     ('s \<Rightarrow> imp_Socket \<Rightarrow> 'k world \<Rightarrow> 's) \<Rightarrow> 's \<times> 'k world \<Rightarrow> 's \<times> 'k world \<Rightarrow> bool"
  for E t wait io f after where
  spurious_attempt:
    "call_cvt E (wait (raw (sock io))) w = Some (Ok x, w1) \<Longrightarrow> f s (sock io) w1 = Some (r, w2) \<Longrightarrow>
     would_block t r \<Longrightarrow> sys_call E (C_reactor_clear_ready (raw (sock io))) w2 = (y, w3) \<Longrightarrow>
     spurious E t wait io f after (s, w) (after s (sock io) w1, w3)"

inductive decisive ::
    "'k env \<Rightarrow> target \<Rightarrow> (fd \<Rightarrow> call) \<Rightarrow> Io \<Rightarrow> ('s \<Rightarrow> imp_Socket \<Rightarrow> ('k, 'a) io) \<Rightarrow> 's \<times> 'k world \<Rightarrow>
     'a io_result \<Rightarrow> 'k world \<Rightarrow> bool"
  for E t wait io f where
  wait_failed:
    "call_cvt E (wait (raw (sock io))) w = Some (Inl e, w1) \<Longrightarrow> decisive E t wait io f (s, w) (Inl e) w1"
| decided:
    "call_cvt E (wait (raw (sock io))) w = Some (Ok x, w1) \<Longrightarrow> f s (sock io) w1 = Some (r, w2) \<Longrightarrow>
     \<not> would_block t r \<Longrightarrow> decisive E t wait io f (s, w) r w2"

locale readiness_loop =
  fixes E :: "'k env" and t :: target and wait :: "fd \<Rightarrow> call"
    and loop :: "Io \<Rightarrow> ('s \<Rightarrow> imp_Socket \<Rightarrow> ('k, 'a) io) \<Rightarrow> ('s \<Rightarrow> imp_Socket \<Rightarrow> 'k world \<Rightarrow> 's) \<Rightarrow>
      's \<Rightarrow> ('k, 'a) io"
  assumes plain_wait: "plain_call (wait d)"
    and loop_spurious: "spurious E t wait io f after c c' \<Longrightarrow>
      loop io f after (fst c) (snd c) = loop io f after (fst c') (snd c')"
    and loop_decisive: "decisive E t wait io f c r w' \<Longrightarrow> loop io f after (fst c) (snd c) = Some (r, w')"
    and loop_sound: "loop io f after s w = Some (r, w') \<Longrightarrow>
      \<exists>c. (spurious E t wait io f after)\<^sup>*\<^sup>* (s, w) c \<and> decisive E t wait io f c r w'"
begin

lemma loop_complete:
  assumes "(spurious E t wait io f after)\<^sup>*\<^sup>* c c'" and d: "decisive E t wait io f c' r w'"
  shows "loop io f after (fst c) (snd c) = Some (r, w')"
  using assms(1)
  by (induction rule: converse_rtranclp_induct) (simp_all add: loop_decisive[OF d] loop_spurious)

lemma loop_iff:
  "loop io f after s w = Some (r, w') \<longleftrightarrow>
     (\<exists>c. (spurious E t wait io f after)\<^sup>*\<^sup>* (s, w) c \<and> decisive E t wait io f c r w')"
  using loop_sound loop_complete[of io f after "(s, w)"] by auto

lemma spurious_owns:
  assumes "spurious E t wait io f after c c'" and "\<And>s. owns t' {#} q {#} (f s (sock io))"
  shows "\<exists>tr. trace (snd c') = trace (snd c) @ tr \<and> opened t' tr = closed tr"
  using assms(1)
proof cases
  case (spurious_attempt w x w1 s r w2 y w3)
  obtain e where r: "r = Inl e"
    using spurious_attempt(5) by (cases r) auto
  obtain tr1 where "trace w1 = trace w @ tr1" "opened t' tr1 = closed tr1"
    using borrows_call_cvt[OF plain_wait, of t' E] spurious_attempt(3) unfolding owns_def by fastforce
  moreover obtain tr2 where "trace w2 = trace w1 @ tr2" "opened t' tr2 = closed tr2"
    using assms(2)[of s] spurious_attempt(4) r unfolding owns_def by fastforce
  ultimately show ?thesis
    using sys_call_trace[OF spurious_attempt(6)] spurious_attempt(1,2)
    by (intro exI[of _ "tr1 @ tr2 @ [(C_reactor_clear_ready (raw (sock io)), y)]"]) simp
qed

lemma spurious_rounds_owns:
  assumes "(spurious E t wait io f after)\<^sup>*\<^sup>* c c'" and "\<And>s. owns t' {#} q {#} (f s (sock io))"
  shows "\<exists>tr. trace (snd c') = trace (snd c) @ tr \<and> opened t' tr = closed tr"
  using assms(1)
proof (induction rule: rtranclp_induct)
  case base
  show ?case
    by simp
next
  case (step c1 c2)
  then show ?case
    using spurious_owns[OF step(2) assms(2)] by (metis append.assoc closed_simps(3) opened_simps(3))
qed

lemma decisive_owns:
  assumes "decisive E t wait io f c r w'" and "\<And>s. owns t' {#} q {#} (f s (sock io))"
  shows "\<exists>tr. trace w' = trace (snd c) @ tr \<and>
    opened t' tr = (case r of Inr x \<Rightarrow> q x | Inl _ \<Rightarrow> {#}) + closed tr"
  using assms(1)
proof cases
  case (wait_failed w e s)
  then show ?thesis
    using borrows_call_cvt[OF plain_wait, of t' E] unfolding owns_def by fastforce
next
  case (decided w x w1 s)
  obtain tr1 where "trace w1 = trace w @ tr1" "opened t' tr1 = closed tr1"
    using borrows_call_cvt[OF plain_wait, of t' E] decided(2) unfolding owns_def by fastforce
  moreover obtain tr2 where "trace w' = trace w1 @ tr2"
    "opened t' tr2 = (case r of Inr x \<Rightarrow> q x | Inl _ \<Rightarrow> {#}) + closed tr2"
    using assms(2)[of s] decided(3) unfolding owns_def by fastforce
  ultimately show ?thesis
    using decided(1) by (intro exI[of _ "tr1 @ tr2"]) (simp add: ac_simps)
qed

text \<open>The loop has the ownership contract of the operation it repeats.\<close>

lemma loop_owns:
  assumes "\<And>s. owns t' {#} q {#} (f s (sock io))"
  shows "owns t' {#} q {#} (loop io f after s)"
proof (rule ownsI)
  fix w r w'
  assume "loop io f after s w = Some (r, w')"
  then obtain c where c: "(spurious E t wait io f after)\<^sup>*\<^sup>* (s, w) c" "decisive E t wait io f c r w'"
    using loop_sound by blast
  obtain tr1 where "trace (snd c) = trace w @ tr1" "opened t' tr1 = closed tr1"
    using spurious_rounds_owns[OF c(1) assms] by auto
  moreover obtain tr2 where "trace w' = trace (snd c) @ tr2"
    "opened t' tr2 = (case r of Inr x \<Rightarrow> q x | Inl _ \<Rightarrow> {#}) + closed tr2"
    using decisive_owns[OF c(2) assms] by auto
  ultimately show "\<exists>tr. trace w' = trace w @ tr \<and>
      {#} + opened t' tr = (case r of Inr x \<Rightarrow> q x | Inl _ \<Rightarrow> {#}) + closed tr"
    by (intro exI[of _ "tr1 @ tr2"]) (simp add: ac_simps)
qed

end

text \<open>
  One unfolding of such a loop, with the continuation \<open>fin\<close> of a decisive attempt: the wait fails,
  the attempt is decisive, or it is spurious and the loop goes on.
\<close>

lemma attempt_body_cases:
  assumes "(case call_cvt E (wait (raw (sock io))) w of
        None \<Rightarrow> None
      | Some (Inl e, w1) \<Rightarrow> Some (Inl e, w1)
      | Some (Inr _, w1) \<Rightarrow>
          (case f s (sock io) w1 of
             None \<Rightarrow> None
           | Some (r, w2) \<Rightarrow>
               if would_block t r
               then rest (after s (sock io) w1)
                 (snd (sys_call E (C_reactor_clear_ready (raw (sock io))) w2))
               else fin r w2)) = Some y"
  obtains (failed) e w1 where "decisive E t wait io f (s, w) (Inl e) w1" "y = (Inl e, w1)"
    | (now) r w2 where "decisive E t wait io f (s, w) r w2" "fin r w2 = Some y"
    | (again) c where "spurious E t wait io f after (s, w) c" "rest (fst c) (snd c) = Some y"
proof (cases "call_cvt E (wait (raw (sock io))) w")
  case None
  with assms show ?thesis by simp
next
  case (Some a)
  obtain x w1 where c: "call_cvt E (wait (raw (sock io))) w = Some (x, w1)"
    using Some by (cases a) auto
  show ?thesis
  proof (cases x)
    case (Inl e)
    then have "decisive E t wait io f (s, w) (Inl e) w1"
      using c by (auto intro: wait_failed)
    then show ?thesis
      using failed assms c Inl by auto
  next
    case (Inr v)
    then obtain r w2 where f: "f s (sock io) w1 = Some (r, w2)"
      using assms c by (auto split: option.splits)
    show ?thesis
    proof (cases "would_block t r")
      case True
      obtain z w3 where z: "sys_call E (C_reactor_clear_ready (raw (sock io))) w2 = (z, w3)"
        by fastforce
      have "spurious E t wait io f after (s, w) (after s (sock io) w1, w3)"
        using c Inr f True z by (auto intro: spurious_attempt)
      then show ?thesis
        using assms c Inr f True z by (intro again) auto
    next
      case False
      then have "decisive E t wait io f (s, w) r w2"
        using c Inr f by (auto intro: decided)
      then show ?thesis
        using now assms c Inr f False by auto
    qed
  qed
qed

lemma read_op_sound:
  assumes "read_op E t io f after s w = Some y"
  shows "\<exists>c. (spurious E t C_reactor_readable io f after)\<^sup>*\<^sup>* (s, w) c \<and>
    decisive E t C_reactor_readable io f c (fst y) (snd y)"
  using _ assms
proof (rule read_op.raw_induct[where P = "\<lambda>E t io f after s w y.
      \<exists>c. (spurious E t C_reactor_readable io f after)\<^sup>*\<^sup>* (s, w) c \<and>
        decisive E t C_reactor_readable io f c (fst y) (snd y)"], goal_cases)
  case (1 loop E t io f after s w y)
  note IH = 1(1)
  from 1(2) show ?case
  proof (rule attempt_body_cases, goal_cases)
    case (3 c)
    then show ?case
      using IH[of E t io f after "fst c" "snd c" y] by (auto intro: converse_rtranclp_into_rtranclp)
  qed fastforce+
qed

interpretation read_op_loop: readiness_loop E t C_reactor_readable "read_op E t" for E t
proof
  show "plain_call (C_reactor_readable d)" for d
    by simp
  show "read_op E t io f after (fst c) (snd c) = read_op E t io f after (fst c') (snd c')"
    if "spurious E t C_reactor_readable io f after c c'" for io f c c' after
    using that by cases (subst read_op.simps, simp)
  show "read_op E t io f after (fst c) (snd c) = Some (r, w')" if "decisive E t C_reactor_readable io f c r w'"
    for io f c r w' after
    using that by cases (subst read_op.simps, simp)+
  show "\<exists>c. (spurious E t C_reactor_readable io f after)\<^sup>*\<^sup>* (s, w) c \<and> decisive E t C_reactor_readable io f c r w'"
    if "read_op E t io f after s w = Some (r, w')" for io f s w r w' after
    using read_op_sound[OF that] by simp
qed

lemma write_op_sound:
  assumes "write_op E t io f after s w = Some y"
  shows "\<exists>c. (spurious E t C_reactor_writable io f after)\<^sup>*\<^sup>* (s, w) c \<and>
    decisive E t C_reactor_writable io f c (fst y) (snd y)"
  using _ assms
proof (rule write_op.raw_induct[where P = "\<lambda>E t io f after s w y.
      \<exists>c. (spurious E t C_reactor_writable io f after)\<^sup>*\<^sup>* (s, w) c \<and>
        decisive E t C_reactor_writable io f c (fst y) (snd y)"], goal_cases)
  case (1 loop E t io f after s w y)
  note IH = 1(1)
  from 1(2) show ?case
  proof (rule attempt_body_cases, goal_cases)
    case (3 c)
    then show ?case
      using IH[of E t io f after "fst c" "snd c" y] by (auto intro: converse_rtranclp_into_rtranclp)
  qed fastforce+
qed

interpretation write_op_loop: readiness_loop E t C_reactor_writable "write_op E t" for E t
proof
  show "plain_call (C_reactor_writable d)" for d
    by simp
  show "write_op E t io f after (fst c) (snd c) = write_op E t io f after (fst c') (snd c')"
    if "spurious E t C_reactor_writable io f after c c'" for io f c c' after
    using that by cases (subst write_op.simps, simp)
  show "write_op E t io f after (fst c) (snd c) = Some (r, w')" if "decisive E t C_reactor_writable io f c r w'"
    for io f c r w' after
    using that by cases (subst write_op.simps, simp)+
  show "\<exists>c. (spurious E t C_reactor_writable io f after)\<^sup>*\<^sup>* (s, w) c \<and> decisive E t C_reactor_writable io f c r w'"
    if "write_op E t io f after s w = Some (r, w')" for io f s w r w' after
    using write_op_sound[OF that] by simp
qed

section \<open>Association setup as a state machine\<close>

abbreviation setup_recv :: "'k env \<Rightarrow> target \<Rightarrow> byte list \<Rightarrow> imp_Socket \<Rightarrow>
    ('k, (RecvMsg \<times> SocketAddr option) \<times> byte list) io" where
  "setup_recv E t \<equiv> \<lambda>buf s. imp_recv_msg E t s buf False"

text \<open>
  What a connect waits for, stated of the items the kernel delivers and not of the code: a
  configuration is the receive buffer and the world. The machine stays in setup on a spurious
  wake-up and on a notification that does not decide the setup. It ends well on the news that the
  association is up; when the association is lost or cannot be started it ends with the pending
  error of the socket, with a refusal if there is none, or with the error of asking for it; user
  data and the end of the stream end it too, and so does a failing receive.
\<close>

definition decides :: "AssocChangeState \<Rightarrow> bool" where
  "decides st \<longleftrightarrow> st = CommUp \<or> st = CommLost \<or> st = CantStartAssoc"

inductive setup_step :: "'k env \<Rightarrow> target \<Rightarrow> Io \<Rightarrow> byte list \<times> 'k world \<Rightarrow> byte list \<times> 'k world \<Rightarrow> bool"
  for E t io where
  setup_spurious:
    "spurious E t C_reactor_readable io (setup_recv E t) (buf_after E False) c c' \<Longrightarrow>
     setup_step E t io c c'"
| setup_ignored:
    "decisive E t C_reactor_readable io (setup_recv E t) c (Ok ((RecvNotification n, src), buf')) w' \<Longrightarrow>
     (\<And>ac. n = N_AssocChange ac \<Longrightarrow> \<not> decides (ac_state ac)) \<Longrightarrow> setup_step E t io c (buf', w')"

inductive setup_end :: "'k env \<Rightarrow> target \<Rightarrow> Io \<Rightarrow> byte list \<times> 'k world \<Rightarrow> unit io_result \<Rightarrow> 'k world \<Rightarrow> bool"
  for E t io where
  setup_up:
    "decisive E t C_reactor_readable io (setup_recv E t) c
       (Ok ((RecvNotification (N_AssocChange ac), src), buf')) w' \<Longrightarrow>
     ac_state ac = CommUp \<Longrightarrow> setup_end E t io c (Ok ()) w'"
| setup_failed:
    "decisive E t C_reactor_readable io (setup_recv E t) c
       (Ok ((RecvNotification (N_AssocChange ac), src), buf')) w' \<Longrightarrow>
     ac_state ac = CommLost \<or> ac_state ac = CantStartAssoc \<Longrightarrow>
     imp_take_error E t (sock io) w' = Some (pending, w'') \<Longrightarrow>
     setup_end E t io c
       (case pending of
          Inl e \<Rightarrow> Inl e
        | Inr (Some e) \<Rightarrow> Err e
        | Inr None \<Rightarrow> Err (Custom ConnectionRefused ''SCTP association could not be established'')) w''"
| setup_closed:
    "decisive E t C_reactor_readable io (setup_recv E t) c (Ok ((Data 0 info eor, src), buf')) w' \<Longrightarrow>
     setup_end E t io c (Err (Custom ConnectionReset ''socket closed during association setup'')) w'"
| setup_early:
    "decisive E t C_reactor_readable io (setup_recv E t) c (Ok ((Data len info eor, src), buf')) w' \<Longrightarrow>
     0 < len \<Longrightarrow>
     setup_end E t io c (Err (Custom InvalidData ''user data received before SCTP_COMM_UP'')) w'"
| setup_error:
    "decisive E t C_reactor_readable io (setup_recv E t) c (Inl e) w' \<Longrightarrow>
     setup_end E t io c (Inl e) w'"

text \<open>The code's classification of an item agrees with the machine.\<close>

lemma setup_verdict_iff:
  "setup_verdict msg = Up \<longleftrightarrow> (\<exists>ac. msg = RecvNotification (N_AssocChange ac) \<and> ac_state ac = CommUp)"
  "setup_verdict msg = Failed \<longleftrightarrow> (\<exists>ac. msg = RecvNotification (N_AssocChange ac) \<and>
     (ac_state ac = CommLost \<or> ac_state ac = CantStartAssoc))"
  "setup_verdict msg = Ignored \<longleftrightarrow> (\<exists>n. msg = RecvNotification n \<and>
     (\<forall>ac. n = N_AssocChange ac \<longrightarrow> \<not> decides (ac_state ac)))"
  "setup_verdict msg = Closed \<longleftrightarrow> (\<exists>info eor. msg = Data 0 info eor)"
  "setup_verdict msg = EarlyData \<longleftrightarrow> (\<exists>len info eor. msg = Data len info eor \<and> 0 < len)"
  by (auto simp: setup_verdict_def decides_def
      split: RecvMsg.splits Notification.splits AssocChangeState.splits if_splits)

lemma setup_failure_run:
  "setup_failure E t io w =
     (case imp_take_error E t (sock io) w of
        None \<Rightarrow> None
      | Some (pending, w') \<Rightarrow> Some
          (case pending of
             Inl e \<Rightarrow> Inl e
           | Inr (Some e) \<Rightarrow> Err e
           | Inr None \<Rightarrow> Err (Custom ConnectionRefused ''SCTP association could not be established''), w'))"
  by (auto simp: setup_failure_def io_bind_def io_lift_def split: option.splits sum.splits)

text \<open>The loop after a decisive attempt.\<close>

lemma established_spurious:
  assumes "spurious E t C_reactor_readable io (setup_recv E t) (buf_after E False) c c'"
  shows "established_loop E t io (fst c) (snd c) = established_loop E t io (fst c') (snd c')"
  using assms by cases (subst established_loop.simps, simp)

lemma established_decisive:
  assumes "decisive E t C_reactor_readable io (setup_recv E t) c r w'"
  shows "established_loop E t io (fst c) (snd c) =
    (case r of
       Inl e \<Rightarrow> Some (Inl e, w')
     | Inr ((msg, _), buf') \<Rightarrow>
         (case setup_verdict msg of
            Ignored \<Rightarrow> established_loop E t io buf' w'
          | Up \<Rightarrow> Some (Ok (), w')
          | Failed \<Rightarrow> setup_failure E t io w'
          | Closed \<Rightarrow> Some (Err (Custom ConnectionReset ''socket closed during association setup''), w')
          | EarlyData \<Rightarrow> Some (Err (Custom InvalidData ''user data received before SCTP_COMM_UP''), w')))"
  using assms
  by cases (subst established_loop.simps, simp split: sum.splits prod.splits verdict.splits)+

lemma established_step:
  assumes "setup_step E t io c c'"
  shows "established_loop E t io (fst c) (snd c) = established_loop E t io (fst c') (snd c')"
  using assms
proof cases
  case (setup_ignored n src buf' w')
  then have "setup_verdict (RecvNotification n) = Ignored"
    by (simp add: setup_verdict_iff)
  then show ?thesis
    using setup_ignored by (simp add: established_decisive)
qed (rule established_spurious)

lemma established_end:
  assumes "setup_end E t io c r w'"
  shows "established_loop E t io (fst c) (snd c) = Some (r, w')"
  using assms
proof cases
  case (setup_up ac src buf')
  then have "setup_verdict (RecvNotification (N_AssocChange ac)) = Up"
    by (simp add: setup_verdict_iff)
  then show ?thesis
    using setup_up by (simp add: established_decisive)
next
  case (setup_failed ac src buf' w1 pending)
  then have "setup_verdict (RecvNotification (N_AssocChange ac)) = Failed"
    by (simp add: setup_verdict_iff)
  then show ?thesis
    using setup_failed by (simp add: established_decisive setup_failure_run)
qed (simp_all add: established_decisive setup_verdict_def)

lemma established_complete:
  assumes "(setup_step E t io)\<^sup>*\<^sup>* c c'" and "setup_end E t io c' r w'"
  shows "established_loop E t io (fst c) (snd c) = Some (r, w')"
  using assms(1)
  by (induction rule: converse_rtranclp_induct)
    (simp_all add: established_end[OF assms(2)] established_step)

lemma setup_endI:
  assumes "decisive E t C_reactor_readable io (setup_recv E t) c (Ok ((msg, src), buf')) w'"
    and "setup_verdict msg \<noteq> Ignored"
    and "(case setup_verdict msg of
        Up \<Rightarrow> Some (Ok (), w')
      | Failed \<Rightarrow> setup_failure E t io w'
      | Closed \<Rightarrow> Some (Err (Custom ConnectionReset ''socket closed during association setup''), w')
      | _ \<Rightarrow> Some (Err (Custom InvalidData ''user data received before SCTP_COMM_UP''), w')) = Some y"
  shows "setup_end E t io c (fst y) (snd y)"
proof (cases "setup_verdict msg")
  case Up
  then obtain ac where "msg = RecvNotification (N_AssocChange ac)" "ac_state ac = CommUp"
    unfolding setup_verdict_iff by blast
  then show ?thesis
    using assms Up setup_up[of E t io c] by auto
next
  case Failed
  then obtain ac where "msg = RecvNotification (N_AssocChange ac)"
    "ac_state ac = CommLost \<or> ac_state ac = CantStartAssoc"
    unfolding setup_verdict_iff by blast
  then show ?thesis
    using assms Failed setup_failed[of E t io c ac] by (auto simp: setup_failure_run split: option.splits)
next
  case Closed
  then show ?thesis
    using assms setup_closed[of E t io c] unfolding setup_verdict_iff by (auto simp: setup_verdict_def)
next
  case EarlyData
  then show ?thesis
    using assms setup_early[of E t io c] unfolding setup_verdict_iff by (auto simp: setup_verdict_def)
qed (use assms in simp)

lemma established_sound:
  assumes "established_loop E t io buf w = Some y"
  shows "\<exists>c. (setup_step E t io)\<^sup>*\<^sup>* (buf, w) c \<and> setup_end E t io c (fst y) (snd y)"
  using _ assms
proof (rule established_loop.raw_induct[where P = "\<lambda>E t io buf w y.
      \<exists>c. (setup_step E t io)\<^sup>*\<^sup>* (buf, w) c \<and> setup_end E t io c (fst y) (snd y)"], goal_cases)
  case (1 loop E t io buf w y)
  note IH = 1(1)
  from 1(2) show ?case
  proof (rule attempt_body_cases, goal_cases)
    case (1 e w1)
    then show ?case
      using setup_error by fastforce
  next
    case (2 r w2)
    show ?case
    proof (cases r)
      case (Inl e)
      then show ?thesis
        using 2 setup_error by fastforce
    next
      case (Inr v)
      obtain msg src buf' where v: "v = ((msg, src), buf')"
        by (metis surj_pair)
      show ?thesis
      proof (cases "setup_verdict msg = Ignored")
        case True
        then have "setup_step E t io (buf, w) (buf', w2)"
          using 2(1) Inr v unfolding setup_verdict_iff by (auto intro: setup_ignored)
        moreover have "loop E t io buf' w2 = Some y"
          using 2(2) Inr v True by simp
        ultimately show ?thesis
          using IH by (blast intro: converse_rtranclp_into_rtranclp)
      next
        case False
        then have "setup_end E t io (buf, w) (fst y) (snd y)"
          using 2 Inr v by (intro setup_endI) auto
        then show ?thesis
          by blast
      qed
    qed
  next
    case (3 c)
    then have "setup_step E t io (buf, w) c"
      by (intro setup_spurious)
    with 3(2) show ?case
      using IH[of E t io "fst c" "snd c" y] by (auto intro: converse_rtranclp_into_rtranclp)
  qed
qed

section \<open>Ownership\<close>

text \<open>A stretch of the trace in which no descriptor changes hands.\<close>

definition balanced :: "target \<Rightarrow> 'k world \<Rightarrow> 'k world \<Rightarrow> bool" where
  "balanced t w w' \<longleftrightarrow> (\<exists>tr. trace w' = trace w @ tr \<and> opened t tr = closed tr)"

lemma balanced_trans: "balanced t w w1 \<Longrightarrow> balanced t w1 w2 \<Longrightarrow> balanced t w w2"
  unfolding balanced_def by (metis append.assoc closed_simps(3) opened_simps(3))

lemma balanced_refl [simp]: "balanced t w w"
  by (simp add: balanced_def)

lemma borrows_balanced: "borrows t m \<longleftrightarrow> (\<forall>w r w'. m w = Some (r, w') \<longrightarrow> balanced t w w')"
  unfolding owns_def balanced_def by (auto split: sum.splits)

lemma balanced_sys_call: "plain_call c \<Longrightarrow> sys_call E c w = (r, w') \<Longrightarrow> balanced t w w'"
  using sys_call_trace[of E c w r w'] by (auto simp: balanced_def plain_call_def)

lemma reassemble_balanced:
  "reassemble_loop E s out over scratch w = Some y \<Longrightarrow> balanced t w (snd y)"
proof (rule reassemble_loop.raw_induct[where P = "\<lambda>E s out over scratch w y. balanced t w (snd y)"],
    goal_cases)
  case (1 loop E s out over scratch w y)
  obtain r w1 where r: "sys_call E (C_recvmsg (raw s) (length scratch) 0 0 0) w = (r, w1)"
    by fastforce
  then have b: "balanced t w w1"
    by (rule balanced_sys_call[rotated]) simp
  have "balanced t w1 (snd y)"
    using 1 r by (auto simp: Let_def split: sum.splits if_splits prod.splits)
  with b show ?case
    by (rule balanced_trans)
qed

lemma borrows_reassemble [own_intros]: "borrows t (reassemble_notification E s first)"
  unfolding borrows_balanced reassemble_notification_def using reassemble_balanced by fastforce

lemma borrows_recv_msg [own_intros]: "borrows t (imp_recv_msg E t' s buf want_from)"
  unfolding imp_recv_msg_def Let_def by (intro own_intros plain_calls)

lemma borrows_send_msg [own_intros]: "borrows t (imp_send_msg E t' s buf dest info)"
  unfolding borrows_balanced send_msg_run
  by (auto split: prod.splits intro: balanced_sys_call[rotated])

lemma borrows_setup_failure: "levels_ok t' \<Longrightarrow> borrows t (setup_failure E t' io)"
  unfolding setup_failure_def by (intro own_intros)

lemma borrows_take_error: "levels_ok t' \<Longrightarrow> borrows t (imp_take_error E t' s)"
  by (intro own_intros)

lemma spurious_balanced:
  assumes "spurious E t C_reactor_readable io f after c c'" and "\<And>s. borrows t' (f s (sock io))"
  shows "balanced t' (snd c) (snd c')"
  using read_op_loop.spurious_owns[OF assms] unfolding balanced_def .

lemma decisive_balanced:
  assumes "decisive E t C_reactor_readable io f c r w'" and "\<And>s. borrows t' (f s (sock io))"
  shows "balanced t' (snd c) w'"
  using read_op_loop.decisive_owns[OF assms] by (auto simp: balanced_def split: sum.splits)

lemmas setup_recv_balanced =
  spurious_balanced[where f = "setup_recv E t" for E t, OF _ borrows_recv_msg]
  decisive_balanced[where f = "setup_recv E t" for E t, OF _ borrows_recv_msg]

lemma setup_steps_balanced:
  "(setup_step E t io)\<^sup>*\<^sup>* c c' \<Longrightarrow> balanced t' (snd c) (snd c')"
proof (induction rule: rtranclp_induct)
  case (step c1 c2)
  from step(2) have "balanced t' (snd c1) (snd c2)"
    by cases (auto dest: setup_recv_balanced)
  then show ?case
    using step.IH balanced_trans by blast
qed simp

lemma setup_end_balanced:
  assumes "setup_end E t io c r w'" and "levels_ok t"
  shows "balanced t' (snd c) w'"
  using assms(1)
proof cases
  case (setup_failed ac src buf' w1 pending)
  have "balanced t' (snd c) w1"
    using setup_failed(2) by (rule setup_recv_balanced(2))
  moreover have "balanced t' w1 w'"
    using setup_failed(4) borrows_take_error[OF assms(2), of t' E "sock io"]
    unfolding borrows_balanced by blast
  ultimately show ?thesis
    by (rule balanced_trans)
qed (auto dest: setup_recv_balanced(2))

lemma borrows_established [own_intros]: "levels_ok t' \<Longrightarrow> borrows t (established E t' io)"
  unfolding borrows_balanced
proof (intro allI impI)
  fix w r w'
  assume "levels_ok t'" and "established E t' io w = Some (r, w')"
  then obtain c where "(setup_step E t' io)\<^sup>*\<^sup>* (replicate 512 0, w) c" "setup_end E t' io c r w'"
    using established_sound[of E t' io "replicate 512 0" w "(r, w')"] by (auto simp: established_def)
  then show "balanced t w w'"
    using setup_steps_balanced[of E t' io "(replicate 512 0, w)" c t] \<open>levels_ok t'\<close>
      setup_end_balanced[of E t' io c r w' t] balanced_trans[of t w "snd c" w'] by simp
qed

lemma owns_AsyncFd_new: "owns t {#raw s#} (\<lambda>io. {#raw (sock io)#}) {#} (AsyncFd_new E s)"
  unfolding AsyncFd_new_def reactor_register_def by (intro owns_then_drop own_intros plain_calls) simp

lemma owns_register: "owns t {#raw s#} (\<lambda>io. {#raw (sock io)#}) {#} (register E t' s)"
  unfolding register_def
  by (intro owns_bind[OF owns_dropping_borrowed] own_intros owns_AsyncFd_new)

section \<open>Properties\<close>

text \<open>
  C10: \<open>read_op\<close> and \<open>write_op\<close> are exactly their readiness protocol, for closures that keep a state
  of their own. They return \<open>r\<close> if and only if, after finitely many attempts that would block, each
  followed by clearing the readiness it consumed, an attempt that does not would-block returns \<open>r\<close>,
  or the reactor itself fails; each attempt runs on the state the one before it left. So a
  spurious wake-up is never reported, and the operation takes effect in one final attempt.
\<close>

theorem readiness_loops_exact:
  "(read_op E t io f after s w = Some (r, w') \<longleftrightarrow>
      (\<exists>c. (spurious E t C_reactor_readable io f after)\<^sup>*\<^sup>* (s, w) c \<and>
        decisive E t C_reactor_readable io f c r w')) \<and>
   (write_op E t io f after s w = Some (r, w') \<longleftrightarrow>
      (\<exists>c. (spurious E t C_reactor_writable io f after)\<^sup>*\<^sup>* (s, w) c \<and>
        decisive E t C_reactor_writable io f c r w'))"
  by (intro conjI read_op_loop.loop_iff write_op_loop.loop_iff)

text \<open>
  C8: waiting for an association implements the setup machine: the loop returns \<open>r\<close> if and only
  if the machine, from the initial buffer, reaches after finitely many spurious wake-ups and
  notifications that do not decide the setup a configuration that ends with \<open>r\<close>. In
  particular a lost association and one that cannot be started end the wait, with the error the
  kernel has for it, and nothing but \<open>CommUp\<close> is a success.
\<close>

theorem established_refines_setup:
  "established E t io w = Some (r, w') \<longleftrightarrow>
     (\<exists>c. (setup_step E t io)\<^sup>*\<^sup>* (replicate 512 0, w) c \<and> setup_end E t io c r w')"
  using established_sound[of E t io "replicate 512 0" w "(r, w')"]
    established_complete[of E t io "(replicate 512 0, w)" _ r w']
  by (auto simp: established_def)

text \<open>
  C9: a connect is never reported as established without the kernel's word: if the wait
  succeeds, the last item received, in the attempt that ended it, is an association change to
  \<open>CommUp\<close>.
\<close>

theorem established_only_on_comm_up:
  assumes "established E t io w = Some (Ok (), w')"
  shows "\<exists>buf w1 w2 x ac src buf'.
    call_cvt E (C_reactor_readable (raw (sock io))) w1 = Some (Ok x, w2) \<and>
    imp_recv_msg E t (sock io) buf False w2 =
      Some (Ok ((RecvNotification (N_AssocChange ac), src), buf'), w') \<and> ac_state ac = CommUp"
proof -
  obtain c where "setup_end E t io c (Ok ()) w'"
    using established_sound[of E t io "replicate 512 0" w "(Ok (), w')"] assms
    by (auto simp: established_def)
  then obtain ac src buf' where ac: "ac_state ac = CommUp" and
    d: "decisive E t C_reactor_readable io (setup_recv E t) c
      (Ok ((RecvNotification (N_AssocChange ac), src), buf')) w'"
    by cases (auto split: sum.splits option.splits)
  from d show ?thesis
    by cases (use ac in blast)
qed

theorem established_only_on_comm_up_witness:
  "let ev = K_assoc_change SCTP_COMM_UP 0 5 5 7 [];
       bs = event_bytes linux_x86_64 0 20 ev;
       up = sr_ok\<lparr>sr_ret := int (length bs), sr_out := bs,
         sr_msg_flags := MSG_NOTIFICATION OR MSG_EOR\<rparr>;
       w = \<lparr>kst = [sr_ok, sr_fail 11, sr_ok, sr_ok, up], trace = []\<rparr>
   in \<exists>w'. established scripted linux_x86_64 (Io (imp_Socket 3)) w = Some (Ok (), w') \<and>
      (\<exists>buf w1 w2 x ac src buf'.
        call_cvt scripted (C_reactor_readable 3) w1 = Some (Ok x, w2) \<and>
        imp_recv_msg scripted linux_x86_64 (imp_Socket 3) buf False w2 =
          Some (Ok ((RecvNotification (N_AssocChange ac), src), buf'), w') \<and> ac_state ac = CommUp)"
proof -
  let ?t = linux_x86_64 and ?io = "Io (imp_Socket 3)" and ?buf = "replicate 512 (0 :: byte)"
  define bs where "bs = event_bytes ?t 0 20 (K_assoc_change SCTP_COMM_UP 0 5 5 7 [])"
  define up where "up = sr_ok\<lparr>sr_ret := int (length bs), sr_out := bs,
    sr_msg_flags := MSG_NOTIFICATION OR MSG_EOR\<rparr>"
  define w :: "sysret list world" where
    "w = \<lparr>kst = [sr_ok, sr_fail 11, sr_ok, sr_ok, up], trace = []\<rparr>"
  have len: "length bs = 20"
    by (simp add: bs_def event_bytes_def)
  have again: "imp_recv_msg scripted ?t (imp_Socket 3) ?buf False \<lparr>kst = sr_fail 11 # rs, trace = tr\<rparr> =
      Some (Err (Os 11), \<lparr>kst = rs, trace = tr @ [(recv_call (imp_Socket 3) ?buf False, sr_fail 11)]\<rparr>)"
    for rs tr
    unfolding imp_recv_msg_def io_bind_do_call[OF sys_call_scripted]
    by (simp add: cvt_size_def io_lift_run)
  have left: "buf_after scripted False ?buf (imp_Socket 3) \<lparr>kst = sr_fail 11 # rs, trace = tr\<rparr> = ?buf" for rs tr
    by (simp add: buf_after_def overlay_def sr_fail_def sr_ok_def)
  have "delivers ?t up (length ?buf) bs None []"
    by (simp add: delivers_def up_def len)
  note recv = recv_msg_head[OF sys_call_scripted this]
  have item: "\<exists>ac b w'. imp_recv_msg scripted ?t (imp_Socket 3) ?buf False \<lparr>kst = up # rs, trace = tr\<rparr> =
      Some (Ok ((RecvNotification (N_AssocChange ac), None), b), w') \<and> ac_state ac = CommUp" for rs tr
    unfolding recv
    by (simp add: up_def MSG_NOTIFICATION_def MSG_EOR_def bs_def parse_event io_lift_run
        AssocChangeState_from_raw_def sys_consts)
  have wb: "would_block ?t (Err (Os 11))"
    by (simp add: linux_x86_64_libc_def)
  define tr where "tr = [(C_reactor_readable 3, sr_ok), (recv_call (imp_Socket 3) ?buf False, sr_fail 11),
    (C_reactor_clear_ready 3, sr_ok)]"
  let ?w1 = "\<lparr>kst = [sr_fail 11, sr_ok, sr_ok, up], trace = [(C_reactor_readable 3, sr_ok)]\<rparr>"
  have "spurious scripted ?t C_reactor_readable ?io (setup_recv scripted ?t) (buf_after scripted False)
      (?buf, w) (buf_after scripted False ?buf (sock ?io) ?w1, \<lparr>kst = [sr_ok, up], trace = tr\<rparr>)"
    by (rule spurious_attempt[where r = "Err (Os 11)" and y = sr_ok and
          ?w2.0 = "\<lparr>kst = [sr_ok, sr_ok, up], trace = take 2 tr\<rparr>"])
      (use wb again[of "[sr_ok, sr_ok, up]" "[(C_reactor_readable 3, sr_ok)]"]
        in \<open>simp_all add: w_def tr_def call_cvt_run[OF sys_call_scripted]\<close>)
  then have "spurious scripted ?t C_reactor_readable ?io (setup_recv scripted ?t) (buf_after scripted False)
      (?buf, w) (?buf, \<lparr>kst = [sr_ok, up], trace = tr\<rparr>)"
    by (simp add: left)
  then have 1: "(setup_step scripted ?t ?io)\<^sup>*\<^sup>* (?buf, w) (?buf, \<lparr>kst = [sr_ok, up], trace = tr\<rparr>)"
    by (intro r_into_rtranclp setup_spurious)
  obtain ac b w' where i: "imp_recv_msg scripted ?t (imp_Socket 3) ?buf False
      \<lparr>kst = [up], trace = tr @ [(C_reactor_readable 3, sr_ok)]\<rparr> =
      Some (Ok ((RecvNotification (N_AssocChange ac), None), b), w')" "ac_state ac = CommUp"
    using item by blast
  have "decisive scripted ?t C_reactor_readable ?io (setup_recv scripted ?t)
      (?buf, \<lparr>kst = [sr_ok, up], trace = tr\<rparr>) (Ok ((RecvNotification (N_AssocChange ac), None), b)) w'"
    by (rule decided) (use i in \<open>simp_all add: call_cvt_run[OF sys_call_scripted]\<close>)
  then have "setup_end scripted ?t ?io (?buf, \<lparr>kst = [sr_ok, up], trace = tr\<rparr>) (Ok ()) w'"
    using i(2) by (rule setup_up)
  from established_complete[OF 1 this] have run: "established scripted ?t ?io w = Some (Ok (), w')"
    by (simp add: established_def)
  show ?thesis
    unfolding Let_def bs_def[symmetric] up_def[symmetric] w_def[symmetric]
    using run established_only_on_comm_up[OF run] by auto
qed

end
