(* ===== verification/Futures.thy ===== *)
theory Futures
  imports Net_Common
begin

text \<open>
  Futures. The operations of \<open>Net_Common\<close> describe a run in which every wait for readiness is
  answered. This theory describes the futures the compiler makes of the same \<open>async\<close> functions:
  state machines that are polled, suspend at a wait that is not ready, and may be dropped there.
  Between two polls the rest of the system runs and leaves the environment in any state. The
  main result is that a future that is polled to completion does exactly what the run does in
  an environment that answers each wait only when it is ready.
\<close>

named_theorems lift_intros \<open>operations that behave alike under \<open>awaited\<close>\<close>

section \<open>Polling\<close>

datatype ('s, 'a) poll = Pending 's | Ready 'a

type_synonym ('k, 's, 'a) poller =
  "'s \<Rightarrow> 'k world \<Rightarrow> (('s, 'a io_result) poll \<times> 'k world) option"

text \<open>
  A poll of \<open>readable()\<close> or \<open>writable()\<close> is the call of the wait itself; the return value 1 says
  that the socket is not ready and the task will be woken.
\<close>

fun waits :: "call \<Rightarrow> bool" where
  "waits (C_reactor_readable _) = True"
| "waits (C_reactor_writable _) = True"
| "waits _ = False"

definition is_pending :: "sysret \<Rightarrow> bool" where
  "is_pending r \<longleftrightarrow> sr_ret r = 1"

definition answered :: "call \<times> sysret \<Rightarrow> bool" where
  "answered x \<longleftrightarrow> \<not> (waits (fst x) \<and> is_pending (snd x))"

text \<open>
  One poll of a loop that awaits readiness and attempts an operation. An attempt that would
  block clears the readiness and goes round with the locals as it left them, \<open>after s w\<close>; any other
  result is looked at by \<open>next\<close>, which goes round in a new state of the locals or finishes with an
  operation that does not suspend.
\<close>

partial_function (option) poll_loop ::
    "'k env \<Rightarrow> target \<Rightarrow> (fd \<Rightarrow> call) \<Rightarrow> Io \<Rightarrow> ('s \<Rightarrow> ('k, 'x) io) \<Rightarrow>
     ('s \<Rightarrow> 'k world \<Rightarrow> 's) \<Rightarrow> ('s \<Rightarrow> 'x io_result \<Rightarrow> 's + ('k, 'a) io) \<Rightarrow> 's \<Rightarrow> 'k world \<Rightarrow>
     (('s, 'a io_result) poll \<times> 'k world) option" where
  "poll_loop E t wait io attempt after next s w =
     (let (v, w1) = sys_call E (wait (raw (sock io))) w
      in if is_pending v then Some (Pending s, w1)
         else if sr_ret v < 0 then Some (Ready (Err (Os (sr_errno v))), w1)
         else
           (case attempt s w1 of
              None \<Rightarrow> None
            | Some (r, w2) \<Rightarrow>
                if would_block t r
                then poll_loop E t wait io attempt after next (after s w1)
                  (snd (sys_call E (C_reactor_clear_ready (raw (sock io))) w2))
                else
                  (case next s r of
                     Inl s' \<Rightarrow> poll_loop E t wait io attempt after next s' w2
                   | Inr fin \<Rightarrow> map_option (map_prod Ready id) (fin w2))))"

text \<open>The same loop when every wait is answered.\<close>

partial_function (option) run_loop ::
    "'k env \<Rightarrow> target \<Rightarrow> (fd \<Rightarrow> call) \<Rightarrow> Io \<Rightarrow> ('s \<Rightarrow> ('k, 'x) io) \<Rightarrow>
     ('s \<Rightarrow> 'k world \<Rightarrow> 's) \<Rightarrow> ('s \<Rightarrow> 'x io_result \<Rightarrow> 's + ('k, 'a) io) \<Rightarrow> 's \<Rightarrow> 'k world \<Rightarrow>
     ('a io_result \<times> 'k world) option" where
  "run_loop E t wait io attempt after next s w =
     (let (v, w1) = sys_call E (wait (raw (sock io))) w
      in if sr_ret v < 0 then Some (Err (Os (sr_errno v)), w1)
         else
           (case attempt s w1 of
              None \<Rightarrow> None
            | Some (r, w2) \<Rightarrow>
                if would_block t r
                then run_loop E t wait io attempt after next (after s w1)
                  (snd (sys_call E (C_reactor_clear_ready (raw (sock io))) w2))
                else
                  (case next s r of
                     Inl s' \<Rightarrow> run_loop E t wait io attempt after next s' w2
                   | Inr fin \<Rightarrow> fin w2)))"

text \<open>The futures of the three loops of \<open>net/common.rs\<close>.\<close>

definition op_next :: "'s \<Rightarrow> 'a io_result \<Rightarrow> 's + ('k, 'a) io" where
  "op_next s r = Inr (io_lift r)"

definition poll_read_op ::
    "'k env \<Rightarrow> target \<Rightarrow> Io \<Rightarrow> ('s \<Rightarrow> imp_Socket \<Rightarrow> ('k, 'a) io) \<Rightarrow>
     ('s \<Rightarrow> imp_Socket \<Rightarrow> 'k world \<Rightarrow> 's) \<Rightarrow> ('k, 's, 'a) poller" where
  "poll_read_op E t io f after =
     poll_loop E t C_reactor_readable io (\<lambda>s. f s (sock io)) (\<lambda>s. after s (sock io)) op_next"

definition poll_write_op ::
    "'k env \<Rightarrow> target \<Rightarrow> Io \<Rightarrow> ('s \<Rightarrow> imp_Socket \<Rightarrow> ('k, 'a) io) \<Rightarrow>
     ('s \<Rightarrow> imp_Socket \<Rightarrow> 'k world \<Rightarrow> 's) \<Rightarrow> ('k, 's, 'a) poller" where
  "poll_write_op E t io f after =
     poll_loop E t C_reactor_writable io (\<lambda>s. f s (sock io)) (\<lambda>s. after s (sock io)) op_next"

text \<open>The receive buffer is the local of \<open>established\<close> that lives across a suspension.\<close>

definition setup_next ::
    "'k env \<Rightarrow> target \<Rightarrow> Io \<Rightarrow> byte list \<Rightarrow> ((RecvMsg \<times> SocketAddr option) \<times> byte list) io_result \<Rightarrow>
     byte list + ('k, unit) io" where
  "setup_next E t io buf r =
     (case r of
        Inl e \<Rightarrow> Inr (io_lift (Inl e))
      | Inr ((msg, _), buf') \<Rightarrow>
          (case setup_verdict msg of
             Ignored \<Rightarrow> Inl buf'
           | Up \<Rightarrow> Inr (io_return ())
           | Failed \<Rightarrow> Inr (setup_failure E t io)
           | Closed \<Rightarrow> Inr (io_err (Custom ConnectionReset ''socket closed during association setup''))
           | EarlyData \<Rightarrow> Inr (io_err (Custom InvalidData ''user data received before SCTP_COMM_UP''))))"

definition poll_established :: "'k env \<Rightarrow> target \<Rightarrow> Io \<Rightarrow> ('k, byte list, unit) poller" where
  "poll_established E t io =
     poll_loop E t C_reactor_readable io (\<lambda>buf. setup_recv E t buf (sock io))
       (\<lambda>buf. buf_after E False buf (sock io)) (setup_next E t io)"

section \<open>Executors and wake-ups\<close>

text \<open>
  An executor polls a future until it is ready. The list holds the states in which the rest of
  the system leaves the environment before each further poll; when it runs out the future is
  left pending, which is where it can be dropped.
\<close>

fun drive ::
    "('k, 's, 'a) poller \<Rightarrow> 's \<Rightarrow> 'k world \<Rightarrow> 'k list \<Rightarrow>
     (('s, 'a io_result) poll \<times> 'k world \<times> 'k list) option" where
  "drive poll s w [] =
     (case poll s w of
        None \<Rightarrow> None
      | Some (Ready r, w1) \<Rightarrow> Some (Ready r, w1, [])
      | Some (Pending s', w1) \<Rightarrow> Some (Pending s', w1, []))"
| "drive poll s w (k # ks) =
     (case poll s w of
        None \<Rightarrow> None
      | Some (Ready r, w1) \<Rightarrow> Some (Ready r, w1, k # ks)
      | Some (Pending s', w1) \<Rightarrow> drive poll s' (w1\<lparr>kst := k\<rparr>) ks)"

text \<open>
  The environment with the same wake-ups in which a wait is answered only when it is ready, and
  what a world of the polled future looks like there: polls that were not ready leave no trace.
\<close>

fun await :: "'k env \<Rightarrow> call \<Rightarrow> 'k \<Rightarrow> 'k list \<Rightarrow> sysret \<times> 'k \<times> 'k list" where
  "await E c k [] = (let (v, k') = E c k in (v, k', []))"
| "await E c k (k2 # ks) =
     (let (v, k') = E c k in if is_pending v then await E c k2 ks else (v, k', k2 # ks))"

definition awaited :: "'k env \<Rightarrow> ('k \<times> 'k list) env" where
  "awaited E c = (\<lambda>(k, ks). if waits c then await E c k ks else let (v, k') = E c k in (v, k', ks))"

definition strip :: "'k world \<Rightarrow> 'k list \<Rightarrow> ('k \<times> 'k list) world" where
  "strip w ks = \<lparr>kst = (kst w, ks), trace = filter answered (trace w)\<rparr>"

lemma sys_call_awaited:
  assumes "\<not> waits c" and "sys_call E c w = (v, w')"
  shows "sys_call (awaited E) c (strip w ks) = (v, strip w' ks)"
  using assms by (auto simp: sys_call_def strip_def awaited_def answered_def split: prod.splits)

lemma sys_call_awaited_ready:
  assumes "\<not> is_pending v" and "sys_call E c w = (v, w')"
  shows "sys_call (awaited E) c (strip w ks) = (v, strip w' ks)"
  using assms
  by (cases ks) (auto simp: sys_call_def strip_def awaited_def answered_def split: prod.splits)

lemma sys_call_awaited_pending:
  assumes "waits c" and "is_pending v" and "sys_call E c w = (v, w')"
  shows "sys_call (awaited E) c (strip w (k # ks)) = sys_call (awaited E) c (strip (w'\<lparr>kst := k\<rparr>) ks)"
  using assms by (auto simp: sys_call_def strip_def awaited_def answered_def split: prod.splits)

section \<open>Operations without a suspension\<close>

text \<open>
  An operation that does not wait is not affected by the wake-ups: it does the same in the
  awaited environment. \<open>m'\<close> is the operation \<open>m\<close> there.
\<close>

definition lifts :: "('k, 'a) io \<Rightarrow> ('k \<times> 'k list, 'a) io \<Rightarrow> bool" where
  "lifts m m' \<longleftrightarrow>
     (\<forall>w ks. m' (strip w ks) = map_option (map_prod id (\<lambda>w'. strip w' ks)) (m w)) \<and>
     extends m \<and> extends m'"

lemma liftsD:
  assumes "lifts m m'"
  shows "m w = None \<Longrightarrow> m' (strip w ks) = None"
    and "m w = Some (r, w') \<Longrightarrow> m' (strip w ks) = Some (r, strip w' ks)"
    and "extends m" and "extends m'"
  using assms by (auto simp: lifts_def)

lemma lifts_SomeE:
  assumes "lifts m m'" and "m' (strip w ks) = Some (r, x)"
  obtains w' where "m w = Some (r, w')" and "x = strip w' ks"
  using assms by (auto simp: lifts_def)

lemma extends_bind:
  "extends m \<Longrightarrow> (\<And>x. extends (f x)) \<Longrightarrow> extends (io_bind m f)"
  unfolding extends_def io_bind_Some_iff by (metis append.assoc)

lemma extends_do_call: "extends (do_call E c)"
  by (auto simp: extends_def do_call_def split: prod.splits dest: sys_call_trace)

lemma extends_dropping: "extends m \<Longrightarrow> extends (dropping E d m)"
  unfolding extends_def
  by (auto simp: dropping_def split: option.splits sum.splits prod.splits dest!: sys_call_trace)
    fastforce

lemma lifts_lift [lift_intros]: "lifts (io_lift r) (io_lift r)"
  by (auto simp: lifts_def io_lift_def extends_def)

lemma lifts_bind [lift_intros]:
  assumes "lifts m m'" and "\<And>x. lifts (f x) (f' x)"
  shows "lifts (io_bind m f) (io_bind m' f')"
  using assms extends_bind[of m f] extends_bind[of m' f'] unfolding lifts_def
  by (auto simp: io_bind_def split: option.splits sum.splits)

lemma lifts_do_call [lift_intros]:
  assumes "\<not> waits c"
  shows "lifts (do_call E c) (do_call (awaited E) c)"
  using sys_call_awaited[OF assms, of E]
  by (auto simp: lifts_def extends_do_call) (auto simp: do_call_def split: prod.splits)

lemma lifts_call_cvt [lift_intros]:
  "\<not> waits c \<Longrightarrow> lifts (call_cvt E c) (call_cvt (awaited E) c)"
  unfolding call_cvt_def by (intro lift_intros)

lemma lifts_dropping [lift_intros]:
  assumes "lifts m m'"
  shows "lifts (dropping E d m) (dropping (awaited E) d m')"
  using assms extends_dropping[of m E d] extends_dropping[of m' "awaited E" d]
    sys_call_awaited[of "C_close d" E]
  unfolding lifts_def by (auto simp: dropping_def split: option.splits sum.splits prod.splits)

lemma lifts_if [lift_intros]:
  "(b \<Longrightarrow> lifts m m') \<Longrightarrow> (\<not> b \<Longrightarrow> lifts n n') \<Longrightarrow> lifts (if b then m else n) (if b then m' else n')"
  by simp

lemma lifts_prod [lift_intros]:
  "(\<And>a b. lifts (f a b) (f' a b)) \<Longrightarrow> lifts (case_prod f p) (case_prod f' p)"
  by (cases p) simp

lemma lifts_let [lift_intros]:
  "(\<And>x. lifts (f x) (f' x)) \<Longrightarrow> lifts (let x = a in f x) (let x = a in f' x)"
  by (simp add: Let_def)

section \<open>The contract of a future\<close>

text \<open>
  A future and the operation it implements, run in the awaited environment: the future
  completes under an executor if and only if the operation returns with every wait answered,
  with the same result, the same calls and the same wake-ups used.
\<close>

locale async_future =
  fixes poll :: "('k, 's, 'a) poller" and run :: "'s \<Rightarrow> ('k \<times> 'k list, 'a) io"
  assumes completes_iff:
    "(\<exists>w' ks'. drive poll s w ks = Some (Ready r, w', ks') \<and> x = strip w' ks') \<longleftrightarrow>
       run s (strip w ks) = Some (r, x) \<and> list_all answered (trace x)"
begin

lemma completed_run:
  "drive poll s w ks = Some (Ready r, w', ks') \<Longrightarrow> run s (strip w ks) = Some (r, strip w' ks')"
  using completes_iff[of s w ks r "strip w' ks'"] by blast

text \<open>The executor does not get stuck: a run with enough wake-ups is a completed future.\<close>

lemma run_completes:
  assumes "run s (strip w ks) = Some (r, x)" and "list_all answered (trace x)"
  obtains w' ks' where "drive poll s w ks = Some (Ready r, w', ks')" and "x = strip w' ks'"
  using completes_iff[of s w ks r x] assms by blast

text \<open>Further wake-ups change nothing.\<close>

lemma drive_more:
  "drive poll s w ks = Some (Ready r, w', ks') \<Longrightarrow>
     drive poll s w (ks @ js) = Some (Ready r, w', ks' @ js)"
proof (induction ks arbitrary: s w)
  case Nil
  then show ?case
    by (cases js) (auto split: option.splits poll.splits)
next
  case (Cons k ks)
  then show ?case
    by (auto split: option.splits poll.splits)
qed

end

section \<open>Loops\<close>

text \<open>The part of an iteration after an answered wait, for the future and for the run.\<close>

definition after_wait ::
    "'k env \<Rightarrow> target \<Rightarrow> Io \<Rightarrow> ('s \<Rightarrow> ('k, 'x) io) \<Rightarrow> ('s \<Rightarrow> 'k world \<Rightarrow> 's) \<Rightarrow>
     ('s \<Rightarrow> 'x io_result \<Rightarrow> 's + ('k, 'a) io) \<Rightarrow>
     ('s \<Rightarrow> 'k world \<Rightarrow> 'c option) \<Rightarrow> ('a io_result \<times> 'k world \<Rightarrow> 'c) \<Rightarrow>
     's \<Rightarrow> sysret \<Rightarrow> 'k world \<Rightarrow> 'c option" where
  "after_wait E t io attempt after next loop fin s v w1 =
     (if sr_ret v < 0 then Some (fin (Err (Os (sr_errno v)), w1))
      else
        (case attempt s w1 of
           None \<Rightarrow> None
         | Some (r, w2) \<Rightarrow>
             if would_block t r
             then loop (after s w1) (snd (sys_call E (C_reactor_clear_ready (raw (sock io))) w2))
             else
               (case next s r of
                  Inl s' \<Rightarrow> loop s' w2
                | Inr m \<Rightarrow> map_option fin (m w2))))"

lemma poll_loop_unfold:
  "poll_loop E t wait io attempt after next s w =
     (let (v, w1) = sys_call E (wait (raw (sock io))) w
      in if is_pending v then Some (Pending s, w1)
         else after_wait E t io attempt after next (poll_loop E t wait io attempt after next)
           (map_prod Ready id) s v w1)"
  by (subst poll_loop.simps) (simp add: after_wait_def split: prod.splits option.splits sum.splits)

lemma run_loop_unfold:
  "run_loop E t wait io attempt after next s w =
     (let (v, w1) = sys_call E (wait (raw (sock io))) w
      in after_wait E t io attempt after next (run_loop E t wait io attempt after next) id s v w1)"
  by (subst run_loop.simps)
    (simp add: after_wait_def option.map_id split: prod.splits option.splits sum.splits)

lemma poll_loop_pending:
  assumes "sys_call E (wait (raw (sock io))) w = (v, w1)" and "is_pending v"
  shows "poll_loop E t wait io attempt after nxt s w = Some (Pending s, w1)"
  by (subst poll_loop_unfold) (simp add: assms)

lemma poll_loop_done:
  assumes "sys_call E (wait (raw (sock io))) w = (v, w1)" and "\<not> is_pending v" and "\<not> sr_ret v < 0"
    and "attempt s w1 = Some (r, w2)" and "\<not> would_block t r" and "nxt s r = Inr (io_lift r')"
  shows "poll_loop E t wait io attempt after nxt s w = Some (Ready r', w2)"
  by (subst poll_loop_unfold) (simp add: assms after_wait_def io_lift_def)

abbreviation drive_loop ::
    "'k env \<Rightarrow> target \<Rightarrow> (fd \<Rightarrow> call) \<Rightarrow> Io \<Rightarrow> ('s \<Rightarrow> ('k, 'x) io) \<Rightarrow>
     ('s \<Rightarrow> 'k world \<Rightarrow> 's) \<Rightarrow> ('s \<Rightarrow> 'x io_result \<Rightarrow> 's + ('k, 'a) io) \<Rightarrow> 'k list \<Rightarrow> 's \<Rightarrow> 'k world \<Rightarrow>
     (('s, 'a io_result) poll \<times> 'k world \<times> 'k list) option" where
  "drive_loop E t wait io attempt after next ks s w \<equiv> drive (poll_loop E t wait io attempt after next) s w ks"

lemma drive_step:
  "drive p s w ks =
     (case p s w of
        None \<Rightarrow> None
      | Some (Ready r, w1) \<Rightarrow> Some (Ready r, w1, ks)
      | Some (Pending s', w1) \<Rightarrow>
          (case ks of [] \<Rightarrow> Some (Pending s', w1, []) | k # ks' \<Rightarrow> drive p s' (w1\<lparr>kst := k\<rparr>) ks'))"
  by (cases ks) (simp_all split: option.splits poll.splits)

lemma drive_loop_unfold:
  "drive_loop E t wait io attempt after next ks s w =
     (let (v, w1) = sys_call E (wait (raw (sock io))) w
      in if is_pending v then
           (case ks of
              [] \<Rightarrow> Some (Pending s, w1, [])
            | k # ks' \<Rightarrow> drive_loop E t wait io attempt after next ks' s (w1\<lparr>kst := k\<rparr>))
         else after_wait E t io attempt after next (drive_loop E t wait io attempt after next ks)
           (\<lambda>(r, w'). (Ready r, w', ks)) s v w1)"
  by (subst drive_step, subst poll_loop_unfold)
    (auto simp: after_wait_def drive_step[of _ _ _ ks] option.map_comp comp_def map_prod_def
      split: prod.splits option.splits sum.splits if_splits)

text \<open>
  A loop and the same loop in the awaited environment. The laws ask that nothing but the wait
  itself suspends.
\<close>

locale awaiting_loop =
  fixes E :: "'k env" and t :: target and wait :: "fd \<Rightarrow> call" and io :: Io
    and attempt :: "'s \<Rightarrow> ('k, 'x) io" and attempt' :: "'s \<Rightarrow> ('k \<times> 'k list, 'x) io"
    and after :: "'s \<Rightarrow> 'k world \<Rightarrow> 's" and after' :: "'s \<Rightarrow> ('k \<times> 'k list) world \<Rightarrow> 's"
    and nxt :: "'s \<Rightarrow> 'x io_result \<Rightarrow> 's + ('k, 'a) io"
    and nxt' :: "'s \<Rightarrow> 'x io_result \<Rightarrow> 's + ('k \<times> 'k list, 'a) io"
  assumes waits_wait: "waits (wait d)"
    and attempt_lifts: "lifts (attempt s) (attempt' s)"
    and after_lifts: "after' s (strip w ks) = after s w"
    and next_lifts: "rel_sum (=) lifts (nxt s r) (nxt' s r)"
begin

abbreviation poll_here :: "('k, 's, 'a) poller" where
  "poll_here \<equiv> poll_loop E t wait io attempt after nxt"

abbreviation run_here :: "'s \<Rightarrow> ('k \<times> 'k list, 'a) io" where
  "run_here \<equiv> run_loop (awaited E) t wait io attempt' after' nxt'"

lemma run_pending:
  assumes "sys_call E (wait (raw (sock io))) w = (v, w1)" and "is_pending v"
  shows "run_here s (strip w (k # ks)) = run_here s (strip (w1\<lparr>kst := k\<rparr>) ks)"
  by (subst (1 2) run_loop_unfold) (simp only: sys_call_awaited_pending[OF waits_wait assms(2,1)])

lemma run_clear:
  "snd (sys_call (awaited E) (C_reactor_clear_ready d) (strip w ks)) =
     strip (snd (sys_call E (C_reactor_clear_ready d) w)) ks"
  by (cases "sys_call E (C_reactor_clear_ready d) w") (simp add: sys_call_awaited)

text \<open>One iteration of the run, after a wait that is ready.\<close>

lemma run_ready:
  assumes "sys_call E (wait (raw (sock io))) w = (v, w1)" and "\<not> is_pending v"
  shows "run_here s (strip w ks) =
    after_wait (awaited E) t io attempt' after' nxt' run_here id s v (strip w1 ks)"
  by (subst run_loop_unfold) (simp add: sys_call_awaited_ready[OF assms(2,1)])

lemma run_after_wait:
  assumes "\<not> sr_ret v < 0" and "attempt s w1 = Some (r, w2)"
  shows "after_wait (awaited E) t io attempt' after' nxt' run_here id s v (strip w1 ks) =
    (if would_block t r
     then run_here (after s w1) (strip (snd (sys_call E (C_reactor_clear_ready (raw (sock io))) w2)) ks)
     else case nxt' s r of Inl s' \<Rightarrow> run_here s' (strip w2 ks) | Inr m \<Rightarrow> m (strip w2 ks))"
  using assms liftsD(2)[OF attempt_lifts assms(2), of ks]
  by (simp add: after_wait_def after_lifts run_clear option.map_id split: sum.splits)

definition simulated :: "'s \<Rightarrow> 'k world \<Rightarrow> ('s, 'a io_result) poll \<times> 'k world \<Rightarrow> bool" where
  "simulated s w y \<longleftrightarrow>
     (case fst y of
        Ready r \<Rightarrow> \<forall>ks. run_here s (strip w ks) = Some (r, strip (snd y) ks)
      | Pending s' \<Rightarrow>
          \<forall>k ks. run_here s (strip w (k # ks)) = run_here s' (strip ((snd y)\<lparr>kst := k\<rparr>) ks))"

lemma simulated_step:
  "simulated s' w' y \<Longrightarrow> (\<And>ks. run_here s (strip w ks) = run_here s' (strip w' ks)) \<Longrightarrow> simulated s w y"
  by (simp add: simulated_def split: poll.splits)

lemma iteration_simulated:
  assumes body: "(let (v, w1) = sys_call E (wait (raw (sock io))) w
      in if is_pending v then Some (Pending s, w1)
         else after_wait E t io attempt after nxt loop (map_prod Ready id) s v w1) = Some y"
    and IH: "\<And>s w. loop s w = Some y \<Longrightarrow> simulated s w y"
  shows "simulated s w y"
proof -
  obtain v w1 where v: "sys_call E (wait (raw (sock io))) w = (v, w1)"
    by fastforce
  consider (pending) "is_pending v" | (failed) "\<not> is_pending v" "sr_ret v < 0"
    | (ready) "\<not> is_pending v" "\<not> sr_ret v < 0"
    by blast
  then show ?thesis
  proof cases
    case pending
    then show ?thesis
      using body v by (auto simp: simulated_def run_pending)
  next
    case failed
    then show ?thesis
      using body v by (auto simp: simulated_def after_wait_def run_ready)
  next
    case ready
    then obtain r w2 where a: "attempt s w1 = Some (r, w2)"
      using body v by (auto simp: after_wait_def split: option.splits)
    note run = run_ready[OF v ready(1)] run_after_wait[OF ready(2) a]
    show ?thesis
    proof (cases "would_block t r")
      case True
      then show ?thesis
        using body v ready a run by (auto simp: after_wait_def intro: simulated_step IH)
    next
      case False
      show ?thesis
      proof (cases "nxt s r")
        case (Inl s')
        then have n: "nxt' s r = Inl s'"
          using next_lifts[of s r] by (cases "nxt' s r") auto
        have "loop s' w2 = Some y"
          using body v ready a False Inl by (simp add: after_wait_def)
        from IH[OF this] show ?thesis
          by (rule simulated_step) (simp add: run False n)
      next
        case (Inr m)
        then obtain m' where m': "nxt' s r = Inr m'" "lifts m m'"
          using next_lifts[of s r] by (cases "nxt' s r") auto
        obtain r' w3 where "m w2 = Some (r', w3)" "y = (Ready r', w3)"
          using body v ready a False Inr by (auto simp: after_wait_def)
        then show ?thesis
          using run False m' liftsD(2)[OF m'(2)] by (simp add: simulated_def)
      qed
    qed
  qed
qed

lemma poll_simulated:
  assumes "poll_here s w = Some y"
  shows "simulated s w y"
proof -
  let ?P = "\<lambda>E0 t0 wait0 io0 attempt0 after0 nxt0 s w y.
    E0 = E \<longrightarrow> t0 = t \<longrightarrow> wait0 = wait \<longrightarrow> io0 = io \<longrightarrow> attempt0 = attempt \<longrightarrow> after0 = after \<longrightarrow> nxt0 = nxt \<longrightarrow> simulated s w y"
  have "?P E t wait io attempt after nxt s w y"
  proof (rule poll_loop.raw_induct[where P = ?P, OF _ assms], goal_cases)
    case (1 loop E0 t0 wait0 io0 attempt0 after0 nxt0 s w y)
    show ?case
    proof (intro impI, rule iteration_simulated[where loop = "loop E t wait io attempt after nxt"])
      assume eq: "E0 = E" "t0 = t" "wait0 = wait" "io0 = io" "attempt0 = attempt" "after0 = after" "nxt0 = nxt"
      show "(let (v, w1) = sys_call E (wait (raw (sock io))) w
        in if is_pending v then Some (Pending s, w1)
           else after_wait E t io attempt after nxt (loop E t wait io attempt after nxt)
             (map_prod Ready id) s v w1) = Some y"
        using 1(2) unfolding eq after_wait_def map_prod_simp id_apply .
      show "simulated s w y" if "loop E t wait io attempt after nxt s w = Some y" for s w
        using 1(1)[OF that] by simp
    qed
  qed
  then show ?thesis
    by simp
qed

lemma drive_sound:
  "drive poll_here s w ks = Some (Ready r, w', ks') \<Longrightarrow> run_here s (strip w ks) = Some (r, strip w' ks')"
proof (induction ks arbitrary: s w)
  case Nil
  then show ?case
    using poll_simulated[of s w] by (auto simp: simulated_def split: option.splits poll.splits)
next
  case (Cons k ks)
  then show ?case
    using poll_simulated[of s w] by (auto simp: simulated_def split: option.splits poll.splits)
qed

text \<open>
  Conversely, a run whose waits are all answered in time is a completed future. A wait that is
  answered leaves the future where the run is.
\<close>

lemma wait_answered:
  assumes "sys_call (awaited E) (wait (raw (sock io))) (strip w ks) = (v, x)" and "\<not> is_pending v"
  shows "\<exists>w1 ks1. x = strip w1 ks1 \<and>
    drive poll_here s w ks =
      after_wait E t io attempt after nxt (drive_loop E t wait io attempt after nxt ks1)
        (\<lambda>(r, w'). (Ready r, w', ks1)) s v w1"
  using assms(1)
proof (induction ks arbitrary: w)
  case Nil
  obtain v0 w1 where v0: "sys_call E (wait (raw (sock io))) w = (v0, w1)"
    by fastforce
  have "v0 = v"
    using Nil v0 waits_wait
    by (auto simp: sys_call_def strip_def awaited_def split: prod.splits)
  then show ?case
    using Nil v0 assms(2) sys_call_awaited_ready[of v E "wait (raw (sock io))" w w1 "[]"]
    by (subst drive_loop_unfold) (auto simp del: drive.simps)
next
  case (Cons k ks)
  obtain v0 w1 where v0: "sys_call E (wait (raw (sock io))) w = (v0, w1)"
    by fastforce
  show ?case
  proof (cases "is_pending v0")
    case True
    with Cons.prems v0 have "sys_call (awaited E) (wait (raw (sock io))) (strip (w1\<lparr>kst := k\<rparr>) ks) = (v, x)"
      using sys_call_awaited_pending[OF waits_wait True v0] by simp
    from Cons.IH[OF this] show ?thesis
      by (subst drive_loop_unfold) (simp add: v0 True)
  next
    case False
    then show ?thesis
      using Cons.prems v0 sys_call_awaited_ready[OF False v0, of "k # ks"]
      by (subst drive_loop_unfold) (auto simp del: drive.simps)
  qed
qed

definition completed :: "'s \<Rightarrow> ('k \<times> 'k list) world \<Rightarrow> 'a io_result \<times> ('k \<times> 'k list) world \<Rightarrow> bool" where
  "completed s x y \<longleftrightarrow>
     (\<exists>tr. trace (snd y) = trace x @ tr) \<and>
     (\<forall>w ks. x = strip w ks \<longrightarrow> list_all answered (trace (snd y)) \<longrightarrow>
        (\<exists>w' ks'. drive poll_here s w ks = Some (Ready (fst y), w', ks') \<and> snd y = strip w' ks'))"

lemma next_extends: "nxt' s r = Inr m' \<Longrightarrow> extends m'"
  using next_lifts[of s r] liftsD(4) by (cases "nxt s r") auto

lemma iteration_extends:
  assumes "after_wait (awaited E) t io attempt' after' nxt' loop id s v x = Some y"
    and "\<And>s x. loop s x = Some y \<Longrightarrow> \<exists>tr. trace (snd y) = trace x @ tr"
  shows "\<exists>tr. trace (snd y) = trace x @ tr"
proof (cases "sr_ret v < 0")
  case True
  then show ?thesis
    using assms(1) by (auto simp: after_wait_def)
next
  case False
  then obtain r x2 where a: "attempt' s x = Some (r, x2)"
    using assms(1) by (auto simp: after_wait_def split: option.splits)
  then obtain tr where tr: "trace x2 = trace x @ tr"
    using liftsD(4)[OF attempt_lifts] unfolding extends_def by blast
  have "\<exists>tr. trace (snd y) = trace x2 @ tr"
  proof (cases "would_block t r")
    case True
    obtain u x3 where u: "sys_call (awaited E) (C_reactor_clear_ready (raw (sock io))) x2 = (u, x3)"
      by fastforce
    then show ?thesis
      using assms(1) assms(2)[of "after' s x" x3] False a True sys_call_trace[OF u]
      by (auto simp: after_wait_def)
  next
    case nb: False
    then show ?thesis
      using assms a False next_extends[of s r]
      by (auto simp: after_wait_def extends_def split: sum.splits)
  qed
  with tr show ?thesis
    by auto
qed

lemma iteration_completed:
  assumes v: "sys_call (awaited E) (wait (raw (sock io))) x = (v, x1)"
    and body: "after_wait (awaited E) t io attempt' after' nxt' loop id s v x1 = Some y"
    and IH: "\<And>s x. loop s x = Some y \<Longrightarrow> completed s x y"
  shows "completed s x y"
proof -
  have ext: "\<exists>tr. trace (snd y) = trace x1 @ tr"
    using iteration_extends[OF body] IH unfolding completed_def by blast
  have "\<exists>w' ks'. drive poll_here s w ks = Some (Ready (fst y), w', ks') \<and> snd y = strip w' ks'"
    if x: "x = strip w ks" and ans: "list_all answered (trace (snd y))" for w ks
  proof -
    have "\<not> is_pending v"
      using ext ans sys_call_trace[OF v] waits_wait by (auto simp: answered_def)
    then obtain w1 ks1 where x1: "x1 = strip w1 ks1" and d: "drive poll_here s w ks =
        after_wait E t io attempt after nxt (drive_loop E t wait io attempt after nxt ks1)
          (\<lambda>(r, w'). (Ready r, w', ks1)) s v w1"
      using wait_answered v unfolding x by blast
    show ?thesis
    proof (cases "sr_ret v < 0")
      case True
      then show ?thesis
        using body d x1 by (auto simp: after_wait_def)
    next
      case False
      then obtain r x2 where "attempt' s (strip w1 ks1) = Some (r, x2)"
        using body x1 by (auto simp: after_wait_def split: option.splits)
      then obtain w2 where a: "attempt s w1 = Some (r, w2)"
        and a': "attempt' s (strip w1 ks1) = Some (r, strip w2 ks1)"
        using attempt_lifts by (metis lifts_SomeE)
      show ?thesis
      proof (cases "would_block t r")
        case True
        then have "loop (after s w1) (strip (snd (sys_call E (C_reactor_clear_ready (raw (sock io))) w2)) ks1) = Some y"
          using body False x1 a' by (simp add: after_wait_def after_lifts run_clear)
        from IH[OF this] show ?thesis
          using d False a True ans by (simp add: completed_def after_wait_def del: drive.simps)
      next
        case nb: False
        show ?thesis
        proof (cases "nxt s r")
          case (Inl s')
          then have n: "nxt' s r = Inl s'"
            using next_lifts[of s r] by (cases "nxt' s r") auto
          have "loop s' (strip w2 ks1) = Some y"
            using body False x1 a' nb n by (simp add: after_wait_def)
          from IH[OF this] show ?thesis
            using d False a nb Inl ans by (simp add: completed_def after_wait_def del: drive.simps)
        next
          case (Inr m)
          then obtain m' where m': "nxt' s r = Inr m'" "lifts m m'"
            using next_lifts[of s r] by (cases "nxt' s r") auto
          have "m' (strip w2 ks1) = Some (fst y, snd y)"
            using body False x1 a' nb m' by (simp add: after_wait_def option.map_id)
          then obtain w3 where "m w2 = Some (fst y, w3)" "snd y = strip w3 ks1"
            by (rule lifts_SomeE[OF m'(2)])
          then show ?thesis
            using d False a nb Inr by (auto simp: after_wait_def simp del: drive.simps)
        qed
      qed
    qed
  qed
  moreover have "\<exists>tr. trace (snd y) = trace x @ tr"
    using ext sys_call_trace[OF v] by auto
  ultimately show ?thesis
    unfolding completed_def by blast
qed

lemma run_completed:
  assumes "run_here s x = Some y"
  shows "completed s x y"
proof -
  let ?P = "\<lambda>E0 t0 wait0 io0 attempt0 after0 nxt0 s x y.
    E0 = awaited E \<longrightarrow> t0 = t \<longrightarrow> wait0 = wait \<longrightarrow> io0 = io \<longrightarrow> attempt0 = attempt' \<longrightarrow> after0 = after' \<longrightarrow> nxt0 = nxt' \<longrightarrow>
    completed s x y"
  have "?P (awaited E) t wait io attempt' after' nxt' s x y"
  proof (rule run_loop.raw_induct[where P = ?P, OF _ assms], goal_cases)
    case (1 loop E0 t0 wait0 io0 attempt0 after0 nxt0 s x y)
    show ?case
    proof (intro impI)
      assume eq: "E0 = awaited E" "t0 = t" "wait0 = wait" "io0 = io" "attempt0 = attempt'" "after0 = after'" "nxt0 = nxt'"
      obtain v x1 where v: "sys_call (awaited E) (wait (raw (sock io))) x = (v, x1)"
        by fastforce
      show "completed s x y"
      proof (rule iteration_completed[OF v])
        show "after_wait (awaited E) t io attempt' after' nxt' (loop (awaited E) t wait io attempt' after' nxt')
            id s v x1 = Some y"
          using 1(2) unfolding eq after_wait_def option.map_id id_apply by (simp add: v)
        show "completed s x y" if "loop (awaited E) t wait io attempt' after' nxt' s x = Some y" for s x
          using 1(1)[OF that] by simp
      qed
    qed
  qed
  then show ?thesis
    by simp
qed

text \<open>The loop fulfils the contract.\<close>

lemma loop_future: "async_future poll_here run_here"
proof (unfold_locales, rule iffI)
  fix s w ks r x
  assume "\<exists>w' ks'. drive poll_here s w ks = Some (Ready r, w', ks') \<and> x = strip w' ks'"
  then show "run_here s (strip w ks) = Some (r, x) \<and> list_all answered (trace x)"
    using drive_sound by (auto simp: strip_def list_all_iff)
next
  fix s w ks r x
  assume "run_here s (strip w ks) = Some (r, x) \<and> list_all answered (trace x)"
  then show "\<exists>w' ks'. drive poll_here s w ks = Some (Ready r, w', ks') \<and> x = strip w' ks'"
    using run_completed[of s "strip w ks" "(r, x)"] by (simp add: completed_def del: drive.simps)
qed

end

section \<open>What a future does before it completes\<close>

text \<open>
  The iterations of a polled loop as steps: a poll that is not ready, after which the rest of
  the system runs; an attempt that would block; an attempt after which the loop goes on. A
  future that is dropped has made such steps only.
\<close>

inductive loop_step ::
    "'k env \<Rightarrow> target \<Rightarrow> (fd \<Rightarrow> call) \<Rightarrow> Io \<Rightarrow> ('s \<Rightarrow> ('k, 'x) io) \<Rightarrow>
     ('s \<Rightarrow> 'k world \<Rightarrow> 's) \<Rightarrow> ('s \<Rightarrow> 'x io_result \<Rightarrow> 's + ('k, 'a) io) \<Rightarrow> 's \<times> 'k world \<Rightarrow> 's \<times> 'k world \<Rightarrow> bool"
  for E t wait io attempt after nxt where
  not_ready:
    "sys_call E (wait (raw (sock io))) w = (v, w1) \<Longrightarrow> is_pending v \<Longrightarrow>
     loop_step E t wait io attempt after nxt (s, w) (s, w1\<lparr>kst := k\<rparr>)"
| would_block_again:
    "sys_call E (wait (raw (sock io))) w = (v, w1) \<Longrightarrow> attempt s w1 = Some (r, w2) \<Longrightarrow>
     would_block t r \<Longrightarrow> sys_call E (C_reactor_clear_ready (raw (sock io))) w2 = (c, w3) \<Longrightarrow>
     loop_step E t wait io attempt after nxt (s, w) (after s w1, w3)"
| goes_on:
    "sys_call E (wait (raw (sock io))) w = (v, w1) \<Longrightarrow> attempt s w1 = Some (r, w2) \<Longrightarrow>
     \<not> would_block t r \<Longrightarrow> nxt s r = Inl s' \<Longrightarrow>
     loop_step E t wait io attempt after nxt (s, w) (s', w2)"

inductive loop_end ::
    "'k env \<Rightarrow> target \<Rightarrow> (fd \<Rightarrow> call) \<Rightarrow> Io \<Rightarrow> ('s \<Rightarrow> ('k, 'x) io) \<Rightarrow>
     ('s \<Rightarrow> 'x io_result \<Rightarrow> 's + ('k, 'a) io) \<Rightarrow> 's \<times> 'k world \<Rightarrow> 'a io_result \<Rightarrow> 'k world \<Rightarrow> bool"
  for E t wait io attempt nxt where
  wait_fails:
    "sys_call E (wait (raw (sock io))) w = (v, w1) \<Longrightarrow> sr_ret v < 0 \<Longrightarrow>
     loop_end E t wait io attempt nxt (s, w) (Err (Os (sr_errno v))) w1"
| finishes:
    "sys_call E (wait (raw (sock io))) w = (v, w1) \<Longrightarrow> attempt s w1 = Some (r, w2) \<Longrightarrow>
     \<not> would_block t r \<Longrightarrow> nxt s r = Inr m \<Longrightarrow> m w2 = Some (r', w3) \<Longrightarrow>
     loop_end E t wait io attempt nxt (s, w) r' w3"

definition loop_outcome ::
    "'k env \<Rightarrow> target \<Rightarrow> (fd \<Rightarrow> call) \<Rightarrow> Io \<Rightarrow> ('s \<Rightarrow> ('k, 'x) io) \<Rightarrow>
     ('s \<Rightarrow> 'k world \<Rightarrow> 's) \<Rightarrow> ('s \<Rightarrow> 'x io_result \<Rightarrow> 's + ('k, 'a) io) \<Rightarrow> 's \<times> 'k world \<Rightarrow> ('s, 'a io_result) poll \<Rightarrow>
     'k world \<Rightarrow> bool" where
  "loop_outcome E t wait io attempt after nxt c out w' \<longleftrightarrow>
     (case out of
        Pending s' \<Rightarrow> \<forall>k. (loop_step E t wait io attempt after nxt)\<^sup>*\<^sup>* c (s', w'\<lparr>kst := k\<rparr>)
      | Ready r \<Rightarrow> \<exists>s1 w1. (loop_step E t wait io attempt after nxt)\<^sup>*\<^sup>* c (s1, w1) \<and>
          loop_end E t wait io attempt nxt (s1, w1) r w')"

lemma loop_outcome_step:
  assumes "loop_step E t wait io attempt after nxt c c'" and "loop_outcome E t wait io attempt after nxt c' out w'"
  shows "loop_outcome E t wait io attempt after nxt c out w'"
  using assms by (auto simp: loop_outcome_def split: poll.splits intro: converse_rtranclp_into_rtranclp)

lemma loop_outcome_end:
  "loop_end E t wait io attempt nxt c r w' \<Longrightarrow> loop_outcome E t wait io attempt after nxt c (Ready r) w'"
  by (cases c) (auto simp: loop_outcome_def)

lemma poll_outcome:
  assumes "poll_loop E t wait io attempt after nxt s w = Some y"
  shows "loop_outcome E t wait io attempt after nxt (s, w) (fst y) (snd y)"
proof (rule poll_loop.raw_induct[where P = "\<lambda>E t wait io attempt after nxt s w y.
    loop_outcome E t wait io attempt after nxt (s, w) (fst y) (snd y)", OF _ assms], goal_cases)
  case (1 loop E t wait io attempt after nxt s w y)
  note IH = 1(1)
  obtain v w1 where v: "sys_call E (wait (raw (sock io))) w = (v, w1)"
    by fastforce
  consider (pending) "is_pending v" | (failed) "\<not> is_pending v" "sr_ret v < 0"
    | (ready) "\<not> is_pending v" "\<not> sr_ret v < 0"
    by blast
  then show ?case
  proof cases
    case pending
    then have "y = (Pending s, w1)"
      using 1(2) v by simp
    moreover have "loop_step E t wait io attempt after nxt (s, w) (s, w1\<lparr>kst := k\<rparr>)" for k
      using v pending by (rule not_ready)
    ultimately show ?thesis
      by (simp add: loop_outcome_def r_into_rtranclp)
  next
    case failed
    then show ?thesis
      using 1(2) v by (auto intro!: loop_outcome_end wait_fails)
  next
    case ready
    then obtain r w2 where a: "attempt s w1 = Some (r, w2)"
      using 1(2) v by (auto split: option.splits)
    show ?thesis
    proof (cases "would_block t r")
      case True
      obtain c w3 where c: "sys_call E (C_reactor_clear_ready (raw (sock io))) w2 = (c, w3)"
        by fastforce
      have "loop_outcome E t wait io attempt after nxt (after s w1, w3) (fst y) (snd y)"
        by (rule IH) (use 1(2) v ready a True c in simp)
      moreover have "loop_step E t wait io attempt after nxt (s, w) (after s w1, w3)"
        using v a True c by (rule would_block_again)
      ultimately show ?thesis
        by (rule loop_outcome_step[rotated])
    next
      case False
      show ?thesis
      proof (cases "nxt s r")
        case (Inl s')
        have "loop_outcome E t wait io attempt after nxt (s', w2) (fst y) (snd y)"
          by (rule IH) (use 1(2) v ready a False Inl in simp)
        moreover have "loop_step E t wait io attempt after nxt (s, w) (s', w2)"
          using v a False Inl by (rule goes_on)
        ultimately show ?thesis
          by (rule loop_outcome_step[rotated])
      next
        case (Inr m)
        then obtain r' w3 where m: "m w2 = Some (r', w3)" and y: "y = (Ready r', w3)"
          using 1(2) v ready a False by auto
        have "loop_end E t wait io attempt nxt (s, w) r' w3"
          using v a False Inr m by (rule finishes)
        then show ?thesis
          using y by (simp add: loop_outcome_end)
      qed
    qed
  qed
qed

lemma drive_outcome:
  assumes "drive (poll_loop E t wait io attempt after nxt) s w ks = Some (out, w', ks')"
  shows "loop_outcome E t wait io attempt after nxt (s, w) out w'"
  using assms
proof (induction ks arbitrary: s w)
  case Nil
  then show ?case
    using poll_outcome[of E t wait io attempt after nxt s w] by (auto split: option.splits poll.splits)
next
  case (Cons k ks)
  then obtain y where y: "poll_loop E t wait io attempt after nxt s w = Some y"
    by (auto split: option.splits)
  note out = poll_outcome[OF y]
  show ?case
  proof (cases "fst y")
    case (Pending s1)
    then have "drive (poll_loop E t wait io attempt after nxt) s1 ((snd y)\<lparr>kst := k\<rparr>) ks = Some (out, w', ks')"
      using Cons.prems y by (cases y) simp
    note rest = Cons.IH[OF this]
    have "(loop_step E t wait io attempt after nxt)\<^sup>*\<^sup>* (s, w) (s1, (snd y)\<lparr>kst := k\<rparr>)"
      using out Pending by (simp add: loop_outcome_def)
    then show ?thesis
      by (induction rule: converse_rtranclp_induct) (simp_all add: rest loop_outcome_step)
  next
    case (Ready r)
    then show ?thesis
      using Cons.prems y out by (cases y) simp
  qed
qed

text \<open>
  An account of the trace: a predicate that holds of what the waits and the unsuccessful
  attempts record holds of all that a future records before it completes.
\<close>

definition records :: "((call \<times> sysret) list \<Rightarrow> bool) \<Rightarrow> 'k world \<Rightarrow> 'k world \<Rightarrow> bool" where
  "records Q w w' \<longleftrightarrow> (\<exists>tr. trace w' = trace w @ tr \<and> Q tr)"

locale trace_account =
  fixes Q :: "(call \<times> sysret) list \<Rightarrow> bool"
  assumes Q_Nil: "Q []"
    and Q_append: "Q tr \<Longrightarrow> Q tr' \<Longrightarrow> Q (tr @ tr')"
    and Q_wait: "waits c \<Longrightarrow> Q [(c, v)]"
    and Q_clear: "Q [(C_reactor_clear_ready d, v)]"
begin

lemma records_refl: "records Q w w"
  by (auto simp: records_def Q_Nil)

lemma records_trans: "records Q w w1 \<Longrightarrow> records Q w1 w2 \<Longrightarrow> records Q w w2"
  unfolding records_def using Q_append by (metis append.assoc)

lemma records_call: "sys_call E c w = (v, w') \<Longrightarrow> Q [(c, v)] \<Longrightarrow> records Q w w'"
  by (auto simp: records_def dest: sys_call_trace)

lemma records_kst [simp]: "records Q w (w'\<lparr>kst := k\<rparr>) \<longleftrightarrow> records Q w w'"
  by (simp add: records_def)

lemma loop_steps_record:
  assumes "(loop_step E t wait io attempt after nxt)\<^sup>*\<^sup>* c c'" and wait: "\<And>d. waits (wait d)"
    and attempt: "\<And>s w r w'. attempt s w = Some (r, w') \<Longrightarrow>
      would_block t r \<or> (\<exists>s'. nxt s r = Inl s') \<Longrightarrow> records Q w w'"
  shows "records Q (snd c) (snd c')"
  using assms(1)
proof (induction rule: rtranclp_induct)
  case base
  show ?case
    by (rule records_refl)
next
  case (step c1 c2)
  from step(2) have "records Q (snd c1) (snd c2)"
  proof cases
    case (not_ready w v w1 s k)
    then show ?thesis
      using records_call[OF not_ready(3) Q_wait[OF wait]] by simp
  next
    case (would_block_again w v w1 s r w2 u w3)
    then show ?thesis
      using records_call Q_wait[OF wait] Q_clear attempt records_trans by (metis snd_conv)
  next
    case (goes_on w v w1 s r w2 s')
    then show ?thesis
      using records_call Q_wait[OF wait] attempt records_trans by (metis snd_conv)
  qed
  with step.IH show ?case
    by (rule records_trans)
qed

lemma drive_records:
  assumes "drive (poll_loop E t wait io attempt after nxt) s w ks = Some (out, w', ks')"
    and wait: "\<And>d. waits (wait d)"
    and attempt: "\<And>s w r w'. attempt s w = Some (r, w') \<Longrightarrow>
      would_block t r \<or> (\<exists>s'. nxt s r = Inl s') \<Longrightarrow> records Q w w'"
  shows "(\<exists>s'. out = Pending s' \<and> records Q w w') \<or>
    (\<exists>r s1 w1. out = Ready r \<and> records Q w w1 \<and> loop_end E t wait io attempt nxt (s1, w1) r w')"
proof (cases out)
  case (Pending s')
  then have "\<forall>k. (loop_step E t wait io attempt after nxt)\<^sup>*\<^sup>* (s, w) (s', w'\<lparr>kst := k\<rparr>)"
    using drive_outcome[OF assms(1)] by (simp add: loop_outcome_def)
  then show ?thesis
    using loop_steps_record[OF _ wait attempt] Pending by fastforce
next
  case (Ready r)
  then obtain s1 w1 where "(loop_step E t wait io attempt after nxt)\<^sup>*\<^sup>* (s, w) (s1, w1)"
    and e: "loop_end E t wait io attempt nxt (s1, w1) r w'"
    using drive_outcome[OF assms(1)] unfolding loop_outcome_def by auto
  from this(1) have "records Q (snd (s, w)) (snd (s1, w1))"
    using wait attempt by (rule loop_steps_record)
  with Ready e show ?thesis
    by auto
qed

end

end
