(* ===== verification/Await_Ops.thy ===== *)
theory Await_Ops
  imports Futures
begin

text \<open>
  The loops and operations of the crate under an executor: \<open>read_op\<close>, \<open>write_op\<close> and \<open>established\<close>
  are instances of the loop of \<open>Futures\<close>, and the operations they and the \<open>async\<close> functions call
  do not suspend.
\<close>

section \<open>The loops of the crate\<close>

text \<open>\<open>run_loop\<close> is the least loop with its unfolding, and each loop of the crate is that loop.\<close>

lemma run_loop_least:
  assumes L: "\<And>s w. L s w = (let (v, w1) = sys_call E (wait (raw (sock io))) w
      in after_wait E t io attempt after nxt L id s v w1)"
    and run: "run_loop E t wait io attempt after nxt s w = Some y"
  shows "L s w = Some y"
proof -
  let ?P = "\<lambda>E0 t0 wait0 io0 attempt0 after0 nxt0 s w y.
    E0 = E \<longrightarrow> t0 = t \<longrightarrow> wait0 = wait \<longrightarrow> io0 = io \<longrightarrow> attempt0 = attempt \<longrightarrow> after0 = after \<longrightarrow> nxt0 = nxt \<longrightarrow> L s w = Some y"
  have "?P E t wait io attempt after nxt s w y"
  proof (rule run_loop.raw_induct[where P = ?P, OF _ run], goal_cases)
    case (1 loop E0 t0 wait0 io0 attempt0 after0 nxt0 s w y)
    show ?case
    proof (intro impI)
      assume eq: "E0 = E" "t0 = t" "wait0 = wait" "io0 = io" "attempt0 = attempt" "after0 = after" "nxt0 = nxt"
      obtain v w1 where v: "sys_call E (wait (raw (sock io))) w = (v, w1)"
        by fastforce
      have IH: "loop E t wait io attempt after nxt s w = Some y \<Longrightarrow> L s w = Some y" for s w
        using 1(1) by simp
      show "L s w = Some y"
        using 1(2) unfolding eq
        by (subst L) (auto simp: v after_wait_def option.map_id IH split: option.splits sum.splits if_splits)
    qed
  qed
  then show ?thesis
    by simp
qed

text \<open>The steps of \<open>Net_Common\<close> are the iterations of the loop.\<close>

abbreviation run_steps ::
    "'k env \<Rightarrow> target \<Rightarrow> (fd \<Rightarrow> call) \<Rightarrow> Io \<Rightarrow> ('s \<Rightarrow> imp_Socket \<Rightarrow> ('k, 'x) io) \<Rightarrow>
     ('s \<Rightarrow> imp_Socket \<Rightarrow> 'k world \<Rightarrow> 's) \<Rightarrow> ('s \<Rightarrow> 'x io_result \<Rightarrow> 's + ('k, 'a) io) \<Rightarrow> 's \<Rightarrow> 'k world \<Rightarrow>
     ('a io_result \<times> 'k world) option" where
  "run_steps E t wait io f after nxt \<equiv>
     run_loop E t wait io (\<lambda>s. f s (sock io)) (\<lambda>s. after s (sock io)) nxt"

lemma run_loop_spurious:
  assumes "spurious E t wait io f after c c'"
  shows "run_steps E t wait io f after nxt (fst c) (snd c) =
    run_steps E t wait io f after nxt (fst c') (snd c')"
  using assms
proof cases
  case (spurious_attempt w x w1 s r w2 y w3)
  then show ?thesis
    using call_cvt_okE[OF spurious_attempt(3)]
    by (subst run_loop_unfold)
      (cases "sys_call E (wait (raw (sock io))) w"; auto simp: after_wait_def call_cvt_run split: if_splits)
qed

lemma run_loop_decisive:
  assumes "decisive E t wait io f c r w'"
    and "\<And>s e. nxt s (Inl e) = Inr (io_lift (Inl e))"
  shows "run_steps E t wait io f after nxt (fst c) (snd c) =
    (case nxt (fst c) r of Inl s' \<Rightarrow> run_steps E t wait io f after nxt s' w' | Inr m \<Rightarrow> m w')"
  using assms(1)
proof cases
  case (wait_failed w e s)
  then show ?thesis
    using assms(2)
    by (subst run_loop_unfold)
      (cases "sys_call E (wait (raw (sock io))) w";
        auto simp: after_wait_def call_cvt_run io_lift_def split: if_splits)
next
  case (decided w x w1 s)
  then show ?thesis
    by (subst run_loop_unfold)
      (cases "sys_call E (wait (raw (sock io))) w";
        auto simp: after_wait_def call_cvt_run option.map_id split: if_splits sum.splits)
qed

lemma option_eq_iff_Some: "(\<And>y. a = Some y \<longleftrightarrow> b = Some y) \<Longrightarrow> a = b"
  by (cases a; cases b) auto

text \<open>A readiness loop with the unfolding of \<open>run_loop\<close> is \<open>run_loop\<close>.\<close>

context readiness_loop
begin

lemma loop_run_loop:
  assumes "\<And>s w. loop io f after s w = (let (v, w1) = sys_call E (wait (raw (sock io))) w
      in after_wait E t io (\<lambda>s. f s (sock io)) (\<lambda>s. after s (sock io)) op_next (loop io f after) id s v w1)"
  shows "loop io f after s w = run_steps E t wait io f after op_next s w"
proof (rule option_eq_iff_Some)
  let ?run = "run_steps E t wait io f after op_next"
  fix y
  show "loop io f after s w = Some y \<longleftrightarrow> ?run s w = Some y"
  proof
    assume "loop io f after s w = Some y"
    then obtain c where "(spurious E t wait io f after)\<^sup>*\<^sup>* (s, w) c" "decisive E t wait io f c (fst y) (snd y)"
      using loop_sound[of io f after s w "fst y" "snd y"] by auto
    moreover from this have "?run (fst c) (snd c) = Some y"
      by (cases y) (simp add: run_loop_decisive[where f = f] op_next_def io_lift_def)
    ultimately have "?run (fst (s, w)) (snd (s, w)) = Some y"
      by (induction rule: converse_rtranclp_induct) (simp_all add: run_loop_spurious[where f = f])
    then show "?run s w = Some y"
      by simp
  next
    assume "?run s w = Some y"
    then show "loop io f after s w = Some y"
      by (rule run_loop_least[where L = "loop io f after", rotated]) (rule assms)
  qed
qed

end

lemma read_op_run_loop:
  "read_op E t io f after s w = run_steps E t C_reactor_readable io f after op_next s w"
  by (rule read_op_loop.loop_run_loop, subst read_op.simps)
    (auto simp: after_wait_def call_cvt_def io_bind_def do_call_def cvt_def io_lift_def op_next_def
      split: prod.splits option.splits)

lemma write_op_run_loop:
  "write_op E t io f after s w = run_steps E t C_reactor_writable io f after op_next s w"
  by (rule write_op_loop.loop_run_loop, subst write_op.simps)
    (auto simp: after_wait_def call_cvt_def io_bind_def do_call_def cvt_def io_lift_def op_next_def
      split: prod.splits option.splits)

lemma established_unfold:
  "established_loop E t io buf w =
     (let (v, w1) = sys_call E (C_reactor_readable (raw (sock io))) w
      in after_wait E t io (\<lambda>buf. setup_recv E t buf (sock io))
           (\<lambda>buf. buf_after E False buf (sock io)) (setup_next E t io)
           (established_loop E t io) id buf v w1)"
proof -
  obtain v w1 where v: "sys_call E (C_reactor_readable (raw (sock io))) w = (v, w1)"
    by fastforce
  show ?thesis
  proof (cases "imp_recv_msg E t (sock io) buf False w1")
    case None
    then show ?thesis
      by (subst established_loop.simps) (simp add: v call_cvt_run[OF v] after_wait_def)
  next
    case (Some y)
    obtain r w2 where y: "y = (r, w2)"
      by fastforce
    show ?thesis
    proof (cases r)
      case (Inl e)
      then show ?thesis
        by (subst established_loop.simps)
          (simp add: v call_cvt_run[OF v] after_wait_def Some y setup_next_def io_lift_def)
    next
      case (Inr z)
      obtain msg src buf' where z: "z = ((msg, src), buf')"
        by (metis surj_pair)
      show ?thesis
        by (subst established_loop.simps; cases "setup_verdict msg")
          (simp_all add: v call_cvt_run[OF v] after_wait_def Some y Inr z setup_next_def io_lift_def
            option.map_id)
    qed
  qed
qed

lemma setup_next_error: "setup_next E t io buf (Inl e) = Inr (io_lift (Inl e))"
  by (simp add: setup_next_def)

lemma established_run_loop:
  "established_loop E t io buf w =
     run_steps E t C_reactor_readable io (setup_recv E t) (buf_after E False) (setup_next E t io) buf w"
proof (rule option_eq_iff_Some)
  let ?run = "run_steps E t C_reactor_readable io (setup_recv E t) (buf_after E False) (setup_next E t io)"
  note spur = run_loop_spurious[where f = "setup_recv E t"]
  note deci = run_loop_decisive[where f = "setup_recv E t" and nxt = "setup_next E t io" and
      after = "buf_after E False", OF _ setup_next_error]
  have step: "?run (fst c) (snd c) = ?run (fst c') (snd c')" if "setup_step E t io c c'" for c c'
    using that
  proof cases
    case (setup_ignored n src buf' w')
    then have "setup_verdict (RecvNotification n) = Ignored"
      by (simp add: setup_verdict_iff)
    then show ?thesis
      using deci[OF setup_ignored(2)] setup_ignored(1) by (simp add: setup_next_def)
  qed (rule spur)
  have last: "?run (fst c) (snd c) = Some (r, w')" if "setup_end E t io c r w'" for c r w'
    using that
  proof cases
    case (setup_failed ac src buf' w1 pending)
    then have "setup_verdict (RecvNotification (N_AssocChange ac)) = Failed"
      by (simp add: setup_verdict_iff)
    then show ?thesis
      using setup_failed by (simp add: deci setup_next_def setup_failure_run)
  qed (simp_all add: deci setup_next_def setup_verdict_def io_lift_def)
  fix y
  show "established_loop E t io buf w = Some y \<longleftrightarrow> ?run buf w = Some y"
  proof
    assume "established_loop E t io buf w = Some y"
    then obtain c where "(setup_step E t io)\<^sup>*\<^sup>* (buf, w) c" "setup_end E t io c (fst y) (snd y)"
      using established_sound by blast
    moreover from this have "?run (fst c) (snd c) = Some y"
      using last by simp
    ultimately have "?run (fst (buf, w)) (snd (buf, w)) = Some y"
      by (induction rule: converse_rtranclp_induct) (simp_all add: step)
    then show "?run buf w = Some y"
      by simp
  next
    assume "?run buf w = Some y"
    then show "established_loop E t io buf w = Some y"
      by (rule run_loop_least[where L = "established_loop E t io", rotated])
        (rule established_unfold)
  qed
qed

section \<open>Operations of the socket\<close>

lemma reassemble_lifts_Some:
  assumes "reassemble_loop E s out over scratch w = Some y"
  shows "reassemble_loop (awaited E) s out over scratch (strip w ks) = Some (fst y, strip (snd y) ks)"
proof (rule reassemble_loop.raw_induct[where P = "\<lambda>E s out over scratch w y.
    reassemble_loop (awaited E) s out over scratch (strip w ks) = Some (fst y, strip (snd y) ks)",
    OF _ assms], goal_cases)
  case (1 loop E s out over scratch w y)
  obtain r w1 where r: "sys_call E (C_recvmsg (raw s) (length scratch) 0 0 0) w = (r, w1)"
    by fastforce
  note r' = sys_call_awaited[OF _ r, of ks]
  show ?case
    using 1 by (subst reassemble_loop.simps) (auto simp: r r' Let_def split: sum.splits if_splits)
qed

lemma reassemble_lifts_awaited:
  assumes "reassemble_loop (awaited E) s out over scratch (strip w ks) = Some y"
  shows "\<exists>w'. reassemble_loop E s out over scratch w = Some (fst y, w') \<and> snd y = strip w' ks"
proof -
  let ?P = "\<lambda>E' s out over scratch x y. \<forall>w. E' = awaited E \<longrightarrow> x = strip w ks \<longrightarrow>
    (\<exists>w'. reassemble_loop E s out over scratch w = Some (fst y, w') \<and> snd y = strip w' ks)"
  have "?P (awaited E) s out over scratch (strip w ks) y"
  proof (rule reassemble_loop.raw_induct[where P = ?P, OF _ assms], goal_cases)
    case (1 loop E' s out over scratch x y)
    show ?case
    proof (intro allI impI)
      fix w
      assume eq: "E' = awaited E" "x = strip w ks"
      obtain r w1 where r: "sys_call E (C_recvmsg (raw s) (length scratch) 0 0 0) w = (r, w1)"
        by fastforce
      note r' = sys_call_awaited[OF _ r, of ks]
      show "\<exists>w'. reassemble_loop E s out over scratch w = Some (fst y, w') \<and> snd y = strip w' ks"
        using 1 unfolding eq
        by (subst reassemble_loop.simps) (auto simp: r r' Let_def split: sum.splits if_splits)
    qed
  qed
  then show ?thesis
    by blast
qed

lemma lifts_reassemble [lift_intros]:
  "lifts (reassemble_notification E s first) (reassemble_notification (awaited E) s first)"
  unfolding lifts_def
proof (intro conjI allI)
  fix w ks
  show "reassemble_notification (awaited E) s first (strip w ks) =
      map_option (map_prod id (\<lambda>w'. strip w' ks)) (reassemble_notification E s first w)"
    unfolding reassemble_notification_def
    using reassemble_lifts_Some[of E s first False "replicate 4096 0" w _ ks]
      reassemble_lifts_awaited[of E s first False "replicate 4096 0" w ks]
    by (cases "reassemble_loop E s first False (replicate 4096 0) w";
        cases "reassemble_loop (awaited E) s first False (replicate 4096 0) (strip w ks)") auto
qed (rule extends_owns[OF borrows_reassemble])+

lemma lifts_recv_msg [lift_intros]:
  "lifts (imp_recv_msg E t s buf want_from) (imp_recv_msg (awaited E) t s buf want_from)"
  unfolding imp_recv_msg_def by (intro lift_intros) simp_all

lemma lifts_send_msg [lift_intros]:
  "lifts (imp_send_msg E t s buf dest info) (imp_send_msg (awaited E) t s buf dest info)"
  unfolding imp_send_msg_def by (intro lift_intros) simp_all

lemma lifts_setsockopt [lift_intros]:
  "lifts (imp_setsockopt E s level opt val) (imp_setsockopt (awaited E) s level opt val)"
  "lifts (imp_setsockopt_i32 E t s level opt v) (imp_setsockopt_i32 (awaited E) t s level opt v)"
  "lifts (enable_rcvinfo E t s) (enable_rcvinfo (awaited E) t s)"
  "lifts (imp_subscribe_event E t s ev on) (imp_subscribe_event (awaited E) t s ev on)"
  unfolding enable_rcvinfo_def imp_setsockopt_i32_def imp_setsockopt_def imp_subscribe_event_def
    imp_subscribe_event_for_def
  by (intro lift_intros, simp)+

lemma lifts_getsockopt [lift_intros]:
  "lifts (imp_getsockopt_inout E s level opt val) (imp_getsockopt_inout (awaited E) s level opt val)"
  "lifts (imp_getsockopt_i32 E t s level opt) (imp_getsockopt_i32 (awaited E) t s level opt)"
  unfolding imp_getsockopt_i32_def imp_getsockopt_def imp_getsockopt_inout_def
  by (intro lift_intros, simp)+

lemma lifts_style [lift_intros]: "lifts (imp_style E t s) (imp_style (awaited E) t s)"
  unfolding imp_style_def by (intro lift_intros)

lemma lifts_setup_failure [lift_intros]: "lifts (setup_failure E t io) (setup_failure (awaited E) t io)"
  unfolding setup_failure_def imp_take_error_def by (intro lift_intros)

lemma lifts_connectx [lift_intros]:
  "lifts (imp_connectx E t s addrs) (imp_connectx (awaited E) t s addrs)"
  unfolding imp_connectx_def by (intro lift_intros) simp_all

lemma lifts_accept [lift_intros]:
  "lifts (accept_nonblocking E t s) (accept_nonblocking (awaited E) t s)"
  unfolding accept_nonblocking_def accept_with_flags_def by (intro lift_intros) simp_all

lemma lifts_new [lift_intros]: "lifts (imp_new E t family style) (imp_new (awaited E) t family style)"
  unfolding imp_new_def by (intro lift_intros) simp_all

lemma lifts_register [lift_intros]:
  "lifts (register E t s) (register (awaited E) t s)"
  "lifts (register_nonblocking E s) (register_nonblocking (awaited E) s)"
  unfolding register_def register_nonblocking_def AsyncFd_new_def reactor_register_def imp_set_nonblocking_def
  by (intro lift_intros, simp_all)+

section \<open>The futures of the loops\<close>

lemma op_next_lifts: "rel_sum (=) lifts (op_next s r) (op_next s r)"
  by (simp add: op_next_def lifts_lift)

lemma buf_after_awaited: "buf_after (awaited E) want_from buf s (strip w ks) = buf_after E want_from buf s w"
proof -
  obtain r w' where r: "sys_call E (recv_call s buf want_from) w = (r, w')"
    by fastforce
  then show ?thesis
    using sys_call_awaited[OF _ r, of ks] by (simp add: buf_after_def)
qed

lemma read_op_future:
  assumes "\<And>s. lifts (f s (sock io)) (f' s (sock io))"
    and "\<And>s w ks. after' s (sock io) (strip w ks) = after s (sock io) w"
  shows "async_future (poll_read_op E t io f after) (read_op (awaited E) t io f' after')"
proof -
  have "awaiting_loop C_reactor_readable (\<lambda>s. f s (sock io)) (\<lambda>s. f' s (sock io))
      (\<lambda>s. after s (sock io)) (\<lambda>s. after' s (sock io)) op_next op_next"
    by unfold_locales (simp_all add: assms op_next_lifts)
  moreover have "read_op (awaited E) t io f' after' = run_steps (awaited E) t C_reactor_readable io f' after' op_next"
    by (simp add: fun_eq_iff read_op_run_loop)
  ultimately show ?thesis
    using awaiting_loop.loop_future by (simp add: poll_read_op_def)
qed

lemma write_op_future:
  assumes "\<And>s. lifts (f s (sock io)) (f' s (sock io))"
    and "\<And>s w ks. after' s (sock io) (strip w ks) = after s (sock io) w"
  shows "async_future (poll_write_op E t io f after) (write_op (awaited E) t io f' after')"
proof -
  have "awaiting_loop C_reactor_writable (\<lambda>s. f s (sock io)) (\<lambda>s. f' s (sock io))
      (\<lambda>s. after s (sock io)) (\<lambda>s. after' s (sock io)) op_next op_next"
    by unfold_locales (simp_all add: assms op_next_lifts)
  moreover have "write_op (awaited E) t io f' after' = run_steps (awaited E) t C_reactor_writable io f' after' op_next"
    by (simp add: fun_eq_iff write_op_run_loop)
  ultimately show ?thesis
    using awaiting_loop.loop_future by (simp add: poll_write_op_def)
qed

lemma setup_next_lifts: "rel_sum (=) lifts (setup_next E t io buf r) (setup_next (awaited E) t io buf r)"
  by (auto simp: setup_next_def lifts_lift lifts_setup_failure
      split: sum.splits prod.splits verdict.splits)

interpretation setup_loop: awaiting_loop E t C_reactor_readable io
  "\<lambda>buf. setup_recv E t buf (sock io)" "\<lambda>buf. setup_recv (awaited E) t buf (sock io)"
  "\<lambda>buf. buf_after E False buf (sock io)" "\<lambda>buf. buf_after (awaited E) False buf (sock io)"
  "setup_next E t io" "setup_next (awaited E) t io" for E t io
  by unfold_locales (simp_all add: lifts_recv_msg setup_next_lifts buf_after_awaited)

interpretation established_future: async_future "poll_established E t io"
  "established_loop (awaited E) t io" for E t io
proof -
  have "established_loop (awaited E) t io = run_steps (awaited E) t C_reactor_readable io
      (setup_recv (awaited E) t) (buf_after (awaited E) False) (setup_next (awaited E) t io)"
    by (simp add: fun_eq_iff established_run_loop)
  then show "async_future (poll_established E t io) (established_loop (awaited E) t io)"
    using setup_loop.loop_future by (simp add: poll_established_def)
qed

end
