(* ===== verification/Net_Options.thy ===== *)
theory Net_Options
  imports Net_Common
begin

text \<open>
  The option methods that the two macros of \<open>net/common.rs\<close> generate: \<open>common_\<close> for streams and
  endpoints, which pass the association on, and \<open>listener_\<close> for listeners, where the association is
  always \<open>SCTP_FUTURE_ASSOC\<close> and the peer address is absent.
\<close>

section \<open>Streams and endpoints\<close>

definition common_status ::
    "'k env \<Rightarrow> target \<Rightarrow> Io \<Rightarrow> AssocId \<Rightarrow> ('k, AssocStatus) io" where
  "common_status E t io assoc_id = imp_status E t (sock io) assoc_id"

definition common_peer_addr_info ::
    "'k env \<Rightarrow> target \<Rightarrow> Io \<Rightarrow> AssocId \<Rightarrow> SocketAddr \<Rightarrow> ('k, PeerAddrInfo) io" where
  "common_peer_addr_info E t io assoc_id addr = imp_peer_addr_info E t (sock io) assoc_id addr"

definition common_peer_addr_params ::
    "'k env \<Rightarrow> target \<Rightarrow> Io \<Rightarrow> AssocId \<Rightarrow> SocketAddr option \<Rightarrow> ('k, PeerAddrParams) io" where
  "common_peer_addr_params E t io assoc_id addr = imp_peer_addr_params E t (sock io) assoc_id addr"

definition common_set_peer_addr_params ::
    "'k env \<Rightarrow> target \<Rightarrow> Io \<Rightarrow> AssocId \<Rightarrow> SocketAddr option \<Rightarrow> PeerAddrParams \<Rightarrow> ('k, unit) io" where
  "common_set_peer_addr_params E t io assoc_id addr params =
     imp_set_peer_addr_params E t (sock io) assoc_id addr params"

definition common_rto_info ::
    "'k env \<Rightarrow> target \<Rightarrow> Io \<Rightarrow> AssocId \<Rightarrow> ('k, RtoInfo) io" where
  "common_rto_info E t io assoc_id = imp_rto_info E t (sock io) assoc_id"

definition common_set_rto_info ::
    "'k env \<Rightarrow> target \<Rightarrow> Io \<Rightarrow> AssocId \<Rightarrow> RtoInfo \<Rightarrow> ('k, unit) io" where
  "common_set_rto_info E t io assoc_id rto = imp_set_rto_info E t (sock io) assoc_id rto"

definition common_assoc_info ::
    "'k env \<Rightarrow> target \<Rightarrow> Io \<Rightarrow> AssocId \<Rightarrow> ('k, AssocInfo) io" where
  "common_assoc_info E t io assoc_id = imp_assoc_info E t (sock io) assoc_id"

definition common_assoc_stats ::
    "'k env \<Rightarrow> target \<Rightarrow> Io \<Rightarrow> AssocId \<Rightarrow> ('k, AssocStats) io" where
  "common_assoc_stats E t io assoc_id = imp_assoc_stats E t (sock io) assoc_id"

definition common_set_assoc_info ::
    "'k env \<Rightarrow> target \<Rightarrow> Io \<Rightarrow> AssocId \<Rightarrow> AssocInfo \<Rightarrow> ('k, unit) io" where
  "common_set_assoc_info E t io assoc_id info = imp_set_assoc_info E t (sock io) assoc_id info"

definition common_delayed_sack ::
    "'k env \<Rightarrow> target \<Rightarrow> Io \<Rightarrow> AssocId \<Rightarrow> ('k, SackInfo) io" where
  "common_delayed_sack E t io assoc_id = imp_delayed_sack E t (sock io) assoc_id"

definition common_set_delayed_sack ::
    "'k env \<Rightarrow> target \<Rightarrow> Io \<Rightarrow> AssocId \<Rightarrow> SackInfo \<Rightarrow> ('k, unit) io" where
  "common_set_delayed_sack E t io assoc_id info = imp_set_delayed_sack E t (sock io) assoc_id info"

definition common_reuse_address ::
    "'k env \<Rightarrow> target \<Rightarrow> Io \<Rightarrow> ('k, bool) io" where
  "common_reuse_address E t io = imp_reuse_address E t (sock io)"

definition common_set_reuse_address ::
    "'k env \<Rightarrow> target \<Rightarrow> Io \<Rightarrow> bool \<Rightarrow> ('k, unit) io" where
  "common_set_reuse_address E t io enabled = imp_set_reuse_address E t (sock io) enabled"

definition common_subscribe_event ::
    "'k env \<Rightarrow> target \<Rightarrow> Io \<Rightarrow> EventType \<Rightarrow> bool \<Rightarrow> ('k, unit) io" where
  "common_subscribe_event E t io event on = imp_subscribe_event E t (sock io) event on"

definition common_subscribe_event_for ::
    "'k env \<Rightarrow> target \<Rightarrow> Io \<Rightarrow> AssocId \<Rightarrow> EventType \<Rightarrow> bool \<Rightarrow> ('k, unit) io" where
  "common_subscribe_event_for E t io assoc_id event on =
     imp_subscribe_event_for E t (sock io) assoc_id event on"

definition common_nodelay ::
    "'k env \<Rightarrow> target \<Rightarrow> Io \<Rightarrow> ('k, bool) io" where
  "common_nodelay E t io = imp_nodelay E t (sock io)"

definition common_set_nodelay ::
    "'k env \<Rightarrow> target \<Rightarrow> Io \<Rightarrow> bool \<Rightarrow> ('k, unit) io" where
  "common_set_nodelay E t io on = imp_set_nodelay E t (sock io) on"

definition common_set_primary ::
    "'k env \<Rightarrow> target \<Rightarrow> Io \<Rightarrow> AssocId \<Rightarrow> SocketAddr \<Rightarrow> ('k, unit) io" where
  "common_set_primary E t io assoc_id addr = imp_set_primary E t (sock io) assoc_id addr"

definition common_local_addr ::
    "'k env \<Rightarrow> target \<Rightarrow> Io \<Rightarrow> ('k, SocketAddr) io" where
  "common_local_addr E t io = imp_local_addr E t (sock io)"

definition common_local_addrs ::
    "'k env \<Rightarrow> target \<Rightarrow> Io \<Rightarrow> AssocId \<Rightarrow> ('k, SocketAddr list) io" where
  "common_local_addrs E t io assoc_id = imp_local_addrs E t (sock io) assoc_id"

definition common_peer_addrs ::
    "'k env \<Rightarrow> target \<Rightarrow> Io \<Rightarrow> AssocId \<Rightarrow> ('k, SocketAddr list) io" where
  "common_peer_addrs E t io assoc_id = imp_peer_addrs E t (sock io) assoc_id"

definition common_send_buffer_size ::
    "'k env \<Rightarrow> target \<Rightarrow> Io \<Rightarrow> ('k, nat) io" where
  "common_send_buffer_size E t io = imp_send_buffer_size E t (sock io)"

definition common_set_send_buffer_size ::
    "'k env \<Rightarrow> target \<Rightarrow> Io \<Rightarrow> nat \<Rightarrow> ('k, unit) io" where
  "common_set_send_buffer_size E t io n = imp_set_send_buffer_size E t (sock io) n"

definition common_recv_buffer_size ::
    "'k env \<Rightarrow> target \<Rightarrow> Io \<Rightarrow> ('k, nat) io" where
  "common_recv_buffer_size E t io = imp_recv_buffer_size E t (sock io)"

definition common_set_recv_buffer_size ::
    "'k env \<Rightarrow> target \<Rightarrow> Io \<Rightarrow> nat \<Rightarrow> ('k, unit) io" where
  "common_set_recv_buffer_size E t io n = imp_set_recv_buffer_size E t (sock io) n"

definition common_take_error ::
    "'k env \<Rightarrow> target \<Rightarrow> Io \<Rightarrow> ('k, io_error option) io" where
  "common_take_error E t io = imp_take_error E t (sock io)"

fun common_subscribe_events :: "'k env \<Rightarrow> target \<Rightarrow> Io \<Rightarrow> EventType list \<Rightarrow> ('k, unit) io" where
  "common_subscribe_events E t io [] = io_return ()"
| "common_subscribe_events E t io (ev # events) =
     io_bind (common_subscribe_event E t io ev True) (\<lambda>_. common_subscribe_events E t io events)"

section \<open>Listeners\<close>

definition listener_local_addr ::
    "'k env \<Rightarrow> target \<Rightarrow> Io \<Rightarrow> ('k, SocketAddr) io" where
  "listener_local_addr E t io = imp_local_addr E t (sock io)"

definition listener_local_addrs ::
    "'k env \<Rightarrow> target \<Rightarrow> Io \<Rightarrow> ('k, SocketAddr list) io" where
  "listener_local_addrs E t io = imp_local_addrs E t (sock io) FUTURE"

definition listener_rto_info ::
    "'k env \<Rightarrow> target \<Rightarrow> Io \<Rightarrow> ('k, RtoInfo) io" where
  "listener_rto_info E t io = imp_rto_info E t (sock io) FUTURE"

definition listener_set_rto_info ::
    "'k env \<Rightarrow> target \<Rightarrow> Io \<Rightarrow> RtoInfo \<Rightarrow> ('k, unit) io" where
  "listener_set_rto_info E t io rto = imp_set_rto_info E t (sock io) FUTURE rto"

definition listener_peer_addr_params ::
    "'k env \<Rightarrow> target \<Rightarrow> Io \<Rightarrow> ('k, PeerAddrParams) io" where
  "listener_peer_addr_params E t io = imp_peer_addr_params E t (sock io) FUTURE None"

definition listener_set_peer_addr_params ::
    "'k env \<Rightarrow> target \<Rightarrow> Io \<Rightarrow> PeerAddrParams \<Rightarrow> ('k, unit) io" where
  "listener_set_peer_addr_params E t io params = imp_set_peer_addr_params E t (sock io) FUTURE None params"

definition listener_assoc_info ::
    "'k env \<Rightarrow> target \<Rightarrow> Io \<Rightarrow> ('k, AssocInfo) io" where
  "listener_assoc_info E t io = imp_assoc_info E t (sock io) FUTURE"

definition listener_set_assoc_info ::
    "'k env \<Rightarrow> target \<Rightarrow> Io \<Rightarrow> AssocInfo \<Rightarrow> ('k, unit) io" where
  "listener_set_assoc_info E t io info = imp_set_assoc_info E t (sock io) FUTURE info"

definition listener_delayed_sack ::
    "'k env \<Rightarrow> target \<Rightarrow> Io \<Rightarrow> ('k, SackInfo) io" where
  "listener_delayed_sack E t io = imp_delayed_sack E t (sock io) FUTURE"

definition listener_set_delayed_sack ::
    "'k env \<Rightarrow> target \<Rightarrow> Io \<Rightarrow> SackInfo \<Rightarrow> ('k, unit) io" where
  "listener_set_delayed_sack E t io info = imp_set_delayed_sack E t (sock io) FUTURE info"

definition listener_subscribe_event ::
    "'k env \<Rightarrow> target \<Rightarrow> Io \<Rightarrow> EventType \<Rightarrow> bool \<Rightarrow> ('k, unit) io" where
  "listener_subscribe_event E t io event on = imp_subscribe_event E t (sock io) event on"

definition listener_nodelay ::
    "'k env \<Rightarrow> target \<Rightarrow> Io \<Rightarrow> ('k, bool) io" where
  "listener_nodelay E t io = imp_nodelay E t (sock io)"

definition listener_set_nodelay ::
    "'k env \<Rightarrow> target \<Rightarrow> Io \<Rightarrow> bool \<Rightarrow> ('k, unit) io" where
  "listener_set_nodelay E t io on = imp_set_nodelay E t (sock io) on"

definition listener_send_buffer_size ::
    "'k env \<Rightarrow> target \<Rightarrow> Io \<Rightarrow> ('k, nat) io" where
  "listener_send_buffer_size E t io = imp_send_buffer_size E t (sock io)"

definition listener_set_send_buffer_size ::
    "'k env \<Rightarrow> target \<Rightarrow> Io \<Rightarrow> nat \<Rightarrow> ('k, unit) io" where
  "listener_set_send_buffer_size E t io n = imp_set_send_buffer_size E t (sock io) n"

definition listener_recv_buffer_size ::
    "'k env \<Rightarrow> target \<Rightarrow> Io \<Rightarrow> ('k, nat) io" where
  "listener_recv_buffer_size E t io = imp_recv_buffer_size E t (sock io)"

definition listener_set_recv_buffer_size ::
    "'k env \<Rightarrow> target \<Rightarrow> Io \<Rightarrow> nat \<Rightarrow> ('k, unit) io" where
  "listener_set_recv_buffer_size E t io n = imp_set_recv_buffer_size E t (sock io) n"

definition listener_reuse_address ::
    "'k env \<Rightarrow> target \<Rightarrow> Io \<Rightarrow> ('k, bool) io" where
  "listener_reuse_address E t io = imp_reuse_address E t (sock io)"

definition listener_reuse_port ::
    "'k env \<Rightarrow> target \<Rightarrow> Io \<Rightarrow> ('k, bool) io" where
  "listener_reuse_port E t io = imp_reuse_port E t (sock io)"

fun listener_subscribe_events :: "'k env \<Rightarrow> target \<Rightarrow> Io \<Rightarrow> EventType list \<Rightarrow> ('k, unit) io" where
  "listener_subscribe_events E t io [] = io_return ()"
| "listener_subscribe_events E t io (event # events) =
     io_bind (listener_subscribe_event E t io event True) (\<lambda>_.
     listener_subscribe_events E t io events)"

section \<open>The loops over events agree\<close>

text \<open>The three copies of the subscription loop are the same function of the inner socket.\<close>

lemma subscribe_events_agree:
  "common_subscribe_events E t io evs = SctpSocket_subscribe_events E t (SctpSocket (sock io)) evs"
  "listener_subscribe_events E t io evs = SctpSocket_subscribe_events E t (SctpSocket (sock io)) evs"
  by (induction evs)
    (simp_all add: common_subscribe_event_def listener_subscribe_event_def
      SctpSocket_subscribe_event_def)

end
