(* ===== verification/Net_Stream.thy ===== *)
theory Net_Stream
  imports Net_Options
begin

text \<open>
  One-to-one sockets, \<open>net/stream.rs\<close>: the asynchronous stream, its builder, and the connect that
  subscribes to association changes, waits for \<open>CommUp\<close> and restores the caller's subscriptions.
  Values that own a descriptor are passed by value; where the Rust code drops one on an early
  return, the model closes it (\<open>dropping\<close>).
\<close>

section \<open>Builder\<close>

datatype SctpStream = SctpStream (stream_io: Io)

record StreamBuilder =
  stb_sock :: SctpSocket
  assoc_change_subscribed :: bool

text \<open>
  The methods of the builders consume the builder and return it: an error drops it with its socket.
\<close>

definition builder_opt :: "'k env \<Rightarrow> SctpSocket \<Rightarrow> ('k, unit) io \<Rightarrow> 'b \<Rightarrow> ('k, 'b) io" where
  "builder_opt E s m b = dropping E (raw (inner s)) (io_bind m (\<lambda>_. io_return b))"

definition StreamBuilder_rto_info ::
    "'k env \<Rightarrow> target \<Rightarrow> StreamBuilder \<Rightarrow> RtoInfo \<Rightarrow> ('k, StreamBuilder) io" where
  "StreamBuilder_rto_info E t b info = builder_opt E (stb_sock b) (SctpSocket_set_rto_info E t (stb_sock b) FUTURE info) b"

definition StreamBuilder_peer_addr_params ::
    "'k env \<Rightarrow> target \<Rightarrow> StreamBuilder \<Rightarrow> PeerAddrParams \<Rightarrow> ('k, StreamBuilder) io" where
  "StreamBuilder_peer_addr_params E t b params = builder_opt E (stb_sock b) (SctpSocket_set_peer_addr_params E t (stb_sock b) FUTURE None params) b"

definition StreamBuilder_delayed_sack ::
    "'k env \<Rightarrow> target \<Rightarrow> StreamBuilder \<Rightarrow> SackInfo \<Rightarrow> ('k, StreamBuilder) io" where
  "StreamBuilder_delayed_sack E t b info = builder_opt E (stb_sock b) (SctpSocket_set_delayed_sack E t (stb_sock b) FUTURE info) b"

definition StreamBuilder_assoc_info ::
    "'k env \<Rightarrow> target \<Rightarrow> StreamBuilder \<Rightarrow> AssocInfo \<Rightarrow> ('k, StreamBuilder) io" where
  "StreamBuilder_assoc_info E t b info = builder_opt E (stb_sock b) (SctpSocket_set_assoc_info E t (stb_sock b) FUTURE info) b"

definition StreamBuilder_bindx ::
    "'k env \<Rightarrow> target \<Rightarrow> StreamBuilder \<Rightarrow> SocketAddr list \<Rightarrow> ('k, StreamBuilder) io" where
  "StreamBuilder_bindx E t b addrs = builder_opt E (stb_sock b) (SctpSocket_bindx_add E t (stb_sock b) addrs) b"

definition StreamBuilder_init_params ::
    "'k env \<Rightarrow> target \<Rightarrow> StreamBuilder \<Rightarrow> InitParams \<Rightarrow> ('k, StreamBuilder) io" where
  "StreamBuilder_init_params E t b params = builder_opt E (stb_sock b) (SctpSocket_set_init_params E t (stb_sock b) params) b"

definition StreamBuilder_nodelay ::
    "'k env \<Rightarrow> target \<Rightarrow> StreamBuilder \<Rightarrow> bool \<Rightarrow> ('k, StreamBuilder) io" where
  "StreamBuilder_nodelay E t b on = builder_opt E (stb_sock b) (SctpSocket_set_nodelay E t (stb_sock b) on) b"

definition StreamBuilder_send_buffer_size ::
    "'k env \<Rightarrow> target \<Rightarrow> StreamBuilder \<Rightarrow> nat \<Rightarrow> ('k, StreamBuilder) io" where
  "StreamBuilder_send_buffer_size E t b n = builder_opt E (stb_sock b) (SctpSocket_set_send_buffer_size E t (stb_sock b) n) b"

definition StreamBuilder_recv_buffer_size ::
    "'k env \<Rightarrow> target \<Rightarrow> StreamBuilder \<Rightarrow> nat \<Rightarrow> ('k, StreamBuilder) io" where
  "StreamBuilder_recv_buffer_size E t b n = builder_opt E (stb_sock b) (SctpSocket_set_recv_buffer_size E t (stb_sock b) n) b"

definition StreamBuilder_reuse_address ::
    "'k env \<Rightarrow> target \<Rightarrow> StreamBuilder \<Rightarrow> bool \<Rightarrow> ('k, StreamBuilder) io" where
  "StreamBuilder_reuse_address E t b on = builder_opt E (stb_sock b) (SctpSocket_set_reuse_address E t (stb_sock b) on) b"

definition StreamBuilder_reuse_port ::
    "'k env \<Rightarrow> target \<Rightarrow> StreamBuilder \<Rightarrow> bool \<Rightarrow> ('k, StreamBuilder) io" where
  "StreamBuilder_reuse_port E t b on = builder_opt E (stb_sock b) (SctpSocket_set_reuse_port E t (stb_sock b) on) b"

definition StreamBuilder_subscribe_events ::
    "'k env \<Rightarrow> target \<Rightarrow> StreamBuilder \<Rightarrow> EventType list \<Rightarrow> ('k, StreamBuilder) io" where
  "StreamBuilder_subscribe_events E t b events =
     builder_opt E (stb_sock b) (SctpSocket_subscribe_events E t (stb_sock b) events)
       (if Ev_AssocChange \<in> set events then b\<lparr>assoc_change_subscribed := True\<rparr> else b)"

definition StreamBuilder_connectx ::
    "'k env \<Rightarrow> target \<Rightarrow> StreamBuilder \<Rightarrow> SocketAddr list \<Rightarrow> ('k, SctpStream) io" where
  "StreamBuilder_connectx E t b addrs =
     io_bind (dropping E (raw (inner (stb_sock b)))
       (if assoc_change_subscribed b then io_return ()
        else SctpSocket_subscribe_event E t (stb_sock b) Ev_AssocChange True)) (\<lambda>_.
     io_bind (register E t (inner (stb_sock b))) (\<lambda>io.
     dropping E (raw (sock io))
       (io_bind (imp_connectx E t (sock io) addrs) (\<lambda>_.
        io_bind (established E t io) (\<lambda>_.
        io_bind (if assoc_change_subscribed b then io_return ()
                 else imp_subscribe_event E t (sock io) Ev_AssocChange False) (\<lambda>_.
        io_return (SctpStream io)))))))"

section \<open>Streams\<close>

definition SctpStream_connectx_from_socket ::
    "'k env \<Rightarrow> target \<Rightarrow> SctpSocket \<Rightarrow> SocketAddr list \<Rightarrow> ('k, SctpStream) io" where
  "SctpStream_connectx_from_socket E t s addrs =
     io_bind (dropping E (raw (inner s))
       (io_bind (imp_style E t (inner s)) (\<lambda>style.
        if style \<noteq> OneToOne then io_err (Custom InvalidInput ''socket is not one-to-one'')
        else SctpSocket_subscribe_event E t s Ev_AssocChange True))) (\<lambda>_.
     io_bind (register E t (inner s)) (\<lambda>io.
     dropping E (raw (sock io))
       (io_bind (imp_connectx E t (sock io) addrs) (\<lambda>_.
        io_bind (established E t io) (\<lambda>_.
        io_return (SctpStream io))))))"

definition SctpStream_builder :: "'k env \<Rightarrow> target \<Rightarrow> Family \<Rightarrow> ('k, StreamBuilder) io" where
  "SctpStream_builder E t family =
     io_bind (SctpSocket_new E t family OneToOne) (\<lambda>s.
     io_return \<lparr>stb_sock = s, assoc_change_subscribed = False\<rparr>)"

definition addr_family :: "SocketAddr \<Rightarrow> Family" where
  "addr_family addr = (case addr of V4 _ _ \<Rightarrow> Ipv4 | V6 _ _ _ _ \<Rightarrow> Ipv6)"

definition SctpStream_connect :: "'k env \<Rightarrow> target \<Rightarrow> SocketAddr \<Rightarrow> ('k, SctpStream) io" where
  "SctpStream_connect E t addr =
     io_bind (SctpStream_builder E t (addr_family addr)) (\<lambda>b. StreamBuilder_connectx E t b [addr])"

definition SctpStream_from_nonblocking_imp :: "'k env \<Rightarrow> imp_Socket \<Rightarrow> ('k, SctpStream) io" where
  "SctpStream_from_nonblocking_imp E s =
     io_bind (register_nonblocking E s) (\<lambda>io. io_return (SctpStream io))"

definition SctpStream_send_msg ::
    "'k env \<Rightarrow> target \<Rightarrow> SctpStream \<Rightarrow> byte list \<Rightarrow> SendInfo \<Rightarrow> ('k, nat) io" where
  "SctpStream_send_msg E t st buf info =
     write_op E t (stream_io st) (\<lambda>_ s. imp_send_msg E t s buf None info) unchanged ()"

definition SctpStream_set_abort_on_drop :: "'k env \<Rightarrow> target \<Rightarrow> SctpStream \<Rightarrow> ('k, unit) io" where
  "SctpStream_set_abort_on_drop E t st = set_abort_on_close E t (sock (stream_io st))"

text \<open>\<open>abort\<close> consumes the stream: it is dropped on success as well.\<close>

definition SctpStream_abort :: "'k env \<Rightarrow> target \<Rightarrow> SctpStream \<Rightarrow> ('k, unit) io" where
  "SctpStream_abort E t st =
     io_bind (dropping E (raw (sock (stream_io st))) (SctpStream_set_abort_on_drop E t st)) (\<lambda>_.
     io_bind (do_call E (C_close (raw (sock (stream_io st))))) (\<lambda>_. io_return ()))"

text \<open>
  The closure borrows the caller's buffer mutably: an attempt is made with the buffer as the one
  before it left it, which may have read the first part of a notification before it would block.
\<close>

definition SctpStream_recv_msg ::
    "'k env \<Rightarrow> target \<Rightarrow> SctpStream \<Rightarrow> byte list \<Rightarrow> ('k, RecvMsg \<times> byte list) io" where
  "SctpStream_recv_msg E t st buf =
     read_op E t (stream_io st) (\<lambda>buf s.
       io_bind (imp_recv_msg E t s buf False) (\<lambda>((msg, _), buf). io_return (msg, buf)))
       (buf_after E False) buf"

definition SctpStream_peer_addr :: "'k env \<Rightarrow> target \<Rightarrow> SctpStream \<Rightarrow> ('k, SocketAddr) io" where
  "SctpStream_peer_addr E t st = imp_peer_addr E t (sock (stream_io st))"

definition SctpStream_reuse_port :: "'k env \<Rightarrow> target \<Rightarrow> SctpStream \<Rightarrow> ('k, bool) io" where
  "SctpStream_reuse_port E t st = imp_reuse_port E t (sock (stream_io st))"

definition SctpStream_shutdown :: "'k env \<Rightarrow> target \<Rightarrow> SctpStream \<Rightarrow> Shutdown \<Rightarrow> ('k, unit) io" where
  "SctpStream_shutdown E t st how = imp_shutdown E t (sock (stream_io st)) how"

section \<open>Ownership\<close>

lemma owns_builder_opt:
  assumes "borrows t m" and "q b = {#raw (inner s)#}"
  shows "owns t {#raw (inner s)#} q {#} (builder_opt E s m b)"
  unfolding builder_opt_def by (rule owns_then_drop) (use assms in auto)

lemma owns_stream_connectx:
  assumes "levels_ok t"
  shows "owns t {#raw (inner (stb_sock b))#} (\<lambda>st. {#raw (sock (stream_io st))#}) {#}
    (StreamBuilder_connectx E t b addrs)"
  unfolding StreamBuilder_connectx_def SctpSocket_subscribe_event_def
  by (intro owns_bind[OF owns_dropping_borrowed] owns_bind[OF owns_register] owns_dropping
      owns_bind_borrowed owns_return own_intros assms) simp_all

lemma owns_connectx_from_socket:
  assumes "levels_ok t"
  shows "owns t {#raw (inner s)#} (\<lambda>st. {#raw (sock (stream_io st))#}) {#}
    (SctpStream_connectx_from_socket E t s addrs)"
  unfolding SctpStream_connectx_from_socket_def SctpSocket_subscribe_event_def
  by (intro owns_bind[OF owns_dropping_borrowed] owns_bind[OF owns_register] owns_dropping
      owns_bind_borrowed owns_return own_intros assms) simp_all

interpretation stream_builder_source: socket_source t "SctpStream_builder E t family" "\<lambda>b. inner (stb_sock b)"
  for t E family
proof
  show "owns t {#} (\<lambda>b. {#raw (inner (stb_sock b))#}) {#} (SctpStream_builder E t family)"
    unfolding SctpStream_builder_def
    by (rule owns_bind[OF api_new_source.source_owns]) auto
qed

lemma owns_from_nonblocking_imp:
  "owns t {#raw s#} (\<lambda>st. {#raw (sock (stream_io st))#}) {#} (SctpStream_from_nonblocking_imp E s)"
  unfolding SctpStream_from_nonblocking_imp_def register_nonblocking_def
  by (rule owns_bind[OF owns_AsyncFd_new]) auto

lemma owns_stream_connect:
  "levels_ok t \<Longrightarrow>
     owns t {#} (\<lambda>st. {#raw (sock (stream_io st))#}) {#} (SctpStream_connect E t addr)"
  unfolding SctpStream_connect_def
  by (rule owns_bind[OF stream_builder_source.source_owns owns_stream_connectx])

lemma owns_close: "owns t {#d#} (\<lambda>_. {#}) {#} (do_call E (C_close d))"
  by (rule ownsI) (auto simp: do_call_def split: prod.splits dest!: sys_call_trace)

lemma owns_abort:
  "owns t {#raw (sock (stream_io st))#} (\<lambda>_. {#}) {#} (SctpStream_abort E t' st)"
  unfolding SctpStream_abort_def SctpStream_set_abort_on_drop_def
  by (intro owns_bind[OF owns_dropping_borrowed] owns_bind[OF owns_close] own_intros)

section \<open>Properties\<close>

abbreviation event_off_call :: "target \<Rightarrow> SctpStream \<Rightarrow> call" where
  "event_off_call t st \<equiv> C_setsockopt (raw (sock (stream_io st))) SOL_SCTP SCTP_EVENT
     (PBytes (event_mem t \<lparr>se_assoc_id = assoc_raw FUTURE,
       se_type = EventType_to_raw Ev_AssocChange, se_on = 0\<rparr>))"

text \<open>
  Connecting leaves the caller's event subscriptions as they were. If the caller did not
  subscribe to association changes, the temporary subscription is the last thing undone, on the
  very stream that is returned; whether the caller did is tracked exactly by the builder.
\<close>

theorem connectx_restores_subscription:
  "(levels_ok t \<and> \<not> assoc_change_subscribed b \<longrightarrow>
      ends_with (StreamBuilder_connectx E t b addrs) (event_off_call t)) \<and>
   (StreamBuilder_subscribe_events E t b evs w = Some (Ok b', w') \<longrightarrow>
      stb_sock b' = stb_sock b \<and>
      assoc_change_subscribed b' = (assoc_change_subscribed b \<or> Ev_AssocChange \<in> set evs))"
proof (rule conjI; rule impI)
  assume a: "levels_ok t \<and> \<not> assoc_change_subscribed b"
  have off: "ends_with (io_bind (imp_subscribe_event E t (sock io) Ev_AssocChange False)
      (\<lambda>_. io_return (SctpStream io))) (event_off_call t)" for io
    unfolding imp_subscribe_event_def imp_subscribe_event_for_def imp_setsockopt_def Let_def
      io_bind_assoc io_bind_lift
    by (rule ends_with_call_return) simp
  have ext: "extends (dropping E d (imp_subscribe_event E t s ev on))" "extends (register E t s)"
    "extends (imp_connectx E t s addrs)" "extends (established E t io)" for d s ev on io
    by (rule extends_owns, rule owns_dropping_borrowed, rule borrows_sockopts)
      (rule extends_owns[OF owns_register] extends_owns[OF borrows_connectx]
        extends_owns[OF borrows_established], (rule a[THEN conjunct1])?)+
  show "ends_with (StreamBuilder_connectx E t b addrs) (event_off_call t)"
    unfolding StreamBuilder_connectx_def SctpSocket_subscribe_event_def if_not_P[OF a[THEN conjunct2]]
    by (rule ends_with_bind[OF ext(1)] ends_with_bind[OF ext(2)] ends_with_dropping
        ends_with_bind[OF ext(3)] ends_with_bind[OF ext(4)] off)+
next
  assume "StreamBuilder_subscribe_events E t b evs w = Some (Ok b', w')"
  then have "b' = (if Ev_AssocChange \<in> set evs then b\<lparr>assoc_change_subscribed := True\<rparr> else b)"
    unfolding StreamBuilder_subscribe_events_def builder_opt_def
    by (auto dest!: dropping_okD io_lift_okD simp: io_bind_Some_iff)
  then show "stb_sock b' = stb_sock b \<and>
      assoc_change_subscribed b' = (assoc_change_subscribed b \<or> Ev_AssocChange \<in> set evs)"
    by auto
qed

theorem connectx_restores_subscription_witness:
  "let b = \<lparr>stb_sock = SctpSocket (imp_Socket 3), assoc_change_subscribed = False\<rparr>;
       t = linux_x86_64
   in levels_ok t \<and> \<not> assoc_change_subscribed b \<and>
      ends_with (StreamBuilder_connectx scripted t b [V4 0x7f000001 80]) (event_off_call t) \<and>
      (\<exists>b' w'. StreamBuilder_subscribe_events scripted t b [Ev_Shutdown, Ev_AssocChange]
          \<lparr>kst = [sr_ok, sr_ok], trace = []\<rparr> = Some (Ok b', w') \<and> assoc_change_subscribed b')"
proof -
  let ?b = "\<lparr>stb_sock = SctpSocket (imp_Socket 3), assoc_change_subscribed = False\<rparr>"
  let ?w = "\<lparr>kst = [sr_ok, sr_ok], trace = []\<rparr>" and ?t = linux_x86_64
  have sub: "SctpSocket_subscribe_event scripted ?t s ev True \<lparr>kst = sr_ok # rs, trace = tr\<rparr> =
      Some (Ok (), \<lparr>kst = rs, trace = tr @ [(event_on_call ?t s ev, sr_ok)]\<rparr>)" for s ev rs tr
    by (simp add: SctpSocket_subscribe_event_def imp_subscribe_event_def
        imp_subscribe_event_for_def setsockopt_run)
  have "\<exists>b' w'. StreamBuilder_subscribe_events scripted ?t ?b [Ev_Shutdown, Ev_AssocChange] ?w =
      Some (Ok b', w')"
    unfolding StreamBuilder_subscribe_events_def builder_opt_def
    by (simp add: dropping_def io_bind_def sub io_lift_run)
  then obtain b' w' where run:
    "StreamBuilder_subscribe_events scripted ?t ?b [Ev_Shutdown, Ev_AssocChange] ?w = Some (Ok b', w')"
    by blast
  have h: "levels_ok ?t \<and> \<not> assoc_change_subscribed ?b"
    by simp
  show ?thesis
    unfolding Let_def
    using h run connectx_restores_subscription[of ?t ?b scripted "[V4 0x7f000001 80]"
        "[Ev_Shutdown, Ev_AssocChange]" ?w b' w'] by auto
qed

end
