(* ===== verification/Net_Listener.thy ===== *)
theory Net_Listener
  imports Net_Stream
begin

text \<open>
  The one-to-one listener and its builder, \<open>net/listener.rs\<close>.
\<close>

datatype SctpListener = SctpListener (listener_io: Io)

datatype ListenerBuilder = ListenerBuilder (lb_sock: SctpSocket)

definition SctpListener_from_socket ::
    "'k env \<Rightarrow> target \<Rightarrow> SctpSocket \<Rightarrow> ('k, SctpListener) io" where
  "SctpListener_from_socket E t s =
     io_bind (dropping E (raw (inner s))
       (io_bind (imp_style E t (inner s)) (\<lambda>style.
        io_bind (if style \<noteq> OneToOne then io_return True
                 else io_bind (is_listening E t (inner s)) (\<lambda>l. io_return (\<not> l))) (\<lambda>bad.
        if bad then io_err (Custom InvalidInput ''socket is not listening'') else io_return ())))) (\<lambda>_.
     io_bind (register E t (inner s)) (\<lambda>io. io_return (SctpListener io)))"

definition SctpListener_builder :: "'k env \<Rightarrow> target \<Rightarrow> Family \<Rightarrow> ('k, ListenerBuilder) io" where
  "SctpListener_builder E t family =
     io_bind (SctpSocket_new E t family OneToOne) (\<lambda>s. io_return (ListenerBuilder s))"

definition ListenerBuilder_rto_info ::
    "'k env \<Rightarrow> target \<Rightarrow> ListenerBuilder \<Rightarrow> RtoInfo \<Rightarrow> ('k, ListenerBuilder) io" where
  "ListenerBuilder_rto_info E t b info = builder_opt E (lb_sock b) (SctpSocket_set_rto_info E t (lb_sock b) FUTURE info) b"

definition ListenerBuilder_peer_addr_params ::
    "'k env \<Rightarrow> target \<Rightarrow> ListenerBuilder \<Rightarrow> PeerAddrParams \<Rightarrow> ('k, ListenerBuilder) io" where
  "ListenerBuilder_peer_addr_params E t b params = builder_opt E (lb_sock b) (SctpSocket_set_peer_addr_params E t (lb_sock b) FUTURE None params) b"

definition ListenerBuilder_delayed_sack ::
    "'k env \<Rightarrow> target \<Rightarrow> ListenerBuilder \<Rightarrow> SackInfo \<Rightarrow> ('k, ListenerBuilder) io" where
  "ListenerBuilder_delayed_sack E t b info = builder_opt E (lb_sock b) (SctpSocket_set_delayed_sack E t (lb_sock b) FUTURE info) b"

definition ListenerBuilder_assoc_info ::
    "'k env \<Rightarrow> target \<Rightarrow> ListenerBuilder \<Rightarrow> AssocInfo \<Rightarrow> ('k, ListenerBuilder) io" where
  "ListenerBuilder_assoc_info E t b info = builder_opt E (lb_sock b) (SctpSocket_set_assoc_info E t (lb_sock b) FUTURE info) b"

definition ListenerBuilder_bindx ::
    "'k env \<Rightarrow> target \<Rightarrow> ListenerBuilder \<Rightarrow> SocketAddr list \<Rightarrow> ('k, ListenerBuilder) io" where
  "ListenerBuilder_bindx E t b addrs = builder_opt E (lb_sock b) (SctpSocket_bindx_add E t (lb_sock b) addrs) b"

definition ListenerBuilder_init_params ::
    "'k env \<Rightarrow> target \<Rightarrow> ListenerBuilder \<Rightarrow> InitParams \<Rightarrow> ('k, ListenerBuilder) io" where
  "ListenerBuilder_init_params E t b params = builder_opt E (lb_sock b) (SctpSocket_set_init_params E t (lb_sock b) params) b"

definition ListenerBuilder_subscribe_events ::
    "'k env \<Rightarrow> target \<Rightarrow> ListenerBuilder \<Rightarrow> EventType list \<Rightarrow> ('k, ListenerBuilder) io" where
  "ListenerBuilder_subscribe_events E t b events = builder_opt E (lb_sock b) (SctpSocket_subscribe_events E t (lb_sock b) events) b"

definition ListenerBuilder_recv_buffer_size ::
    "'k env \<Rightarrow> target \<Rightarrow> ListenerBuilder \<Rightarrow> nat \<Rightarrow> ('k, ListenerBuilder) io" where
  "ListenerBuilder_recv_buffer_size E t b n = builder_opt E (lb_sock b) (SctpSocket_set_recv_buffer_size E t (lb_sock b) n) b"

definition ListenerBuilder_send_buffer_size ::
    "'k env \<Rightarrow> target \<Rightarrow> ListenerBuilder \<Rightarrow> nat \<Rightarrow> ('k, ListenerBuilder) io" where
  "ListenerBuilder_send_buffer_size E t b n = builder_opt E (lb_sock b) (SctpSocket_set_send_buffer_size E t (lb_sock b) n) b"

definition ListenerBuilder_nodelay ::
    "'k env \<Rightarrow> target \<Rightarrow> ListenerBuilder \<Rightarrow> bool \<Rightarrow> ('k, ListenerBuilder) io" where
  "ListenerBuilder_nodelay E t b on = builder_opt E (lb_sock b) (SctpSocket_set_nodelay E t (lb_sock b) on) b"

definition ListenerBuilder_reuse_address ::
    "'k env \<Rightarrow> target \<Rightarrow> ListenerBuilder \<Rightarrow> bool \<Rightarrow> ('k, ListenerBuilder) io" where
  "ListenerBuilder_reuse_address E t b on = builder_opt E (lb_sock b) (SctpSocket_set_reuse_address E t (lb_sock b) on) b"

definition ListenerBuilder_reuse_port ::
    "'k env \<Rightarrow> target \<Rightarrow> ListenerBuilder \<Rightarrow> bool \<Rightarrow> ('k, ListenerBuilder) io" where
  "ListenerBuilder_reuse_port E t b on = builder_opt E (lb_sock b) (SctpSocket_set_reuse_port E t (lb_sock b) on) b"

definition ListenerBuilder_listen ::
    "'k env \<Rightarrow> target \<Rightarrow> ListenerBuilder \<Rightarrow> i32 \<Rightarrow> ('k, SctpListener) io" where
  "ListenerBuilder_listen E t b backlog =
     io_bind (dropping E (raw (inner (lb_sock b))) (SctpSocket_listen E (lb_sock b) backlog)) (\<lambda>_.
     SctpListener_from_socket E t (lb_sock b))"

definition SctpListener_bind :: "'k env \<Rightarrow> target \<Rightarrow> SocketAddr \<Rightarrow> ('k, SctpListener) io" where
  "SctpListener_bind E t addr =
     io_bind (SctpListener_builder E t (addr_family addr)) (\<lambda>b.
     io_bind (ListenerBuilder_bindx E t b [addr]) (\<lambda>b.
     ListenerBuilder_listen E t b 128))"

definition SctpListener_accept ::
    "'k env \<Rightarrow> target \<Rightarrow> SctpListener \<Rightarrow> ('k, SctpStream \<times> SocketAddr) io" where
  "SctpListener_accept E t l =
     io_bind (read_op E t (listener_io l) (\<lambda>_ s. accept_nonblocking E t s) unchanged ()) (\<lambda>(sock, peer).
     io_bind (SctpStream_from_nonblocking_imp E sock) (\<lambda>st. io_return (st, peer)))"

section \<open>Ownership\<close>

lemma owns_listener_from_socket:
  assumes "levels_ok t"
  shows "owns t {#raw (inner s)#} (\<lambda>l. {#raw (sock (listener_io l))#}) {#}
    (SctpListener_from_socket E t s)"
  unfolding SctpListener_from_socket_def
  by (intro owns_bind[OF owns_dropping_borrowed] owns_bind[OF owns_register] owns_return
      own_intros assms) simp

interpretation listener_builder_source: socket_source t "SctpListener_builder E t family"
  "\<lambda>b. inner (lb_sock b)" for t E family
proof
  show "owns t {#} (\<lambda>b. {#raw (inner (lb_sock b))#}) {#} (SctpListener_builder E t family)"
    unfolding SctpListener_builder_def
    by (rule owns_bind[OF api_new_source.source_owns]) auto
qed

lemma owns_listener_listen:
  assumes "levels_ok t"
  shows "owns t {#raw (inner (lb_sock b))#} (\<lambda>l. {#raw (sock (listener_io l))#}) {#}
    (ListenerBuilder_listen E t b backlog)"
  unfolding ListenerBuilder_listen_def SctpSocket_listen_def
  by (intro owns_bind[OF owns_dropping_borrowed] own_intros owns_listener_from_socket assms)

lemma owns_listener_bind:
  assumes "levels_ok t"
  shows "owns t {#} (\<lambda>l. {#raw (sock (listener_io l))#}) {#} (SctpListener_bind E t addr)"
proof -
  have "owns t {#raw (inner (lb_sock b))#} (\<lambda>b. {#raw (inner (lb_sock b))#}) {#}
      (ListenerBuilder_bindx E t b addrs)" for b addrs
    unfolding ListenerBuilder_bindx_def SctpSocket_bindx_add_def
    by (rule owns_builder_opt) (auto intro: own_intros)
  then show ?thesis
    unfolding SctpListener_bind_def
    by (intro owns_bind[OF listener_builder_source.source_owns]) (rule owns_bind[OF _ owns_listener_listen[OF assms]])
qed

lemma owns_listener_accept:
  "owns t {#} (\<lambda>(st, peer). {#raw (sock (stream_io st))#}) {#} (SctpListener_accept E t l)"
proof -
  have "owns t {#} (\<lambda>x. {#raw (fst x)#}) {#}
      (read_op E t (listener_io l) (\<lambda>_ s. accept_nonblocking E t s) unchanged ())"
    by (rule read_op_loop.loop_owns) (simp add: accept_nonblocking_def accept_source.source_owns)
  then show ?thesis
    unfolding SctpListener_accept_def
    by (rule owns_bind) (auto intro!: owns_bind[OF owns_from_nonblocking_imp] split: prod.splits)
qed

end
