(* ===== verification/Net_Endpoint.thy ===== *)
theory Net_Endpoint
  imports Net_Stream
begin

text \<open>
  The one-to-many endpoint and its builder, \<open>net/endpoint.rs\<close>.
\<close>

datatype SctpEndpoint = SctpEndpoint (endpoint_io: Io)

datatype EndpointBuilder = EndpointBuilder (eb_sock: SctpSocket)

definition SctpEndpoint_from_socket ::
    "'k env \<Rightarrow> target \<Rightarrow> SctpSocket \<Rightarrow> ('k, SctpEndpoint) io" where
  "SctpEndpoint_from_socket E t s =
     io_bind (dropping E (raw (inner s))
       (io_bind (imp_style E t (inner s)) (\<lambda>style.
        if style \<noteq> OneToMany then io_err (Custom InvalidInput ''socket is not one-to-many'')
        else io_return ()))) (\<lambda>_.
     io_bind (register E t (inner s)) (\<lambda>io. io_return (SctpEndpoint io)))"

definition SctpEndpoint_builder :: "'k env \<Rightarrow> target \<Rightarrow> Family \<Rightarrow> ('k, EndpointBuilder) io" where
  "SctpEndpoint_builder E t family =
     io_bind (SctpSocket_new E t family OneToMany) (\<lambda>s. io_return (EndpointBuilder s))"

definition EndpointBuilder_bindx ::
    "'k env \<Rightarrow> target \<Rightarrow> EndpointBuilder \<Rightarrow> SocketAddr list \<Rightarrow> ('k, EndpointBuilder) io" where
  "EndpointBuilder_bindx E t b addrs = builder_opt E (eb_sock b) (SctpSocket_bindx_add E t (eb_sock b) addrs) b"

definition EndpointBuilder_init_params ::
    "'k env \<Rightarrow> target \<Rightarrow> EndpointBuilder \<Rightarrow> InitParams \<Rightarrow> ('k, EndpointBuilder) io" where
  "EndpointBuilder_init_params E t b params = builder_opt E (eb_sock b) (SctpSocket_set_init_params E t (eb_sock b) params) b"

definition EndpointBuilder_subscribe_events ::
    "'k env \<Rightarrow> target \<Rightarrow> EndpointBuilder \<Rightarrow> EventType list \<Rightarrow> ('k, EndpointBuilder) io" where
  "EndpointBuilder_subscribe_events E t b events = builder_opt E (eb_sock b) (SctpSocket_subscribe_events E t (eb_sock b) events) b"

definition EndpointBuilder_nodelay ::
    "'k env \<Rightarrow> target \<Rightarrow> EndpointBuilder \<Rightarrow> bool \<Rightarrow> ('k, EndpointBuilder) io" where
  "EndpointBuilder_nodelay E t b on = builder_opt E (eb_sock b) (SctpSocket_set_nodelay E t (eb_sock b) on) b"

definition EndpointBuilder_send_buffer_size ::
    "'k env \<Rightarrow> target \<Rightarrow> EndpointBuilder \<Rightarrow> nat \<Rightarrow> ('k, EndpointBuilder) io" where
  "EndpointBuilder_send_buffer_size E t b n = builder_opt E (eb_sock b) (SctpSocket_set_send_buffer_size E t (eb_sock b) n) b"

definition EndpointBuilder_recv_buffer_size ::
    "'k env \<Rightarrow> target \<Rightarrow> EndpointBuilder \<Rightarrow> nat \<Rightarrow> ('k, EndpointBuilder) io" where
  "EndpointBuilder_recv_buffer_size E t b n = builder_opt E (eb_sock b) (SctpSocket_set_recv_buffer_size E t (eb_sock b) n) b"

definition EndpointBuilder_reuse_address ::
    "'k env \<Rightarrow> target \<Rightarrow> EndpointBuilder \<Rightarrow> bool \<Rightarrow> ('k, EndpointBuilder) io" where
  "EndpointBuilder_reuse_address E t b on = builder_opt E (eb_sock b) (SctpSocket_set_reuse_address E t (eb_sock b) on) b"

definition EndpointBuilder_build :: "'k env \<Rightarrow> target \<Rightarrow> EndpointBuilder \<Rightarrow> ('k, SctpEndpoint) io" where
  "EndpointBuilder_build E t b = SctpEndpoint_from_socket E t (eb_sock b)"

definition EndpointBuilder_listen ::
    "'k env \<Rightarrow> target \<Rightarrow> EndpointBuilder \<Rightarrow> i32 \<Rightarrow> ('k, SctpEndpoint) io" where
  "EndpointBuilder_listen E t b backlog =
     io_bind (dropping E (raw (inner (eb_sock b))) (SctpSocket_listen E (eb_sock b) backlog)) (\<lambda>_.
     EndpointBuilder_build E t b)"

definition SctpEndpoint_bind :: "'k env \<Rightarrow> target \<Rightarrow> SocketAddr \<Rightarrow> ('k, SctpEndpoint) io" where
  "SctpEndpoint_bind E t addr =
     io_bind (SctpEndpoint_builder E t (addr_family addr)) (\<lambda>b.
     io_bind (EndpointBuilder_bindx E t b [addr]) (\<lambda>b.
     EndpointBuilder_listen E t b 128))"

definition SctpEndpoint_connectx ::
    "'k env \<Rightarrow> target \<Rightarrow> SctpEndpoint \<Rightarrow> SocketAddr list \<Rightarrow> ('k, AssocId) io" where
  "SctpEndpoint_connectx E t ep addrs = imp_connectx E t (sock (endpoint_io ep)) addrs"

definition SctpEndpoint_send_msg ::
    "'k env \<Rightarrow> target \<Rightarrow> SctpEndpoint \<Rightarrow> byte list \<Rightarrow> SendInfo \<Rightarrow> ('k, nat) io" where
  "SctpEndpoint_send_msg E t ep buf info =
     write_op E t (endpoint_io ep) (\<lambda>_ s. imp_send_msg E t s buf None info) unchanged ()"

definition SctpEndpoint_send_msg_to ::
    "'k env \<Rightarrow> target \<Rightarrow> SctpEndpoint \<Rightarrow> byte list \<Rightarrow> SocketAddr \<Rightarrow> SendInfo \<Rightarrow> ('k, nat) io" where
  "SctpEndpoint_send_msg_to E t ep buf addr info =
     write_op E t (endpoint_io ep) (\<lambda>_ s. imp_send_msg E t s buf (Some addr) info) unchanged ()"

definition SctpEndpoint_recv_msg ::
    "'k env \<Rightarrow> target \<Rightarrow> SctpEndpoint \<Rightarrow> byte list \<Rightarrow> ('k, RecvMsg \<times> byte list) io" where
  "SctpEndpoint_recv_msg E t ep buf =
     read_op E t (endpoint_io ep) (\<lambda>buf s.
       io_bind (imp_recv_msg E t s buf False) (\<lambda>((msg, _), buf). io_return (msg, buf)))
       (buf_after E False) buf"

definition SctpEndpoint_recv_msg_from ::
    "'k env \<Rightarrow> target \<Rightarrow> SctpEndpoint \<Rightarrow> byte list \<Rightarrow>
     ('k, (RecvMsg \<times> SocketAddr option) \<times> byte list) io" where
  "SctpEndpoint_recv_msg_from E t ep buf =
     read_op E t (endpoint_io ep) (\<lambda>buf s. imp_recv_msg E t s buf True) (buf_after E True) buf"

definition SctpEndpoint_peeloff ::
    "'k env \<Rightarrow> target \<Rightarrow> SctpEndpoint \<Rightarrow> AssocId \<Rightarrow> ('k, SctpStream) io" where
  "SctpEndpoint_peeloff E t ep assoc_id =
     io_bind (peeloff_nonblocking E t (sock (endpoint_io ep)) assoc_id) (\<lambda>s.
     SctpStream_from_nonblocking_imp E s)"

definition SctpEndpoint_set_autoclose :: "'k env \<Rightarrow> target \<Rightarrow> SctpEndpoint \<Rightarrow> u32 \<Rightarrow> ('k, unit) io" where
  "SctpEndpoint_set_autoclose E t ep seconds = imp_set_autoclose E t (sock (endpoint_io ep)) seconds"

section \<open>Ownership\<close>

lemma owns_endpoint_from_socket:
  assumes "levels_ok t"
  shows "owns t {#raw (inner s)#} (\<lambda>ep. {#raw (sock (endpoint_io ep))#}) {#}
    (SctpEndpoint_from_socket E t s)"
  unfolding SctpEndpoint_from_socket_def
  by (intro owns_bind[OF owns_dropping_borrowed] owns_bind[OF owns_register] owns_return
      own_intros assms) simp

interpretation endpoint_builder_source: socket_source t "SctpEndpoint_builder E t family"
  "\<lambda>b. inner (eb_sock b)" for t E family
proof
  show "owns t {#} (\<lambda>b. {#raw (inner (eb_sock b))#}) {#} (SctpEndpoint_builder E t family)"
    unfolding SctpEndpoint_builder_def
    by (rule owns_bind[OF api_new_source.source_owns]) auto
qed

lemma owns_endpoint_listen:
  assumes "levels_ok t"
  shows "owns t {#raw (inner (eb_sock b))#} (\<lambda>ep. {#raw (sock (endpoint_io ep))#}) {#}
    (EndpointBuilder_listen E t b backlog)"
  unfolding EndpointBuilder_listen_def EndpointBuilder_build_def SctpSocket_listen_def
  by (intro owns_bind[OF owns_dropping_borrowed] own_intros owns_endpoint_from_socket assms)

lemma owns_endpoint_bind:
  assumes "levels_ok t"
  shows "owns t {#} (\<lambda>ep. {#raw (sock (endpoint_io ep))#}) {#} (SctpEndpoint_bind E t addr)"
proof -
  have "owns t {#raw (inner (eb_sock b))#} (\<lambda>b. {#raw (inner (eb_sock b))#}) {#}
      (EndpointBuilder_bindx E t b addrs)" for b addrs
    unfolding EndpointBuilder_bindx_def SctpSocket_bindx_add_def
    by (rule owns_builder_opt) (auto intro: own_intros)
  then show ?thesis
    unfolding SctpEndpoint_bind_def
    by (intro owns_bind[OF endpoint_builder_source.source_owns]) (rule owns_bind[OF _ owns_endpoint_listen[OF assms]])
qed

lemma owns_endpoint_peeloff:
  "owns t {#} (\<lambda>st. {#raw (sock (stream_io st))#}) {#} (SctpEndpoint_peeloff E t ep a)"
  unfolding SctpEndpoint_peeloff_def peeloff_nonblocking_def
  by (rule owns_bind[OF peeloff_source.source_owns owns_from_nonblocking_imp])

end
