(* ===== verification/Net_Futures.thy ===== *)
theory Net_Futures
  imports Await_Ops Net_Listener Net_Endpoint
begin

text \<open>
  The \<open>async\<close> functions of \<open>net/\<close> as futures: one poll function each, with the value that a
  suspended future owns and what dropping it does. The theorems show that polling to completion
  is the sequential operation, and that the wait for an association completes when the kernel
  decides it.
\<close>

section \<open>Functions that suspend inside another\<close>

text \<open>
  The states of an \<open>async fn\<close> with one \<open>await\<close>: not yet polled, with its arguments, and suspended
  in the awaited future, with the locals that live across the suspension.
\<close>

datatype ('i, 'c, 's) async_state = Unresumed 'i | Suspended 'c 's

definition poll_resume ::
    "('c \<Rightarrow> ('k, 's, 'a) poller) \<Rightarrow> ('c \<Rightarrow> 'a io_result \<Rightarrow> ('k, 'b) io) \<Rightarrow> 'c \<Rightarrow> 's \<Rightarrow> 'k world \<Rightarrow>
     ((('i, 'c, 's) async_state, 'b io_result) poll \<times> 'k world) option" where
  "poll_resume fut finish c s w =
     (case fut c s w of
        None \<Rightarrow> None
      | Some (Pending s', w1) \<Rightarrow> Some (Pending (Suspended c s'), w1)
      | Some (Ready r, w1) \<Rightarrow> map_option (map_prod Ready id) (finish c r w1))"

fun poll_async ::
    "('i \<Rightarrow> ('k, 'c \<times> 's) io) \<Rightarrow> ('c \<Rightarrow> ('k, 's, 'a) poller) \<Rightarrow>
     ('c \<Rightarrow> 'a io_result \<Rightarrow> ('k, 'b) io) \<Rightarrow> ('k, ('i, 'c, 's) async_state, 'b) poller" where
  "poll_async start fut finish (Unresumed i) w =
     (case start i w of
        None \<Rightarrow> None
      | Some (Inl e, w1) \<Rightarrow> Some (Ready (Inl e), w1)
      | Some (Inr (c, s), w1) \<Rightarrow> poll_resume fut finish c s w1)"
| "poll_async start fut finish (Suspended c s) w = poll_resume fut finish c s w"

definition run_async ::
    "('i \<Rightarrow> ('k, 'c \<times> 's) io) \<Rightarrow> ('c \<Rightarrow> 's \<Rightarrow> ('k, 'a) io) \<Rightarrow>
     ('c \<Rightarrow> 'a io_result \<Rightarrow> ('k, 'b) io) \<Rightarrow> 'i \<Rightarrow> ('k, 'b) io" where
  "run_async start fut finish i =
     io_bind (start i) (\<lambda>(c, s) w.
       case fut c s w of None \<Rightarrow> None | Some (r, w1) \<Rightarrow> finish c r w1)"

section \<open>Streams\<close>

definition poll_stream_send_msg ::
    "'k env \<Rightarrow> target \<Rightarrow> SctpStream \<Rightarrow> byte list \<Rightarrow> SendInfo \<Rightarrow> ('k, unit, nat) poller" where
  "poll_stream_send_msg E t st buf info =
     poll_write_op E t (stream_io st) (\<lambda>_ s. imp_send_msg E t s buf None info) unchanged"

text \<open>The state of a receive is the caller's buffer, which the future borrows until it is dropped.\<close>

definition poll_stream_recv_msg ::
    "'k env \<Rightarrow> target \<Rightarrow> SctpStream \<Rightarrow> ('k, byte list, RecvMsg \<times> byte list) poller" where
  "poll_stream_recv_msg E t st =
     poll_read_op E t (stream_io st) (\<lambda>buf s.
       io_bind (imp_recv_msg E t s buf False) (\<lambda>((msg, _), buf). io_return (msg, buf)))
       (buf_after E False)"

text \<open>
  A connect. It is suspended only while it waits for the association; it then owns the
  registered socket and remembers whether the caller had subscribed to association changes.
\<close>

type_synonym 'i connect_state = "('i, Io \<times> bool, byte list) async_state"

definition connectx_start ::
    "'k env \<Rightarrow> target \<Rightarrow> StreamBuilder \<times> SocketAddr list \<Rightarrow> ('k, (Io \<times> bool) \<times> byte list) io" where
  "connectx_start E t = (\<lambda>(b, addrs).
     io_bind (dropping E (raw (inner (stb_sock b)))
       (if assoc_change_subscribed b then io_return ()
        else SctpSocket_subscribe_event E t (stb_sock b) Ev_AssocChange True)) (\<lambda>_.
     io_bind (register E t (inner (stb_sock b))) (\<lambda>io.
     dropping E (raw (sock io))
       (io_bind (imp_connectx E t (sock io) addrs) (\<lambda>_.
        io_return ((io, assoc_change_subscribed b), replicate 512 0))))))"

definition connectx_finish ::
    "'k env \<Rightarrow> target \<Rightarrow> Io \<times> bool \<Rightarrow> unit io_result \<Rightarrow> ('k, SctpStream) io" where
  "connectx_finish E t = (\<lambda>(io, keep) r.
     dropping E (raw (sock io))
       (io_bind (io_lift r) (\<lambda>_.
        io_bind (if keep then io_return ()
                 else imp_subscribe_event E t (sock io) Ev_AssocChange False) (\<lambda>_.
        io_return (SctpStream io)))))"

definition poll_connectx ::
    "'k env \<Rightarrow> target \<Rightarrow> ('k, (StreamBuilder \<times> SocketAddr list) connect_state, SctpStream) poller" where
  "poll_connectx E t =
     poll_async (connectx_start E t) (\<lambda>(io, _). poll_established E t io) (connectx_finish E t)"

definition poll_connect :: "'k env \<Rightarrow> target \<Rightarrow> ('k, SocketAddr connect_state, SctpStream) poller" where
  "poll_connect E t =
     poll_async (\<lambda>addr. io_bind (SctpStream_builder E t (addr_family addr)) (\<lambda>b. connectx_start E t (b, [addr])))
       (\<lambda>(io, _). poll_established E t io) (connectx_finish E t)"

definition from_socket_start ::
    "'k env \<Rightarrow> target \<Rightarrow> SctpSocket \<times> SocketAddr list \<Rightarrow> ('k, (Io \<times> bool) \<times> byte list) io" where
  "from_socket_start E t = (\<lambda>(s, addrs).
     io_bind (dropping E (raw (inner s))
       (io_bind (imp_style E t (inner s)) (\<lambda>style.
        if style \<noteq> OneToOne then io_err (Custom InvalidInput ''socket is not one-to-one'')
        else SctpSocket_subscribe_event E t s Ev_AssocChange True))) (\<lambda>_.
     io_bind (register E t (inner s)) (\<lambda>io.
     dropping E (raw (sock io))
       (io_bind (imp_connectx E t (sock io) addrs) (\<lambda>_. io_return ((io, True), replicate 512 0))))))"

text \<open>The subscription remains enabled, as if the caller had made it.\<close>

definition poll_connectx_from_socket ::
    "'k env \<Rightarrow> target \<Rightarrow> ('k, (SctpSocket \<times> SocketAddr list) connect_state, SctpStream) poller" where
  "poll_connectx_from_socket E t =
     poll_async (from_socket_start E t) (\<lambda>(io, _). poll_established E t io) (connectx_finish E t)"

section \<open>Listeners and endpoints\<close>

definition accept_finish ::
    "'k env \<Rightarrow> (imp_Socket \<times> SocketAddr) io_result \<Rightarrow> ('k, SctpStream \<times> SocketAddr) io" where
  "accept_finish E r =
     io_bind (io_lift r) (\<lambda>(sock, peer).
     io_bind (SctpStream_from_nonblocking_imp E sock) (\<lambda>st. io_return (st, peer)))"

definition poll_accept ::
    "'k env \<Rightarrow> target \<Rightarrow> ('k, (SctpListener, SctpListener, unit) async_state, SctpStream \<times> SocketAddr) poller" where
  "poll_accept E t =
     poll_async (\<lambda>l. io_return (l, ()))
       (\<lambda>l. poll_read_op E t (listener_io l) (\<lambda>_ s. accept_nonblocking E t s) unchanged) (\<lambda>_. accept_finish E)"

definition poll_endpoint_send_msg ::
    "'k env \<Rightarrow> target \<Rightarrow> SctpEndpoint \<Rightarrow> byte list \<Rightarrow> SendInfo \<Rightarrow> ('k, unit, nat) poller" where
  "poll_endpoint_send_msg E t ep buf info =
     poll_write_op E t (endpoint_io ep) (\<lambda>_ s. imp_send_msg E t s buf None info) unchanged"

definition poll_endpoint_send_msg_to ::
    "'k env \<Rightarrow> target \<Rightarrow> SctpEndpoint \<Rightarrow> byte list \<Rightarrow> SocketAddr \<Rightarrow> SendInfo \<Rightarrow> ('k, unit, nat) poller" where
  "poll_endpoint_send_msg_to E t ep buf addr info =
     poll_write_op E t (endpoint_io ep) (\<lambda>_ s. imp_send_msg E t s buf (Some addr) info) unchanged"

definition poll_endpoint_recv_msg ::
    "'k env \<Rightarrow> target \<Rightarrow> SctpEndpoint \<Rightarrow> ('k, byte list, RecvMsg \<times> byte list) poller" where
  "poll_endpoint_recv_msg E t ep =
     poll_read_op E t (endpoint_io ep) (\<lambda>buf s.
       io_bind (imp_recv_msg E t s buf False) (\<lambda>((msg, _), buf). io_return (msg, buf)))
       (buf_after E False)"

definition poll_endpoint_recv_msg_from ::
    "'k env \<Rightarrow> target \<Rightarrow> SctpEndpoint \<Rightarrow>
     ('k, byte list, (RecvMsg \<times> SocketAddr option) \<times> byte list) poller" where
  "poll_endpoint_recv_msg_from E t ep =
     poll_read_op E t (endpoint_io ep) (\<lambda>buf s. imp_recv_msg E t s buf True) (buf_after E True)"

section \<open>Dropping a future\<close>

text \<open>
  The descriptor a connect owns: that of the argument it was called with, if any, until it is
  first polled, then that of the registered socket, until it is handed on with the stream.
  Dropping the future closes it. The other futures borrow their socket and own nothing.
\<close>

fun connect_owned :: "('i \<Rightarrow> fd option) \<Rightarrow> 'i connect_state \<Rightarrow> fd option" where
  "connect_owned arg (Unresumed i) = arg i"
| "connect_owned arg (Suspended (io, keep) buf) = Some (raw (sock io))"

definition drop_connect :: "'k env \<Rightarrow> ('i \<Rightarrow> fd option) \<Rightarrow> 'i connect_state \<Rightarrow> 'k world \<Rightarrow> 'k world" where
  "drop_connect E arg s w =
     (case connect_owned arg s of None \<Rightarrow> w | Some d \<Rightarrow> snd (sys_call E (C_close d) w))"

definition builder_arg :: "StreamBuilder \<times> SocketAddr list \<Rightarrow> fd option" where
  "builder_arg = (\<lambda>(b, addrs). Some (raw (inner (stb_sock b))))"

definition socket_arg :: "SctpSocket \<times> SocketAddr list \<Rightarrow> fd option" where
  "socket_arg = (\<lambda>(s, addrs). Some (raw (inner s)))"

definition no_arg :: "SocketAddr \<Rightarrow> fd option" where
  "no_arg addr = None"

section \<open>Futures and operations\<close>

lemma drive_suspended:
  "drive (poll_async start fut finish) (Suspended c s) w ks =
     (case drive (fut c) s w ks of
        None \<Rightarrow> None
      | Some (Pending s', w', ks') \<Rightarrow> Some (Pending (Suspended c s'), w', ks')
      | Some (Ready r, w', ks') \<Rightarrow>
          map_option (\<lambda>(r', w''). (Ready r', w'', ks')) (finish c r w'))"
proof (induction ks arbitrary: s w)
  case Nil
  show ?case
    by (auto simp: poll_resume_def map_prod_def split: option.splits poll.splits prod.splits)
next
  case (Cons k ks)
  show ?case
    by (auto simp: poll_resume_def Cons.IH map_prod_def split: option.splits poll.splits prod.splits)
qed

lemma drive_unresumed:
  "drive (poll_async start fut finish) (Unresumed i) w ks =
     (case start i w of
        None \<Rightarrow> None
      | Some (Inl e, w1) \<Rightarrow> Some (Ready (Inl e), w1, ks)
      | Some (Inr (c, s), w1) \<Rightarrow> drive (poll_async start fut finish) (Suspended c s) w1 ks)"
  by (cases ks) (auto split: option.splits sum.splits)

text \<open>The operation from a state of the future.\<close>

fun run_state ::
    "('i \<Rightarrow> ('k, 'c \<times> 's) io) \<Rightarrow> ('c \<Rightarrow> 's \<Rightarrow> ('k, 'a) io) \<Rightarrow> ('c \<Rightarrow> 'a io_result \<Rightarrow> ('k, 'b) io) \<Rightarrow>
     ('i, 'c, 's) async_state \<Rightarrow> ('k, 'b) io" where
  "run_state start op finish (Unresumed i) = run_async start op finish i"
| "run_state start op finish (Suspended c s) =
     (\<lambda>w. case op c s w of None \<Rightarrow> None | Some (r, w1) \<Rightarrow> finish c r w1)"

lemma poll_async_future:
  assumes start: "\<And>i. lifts (start i) (start' i)"
    and fut: "\<And>c. async_future (fut c) (op c)"
    and finish: "\<And>c r. lifts (finish c r) (finish' c r)"
  shows "async_future (poll_async start fut finish) (run_state start' op finish')"
proof -
  let ?poll = "poll_async start fut finish" and ?run = "run_state start' op finish'"
  have susp: "(\<exists>w' ks'. drive ?poll (Suspended c s) w ks = Some (Ready r, w', ks') \<and> x = strip w' ks') \<longleftrightarrow>
      ?run (Suspended c s) (strip w ks) = Some (r, x) \<and> list_all answered (trace x)" for c s w ks r x
  proof
    assume "\<exists>w' ks'. drive ?poll (Suspended c s) w ks = Some (Ready r, w', ks') \<and> x = strip w' ks'"
    then obtain r1 w1 w' ks' where "drive (fut c) s w ks = Some (Ready r1, w1, ks')"
      "finish c r1 w1 = Some (r, w')" "x = strip w' ks'"
      by (auto simp: drive_suspended split: option.splits poll.splits)
    then show "?run (Suspended c s) (strip w ks) = Some (r, x) \<and> list_all answered (trace x)"
      using async_future.completed_run[OF fut] liftsD(2)[OF finish]
      by (auto simp: strip_def list_all_iff)
  next
    assume a: "?run (Suspended c s) (strip w ks) = Some (r, x) \<and> list_all answered (trace x)"
    then obtain r1 x1 where 1: "op c s (strip w ks) = Some (r1, x1)" "finish' c r1 x1 = Some (r, x)"
      by (auto split: option.splits)
    then have "list_all answered (trace x1)"
      using a liftsD(4)[OF finish] unfolding extends_def by (metis list_all_append)
    then obtain w1 ks1 where 2: "drive (fut c) s w ks = Some (Ready r1, w1, ks1)" "x1 = strip w1 ks1"
      using async_future.run_completes[OF fut 1(1)] by blast
    then obtain w' where "finish c r1 w1 = Some (r, w')" "x = strip w' ks1"
      using lifts_SomeE[OF finish] 1(2) by metis
    with 2 show "\<exists>w' ks'. drive ?poll (Suspended c s) w ks = Some (Ready r, w', ks') \<and> x = strip w' ks'"
      by (simp add: drive_suspended)
  qed
  have "(\<exists>w' ks'. drive ?poll (Unresumed i) w ks = Some (Ready r, w', ks') \<and> x = strip w' ks') \<longleftrightarrow>
      ?run (Unresumed i) (strip w ks) = Some (r, x) \<and> list_all answered (trace x)" for i w ks r x
  proof (cases "start i w")
    case None
    then show ?thesis
      using liftsD(1)[OF start] by (simp add: drive_unresumed run_async_def io_bind_def)
  next
    case (Some y)
    obtain q w1 where y: "y = (q, w1)"
      by fastforce
    have st: "start' i (strip w ks) = Some (q, strip w1 ks)"
      using liftsD(2)[OF start] Some y by simp
    show ?thesis
    proof (cases q)
      case (Inl e)
      then show ?thesis
        using Some y st
        by (auto simp: drive_unresumed run_async_def io_bind_def strip_def list_all_iff)
    next
      case (Inr z)
      then show ?thesis
        using Some y st
        by (cases z) (simp add: drive_unresumed run_async_def io_bind_def susp[simplified])
    qed
  qed
  note unres = this
  show ?thesis
  proof
    show "(\<exists>w' ks'. drive ?poll s w ks = Some (Ready r, w', ks') \<and> x = strip w' ks') \<longleftrightarrow>
        ?run s (strip w ks) = Some (r, x) \<and> list_all answered (trace x)" for s w ks r x
      by (cases s) (simp_all only: susp unres)
  qed
qed

text \<open>The sequential operations, cut at their suspension.\<close>

lemma bind_result:
  "io_bind m f w = (case m w of None \<Rightarrow> None | Some (r, w1) \<Rightarrow> io_bind (io_lift r) f w1)"
  by (auto simp: io_bind_def io_lift_def split: option.splits sum.splits)

lemma dropping_result:
  "dropping E d (io_bind m f) w =
     (case m w of None \<Rightarrow> None | Some (r, w1) \<Rightarrow> dropping E d (io_bind (io_lift r) f) w1)"
  by (auto simp: dropping_def bind_result[of m] split: option.splits)

lemma established_result:
  "dropping E d (io_bind (established E t io) f) =
     (\<lambda>w. case established_loop E t io (replicate 512 0) w of
        None \<Rightarrow> None | Some (r, w1) \<Rightarrow> dropping E d (io_bind (io_lift r) f) w1)"
  by (simp add: fun_eq_iff dropping_result established_def)

lemmas async_unfold = run_async_def connectx_finish_def io_bind_assoc io_bind_lift prod.case
  dropping_bind[where m = "imp_connectx E t s addrs" for E t s addrs] dropping_return established_result

lemma connectx_run_async:
  "StreamBuilder_connectx E t b addrs =
     run_async (connectx_start E t) (\<lambda>(io, _). established_loop E t io) (connectx_finish E t) (b, addrs)"
  unfolding StreamBuilder_connectx_def connectx_start_def async_unfold ..

lemma from_socket_run_async:
  "SctpStream_connectx_from_socket E t s addrs =
     run_async (from_socket_start E t) (\<lambda>(io, _). established_loop E t io) (connectx_finish E t) (s, addrs)"
  unfolding SctpStream_connectx_from_socket_def from_socket_start_def async_unfold
  by (simp only: if_True io_bind_lift)

lemma connect_run_async:
  "SctpStream_connect E t addr =
     run_async (\<lambda>addr. io_bind (SctpStream_builder E t (addr_family addr))
         (\<lambda>b. connectx_start E t (b, [addr])))
       (\<lambda>(io, _). established_loop E t io) (connectx_finish E t) addr"
  by (simp add: SctpStream_connect_def connectx_run_async run_async_def io_bind_assoc)

lemma accept_run_async:
  "SctpListener_accept E t l =
     run_async (\<lambda>l. io_return (l, ())) (\<lambda>l. read_op E t (listener_io l) (\<lambda>_ s. accept_nonblocking E t s) unchanged)
       (\<lambda>_. accept_finish E) l"
  unfolding SctpListener_accept_def run_async_def accept_finish_def io_bind_lift prod.case
    fun_eq_iff bind_result[of "read_op E t (listener_io l) (\<lambda>_ s. accept_nonblocking E t s) unchanged ()"] by simp

lemma lifts_starts [lift_intros]:
  "lifts (connectx_start E t i) (connectx_start (awaited E) t i)"
  "lifts (from_socket_start E t j) (from_socket_start (awaited E) t j)"
  "lifts (SctpStream_builder E t family) (SctpStream_builder (awaited E) t family)"
  unfolding connectx_start_def from_socket_start_def SctpSocket_subscribe_event_def
    SctpStream_builder_def SctpSocket_new_def
  by (intro lift_intros)+

lemma lifts_finishes [lift_intros]:
  "lifts (connectx_finish E t c r) (connectx_finish (awaited E) t c r)"
  "lifts (accept_finish E q) (accept_finish (awaited E) q)"
  unfolding connectx_finish_def accept_finish_def SctpStream_from_nonblocking_imp_def
  by (cases c, simp only: prod.case, intro lift_intros) (intro lift_intros)

interpretation connectx_future: async_future "poll_connectx E t"
  "run_state (connectx_start (awaited E) t) (\<lambda>(io, _). established_loop (awaited E) t io)
     (connectx_finish (awaited E) t)" for E t
  unfolding poll_connectx_def
  by (rule poll_async_future) (auto intro: lift_intros established_future.async_future_axioms)

interpretation from_socket_future: async_future "poll_connectx_from_socket E t"
  "run_state (from_socket_start (awaited E) t) (\<lambda>(io, _). established_loop (awaited E) t io)
     (connectx_finish (awaited E) t)" for E t
  unfolding poll_connectx_from_socket_def
  by (rule poll_async_future) (auto intro: lift_intros established_future.async_future_axioms)

interpretation connect_future: async_future "poll_connect E t"
  "run_state (\<lambda>addr. io_bind (SctpStream_builder (awaited E) t (addr_family addr))
       (\<lambda>b. connectx_start (awaited E) t (b, [addr])))
     (\<lambda>(io, _). established_loop (awaited E) t io) (connectx_finish (awaited E) t)" for E t
  unfolding poll_connect_def
  by (rule poll_async_future) (auto intro: lift_intros established_future.async_future_axioms)

interpretation accept_future: async_future "poll_accept E t"
  "run_state (\<lambda>l. io_return (l, ()))
     (\<lambda>l. read_op (awaited E) t (listener_io l) (\<lambda>_ s. accept_nonblocking (awaited E) t s) unchanged)
     (\<lambda>_. accept_finish (awaited E))" for E t
  unfolding poll_accept_def
  by (rule poll_async_future) (auto intro!: lift_intros read_op_future simp: unchanged_def)

section \<open>Properties\<close>

interpretation stream_send_future: async_future "poll_stream_send_msg E t st buf info"
  "\<lambda>_ :: unit. SctpStream_send_msg (awaited E) t st buf info" for E t st buf info
proof -
  have "(\<lambda>_ :: unit. SctpStream_send_msg (awaited E) t st buf info) = write_op (awaited E) t (stream_io st)
      (\<lambda>_ s. imp_send_msg (awaited E) t s buf None info) unchanged"
    by (simp add: fun_eq_iff SctpStream_send_msg_def)
  then show "async_future (poll_stream_send_msg E t st buf info) (\<lambda>_ :: unit. SctpStream_send_msg (awaited E) t st buf info)"
    unfolding poll_stream_send_msg_def by (auto intro!: write_op_future lifts_send_msg simp: unchanged_def)
qed

interpretation stream_recv_future: async_future "poll_stream_recv_msg E t st" "SctpStream_recv_msg (awaited E) t st" for E t st
proof -
  show "async_future (poll_stream_recv_msg E t st) (SctpStream_recv_msg (awaited E) t st)"
    unfolding poll_stream_recv_msg_def fun_eq_iff[THEN iffD2, OF allI, OF SctpStream_recv_msg_def]
    by (rule read_op_future) (auto intro!: lift_intros simp: buf_after_awaited split: prod.splits)
qed

interpretation endpoint_send_future: async_future "poll_endpoint_send_msg E t ep buf info"
  "\<lambda>_ :: unit. SctpEndpoint_send_msg (awaited E) t ep buf info" for E t ep buf info
proof -
  have "(\<lambda>_ :: unit. SctpEndpoint_send_msg (awaited E) t ep buf info) = write_op (awaited E) t (endpoint_io ep)
      (\<lambda>_ s. imp_send_msg (awaited E) t s buf None info) unchanged"
    by (simp add: fun_eq_iff SctpEndpoint_send_msg_def)
  then show "async_future (poll_endpoint_send_msg E t ep buf info) (\<lambda>_ :: unit. SctpEndpoint_send_msg (awaited E) t ep buf info)"
    unfolding poll_endpoint_send_msg_def by (auto intro!: write_op_future lifts_send_msg simp: unchanged_def)
qed

interpretation endpoint_send_to_future: async_future "poll_endpoint_send_msg_to E t ep buf addr info"
  "\<lambda>_ :: unit. SctpEndpoint_send_msg_to (awaited E) t ep buf addr info" for E t ep buf addr info
proof -
  have "(\<lambda>_ :: unit. SctpEndpoint_send_msg_to (awaited E) t ep buf addr info) = write_op (awaited E) t (endpoint_io ep)
      (\<lambda>_ s. imp_send_msg (awaited E) t s buf (Some addr) info) unchanged"
    by (simp add: fun_eq_iff SctpEndpoint_send_msg_to_def)
  then show "async_future (poll_endpoint_send_msg_to E t ep buf addr info) (\<lambda>_ :: unit. SctpEndpoint_send_msg_to (awaited E) t ep buf addr info)"
    unfolding poll_endpoint_send_msg_to_def by (auto intro!: write_op_future lifts_send_msg simp: unchanged_def)
qed

interpretation endpoint_recv_future: async_future "poll_endpoint_recv_msg E t ep" "SctpEndpoint_recv_msg (awaited E) t ep" for E t ep
proof -
  show "async_future (poll_endpoint_recv_msg E t ep) (SctpEndpoint_recv_msg (awaited E) t ep)"
    unfolding poll_endpoint_recv_msg_def fun_eq_iff[THEN iffD2, OF allI, OF SctpEndpoint_recv_msg_def]
    by (rule read_op_future) (auto intro!: lift_intros simp: buf_after_awaited split: prod.splits)
qed

interpretation endpoint_recv_from_future: async_future "poll_endpoint_recv_msg_from E t ep" "SctpEndpoint_recv_msg_from (awaited E) t ep" for E t ep
proof -
  show "async_future (poll_endpoint_recv_msg_from E t ep) (SctpEndpoint_recv_msg_from (awaited E) t ep)"
    unfolding poll_endpoint_recv_msg_from_def fun_eq_iff[THEN iffD2, OF allI, OF SctpEndpoint_recv_msg_from_def]
    by (rule read_op_future) (auto intro!: lift_intros simp: buf_after_awaited split: prod.splits)
qed

text \<open>
  Polling a future to completion is the operation. The futures of connect, accept, receive
  and send, of streams and endpoints, complete with a result if and only if the sequential operation returns it in the
  environment that answers each wait only when it is ready, with every wait answered in time;
  they make the same calls but for the polls that were not ready. So a suspension changes
  nothing, and what holds of the operations for every environment holds of the futures, however
  they are interleaved with the rest of the system.
\<close>

theorem futures_complete_as_operations:
  "((\<exists>w' ks'. drive (poll_connectx E t) (Unresumed (b, addrs)) w ks = Some (Ready r, w', ks') \<and> x = strip w' ks') \<longleftrightarrow>
      StreamBuilder_connectx (awaited E) t b addrs (strip w ks) = Some (r, x) \<and> list_all answered (trace x)) \<and>
   ((\<exists>w' ks'. drive (poll_connect E t) (Unresumed addr) w ks = Some (Ready r, w', ks') \<and> x = strip w' ks') \<longleftrightarrow>
      SctpStream_connect (awaited E) t addr (strip w ks) = Some (r, x) \<and> list_all answered (trace x)) \<and>
   ((\<exists>w' ks'. drive (poll_connectx_from_socket E t) (Unresumed (s, addrs)) w ks = Some (Ready r, w', ks') \<and> x = strip w' ks') \<longleftrightarrow>
      SctpStream_connectx_from_socket (awaited E) t s addrs (strip w ks) = Some (r, x) \<and> list_all answered (trace x)) \<and>
   ((\<exists>w' ks'. drive (poll_accept E t) (Unresumed l) w ks = Some (Ready q, w', ks') \<and> x = strip w' ks') \<longleftrightarrow>
      SctpListener_accept (awaited E) t l (strip w ks) = Some (q, x) \<and> list_all answered (trace x)) \<and>
   ((\<exists>w' ks'. drive (poll_stream_recv_msg E t st) buf w ks = Some (Ready m, w', ks') \<and> x = strip w' ks') \<longleftrightarrow>
      SctpStream_recv_msg (awaited E) t st buf (strip w ks) = Some (m, x) \<and> list_all answered (trace x)) \<and>
   ((\<exists>w' ks'. drive (poll_stream_send_msg E t st buf info) () w ks = Some (Ready n, w', ks') \<and> x = strip w' ks') \<longleftrightarrow>
      SctpStream_send_msg (awaited E) t st buf info (strip w ks) = Some (n, x) \<and> list_all answered (trace x)) \<and>
   ((\<exists>w' ks'. drive (poll_endpoint_recv_msg E t ep) buf w ks = Some (Ready m, w', ks') \<and> x = strip w' ks') \<longleftrightarrow>
      SctpEndpoint_recv_msg (awaited E) t ep buf (strip w ks) = Some (m, x) \<and> list_all answered (trace x)) \<and>
   ((\<exists>w' ks'. drive (poll_endpoint_recv_msg_from E t ep) buf w ks = Some (Ready f, w', ks') \<and> x = strip w' ks') \<longleftrightarrow>
      SctpEndpoint_recv_msg_from (awaited E) t ep buf (strip w ks) = Some (f, x) \<and> list_all answered (trace x)) \<and>
   ((\<exists>w' ks'. drive (poll_endpoint_send_msg E t ep buf info) () w ks = Some (Ready n, w', ks') \<and> x = strip w' ks') \<longleftrightarrow>
      SctpEndpoint_send_msg (awaited E) t ep buf info (strip w ks) = Some (n, x) \<and> list_all answered (trace x)) \<and>
   ((\<exists>w' ks'. drive (poll_endpoint_send_msg_to E t ep buf addr info) () w ks = Some (Ready n, w', ks') \<and> x = strip w' ks') \<longleftrightarrow>
      SctpEndpoint_send_msg_to (awaited E) t ep buf addr info (strip w ks) = Some (n, x) \<and> list_all answered (trace x))"
  unfolding connectx_run_async connect_run_async from_socket_run_async accept_run_async
    run_state.simps(1)[symmetric]
  by (intro conjI connectx_future.completes_iff connect_future.completes_iff
      from_socket_future.completes_iff accept_future.completes_iff stream_recv_future.completes_iff
      stream_send_future.completes_iff endpoint_recv_future.completes_iff
      endpoint_recv_from_future.completes_iff endpoint_send_future.completes_iff
      endpoint_send_to_future.completes_iff)

text \<open>
  C21: the wait for an association completes. If each wait becomes ready within the wake-ups and
  the kernel delivers, after any number of spurious wake-ups and of notifications that do not
  decide the setup, one item that does (the association is up, is lost or cannot be started, the
  socket is closed, user data arrives, or the receive fails), then the executor completes the future
  with the outcome the setup machine has for that item; further wake-ups are not needed and
  change nothing. In particular a connect does not hang on an association that is lost.
\<close>

theorem connect_wait_completes:
  assumes "(setup_step (awaited E) t io)\<^sup>*\<^sup>* (replicate 512 0, strip w ks) c"
    and "setup_end (awaited E) t io c r x" and "list_all answered (trace x)"
  shows "\<exists>w' ks'. x = strip w' ks' \<and>
    (\<forall>js. drive (poll_established E t io) (replicate 512 0) w (ks @ js) = Some (Ready r, w', ks' @ js))"
proof -
  have "established_loop (awaited E) t io (replicate 512 0) (strip w ks) = Some (r, x)"
    using established_complete[OF assms(1,2)] by simp
  then obtain w' ks' where "drive (poll_established E t io) (replicate 512 0) w ks = Some (Ready r, w', ks')"
    and "x = strip w' ks'"
    using assms(3) by (rule established_future.run_completes)
  then show ?thesis
    using established_future.drive_more by blast
qed

theorem connect_wait_completes_witness:
  "let t = linux_x86_64; io = Io (imp_Socket 3);
       bs = event_bytes t 0 20 (K_assoc_change SCTP_COMM_UP 0 5 5 7 []);
       up = sr_ok\<lparr>sr_ret := int (length bs), sr_out := bs, sr_msg_flags := MSG_NOTIFICATION OR MSG_EOR\<rparr>;
       w = \<lparr>kst = [sr_ok\<lparr>sr_ret := 1\<rparr>], trace = []\<rparr>
   in \<exists>w'. drive (poll_established scripted t io) (replicate 512 0) w [[sr_ok, up], []] = Some (Ready (Ok ()), w', [[]])"
proof -
  let ?t = linux_x86_64 and ?io = "Io (imp_Socket 3)" and ?buf = "replicate 512 (0 :: byte)"
  define bs where "bs = event_bytes ?t 0 20 (K_assoc_change SCTP_COMM_UP 0 5 5 7 [])"
  define up where "up = sr_ok\<lparr>sr_ret := int (length bs), sr_out := bs,
    sr_msg_flags := MSG_NOTIFICATION OR MSG_EOR\<rparr>"
  define w :: "sysret list world" where "w = \<lparr>kst = [sr_ok\<lparr>sr_ret := 1\<rparr>], trace = []\<rparr>"
  define x1 :: "(sysret list \<times> sysret list list) world" where
    "x1 = \<lparr>kst = ([up], []), trace = [(C_reactor_readable 3, sr_ok)]\<rparr>"
  have len: "length bs = 20"
    by (simp add: bs_def event_bytes_def)
  have 1: "call_cvt (awaited scripted) (C_reactor_readable (raw (sock ?io))) (strip w [[sr_ok, up]]) = Some (Ok sr_ok, x1)"
    by (subst call_cvt_run[where r = sr_ok and w' = x1])
      (simp_all add: sys_call_def awaited_def strip_def w_def x1_def is_pending_def)
  let ?c = "recv_call (imp_Socket 3) ?buf False"
  have "sys_call (awaited scripted) ?c x1 = (up, \<lparr>kst = ([], []), trace = trace x1 @ [(?c, up)]\<rparr>)"
    by (simp add: sys_call_def awaited_def x1_def)
  moreover have "delivers ?t up (length ?buf) bs None []"
    by (simp add: delivers_def up_def len)
  ultimately have "\<exists>ac b. imp_recv_msg (awaited scripted) ?t (imp_Socket 3) ?buf False x1 =
      Some (Ok ((RecvNotification (N_AssocChange ac), None), b), \<lparr>kst = ([], []), trace = trace x1 @ [(?c, up)]\<rparr>) \<and>
      ac_state ac = CommUp"
    by (subst recv_msg_head)
      (auto simp: up_def MSG_NOTIFICATION_def MSG_EOR_def bs_def parse_event io_lift_run
        AssocChangeState_from_raw_def sys_consts)
  then obtain ac b x where x: "x = \<lparr>kst = ([], []), trace = trace x1 @ [(?c, up)]\<rparr>"
    and i: "imp_recv_msg (awaited scripted) ?t (imp_Socket 3) ?buf False x1 =
      Some (Ok ((RecvNotification (N_AssocChange ac), None), b), x)" "ac_state ac = CommUp"
    by blast
  have "decisive (awaited scripted) ?t C_reactor_readable ?io (setup_recv (awaited scripted) ?t)
      (?buf, strip w [[sr_ok, up]]) (Ok ((RecvNotification (N_AssocChange ac), None), b)) x"
    by (rule decided) (use 1 i in simp_all)
  then have "setup_end (awaited scripted) ?t ?io (?buf, strip w [[sr_ok, up]]) (Ok ()) x"
    using i(2) by (rule setup_up)
  moreover have "list_all answered (trace x)"
    by (simp add: x x1_def answered_def is_pending_def)
  ultimately obtain w' ks' where "x = strip w' ks'" and
    "\<And>js. drive (poll_established scripted ?t ?io) ?buf w ([[sr_ok, up]] @ js) = Some (Ready (Ok ()), w', ks' @ js)"
    using connect_wait_completes[OF rtranclp.rtrancl_refl] by blast
  then show ?thesis
    unfolding Let_def bs_def[symmetric] up_def[symmetric] w_def[symmetric]
    by (auto simp: x strip_def simp del: drive.simps intro!: exI[of _ w'])
qed

end
