(* ===== verification/Dropped_Futures.thy ===== *)
theory Dropped_Futures
  imports Net_Futures
begin

text \<open>
  What a future leaves behind when it is dropped, and what it has done when it completes: the
  messages the kernel accepted, the messages it handed over, the connections it accepted and
  the descriptors. \<open>drive\<close> stops at a pending future when its wake-ups run out, so each statement
  about a pending outcome is about a future dropped at an arbitrary suspension.
\<close>

section \<open>Accounts of the trace\<close>

text \<open>The messages the kernel took over: destination, data and control of each \<open>sendmsg\<close>.\<close>

fun sent :: "(call \<times> sysret) list \<Rightarrow> (fd \<times> byte list option \<times> byte list \<times> byte list) list" where
  "sent [] = []"
| "sent ((C_sendmsg d name iov ctl fl, r) # tr) =
     (if sr_ret r < 0 then sent tr else (d, name, iov, ctl) # sent tr)"
| "sent (x # tr) = sent tr"

text \<open>The answers with which it handed over a message or a part of one.\<close>

fun received :: "(call \<times> sysret) list \<Rightarrow> sysret list" where
  "received [] = []"
| "received ((C_recvmsg d n m c fl, r) # tr) = (if sr_ret r < 0 then received tr else r # received tr)"
| "received (x # tr) = received tr"

fun is_recvmsg :: "call \<Rightarrow> bool" where
  "is_recvmsg (C_recvmsg d n m c fl) = True"
| "is_recvmsg _ = False"

definition again :: "target \<Rightarrow> sysret \<Rightarrow> bool" where
  "again t r \<longleftrightarrow> sr_ret r < 0 \<and> sr_errno r = EAGAIN (libc t)"

definition partial_notification :: "sysret \<Rightarrow> bool" where
  "partial_notification r \<longleftrightarrow>
     \<not> sr_ret r < 0 \<and> sr_msg_flags r AND MSG_NOTIFICATION \<noteq> 0 \<and> sr_msg_flags r AND MSG_EOR = 0"

text \<open>
  The kernel keeps the rest of a partially delivered notification at the head of the receive
  queue, readable at once: no receive that follows such a part is told to try again.
\<close>

definition stalls :: "target \<Rightarrow> call \<times> sysret \<Rightarrow> call \<times> sysret \<Rightarrow> bool" where
  "stalls t x y \<longleftrightarrow>
     is_recvmsg (fst x) \<and> partial_notification (snd x) \<and> is_recvmsg (fst y) \<and> again t (snd y)"

fun fragments_ready :: "target \<Rightarrow> (call \<times> sysret) list \<Rightarrow> bool" where
  "fragments_ready t (x # y # tr) \<longleftrightarrow> \<not> stalls t x y \<and> fragments_ready t (y # tr)"
| "fragments_ready t _ \<longleftrightarrow> True"

text \<open>Setting an option does not wait, so it is never told to try again.\<close>

fun option_ready :: "target \<Rightarrow> call \<times> sysret \<Rightarrow> bool" where
  "option_ready t (C_setsockopt d l op v, r) \<longleftrightarrow> \<not> again t r"
| "option_ready t _ \<longleftrightarrow> True"

lemma sent_append [simp]: "sent (tr @ tr') = sent tr @ sent tr'"
  by (induction tr rule: sent.induct) auto

lemma received_append [simp]: "received (tr @ tr') = received tr @ received tr'"
  by (induction tr rule: received.induct) auto

lemma fragments_ready_append:
  "fragments_ready t (tr @ tr') \<Longrightarrow> fragments_ready t tr \<and> fragments_ready t tr'"
proof (induction tr)
  case (Cons x tr)
  then show ?case
    by (cases tr; cases tr') auto
qed simp

lemma fragments_ready_stall: "stalls t x y \<Longrightarrow> \<not> fragments_ready t (pre @ x # y # post)"
  using fragments_ready_append[of t pre "x # y # post"] by auto

lemma waits_cases: "waits c \<Longrightarrow> (\<exists>d. c = C_reactor_readable d) \<or> (\<exists>d. c = C_reactor_writable d)"
  by (cases c) auto

lemma waits_readiness: "waits (C_reactor_readable d)" "waits (C_reactor_writable d)"
  by simp_all

interpretation nothing_sent: trace_account "\<lambda>tr. sent tr = []"
  by unfold_locales (auto dest: waits_cases)

interpretation nothing_received: trace_account "\<lambda>tr. fragments_ready t tr \<longrightarrow> received tr = []" for t
  by unfold_locales (auto dest: waits_cases fragments_ready_append)

interpretation nothing_accepted: trace_account "\<lambda>tr. list_all (option_ready t) tr \<longrightarrow> opened t tr = {#}" for t
  by unfold_locales (auto dest: waits_cases)

section \<open>Attempts\<close>

fun blocks :: "target \<Rightarrow> exn \<Rightarrow> bool" where
  "blocks t (IoErr (Os e)) = (e = EAGAIN (libc t))"
| "blocks t (IoErr (Custom kind msg)) = (kind = WouldBlock)"
| "blocks t Panicked = False"

lemma would_block_iff: "would_block t r \<longleftrightarrow> (\<exists>e. r = Inl e \<and> blocks t e)"
proof (cases r)
  case (Inl e)
  then show ?thesis
    by (cases "(t, e)" rule: blocks.cases) auto
qed simp

lemma send_attempt:
  assumes "imp_send_msg E t s buf dest info w = Some (r, w')"
  shows "\<exists>v. trace w' = trace w @ [(C_sendmsg (raw s) (map_option (sockaddr_bytes t) dest) buf
      (cmsg_bytes t (IPPROTO_SCTP, SCTP_CMSG_SNDINFO, sndinfo_bytes t info))
      (MSG_NOSIGNAL (libc t)), v)] \<and> r = cvt_size v"
  using assms unfolding send_msg_run by (auto split: prod.splits dest: sys_call_trace)

text \<open>A reassembly that would block stopped after a part of the notification.\<close>

definition stopped_early :: "target \<Rightarrow> (call \<times> sysret) list \<Rightarrow> bool" where
  "stopped_early t tr \<longleftrightarrow>
     (\<exists>parts c v. tr = parts @ [(c, v)] \<and> is_recvmsg c \<and> again t v \<and>
        (\<forall>x \<in> set parts. is_recvmsg (fst x) \<and> partial_notification (snd x)))"

lemma stopped_early_Cons:
  assumes "stopped_early t tr" and "is_recvmsg c" and "partial_notification v"
  shows "stopped_early t ((c, v) # tr)"
proof -
  obtain parts c' v' where "tr = parts @ [(c', v')]" "is_recvmsg c'" "again t v'"
    "\<forall>x \<in> set parts. is_recvmsg (fst x) \<and> partial_notification (snd x)"
    using assms(1) unfolding stopped_early_def by blast
  then show ?thesis
    using assms(2,3) unfolding stopped_early_def
    by (intro exI[of _ "(c, v) # parts"] exI[of _ c'] exI[of _ v']) simp
qed

lemma stopped_early_stalls:
  assumes "stopped_early t tr" and "is_recvmsg c" and "partial_notification v"
  shows "\<not> fragments_ready t ((c, v) # tr)"
proof -
  obtain parts c' v' where tr: "tr = parts @ [(c', v')]" "is_recvmsg c'" "again t v'"
    "\<forall>x \<in> set parts. is_recvmsg (fst x) \<and> partial_notification (snd x)"
    using assms(1) unfolding stopped_early_def by blast
  let ?xs = "(c, v) # parts"
  have "stalls t (last ?xs) (c', v')"
    using tr assms(2,3) last_in_set[of ?xs] by (cases parts) (auto simp: stalls_def)
  then have "\<not> fragments_ready t (butlast ?xs @ last ?xs # (c', v') # [])"
    by (rule fragments_ready_stall)
  then show ?thesis
    using tr(1) append_butlast_last_id[of ?xs] by (metis append_Cons append_Nil append_assoc list.discI)
qed

lemma reassemble_would_block:
  assumes "reassemble_loop E s out over scratch w = Some y"
  shows "would_block t (fst y) \<longrightarrow> records (stopped_early t) w (snd y)"
proof (rule reassemble_loop.raw_induct[where P = "\<lambda>E s out over scratch w y.
    would_block t (fst y) \<longrightarrow> records (stopped_early t) w (snd y)", OF _ assms], goal_cases)
  case (1 loop E s out over scratch w y)
  let ?c = "C_recvmsg (raw s) (length scratch) 0 0 0"
  obtain r w1 where r: "sys_call E ?c w = (r, w1)"
    by fastforce
  note tr = sys_call_trace[OF r]
  show ?case
  proof (intro impI)
    assume wb: "would_block t (fst y)"
    show "records (stopped_early t) w (snd y)"
    proof (cases "sr_ret r < 0")
      case True
      then have "y = (Err (Os (sr_errno r)), w1)"
        using 1(2) r by (simp add: cvt_size_def)
      then show ?thesis
        using wb True tr by (auto simp: records_def stopped_early_def again_def)
    next
      case False
      then have n: "cvt_size r = Ok (nat (sr_ret r))"
        by (simp add: cvt_size_def)
      have part: "partial_notification r" and "\<exists>out over scratch. loop E s out over scratch w1 = Some y"
        using 1(2) wb r n False
        by (auto simp: partial_notification_def Let_def slice_to_def split: if_splits)
      then have "records (stopped_early t) w1 (snd y)"
        using 1(1) wb by blast
      then show ?thesis
        using part tr by (auto simp: records_def intro!: stopped_early_Cons)
    qed
  qed
qed

lemma parse_never_blocks: "parse t' buf = Inl e \<Longrightarrow> \<not> blocks t e"
proof (cases "4 \<le> length buf")
  case True
  then show "parse t' buf = Inl e \<Longrightarrow> ?thesis"
    using parse_body_outcome[OF True, of "rd16 t' buf 0" t' "rd16 t' buf 2"]
    by (auto simp: parse_header err_def split: if_splits)
next
  case False
  then show "parse t' buf = Inl e \<Longrightarrow> ?thesis"
    by (auto simp: parse_short err_def)
qed

lemma try_bind_eq_Inl:
  "try_bind m f = Inl e \<longleftrightarrow> m = Inl e \<or> (\<exists>x. m = Inr x \<and> f x = Inl e)"
  by (cases m) auto

lemma ok_or_Inl: "ok_or x e = Inl e' \<longleftrightarrow> x = None \<and> e' = IoErr e"
  by (cases x) auto

lemma slice_to_never_blocks: "slice_to buf n = Inl e \<Longrightarrow> \<not> blocks t e"
  by (auto simp: slice_to_def split: if_splits)

lemma recv_would_block:
  assumes "imp_recv_msg E t s buf want_from w = Some (r, w')" and "would_block t r"
  shows "records (\<lambda>tr. fragments_ready t tr \<longrightarrow> received tr = []) w w'"
proof -
  let ?c = "C_recvmsg (raw s) (length buf) (if want_from then 128 else 0) RCV_CMSG_SPACE 0"
  obtain v w1 where v: "sys_call E ?c w = (v, w1)"
    by fastforce
  note tr = sys_call_trace[OF v]
  show ?thesis
  proof (cases "sr_ret v < 0")
    case True
    then have "w' = w1"
      using assms(1) unfolding imp_recv_msg_def io_bind_do_call[OF v] cvt_size_def
      by (simp add: io_lift_run)
    then show ?thesis
      using tr True by (auto simp: records_def)
  next
    case False
    then have n: "cvt_size v = Ok (nat (sr_ret v))"
      by (simp add: cvt_size_def)
    obtain e where e: "r = Inl e" "blocks t e"
      using assms(2) by (auto simp: would_block_iff)
    have "\<exists>first. reassemble_notification E s first w1 = Some (Inl e, w') \<and> partial_notification v"
      using assms(1) False e(2)
      unfolding imp_recv_msg_def io_bind_do_call[OF v] n io_bind_lift Let_def e(1)
      by (auto simp: io_bind_Some_iff io_lift_def partial_notification_def try_bind_eq_Inl
          split: if_splits dest: slice_to_never_blocks[of _ _ _ t] parse_never_blocks[of _ _ _ t])
    then obtain first where re: "reassemble_notification E s first w1 = Some (Inl e, w')"
      and part: "partial_notification v"
      by blast
    have "records (stopped_early t) w1 w'"
      using reassemble_would_block[of E s first False "replicate 4096 0" w1 "(Inl e, w')" t] re assms(2) e
      unfolding reassemble_notification_def would_block_iff by auto
    then show ?thesis
      using tr part stopped_early_stalls[of t _ ?c v] by (auto simp: records_def)
  qed
qed

lemma accept_would_block:
  assumes "accept_nonblocking E t s w = Some (r, w')" and "would_block t r"
  shows "records (\<lambda>tr. list_all (option_ready t) tr \<longrightarrow> opened t tr = {#}) w w'"
proof -
  let ?a = "C_accept4 (raw s) 128 (SOCK_CLOEXEC (libc t) OR SOCK_NONBLOCK (libc t))"
  obtain v w1 where v: "sys_call E ?a w = (v, w1)"
    by fastforce
  note tr = sys_call_trace[OF v]
  note run = assms(1)[unfolded accept_nonblocking_def accept_with_flags_def, unfolded io_bind_call_cvt[OF v]]
  show ?thesis
  proof (cases "sr_ret v < 0")
    case True
    then show ?thesis
      using run tr by (auto simp: records_def)
  next
    case False
    define sk where "sk = imp_Socket (sr_ret v)"
    let ?set = "C_setsockopt (raw sk) SOL_SCTP SCTP_RECVRCVINFO (PBytes (to_ne_bytes t (1 :: i32)))"
    obtain u w2 where u: "sys_call E ?set w1 = (u, w2)"
      by fastforce
    obtain x w3 where x: "sys_call E (C_close (raw sk)) w2 = (x, w3)"
      by fastforce
    have en: "enable_rcvinfo E t sk w1 = Some (if sr_ret u < 0 then Err (Os (sr_errno u)) else Ok (), w2)"
      by (simp add: enable_rcvinfo_def imp_setsockopt_i32_def setsockopt_run u)
    have fd: "from_raw_fd (sr_ret v) = Ok sk"
      using False by (simp add: from_raw_fd_def sk_def)
    have "again t u"
    proof (rule ccontr)
      assume "\<not> again t u"
      then show False
        using run False assms(2) en u
        by (auto simp: fd dropping_def io_bind_def io_lift_def again_def would_block_iff
            sockaddr_result_def try_bind_eq_Inl ok_or_Inl split: if_splits prod.splits sum.splits
            dest: slice_to_never_blocks[of _ _ _ t])
    qed
    then have "w' = w3"
      using run False en x by (simp add: fd dropping_def io_bind_def io_lift_def again_def)
    then show ?thesis
      using tr sys_call_trace[OF u] sys_call_trace[OF x] \<open>again t u\<close> by (auto simp: records_def)
  qed
qed

section \<open>Outcomes of the data futures\<close>

text \<open>
  The future of a readiness loop either is pending, or was told by the reactor that the wait
  failed, or ended with an attempt that does not block.
\<close>

context trace_account
begin

lemma op_outcome:
  assumes d: "drive (poll_loop E t wait io f after op_next) s w ks = Some (out, w', ks')"
    and wait: "\<And>d. waits (wait d)"
    and wb: "\<And>s w r w'. f s w = Some (r, w') \<Longrightarrow> would_block t r \<Longrightarrow> records Q w w'"
  obtains (pending) s' where "out = Pending s'" "records Q w w'"
    | (failed) e where "out = Ready (Inl e)" "records Q w w'"
    | (ended) s1 r w1 where "out = Ready r" "records Q w w1" "f s1 w1 = Some (r, w')"
proof -
  have at: "records Q w w'" if "f s w = Some (r, w')" "would_block t r \<or> (\<exists>s'. op_next s r = Inl s')"
    for s w r w'
    using that wb by (auto simp: op_next_def)
  have "(\<exists>s'. out = Pending s' \<and> records Q w w') \<or>
    (\<exists>r s1 w1. out = Ready r \<and> records Q w w1 \<and>
      loop_end E t wait io f op_next (s1, w1) r w')"
    using d wait at by (rule drive_records)
  then show thesis
  proof (elim disjE exE conjE)
    show thesis if "out = Pending s'" "records Q w w'" for s'
      using that pending by simp
  next
    fix r s1 w1
    assume out: "out = Ready r" "records Q w w1" and "loop_end E t wait io f op_next (s1, w1) r w'"
    from this(3) show thesis
    proof cases
      case (wait_fails v)
      then show thesis
        using out failed records_trans records_call[OF _ Q_wait[OF wait]] by metis
    next
      case (finishes v w2 r0 w3 m)
      then have "f s1 w2 = Some (r, w')"
        by (auto simp: op_next_def io_lift_def)
      then show thesis
        using out finishes(1) ended records_trans records_call[OF _ Q_wait[OF wait]] by metis
    qed
  qed
qed

end

lemma send_account:
  assumes "drive (poll_write_op E t io (\<lambda>_ s. imp_send_msg E t s buf dest info) unchanged) () w ks = Some (out, w', ks')"
  shows "\<exists>tr. trace w' = trace w @ tr \<and>
    sent tr = (case out of
        Ready (Inr n) \<Rightarrow> [(raw (sock io), map_option (sockaddr_bytes t) dest, buf,
          cmsg_bytes t (IPPROTO_SCTP, SCTP_CMSG_SNDINFO, sndinfo_bytes t info))]
      | _ \<Rightarrow> [])"
proof -
  have wb: "records (\<lambda>tr. sent tr = []) w w'"
    if "imp_send_msg E t (sock io) buf dest info w = Some (r, w')" "would_block t r" for w r w'
    using send_attempt[OF that(1)] that(2)
    by (auto simp: records_def would_block_iff cvt_size_def split: if_splits)
  show ?thesis
    using assms[unfolded poll_write_op_def] waits_readiness(2) wb
  proof (rule nothing_sent.op_outcome)
    fix r w1
    assume "out = Ready r" "records (\<lambda>tr. sent tr = []) w w1"
      "imp_send_msg E t (sock io) buf dest info w1 = Some (r, w')"
    then show ?thesis
      using send_attempt[of E t "sock io" buf dest info w1 r w']
      by (fastforce simp: records_def cvt_size_def split: if_splits)
  qed (auto simp: records_def)
qed

lemma recv_end:
  assumes "imp_recv_msg E t s buf want_from w = Some (Ok ((msg, src), buf'), w')"
  shows "\<exists>v tr. trace w' = trace w @ (C_recvmsg (raw s) (length buf) (if want_from then 128 else 0)
      RCV_CMSG_SPACE 0, v) # tr \<and> \<not> sr_ret v < 0 \<and>
    (case msg of Data len info eor \<Rightarrow> tr = [] \<and> sr_ret v = int len | _ \<Rightarrow> True)"
proof -
  let ?c = "C_recvmsg (raw s) (length buf) (if want_from then 128 else 0) RCV_CMSG_SPACE 0"
  obtain v w1 where v: "sys_call E ?c w = (v, w1)"
    by fastforce
  note run = assms[unfolded imp_recv_msg_def io_bind_do_call[OF v]]
  have ok: "\<not> sr_ret v < 0"
    using run by (auto simp: cvt_size_def io_lift_run)
  then have n: "cvt_size v = Ok (nat (sr_ret v))"
    by (simp add: cvt_size_def)
  have ext: "\<exists>tr. trace w2 = trace w1 @ tr" if "reassemble_notification E s first w1 = Some (r, w2)" for first r w2
    using extends_owns[OF borrows_reassemble] that unfolding extends_def by blast
  show ?thesis
    using run ok sys_call_trace[OF v] unfolding n io_bind_lift Let_def
    by (auto simp: io_bind_Some_iff io_lift_def split: if_splits dest!: ext)
qed

text \<open>
  The account of a receive: a pending future has received nothing, one that returns data has
  made one receive, of the length it returns, and one that returns a notification at least one.
\<close>

definition recv_accounted ::
    "target \<Rightarrow> 'k world \<Rightarrow> 'k world \<Rightarrow> ('s, RecvMsg io_result) poll \<Rightarrow> bool" where
  "recv_accounted t w w' out \<longleftrightarrow>
     (\<exists>tr. trace w' = trace w @ tr \<and>
        (fragments_ready t tr \<longrightarrow>
           (case out of
              Pending _ \<Rightarrow> received tr = []
            | Ready (Inl e) \<Rightarrow> True
            | Ready (Inr (Data len info eor)) \<Rightarrow> \<exists>v. received tr = [v] \<and> sr_ret v = int len
            | Ready (Inr (RecvNotification n)) \<Rightarrow> received tr \<noteq> [])))"

lemma recv_accountedI:
  assumes "records (\<lambda>tr. fragments_ready t tr \<longrightarrow> received tr = []) w w1"
    and "imp_recv_msg E t s buf want_from w1 = Some (Ok ((msg, src), buf'), w')"
  shows "recv_accounted t w w' (Ready (Ok msg))"
proof -
  let ?c = "C_recvmsg (raw s) (length buf) (if want_from then 128 else 0) RCV_CMSG_SPACE 0"
  obtain tr where tr: "trace w1 = trace w @ tr" "fragments_ready t tr \<longrightarrow> received tr = []"
    using assms(1) by (auto simp: records_def)
  obtain v tr' where v: "trace w' = trace w1 @ (?c, v) # tr'" "\<not> sr_ret v < 0"
    "case msg of Data len info eor \<Rightarrow> tr' = [] \<and> sr_ret v = int len | _ \<Rightarrow> True"
    using recv_end[OF assms(2)] by blast
  show ?thesis
    unfolding recv_accounted_def
  proof (intro exI[of _ "tr @ (?c, v) # tr'"] conjI impI)
    show "trace w' = trace w @ tr @ (?c, v) # tr'"
      using tr v by simp
    assume "fragments_ready t (tr @ (?c, v) # tr')"
    then have "received tr = []"
      using tr(2) fragments_ready_append by blast
    then show "case Ready (Ok msg) of
          Pending _ \<Rightarrow> received (tr @ (?c, v) # tr') = []
        | Ready (Inl e) \<Rightarrow> True
        | Ready (Inr (Data len info eor)) \<Rightarrow> \<exists>va. received (tr @ (?c, v) # tr') = [va] \<and> sr_ret va = int len
        | Ready (Inr (RecvNotification n)) \<Rightarrow> received (tr @ (?c, v) # tr') \<noteq> []"
      using v by (cases msg) simp_all
  qed
qed

lemma recv_account:
  assumes "drive (poll_read_op E t io (\<lambda>buf s. io_bind (imp_recv_msg E t s buf want_from) (\<lambda>y. io_return (g y)))
      (buf_after E want_from)) buf w ks = Some (out, w', ks')"
    and g: "\<And>msg src buf. get (g ((msg, src), buf)) = msg"
  shows "recv_accounted t w w' (map_poll id (map_sum id get) out)"
proof -
  let ?f = "\<lambda>buf. io_bind (imp_recv_msg E t (sock io) buf want_from) (\<lambda>y. io_return (g y))"
  let ?Q = "\<lambda>tr. fragments_ready t tr \<longrightarrow> received tr = []"
  have wb: "records ?Q w w'" if "?f buf w = Some (r, w')" "would_block t r" for buf w r w'
    using that recv_would_block[of E t "sock io" buf want_from w _ w']
    by (auto simp: io_bind_Some_iff io_lift_def would_block_iff)
  show ?thesis
    using assms(1)[unfolded poll_read_op_def] waits_readiness(1) wb
  proof (rule nothing_received.op_outcome)
    fix b
    assume "out = Pending b" "records ?Q w w'"
    then show ?thesis
      by (auto simp: recv_accounted_def records_def)
  next
    fix e
    assume "out = Ready (Inl e)" "records ?Q w w'"
    then show ?thesis
      by (auto simp: recv_accounted_def records_def)
  next
    fix b r w1
    assume out: "out = Ready r" "records ?Q w w1" "?f b w1 = Some (r, w')"
    show ?thesis
    proof (cases r)
      case (Inl e)
      then have "extends (?f b)"
        using extends_bind extends_owns[OF borrows_recv_msg] extends_owns[OF borrows_lift] by metis
      then obtain tr where "trace w' = trace w1 @ tr"
        using out(3) unfolding extends_def by blast
      then show ?thesis
        using out(1,2) Inl by (auto simp: recv_accounted_def records_def)
    next
      case (Inr x)
      then obtain msg src b' where "imp_recv_msg E t (sock io) b want_from w1 = Some (Ok ((msg, src), b'), w')"
        "x = g ((msg, src), b')"
        using out(3) by (auto simp: io_bind_Some_iff io_lift_def)
      then show ?thesis
        using recv_accountedI[OF out(2)] out(1) Inr g by simp
    qed
  qed
qed

section \<open>Ownership\<close>

interpretation balance: trace_account "\<lambda>tr. opened t tr = closed tr" for t
  by unfold_locales (auto dest: waits_cases)

lemma balanced_records: "balanced t w w' \<longleftrightarrow> records (\<lambda>tr. opened t tr = closed tr) w w'"
  by (simp add: balanced_def records_def)

text \<open>
  The wait for an association records what its receives and the query for the pending error
  record.
\<close>

context trace_account
begin

lemma established_records:
  assumes d: "drive (poll_established E t io) s w ks = Some (out, w', ks')"
    and recv: "\<And>buf w r w'. imp_recv_msg E t (sock io) buf False w = Some (r, w') \<Longrightarrow> records Q w w'"
    and fail: "\<And>w r w'. setup_failure E t io w = Some (r, w') \<Longrightarrow> records Q w w'"
  shows "records Q w w'"
proof -
  let ?ending = "loop_end E t C_reactor_readable io (\<lambda>buf. setup_recv E t buf (sock io)) (setup_next E t io)"
  have ended: "records Q w1 w'" if "?ending (s1, w1) r w'" for s1 w1 r
    using that
  proof cases
    case (wait_fails v)
    then show ?thesis
      using records_call Q_wait waits_readiness(1) by blast
  next
    case (finishes v w2 r0 w3 m)
    have "records Q w3 w'"
      using finishes(4,5) fail records_refl
      by (auto simp: setup_next_def io_lift_run split: sum.splits prod.splits verdict.splits)
    moreover have "records Q w1 w2"
      using records_call[OF finishes(1)] Q_wait waits_readiness(1) by blast
    ultimately show ?thesis
      using recv[OF finishes(2)] records_trans by blast
  qed
  have "(\<exists>s'. out = Pending s' \<and> records Q w w') \<or>
      (\<exists>r s1 w1. out = Ready r \<and> records Q w w1 \<and> ?ending (s1, w1) r w')"
    using d[unfolded poll_established_def] waits_readiness(1)
    by (rule drive_records) (rule recv)
  then show ?thesis
    using ended records_trans by blast
qed

end

lemma established_drive_balanced:
  assumes "drive (poll_established E t io) s w ks = Some (out, w', ks')" and "levels_ok t"
  shows "balanced t' w w'"
  unfolding balanced_records
  using assms(1)
proof (rule balance.established_records)
  show "records (\<lambda>tr. opened t' tr = closed tr) w w'"
    if "imp_recv_msg E t (sock io) buf False w = Some (r, w')" for buf w r w'
    using borrows_recv_msg that unfolding borrows_balanced balanced_records by blast
  show "records (\<lambda>tr. opened t' tr = closed tr) w w'"
    if "setup_failure E t io w = Some (r, w')" for w r w'
    using borrows_setup_failure[OF assms(2)] that unfolding borrows_balanced balanced_records by blast
qed

abbreviation option_mset :: "fd option \<Rightarrow> fd multiset" where
  "option_mset x \<equiv> (case x of None \<Rightarrow> {#} | Some d \<Rightarrow> {#d#})"

text \<open>What is left when a future is given up: a pending one is dropped.\<close>

definition given_up ::
    "'k env \<Rightarrow> ('i \<Rightarrow> fd option) \<Rightarrow> ('i connect_state, SctpStream io_result) poll \<Rightarrow> 'k world \<Rightarrow> 'k world" where
  "given_up E arg out w = (case out of Pending s \<Rightarrow> drop_connect E arg s w | Ready _ \<Rightarrow> w)"

definition handed_on :: "('s, SctpStream io_result) poll \<Rightarrow> fd multiset" where
  "handed_on out = (case out of Ready (Inr st) \<Rightarrow> {#raw (sock (stream_io st))#} | _ \<Rightarrow> {#})"

lemma account_trans:
  fixes p q r :: "fd multiset"
  assumes "p + a = q + b" and "q + c = r + d"
  shows "p + (a + c) = r + (b + d)"
proof -
  have "p + (a + c) = q + b + c"
    using assms(1) by (simp only: add.assoc[symmetric])
  also have "\<dots> = r + (b + d)"
    using assms(2) by (metis add.assoc add.commute)
  finally show ?thesis .
qed

lemma arg_simps [simp]:
  "builder_arg (b, addrs) = Some (raw (inner (stb_sock b)))" "socket_arg (s, addrs) = Some (raw (inner s))"
  "no_arg addr = None"
  by (simp_all add: builder_arg_def socket_arg_def no_arg_def)

lemma owns_connectx_finish:
  "owns t {#raw (sock io)#} (\<lambda>st. {#raw (sock (stream_io st))#}) {#} (connectx_finish E t' (io, keep) r)"
  unfolding connectx_finish_def prod.case
  by (intro owns_dropping owns_bind_borrowed owns_return own_intros) simp_all

lemma suspended_connect_owned:
  assumes "levels_ok t"
    and "drive (poll_async start (\<lambda>(io, _). poll_established E t io) (connectx_finish E t))
      (Suspended (io, keep) s) w ks = Some (out, w', ks')"
  shows "\<exists>tr. trace (given_up E arg out w') = trace w @ tr \<and>
    {#raw (sock io)#} + opened t tr = handed_on out + closed tr"
proof -
  obtain out1 w1 ks1 where d: "drive (poll_established E t io) s w ks = Some (out1, w1, ks1)"
    using assms(2) by (auto simp: drive_suspended split: option.splits)
  obtain tr where tr: "trace w1 = trace w @ tr" "opened t tr = closed tr"
    using established_drive_balanced[OF d assms(1), of t] by (auto simp: balanced_def)
  show ?thesis
  proof (cases out1)
    case (Pending s')
    then have "out = Pending (Suspended (io, keep) s')" "w' = w1"
      using assms(2) d by (simp_all add: drive_suspended)
    moreover obtain v w2 where "sys_call E (C_close (raw (sock io))) w1 = (v, w2)"
      by fastforce
    ultimately show ?thesis
      using tr by (auto simp: given_up_def drop_connect_def handed_on_def dest!: sys_call_trace)
  next
    case (Ready r)
    then obtain r' where f: "connectx_finish E t (io, keep) r w1 = Some (r', w')" and out: "out = Ready r'"
      using assms(2) d by (auto simp: drive_suspended)
    obtain tr' where "trace w' = trace w1 @ tr'"
      "{#raw (sock io)#} + opened t tr' = (case r' of Inr st \<Rightarrow> {#raw (sock (stream_io st))#} | Inl _ \<Rightarrow> {#}) + closed tr'"
      using owns_connectx_finish f unfolding owns_def by blast
    then show ?thesis
      using tr out
      by (intro exI[of _ "tr @ tr'"]) (auto simp: given_up_def handed_on_def ac_simps split: sum.splits)
  qed
qed

lemma connect_owned:
  assumes "levels_ok t"
    and "owns t (option_mset (arg i)) (\<lambda>x. {#raw (sock (fst (fst x)))#}) {#} (start i)"
    and "drive (poll_async start (\<lambda>(io, _). poll_established E t io) (connectx_finish E t))
      (Unresumed i) w ks = Some (out, w', ks')"
  shows "\<exists>tr. trace (given_up E arg out w') = trace w @ tr \<and>
    option_mset (arg i) + opened t tr = handed_on out + closed tr"
proof -
  obtain r w1 where st: "start i w = Some (r, w1)"
    using assms(3) by (auto simp: drive_unresumed split: option.splits)
  then obtain tr where tr: "trace w1 = trace w @ tr" "option_mset (arg i) + opened t tr =
      (case r of Inr x \<Rightarrow> {#raw (sock (fst (fst x)))#} | Inl _ \<Rightarrow> {#}) + closed tr"
    using assms(2) unfolding owns_def by blast
  show ?thesis
  proof (cases r)
    case (Inl e)
    then show ?thesis
      using assms(3) st tr by (auto simp: drive_unresumed given_up_def handed_on_def)
  next
    case (Inr y)
    obtain io keep buf where y: "y = ((io, keep), buf)"
      by (metis surj_pair)
    have "drive (poll_async start (\<lambda>(io, _). poll_established E t io) (connectx_finish E t))
        (Suspended (io, keep) buf) w1 ks = Some (out, w', ks')"
      using assms(3) st Inr y by (simp add: drive_unresumed)
    from suspended_connect_owned[OF assms(1) this]
    obtain tr' where tr': "trace (given_up E arg out w') = trace w1 @ tr'"
      "{#raw (sock io)#} + opened t tr' = handed_on out + closed tr'"
      by blast
    have "option_mset (arg i) + opened t tr = {#raw (sock io)#} + closed tr"
      using tr(2) unfolding Inr y sum.case prod.case fst_conv .
    from account_trans[OF this tr'(2)] show ?thesis
      using tr(1) tr'(1) by (intro exI[of _ "tr @ tr'"]) (simp only: opened_simps closed_simps append_assoc simp_thms)
  qed
qed

lemma owns_connectx_start:
  assumes "levels_ok t"
  shows "owns t {#raw (inner (stb_sock b))#} (\<lambda>x. {#raw (sock (fst (fst x)))#}) {#}
    (connectx_start E t (b, addrs))"
  unfolding connectx_start_def prod.case SctpSocket_subscribe_event_def
  by (intro owns_bind[OF owns_dropping_borrowed] owns_bind[OF owns_register] owns_dropping
      owns_bind_borrowed owns_return own_intros assms) simp_all

lemma owns_from_socket_start:
  assumes "levels_ok t"
  shows "owns t {#raw (inner s)#} (\<lambda>x. {#raw (sock (fst (fst x)))#}) {#}
    (from_socket_start E t (s, addrs))"
  unfolding from_socket_start_def prod.case SctpSocket_subscribe_event_def
  by (intro owns_bind[OF owns_dropping_borrowed] owns_bind[OF owns_register] owns_dropping
      owns_bind_borrowed owns_return own_intros assms) simp_all

section \<open>Properties\<close>

lemma io_bind_return: "io_bind m (\<lambda>x. io_return x) = m"
  by (auto simp: fun_eq_iff io_bind_def io_lift_def split: option.splits sum.splits)

text \<open>
  C20: a send takes effect exactly once or not at all. However often the future is polled and
  whatever happens between the polls, a send that returns has handed its message to the kernel
  once, and a send that failed or was dropped while pending has not handed it over.
\<close>

theorem send_exactly_once:
  assumes "drive p () w ks = Some (out, w', ks')"
    and "p = poll_stream_send_msg E t st buf info \<and> io = stream_io st \<and> dest = None \<or>
      p = poll_endpoint_send_msg E t ep buf info \<and> io = endpoint_io ep \<and> dest = None \<or>
      p = poll_endpoint_send_msg_to E t ep buf addr info \<and> io = endpoint_io ep \<and> dest = Some addr"
  shows "\<exists>tr. trace w' = trace w @ tr \<and>
    sent tr = (case out of
        Ready (Inr n) \<Rightarrow> [(raw (sock io), map_option (sockaddr_bytes t) dest, buf,
          cmsg_bytes t (IPPROTO_SCTP, SCTP_CMSG_SNDINFO, sndinfo_bytes t info))]
      | _ \<Rightarrow> [])"
proof (rule send_account)
  show "drive (poll_write_op E t io (\<lambda>_ s. imp_send_msg E t s buf dest info) unchanged) () w ks = Some (out, w', ks')"
    using assms by (auto simp: poll_stream_send_msg_def poll_endpoint_send_msg_def
        poll_endpoint_send_msg_to_def)
qed

theorem send_exactly_once_witness:
  "let t = linux_x86_64; st = SctpStream (Io (imp_Socket 3)); info = \<lparr>si_sid = 1, si_ppid = Ppid 60, si_flags = SendFlags 0, si_context = 0, si_assoc_id = AssocId 0\<rparr>;
       p = poll_stream_send_msg scripted t st [1, 2] info;
       w = \<lparr>kst = [sr_ok\<lparr>sr_ret := 1\<rparr>], trace = []\<rparr>
   in (\<exists>w' tr. drive p () w [] = Some (Pending (), w', []) \<and> trace w' = tr \<and> sent tr = []) \<and>
      (\<exists>w' tr. drive p () w [[sr_ok, sr_ok\<lparr>sr_ret := 2\<rparr>]] = Some (Ready (Ok 2), w', []) \<and> trace w' = tr \<and>
         sent tr = [(3, None, [1, 2], cmsg_bytes t (IPPROTO_SCTP, SCTP_CMSG_SNDINFO, sndinfo_bytes t info))])"
proof -
  let ?t = linux_x86_64 and ?io = "Io (imp_Socket 3)" and ?info = "\<lparr>si_sid = 1, si_ppid = Ppid 60, si_flags = SendFlags 0, si_context = 0, si_assoc_id = AssocId 0\<rparr>"
  let ?p = "poll_stream_send_msg scripted ?t (SctpStream ?io) [1, 2] ?info"
  let ?pend = "sr_ok\<lparr>sr_ret := 1\<rparr>" and ?two = "sr_ok\<lparr>sr_ret := 2\<rparr>"
  let ?f = "\<lambda>_ :: unit. imp_send_msg scripted ?t (imp_Socket 3) [1, 2] None ?info"
  let ?w = "\<lparr>kst = [?pend], trace = []\<rparr> :: sysret list world"
  let ?w1 = "\<lparr>kst = [], trace = [(C_reactor_writable 3, ?pend)]\<rparr> :: sysret list world"
  have p: "?p = poll_loop scripted ?t C_reactor_writable ?io ?f (\<lambda>s. unchanged s (imp_Socket 3)) op_next"
    by (simp add: poll_stream_send_msg_def poll_write_op_def)
  have 1: "?p () ?w = Some (Pending (), ?w1)"
    unfolding p by (rule poll_loop_pending[where v = ?pend]) (simp_all add: is_pending_def)
  obtain w2 where "?f () \<lparr>kst = [?two], trace = trace ?w1 @ [(C_reactor_writable 3, sr_ok)]\<rparr> = Some (Ok 2, w2)"
    unfolding send_msg_run sys_call_scripted by (simp add: cvt_size_def)
  then have 2: "?p () (?w1\<lparr>kst := [sr_ok, ?two]\<rparr>) = Some (Ready (Ok 2), w2)"
    unfolding p by (intro poll_loop_done[where v = sr_ok]) (simp_all add: is_pending_def op_next_def)
  have a: "drive ?p () ?w [] = Some (Pending (), ?w1, [])"
    by (simp add: 1)
  have b: "drive ?p () ?w [[sr_ok, ?two]] = Some (Ready (Ok 2), w2, [])"
    using 2 by (simp add: 1)
  show ?thesis
    unfolding Let_def
    using send_exactly_once[OF a, of scripted ?t "SctpStream ?io" "[1, 2]" ?info ?io None] a
      send_exactly_once[OF b, of scripted ?t "SctpStream ?io" "[1, 2]" ?info ?io None] b
    by (simp del: drive.simps cmsg_bytes.simps)
qed

text \<open>
  C17: a receive that is dropped has received nothing, provided the kernel has the rest of a
  partially delivered notification ready (which the code relies on to reassemble it). A receive
  that returns data consumed exactly one message or part of one, of the length it reports.
\<close>

theorem receive_consumes_one:
  "(drive (poll_stream_recv_msg E t st) buf w ks = Some (out, w', ks') \<longrightarrow>
      recv_accounted t w w' (map_poll id (map_sum id fst) out)) \<and>
   (drive (poll_endpoint_recv_msg E t ep) buf w ks = Some (out, w', ks') \<longrightarrow>
      recv_accounted t w w' (map_poll id (map_sum id fst) out)) \<and>
   (drive (poll_endpoint_recv_msg_from E t ep) buf w ks = Some (out', w', ks') \<longrightarrow>
      recv_accounted t w w' (map_poll id (map_sum id (fst \<circ> fst)) out'))"
proof -
  have eq: "(\<lambda>((msg, _), buf). io_return (msg, buf)) =
      (\<lambda>y. io_return ((\<lambda>((msg, src), buf). (msg, buf)) y))"
    by (auto simp: fun_eq_iff)
  show ?thesis
    unfolding poll_stream_recv_msg_def poll_endpoint_recv_msg_def poll_endpoint_recv_msg_from_def eq
    using recv_account[of E t "stream_io st" False "\<lambda>((msg, src), buf). (msg, buf)" buf w ks out w' ks' fst]
      recv_account[of E t "endpoint_io ep" False "\<lambda>((msg, src), buf). (msg, buf)" buf w ks out w' ks' fst]
      recv_account[of E t "endpoint_io ep" True "\<lambda>y. y" buf w ks out' w' ks' "fst \<circ> fst"]
    by (simp add: io_bind_return)
qed

lemma poll_read_op_scripted [simp]:
  "poll_read_op scripted t (Io (imp_Socket d)) f after s \<lparr>kst = sr_ok\<lparr>sr_ret := 1\<rparr> # rs, trace = tr\<rparr> =
     Some (Pending s, \<lparr>kst = rs, trace = tr @ [(C_reactor_readable d, sr_ok\<lparr>sr_ret := 1\<rparr>)]\<rparr>)"
  unfolding poll_read_op_def
  by (rule poll_loop_pending[where v = "sr_ok\<lparr>sr_ret := 1\<rparr>"]) (simp_all add: is_pending_def)

theorem receive_consumes_one_witness:
  "let t = linux_x86_64; st = SctpStream (Io (imp_Socket 3)); ep = SctpEndpoint (Io (imp_Socket 4));
       w = \<lparr>kst = [sr_ok\<lparr>sr_ret := 1\<rparr>], trace = []\<rparr>;
       data = sr_ok\<lparr>sr_ret := 2, sr_out := [7, 8], sr_msg_flags := MSG_EOR\<rparr>
   in (\<exists>w'. drive (poll_stream_recv_msg scripted t st) [0, 0, 0] w [[sr_ok, data]] =
          Some (Ready (Ok (Data 2 None True, [7, 8, 0])), w', []) \<and>
        recv_accounted t w w' (Ready (Ok (Data 2 None True)) :: (byte list, RecvMsg io_result) poll)) \<and>
      (\<exists>w'. drive (poll_endpoint_recv_msg scripted t ep) [0] w [] = Some (Pending [0], w', []) \<and>
        recv_accounted t w w' (Pending [0 :: byte])) \<and>
      (\<exists>w'. drive (poll_endpoint_recv_msg_from scripted t ep) [0] w [] = Some (Pending [0], w', []) \<and>
        recv_accounted t w w' (Pending [0 :: byte]))"
proof -
  let ?t = linux_x86_64 and ?io = "Io (imp_Socket 3)" and ?ep = "SctpEndpoint (Io (imp_Socket 4))"
  let ?pend = "sr_ok\<lparr>sr_ret := 1\<rparr>"
  define data where "data = sr_ok\<lparr>sr_ret := 2, sr_out := [7, 8], sr_msg_flags := MSG_EOR\<rparr>"
  define w :: "sysret list world" where "w = \<lparr>kst = [?pend], trace = []\<rparr>"
  define w1 :: "fd \<Rightarrow> sysret list world" where
    "w1 = (\<lambda>d. \<lparr>kst = [], trace = [(C_reactor_readable d, ?pend)]\<rparr>)"
  define w2 where "w2 = \<lparr>kst = [data], trace = trace (w1 3) @ [(C_reactor_readable 3, sr_ok)]\<rparr>"
  have "delivers ?t data (length [0 :: byte, 0, 0]) [7, 8] None []"
    by (simp add: delivers_def data_def)
  note recv = recv_msg_head[OF sys_call_scripted this]
  have "\<exists>w3. imp_recv_msg scripted ?t (imp_Socket 3) [0, 0, 0] False w2 =
      Some (Ok ((Data 2 None True, None), [7, 8, 0]), w3)"
    unfolding w2_def recv
    by (simp add: data_def MSG_NOTIFICATION_def MSG_EOR_def overlay_def last_rcvinfo_def)
  then obtain w3 where "imp_recv_msg scripted ?t (imp_Socket 3) [0, 0, 0] False w2 =
      Some (Ok ((Data 2 None True, None), [7, 8, 0]), w3)"
    by blast
  then have 2: "poll_stream_recv_msg scripted ?t (SctpStream ?io) [0, 0, 0] ((w1 3)\<lparr>kst := [sr_ok, data]\<rparr>) =
      Some (Ready (Ok (Data 2 None True, [7, 8, 0])), w3)"
    unfolding poll_stream_recv_msg_def poll_read_op_def
    by (intro poll_loop_done[where v = sr_ok and ?w1.0 = w2])
      (simp_all add: is_pending_def op_next_def io_bind_def io_lift_def w1_def w2_def)
  have a: "drive (poll_stream_recv_msg scripted ?t (SctpStream ?io)) [0, 0, 0] w [[sr_ok, data]] =
      Some (Ready (Ok (Data 2 None True, [7, 8, 0])), w3, [])"
    using 2 by (simp add: poll_stream_recv_msg_def w_def w1_def)
  have b: "drive (poll_endpoint_recv_msg scripted ?t ?ep) [0] w [] = Some (Pending [0], w1 4, [])"
    "drive (poll_endpoint_recv_msg_from scripted ?t ?ep) [0] w [] = Some (Pending [0], w1 4, [])"
    by (simp_all add: poll_endpoint_recv_msg_def poll_endpoint_recv_msg_from_def w_def w1_def)
  show ?thesis
    unfolding Let_def data_def[symmetric] w_def[symmetric]
    using a b receive_consumes_one[of scripted ?t "SctpStream ?io" "[0, 0, 0]" w "[[sr_ok, data]]"]
      receive_consumes_one[of scripted ?t "SctpStream ?io" "[0]" w "[]" _ _ _ ?ep] by fastforce
qed

text \<open>
  C19: an accept that is dropped has accepted nothing that is lost: whatever it opened it has
  closed, and it opened nothing at all unless setting an option on a new connection was told to
  try again, which the kernel does not do.
\<close>

theorem dropped_accept_loses_nothing:
  assumes "drive (poll_accept E t) (Unresumed l) w ks = Some (Pending s, w', ks')"
  shows "\<exists>tr. trace w' = trace w @ tr \<and> opened t tr = closed tr \<and>
    (list_all (option_ready t) tr \<longrightarrow> opened t tr = {#})"
proof -
  let ?f = "accept_nonblocking E t (sock (listener_io l))"
  have d: "drive (poll_loop E t C_reactor_readable (listener_io l) (\<lambda>_. ?f)
      (\<lambda>s. unchanged s (sock (listener_io l))) op_next) () w ks = Some (Pending (), w', ks')"
    using assms unfolding poll_accept_def poll_read_op_def
    by (auto simp: drive_unresumed io_lift_def drive_suspended split: option.splits poll.splits prod.splits)
  have bal: "records (\<lambda>tr. opened t tr = closed tr) w w'" if "?f w = Some (r, w')" "would_block t r" for w r w'
    using accept_source.source_owns[of t E "sock (listener_io l)"] that
    unfolding accept_nonblocking_def owns_def by (fastforce simp: records_def would_block_iff)
  have "records (\<lambda>tr. opened t tr = closed tr) w w'"
    using d waits_readiness(1) bal by (rule balance.op_outcome) auto
  moreover have "records (\<lambda>tr. list_all (option_ready t) tr \<longrightarrow> opened t tr = {#}) w w'"
    using d waits_readiness(1) accept_would_block by (rule nothing_accepted.op_outcome) auto
  ultimately show ?thesis
    by (auto simp: records_def)
qed

theorem dropped_accept_loses_nothing_witness:
  "let t = linux_x86_64; l = SctpListener (Io (imp_Socket 5));
       w = \<lparr>kst = [sr_ok\<lparr>sr_ret := 1\<rparr>], trace = []\<rparr>
   in \<exists>w'. drive (poll_accept scripted t) (Unresumed l) w [] = Some (Pending (Suspended l ()), w', []) \<and>
      (\<exists>tr. trace w' = trace w @ tr \<and> opened t tr = closed tr \<and>
        (list_all (option_ready t) tr \<longrightarrow> opened t tr = {#}))"
proof -
  let ?l = "SctpListener (Io (imp_Socket 5))"
  let ?w = "\<lparr>kst = [sr_ok\<lparr>sr_ret := 1\<rparr>], trace = []\<rparr> :: sysret list world"
  have "\<exists>w'. drive (poll_accept scripted linux_x86_64) (Unresumed ?l) ?w [] =
      Some (Pending (Suspended ?l ()), w', [])"
    by (simp add: poll_accept_def poll_resume_def io_lift_def)
  then obtain w' where d: "drive (poll_accept scripted linux_x86_64) (Unresumed ?l) ?w [] =
      Some (Pending (Suspended ?l ()), w', [])"
    by (elim exE)
  show ?thesis
    unfolding Let_def by (rule exI, rule conjI[OF d]) (rule dropped_accept_loses_nothing[OF d])
qed

text \<open>A connect on a scripted kernel that registers, starts the association and has to wait.\<close>

definition example_builder :: StreamBuilder where
  "example_builder = \<lparr>stb_sock = SctpSocket (imp_Socket 3), assoc_change_subscribed = True\<rparr>"

definition example_answers :: "sysret list" where
  "example_answers = [sr_ok\<lparr>sr_ret := 0x800\<rparr>, sr_ok, sr_ok, sr_ok\<lparr>sr_ret := 1\<rparr>]"

lemma example_connect_pending:
  "\<exists>w'. poll_connectx scripted linux_x86_64 (Unresumed (example_builder, [V4 0x7f000001 80]))
      \<lparr>kst = example_answers, trace = tr0\<rparr> =
    Some (Pending (Suspended (Io (imp_Socket 3), True) (replicate 512 0)), w')"
proof -
  let ?t = linux_x86_64 and ?w = "\<lparr>kst = example_answers, trace = tr0\<rparr>"
  obtain packed where pk: "pack_addr_list ?t [V4 0x7f000001 80] = Ok packed"
    using pack_addr_list_ok by blast
  have "\<exists>tr. connectx_start scripted ?t (example_builder, [V4 0x7f000001 80]) ?w =
      Some (Ok ((Io (imp_Socket 3), True), replicate 512 0), \<lparr>kst = [sr_ok\<lparr>sr_ret := 1\<rparr>], trace = tr\<rparr>)"
    by (simp add: connectx_start_def register_def AsyncFd_new_def reactor_register_def no_runtime_def cvt_def imp_set_nonblocking_def
        imp_connectx_def pk io_bind_def dropping_def io_lift_def call_cvt_run[OF sys_call_scripted]
        do_call_def example_answers_def example_builder_def linux_x86_64_libc_def)
  then obtain tr where st: "connectx_start scripted ?t (example_builder, [V4 0x7f000001 80]) ?w =
      Some (Ok ((Io (imp_Socket 3), True), replicate 512 0), \<lparr>kst = [sr_ok\<lparr>sr_ret := 1\<rparr>], trace = tr\<rparr>)"
    by blast
  have "\<exists>w'. poll_established scripted ?t (Io (imp_Socket 3)) (replicate 512 0)
      \<lparr>kst = [sr_ok\<lparr>sr_ret := 1\<rparr>], trace = tr\<rparr> = Some (Pending (replicate 512 0), w')"
    unfolding poll_established_def
    by (rule exI, rule poll_loop_pending[where v = "sr_ok\<lparr>sr_ret := 1\<rparr>"]) (simp_all add: is_pending_def)
  then show ?thesis
    unfolding poll_connectx_def by (auto simp: st poll_resume_def)
qed

text \<open>
  C18: cancelling a connect leaves no descriptor behind. Whatever future of the three connects is
  given up, at whatever suspension, and whatever the rest of the system did in between: the
  descriptors it was given and opened are those it closed and, if it completed, the one of the
  stream it returned.
\<close>

theorem cancelled_connect_closes:
  assumes "levels_ok t"
  shows "(drive (poll_connectx E t) (Unresumed (b, addrs)) w ks = Some (out, w', ks') \<longrightarrow>
      (\<exists>tr. trace (given_up E builder_arg out w') = trace w @ tr \<and>
         {#raw (inner (stb_sock b))#} + opened t tr = handed_on out + closed tr)) \<and>
    (drive (poll_connectx_from_socket E t) (Unresumed (s, addrs)) w ks = Some (out1, w', ks') \<longrightarrow>
      (\<exists>tr. trace (given_up E socket_arg out1 w') = trace w @ tr \<and>
         {#raw (inner s)#} + opened t tr = handed_on out1 + closed tr)) \<and>
    (drive (poll_connect E t) (Unresumed addr) w ks = Some (out2, w', ks') \<longrightarrow>
      (\<exists>tr. trace (given_up E no_arg out2 w') = trace w @ tr \<and>
         opened t tr = handed_on out2 + closed tr))"
proof (intro conjI impI)
  assume "drive (poll_connectx E t) (Unresumed (b, addrs)) w ks = Some (out, w', ks')"
  from connect_owned[OF assms _ this[unfolded poll_connectx_def], of builder_arg]
  show "\<exists>tr. trace (given_up E builder_arg out w') = trace w @ tr \<and>
      {#raw (inner (stb_sock b))#} + opened t tr = handed_on out + closed tr"
    using owns_connectx_start[OF assms, of b E addrs] by simp
next
  assume "drive (poll_connectx_from_socket E t) (Unresumed (s, addrs)) w ks = Some (out1, w', ks')"
  from connect_owned[OF assms _ this[unfolded poll_connectx_from_socket_def], of socket_arg]
  show "\<exists>tr. trace (given_up E socket_arg out1 w') = trace w @ tr \<and>
      {#raw (inner s)#} + opened t tr = handed_on out1 + closed tr"
    using owns_from_socket_start[OF assms, of s E addrs] by simp
next
  assume "drive (poll_connect E t) (Unresumed addr) w ks = Some (out2, w', ks')"
  from connect_owned[OF assms _ this[unfolded poll_connect_def], of no_arg]
  show "\<exists>tr. trace (given_up E no_arg out2 w') = trace w @ tr \<and> opened t tr = handed_on out2 + closed tr"
    using owns_bind[OF stream_builder_source.source_owns[of t E "addr_family addr"]
        owns_connectx_start[OF assms, where E = E and addrs = "[addr]"]] by simp
qed

theorem cancelled_connect_closes_witness:
  "let t = linux_x86_64; w = \<lparr>kst = example_answers, trace = []\<rparr>
   in levels_ok t \<and>
     (\<exists>s w'. drive (poll_connectx scripted t) (Unresumed (example_builder, [V4 0x7f000001 80])) w [] =
        Some (Pending s, w', []) \<and>
      (\<exists>tr. trace (given_up scripted builder_arg (Pending s) w') = trace w @ tr \<and> {#3#} + opened t tr = closed tr))"
proof -
  define w :: "sysret list world" where "w = \<lparr>kst = example_answers, trace = []\<rparr>"
  obtain w' where "drive (poll_connectx scripted linux_x86_64)
      (Unresumed (example_builder, [V4 0x7f000001 80])) w [] =
      Some (Pending (Suspended (Io (imp_Socket 3), True) (replicate 512 0)), w', [])"
    using example_connect_pending[of "[]"] unfolding w_def[symmetric] by auto
  then show ?thesis
    unfolding Let_def w_def[symmetric]
    using cancelled_connect_closes[OF linux_levels_ok, of scripted example_builder "[V4 0x7f000001 80]" w "[]"]
    by (fastforce simp: handed_on_def example_builder_def simp del: drive.simps)
qed

end
