(* ===== verification/Call_Account.thy ===== *)
theory Call_Account
  imports Dropped_Futures
begin

text \<open>
  Accounts of the calls whole operations make. \<open>keeps Q m\<close> says that whatever \<open>m\<close> records of its
  calls satisfies \<open>Q\<close>, on success and on failure. The locale \<open>call_account\<close> is the contract of a
  predicate that can only be violated by sending or receiving a message, setting an option or
  registering with the reactor; the operations that do none of these keep every such predicate,
  and they are gone through once, here. \<open>register_account\<close> and \<open>recv_call_account\<close> extend it with
  predicates that registering and receiving keep as well.
\<close>

named_theorems keep_intros \<open>operations that keep an account of the calls\<close>

definition keeps :: "((call \<times> sysret) list \<Rightarrow> bool) \<Rightarrow> ('k, 'a) io \<Rightarrow> bool" where
  "keeps Q m \<longleftrightarrow> (\<forall>w r w'. m w = Some (r, w') \<longrightarrow> records Q w w')"

lemma keepsD: "keeps Q m \<Longrightarrow> m w = Some (r, w') \<Longrightarrow> records Q w w'"
  by (auto simp: keeps_def)

fun is_sendmsg :: "call \<Rightarrow> bool" where
  "is_sendmsg (C_sendmsg d name iov ctl fl) = True"
| "is_sendmsg _ = False"

fun is_setsockopt :: "call \<Rightarrow> bool" where
  "is_setsockopt (C_setsockopt d level opt val) = True"
| "is_setsockopt _ = False"

fun is_register :: "call \<Rightarrow> bool" where
  "is_register (C_reactor_register d) = True"
| "is_register _ = False"

abbreviation plain :: "call \<Rightarrow> bool" where
  "plain c \<equiv> \<not> is_sendmsg c \<and> \<not> is_setsockopt c \<and> \<not> is_recvmsg c \<and> \<not> is_register c"

text \<open>A single poll is a run of the executor with no wake-up.\<close>

lemma poll_drive: "p s w = Some (out, w') \<Longrightarrow> drive p s w [] = Some (out, w', [])"
  by (cases out) auto

locale call_account = trace_account Q for Q :: "(call \<times> sysret) list \<Rightarrow> bool" +
  assumes Q_plain: "plain c \<Longrightarrow> Q [(c, v)]"
begin

lemma keeps_lift [keep_intros]: "keeps Q (io_lift r)"
  by (auto simp: keeps_def io_lift_def records_refl)

lemma keeps_bind [keep_intros]:
  assumes "keeps Q m" and "\<And>x. keeps Q (f x)"
  shows "keeps Q (io_bind m f)"
  unfolding keeps_def
proof (intro allI impI)
  fix w r w'
  assume "io_bind m f w = Some (r, w')"
  then show "records Q w w'"
    using keepsD[OF assms(1)] keepsD[OF assms(2)] records_trans
    unfolding io_bind_Some_iff by blast
qed

lemma keeps_if [keep_intros]: "keeps Q a \<Longrightarrow> keeps Q b \<Longrightarrow> keeps Q (if c then a else b)"
  by simp

lemma keeps_call: "(\<And>v. Q [(c, v)]) \<Longrightarrow> keeps Q (do_call E c)"
  by (auto simp: keeps_def do_call_def intro: records_call split: prod.splits)

lemma keeps_cvt: "(\<And>v. Q [(c, v)]) \<Longrightarrow> keeps Q (call_cvt E c)"
  unfolding call_cvt_def by (intro keeps_bind keeps_call keeps_lift)

lemma keeps_plain [keep_intros]:
  "plain c \<Longrightarrow> keeps Q (do_call E c)" "plain c \<Longrightarrow> keeps Q (call_cvt E c)"
  by (simp_all add: keeps_call keeps_cvt Q_plain)

lemma keeps_dropping [keep_intros]:
  assumes "keeps Q m"
  shows "keeps Q (dropping E d m)"
  unfolding keeps_def
proof (intro allI impI)
  fix w r w'
  assume "dropping E d m w = Some (r, w')"
  then obtain r1 w1 where m: "m w = Some (r1, w1)"
    and "w' = w1 \<or> w' = snd (sys_call E (C_close d) w1)"
    by (auto simp: dropping_def split: option.splits sum.splits prod.splits)
  then have "records Q w1 w'"
    using records_call[OF _ Q_plain, of E "C_close d" w1] records_refl
    by (cases "sys_call E (C_close d) w1") auto
  then show "records Q w w'"
    using keepsD[OF assms m] records_trans by blast
qed

text \<open>Setting an option keeps the account if that one call does.\<close>

lemma keeps_setsockopt:
  "(\<And>v. Q [(C_setsockopt (raw s) level opt val, v)]) \<Longrightarrow> keeps Q (imp_setsockopt E s level opt val)"
  unfolding imp_setsockopt_def by (intro keeps_bind keeps_cvt keeps_lift)

lemma keeps_queries [keep_intros]:
  "keeps Q (imp_getsockopt_i32 E t s level opt)" "keeps Q (imp_set_nonblocking E t s nb)"
  "keeps Q (imp_connectx E t s addrs)" "keeps Q (imp_style E t s)" "keeps Q (is_listening E t s)"
  "keeps Q (imp_listen E s backlog)" "keeps Q (setup_failure E t io)" "keeps Q (imp_take_error E t s)"
  unfolding imp_getsockopt_i32_def imp_getsockopt_def imp_getsockopt_inout_def imp_set_nonblocking_def
    imp_connectx_def imp_style_def is_listening_def imp_listen_def setup_failure_def
    imp_take_error_def Let_def
  by (intro keeps_lift keeps_bind keeps_if keeps_plain keeps_dropping; simp)+

text \<open>Setting up and taking over sockets.\<close>

lemma keeps_setup:
  assumes "\<And>d level opt val v. Q [(C_setsockopt d level opt val, v)]"
  shows "keeps Q (imp_setsockopt E s level opt val)" "keeps Q (imp_subscribe_event E t s ev on)"
    "keeps Q (enable_rcvinfo E t s)" "keeps Q (accept_nonblocking E t s)"
    "keeps Q (SctpStream_builder E t family)"
  unfolding imp_setsockopt_def imp_subscribe_event_def imp_subscribe_event_for_def enable_rcvinfo_def
    imp_setsockopt_i32_def accept_nonblocking_def accept_with_flags_def SctpStream_builder_def
    SctpSocket_new_def imp_new_def Let_def case_prod_unfold
  by (intro keep_intros keeps_lift keeps_bind keeps_if keeps_plain keeps_dropping keeps_queries
      keeps_cvt; simp add: assms)+

text \<open>The parts of a connect, over the registration of its socket.\<close>

lemma keeps_connects:
  assumes "\<And>d level opt val v. Q [(C_setsockopt d level opt val, v)]"
    and register: "\<And>s. keeps Q (register E t s)"
  shows "keeps Q (connectx_start E t x)" "keeps Q (connectx_finish E t c r)"
    "keeps Q (from_socket_start E t y)"
    "keeps Q (io_bind (SctpStream_builder E t family) (\<lambda>b. connectx_start E t (b, addrs)))"
  unfolding connectx_start_def connectx_finish_def from_socket_start_def
    SctpSocket_subscribe_event_def case_prod_unfold
  by (intro keeps_lift keeps_bind keeps_if keeps_dropping keeps_queries register
      keeps_setup(2,5)[OF assms(1)])+

text \<open>Polls of the futures, over the operations they attempt.\<close>

lemma op_records:
  "poll_read_op E t io f after s w = Some (out, w') \<Longrightarrow> (\<And>s. keeps Q (f s (sock io))) \<Longrightarrow> records Q w w'"
  "poll_write_op E t io f after s w = Some (out, w') \<Longrightarrow> (\<And>s. keeps Q (f s (sock io))) \<Longrightarrow> records Q w w'"
proof -
  have poll: "records Q w w'"
    if "poll_loop E t wait io (\<lambda>s. f s (sock io)) after' op_next s w = Some (out, w')"
      and f: "\<And>s. keeps Q (f s (sock io))" and wait: "\<And>d. waits (wait d)" for wait after'
  proof -
    have "drive (poll_loop E t wait io (\<lambda>s. f s (sock io)) after' op_next) s w [] = Some (out, w', [])"
      using that(1) by (rule poll_drive)
    then show ?thesis
      using wait keepsD[OF f] by (rule op_outcome) (use keepsD[OF f] records_trans in blast)+
  qed
  show "poll_read_op E t io f after s w = Some (out, w') \<Longrightarrow> (\<And>s. keeps Q (f s (sock io))) \<Longrightarrow> records Q w w'"
    "poll_write_op E t io f after s w = Some (out, w') \<Longrightarrow> (\<And>s. keeps Q (f s (sock io))) \<Longrightarrow> records Q w w'"
    unfolding poll_read_op_def poll_write_op_def by (erule poll, assumption, rule waits_readiness)+
qed

lemma poll_async_records:
  assumes "poll_async start fut finish s w = Some (out, w')"
    and start: "\<And>i. keeps Q (start i)" and finish: "\<And>c r. keeps Q (finish c r)"
    and fut: "\<And>c s w out w'. fut c s w = Some (out, w') \<Longrightarrow> records Q w w'"
  shows "records Q w w'"
proof -
  have resume: "records Q w w'" if "poll_resume fut finish c s w = Some (out, w')" for c s w
    using that fut keepsD[OF finish] records_trans
    by (fastforce simp: poll_resume_def split: option.splits poll.splits prod.splits)
  show ?thesis
  proof (cases s)
    case (Unresumed i)
    then show ?thesis
      using assms(1) keepsD[OF start] resume records_trans
      by (fastforce split: option.splits sum.splits prod.splits)
  next
    case (Suspended c s')
    then show ?thesis
      using assms(1) resume by simp
  qed
qed

end

locale register_account = call_account Q for Q :: "(call \<times> sysret) list \<Rightarrow> bool" +
  assumes Q_register: "Q [(C_reactor_register d, v)]"
begin

lemma keeps_AsyncFd [keep_intros]: "keeps Q (AsyncFd_new E s)"
  unfolding AsyncFd_new_def reactor_register_def
  by (intro keeps_dropping keeps_bind keeps_lift keeps_call Q_register)

lemma keeps_register [keep_intros]: "keeps Q (register E t s)"
  unfolding register_def by (intro keeps_bind keeps_dropping keeps_queries keeps_AsyncFd)

lemma keeps_accept_finish [keep_intros]: "keeps Q (accept_finish E r)"
  unfolding accept_finish_def SctpStream_from_nonblocking_imp_def register_nonblocking_def case_prod_unfold
  by (intro keeps_bind keeps_lift keeps_AsyncFd)

lemma accept_records:
  assumes "\<And>d level opt val v. Q [(C_setsockopt d level opt val, v)]"
    and "poll_accept E t s w = Some (out, w')"
  shows "records Q w w'"
  using assms(2) unfolding poll_accept_def
  by (rule poll_async_records)
    (auto intro: keeps_lift keeps_setup[OF assms(1)] keeps_accept_finish op_records(1)[rotated])

end

locale recv_call_account = call_account Q for Q :: "(call \<times> sysret) list \<Rightarrow> bool" +
  assumes Q_recv: "Q [(C_recvmsg d n m c fl, v)]"
begin

lemma reassemble_records: "reassemble_loop E s out over scratch w = Some y \<Longrightarrow> records Q w (snd y)"
proof (rule reassemble_loop.raw_induct[where P = "\<lambda>E s out over scratch w y. records Q w (snd y)"],
    goal_cases)
  case (1 loop E s out over scratch w y)
  obtain r w1 where r: "sys_call E (C_recvmsg (raw s) (length scratch) 0 0 0) w = (r, w1)"
    by fastforce
  then have b: "records Q w w1"
    by (rule records_call) (rule Q_recv)
  have "records Q w1 (snd y)"
    using 1 r records_refl by (auto simp: Let_def split: sum.splits if_splits prod.splits)
  with b show ?case
    by (rule records_trans)
qed

lemma keeps_recv_msg [keep_intros]: "keeps Q (imp_recv_msg E t s buf want_from)"
proof -
  have "keeps Q (reassemble_notification E s first)" for first
    unfolding keeps_def reassemble_notification_def using reassemble_records by fastforce
  then show ?thesis
    unfolding imp_recv_msg_def Let_def by (intro keeps_lift keeps_bind keeps_if keeps_call Q_recv) simp_all
qed

text \<open>The wait for an association, over its abstract steps.\<close>

lemma wait_records: "call_cvt E (C_reactor_readable d) w = Some (r, w') \<Longrightarrow> records Q w w'"
  by (rule keepsD[OF keeps_plain(2)]) simp_all

lemma spurious_records:
  assumes "spurious E t C_reactor_readable io f after c c'" and "\<And>s. keeps Q (f s (sock io))"
  shows "records Q (snd c) (snd c')"
  using assms(1)
proof cases
  case (spurious_attempt w x w1 s r w2 y w3)
  have "records Q w2 w3"
    using spurious_attempt(6) by (rule records_call) (rule Q_clear)
  then show ?thesis
    using wait_records[OF spurious_attempt(3)] keepsD[OF assms(2) spurious_attempt(4)] records_trans
      spurious_attempt(1,2) by (metis snd_conv)
qed

lemma decisive_records:
  assumes "decisive E t C_reactor_readable io f c r w'" and "\<And>s. keeps Q (f s (sock io))"
  shows "records Q (snd c) w'"
  using assms(1) by cases (use wait_records keepsD[OF assms(2)] records_trans in \<open>metis snd_conv\<close>)+

lemmas setup_recv_records =
  spurious_records[where f = "setup_recv E t" for E t, OF _ keeps_recv_msg]
  decisive_records[where f = "setup_recv E t" for E t, OF _ keeps_recv_msg]

lemma setup_steps_record: "(setup_step E t io)\<^sup>*\<^sup>* c c' \<Longrightarrow> records Q (snd c) (snd c')"
proof (induction rule: rtranclp_induct)
  case (step c1 c2)
  from step(2) have "records Q (snd c1) (snd c2)"
    by cases (auto dest: setup_recv_records)
  with step.IH show ?case
    by (rule records_trans)
qed (rule records_refl)

lemma setup_end_records:
  assumes "setup_end E t io c r w'"
  shows "records Q (snd c) w'"
  using assms
proof cases
  case (setup_failed ac src buf' w1 pending)
  have "records Q (snd c) w1"
    using setup_failed(2) by (rule setup_recv_records(2))
  then show ?thesis
    using keepsD[OF keeps_queries(8) setup_failed(4)] by (rule records_trans)
qed (auto dest: setup_recv_records(2))

lemma keeps_established [keep_intros]: "keeps Q (established E t io)"
  unfolding keeps_def
proof (intro allI impI)
  fix w r w'
  assume "established E t io w = Some (r, w')"
  then obtain c where "(setup_step E t io)\<^sup>*\<^sup>* (replicate 512 0, w) c" "setup_end E t io c r w'"
    using established_sound[of E t io "replicate 512 0" w "(r, w')"] by (auto simp: established_def)
  then show "records Q w w'"
    using setup_steps_record[of E t io "(replicate 512 0, w)" c] setup_end_records[of E t io c r w']
      records_trans[of w "snd c" w'] by simp
qed

text \<open>Polls of the wait for an association and of the connects around it.\<close>

lemma established_poll_records:
  assumes "poll_established E t io s w = Some (out, w')"
  shows "records Q w w'"
proof -
  have "drive (poll_established E t io) s w [] = Some (out, w', [])"
    using assms by (rule poll_drive)
  then show ?thesis
    by (rule established_records) (rule keepsD, rule keeps_recv_msg keeps_queries, assumption)+
qed

lemma connect_records:
  assumes "poll_async start (\<lambda>(io, _). poll_established E t io) (connectx_finish E t) s w = Some (out, w')"
    and "\<And>i. keeps Q (start i)" and "\<And>c r. keeps Q (connectx_finish E t c r)"
  shows "records Q w w'"
  using assms by (rule poll_async_records) (auto intro: established_poll_records)

end

end
