(* ===== verification/Tasks.thy ===== *)
theory Tasks
  imports Dropped_Futures Call_Account
begin

text \<open>
  Many tasks at once. A program spawns futures of \<open>net/\<close> on a runtime, any number of them and on
  shared sockets; the runtime polls them in any order, between two polls the rest of the system
  leaves the environment in any state, and a task may be dropped at any suspension. The runtime
  is a step relation over the list of tasks and one world, whose trace collects the calls of all
  tasks. The locale \<open>task_account\<close> turns an account that every poll and every drop keeps into an
  invariant of the reachable states; the messages sent and the descriptors are its accounts here.
\<close>

section \<open>Tasks\<close>

datatype task_result =
    Sent "nat io_result"
  | Received "(RecvMsg \<times> byte list) io_result"
  | ReceivedFrom "((RecvMsg \<times> SocketAddr option) \<times> byte list) io_result"
  | Accepted "(SctpStream \<times> SocketAddr) io_result"
  | Connected "SctpStream io_result"

text \<open>One constructor per \<open>async\<close> function, with its arguments and the state of its future.\<close>

datatype task =
    Stream_send SctpStream "byte list" SendInfo
  | Endpoint_send SctpEndpoint "byte list" SendInfo
  | Endpoint_send_to SctpEndpoint "byte list" SocketAddr SendInfo
  | Stream_recv SctpStream "byte list"
  | Endpoint_recv SctpEndpoint "byte list"
  | Endpoint_recv_from SctpEndpoint "byte list"
  | Accept "(SctpListener, SctpListener, unit) async_state"
  | Connectx "(StreamBuilder \<times> SocketAddr list) connect_state"
  | Connectx_from_socket "(SctpSocket \<times> SocketAddr list) connect_state"
  | Connect "SocketAddr connect_state"
  | Finished task task_result
  | Dropped

definition progress ::
    "(('s, 'a) poll \<times> 'k world) option \<Rightarrow> ('s \<Rightarrow> task) \<Rightarrow> ('a \<Rightarrow> task) \<Rightarrow> (task \<times> 'k world) option" where
  "progress polled resume finish =
     map_option (\<lambda>(out, w). (case out of Pending s \<Rightarrow> resume s | Ready r \<Rightarrow> finish r, w)) polled"

fun poll_task :: "'k env \<Rightarrow> target \<Rightarrow> task \<Rightarrow> 'k world \<Rightarrow> (task \<times> 'k world) option" where
  "poll_task E t (Stream_send st buf info) w =
     progress (poll_stream_send_msg E t st buf info () w) (\<lambda>_. Stream_send st buf info)
       (\<lambda>r. Finished (Stream_send st buf info) (Sent r))"
| "poll_task E t (Endpoint_send ep buf info) w =
     progress (poll_endpoint_send_msg E t ep buf info () w) (\<lambda>_. Endpoint_send ep buf info)
       (\<lambda>r. Finished (Endpoint_send ep buf info) (Sent r))"
| "poll_task E t (Endpoint_send_to ep buf addr info) w =
     progress (poll_endpoint_send_msg_to E t ep buf addr info () w)
       (\<lambda>_. Endpoint_send_to ep buf addr info)
       (\<lambda>r. Finished (Endpoint_send_to ep buf addr info) (Sent r))"
| "poll_task E t (Stream_recv st buf) w =
     progress (poll_stream_recv_msg E t st buf w) (Stream_recv st)
       (\<lambda>r. Finished (Stream_recv st buf) (Received r))"
| "poll_task E t (Endpoint_recv ep buf) w =
     progress (poll_endpoint_recv_msg E t ep buf w) (Endpoint_recv ep)
       (\<lambda>r. Finished (Endpoint_recv ep buf) (Received r))"
| "poll_task E t (Endpoint_recv_from ep buf) w =
     progress (poll_endpoint_recv_msg_from E t ep buf w) (Endpoint_recv_from ep)
       (\<lambda>r. Finished (Endpoint_recv_from ep buf) (ReceivedFrom r))"
| "poll_task E t (Accept s) w =
     progress (poll_accept E t s w) Accept (\<lambda>r. Finished (Accept s) (Accepted r))"
| "poll_task E t (Connectx s) w =
     progress (poll_connectx E t s w) Connectx (\<lambda>r. Finished (Connectx s) (Connected r))"
| "poll_task E t (Connectx_from_socket s) w =
     progress (poll_connectx_from_socket E t s w) Connectx_from_socket
       (\<lambda>r. Finished (Connectx_from_socket s) (Connected r))"
| "poll_task E t (Connect s) w =
     progress (poll_connect E t s w) Connect (\<lambda>r. Finished (Connect s) (Connected r))"
| "poll_task E t (Finished tk r) w = None"
| "poll_task E t Dropped w = None"

text \<open>Only a connect owns something that dropping it gives back.\<close>

fun drop_task :: "'k env \<Rightarrow> task \<Rightarrow> 'k world \<Rightarrow> 'k world" where
  "drop_task E (Connectx s) w = drop_connect E builder_arg s w"
| "drop_task E (Connectx_from_socket s) w = drop_connect E socket_arg s w"
| "drop_task E (Connect s) w = drop_connect E no_arg s w"
| "drop_task E _ w = w"

fun running :: "task \<Rightarrow> bool" where
  "running (Finished tk r) \<longleftrightarrow> False"
| "running Dropped \<longleftrightarrow> False"
| "running _ \<longleftrightarrow> True"

text \<open>A future that was never polled.\<close>

fun unresumed :: "('i, 'c, 's) async_state \<Rightarrow> bool" where
  "unresumed (Unresumed i) \<longleftrightarrow> True"
| "unresumed (Suspended c s) \<longleftrightarrow> False"

fun unstarted :: "task \<Rightarrow> bool" where
  "unstarted (Accept s) \<longleftrightarrow> unresumed s"
| "unstarted (Connectx s) \<longleftrightarrow> unresumed s"
| "unstarted (Connectx_from_socket s) \<longleftrightarrow> unresumed s"
| "unstarted (Connect s) \<longleftrightarrow> unresumed s"
| "unstarted tk \<longleftrightarrow> running tk"

section \<open>The runtime\<close>

record 'k runtime =
  spawned :: "task list"
  tasks :: "task list"
  rt_world :: "'k world"

inductive runtime_step :: "'k env \<Rightarrow> target \<Rightarrow> 'k runtime \<Rightarrow> 'k runtime \<Rightarrow> bool" for E t where
  spawn: "unstarted tk \<Longrightarrow>
    runtime_step E t rt (rt\<lparr>spawned := spawned rt @ [tk], tasks := tasks rt @ [tk]\<rparr>)"
| polled: "i < length (tasks rt) \<Longrightarrow>
    poll_task E t (tasks rt ! i) ((rt_world rt)\<lparr>kst := k\<rparr>) = Some (tk, w) \<Longrightarrow>
    runtime_step E t rt (rt\<lparr>tasks := (tasks rt)[i := tk], rt_world := w\<rparr>)"
| dropped: "i < length (tasks rt) \<Longrightarrow> running (tasks rt ! i) \<Longrightarrow>
    runtime_step E t rt (rt\<lparr>tasks := (tasks rt)[i := Dropped],
      rt_world := drop_task E (tasks rt ! i) ((rt_world rt)\<lparr>kst := k\<rparr>)\<rparr>)"

inductive reachable :: "'k env \<Rightarrow> target \<Rightarrow> 'k runtime \<Rightarrow> bool" for E t where
  start: "reachable E t \<lparr>spawned = [], tasks = [], rt_world = \<lparr>kst = k, trace = []\<rparr>\<rparr>"
| step: "reachable E t rt \<Longrightarrow> runtime_step E t rt rt' \<Longrightarrow> reachable E t rt'"

section \<open>Accounts\<close>

abbreviation total :: "(task \<Rightarrow> 'a multiset) \<Rightarrow> task list \<Rightarrow> 'a multiset" where
  "total held tks \<equiv> sum_list (map held tks)"

lemma list_all_True [simp]: "list_all (\<lambda>_. True) xs"
  by (simp add: list_all_iff)

lemma total_update:
  "i < length tks \<Longrightarrow> total held (tks[i := tk]) + held (tks ! i) = total held tks + held tk"
proof (induction tks arbitrary: i)
  case (Cons x tks)
  then show ?case
    by (cases i) (simp_all add: ac_simps)
qed simp

text \<open>Tasks are spawned before they run, so they hold nothing that only a finished task holds.\<close>

lemma unstarted_running: "unstarted tk \<Longrightarrow> running tk"
  by (cases tk) simp_all

lemma total_spawned:
  assumes "reachable E t rt" and none: "\<And>tk. running tk \<Longrightarrow> held tk = {#}"
  shows "total held (spawned rt) = {#}"
  using assms(1)
proof (induction rule: reachable.induct)
  case (step rt rt')
  from step(2,3) show ?case
    by cases (simp_all add: none unstarted_running)
qed simp

lemma poll_task_running: "poll_task E t tk w = Some x \<Longrightarrow> running tk"
  by (cases tk) auto

text \<open>
  What a task holds, and what the calls bring in and give back. If every poll and every drop
  keeps the account of its task, the accounts of all tasks together are kept. An account may
  depend on the kernel's answers being \<open>good\<close> and on the outcome of the tasks being \<open>fine\<close>.
\<close>

locale task_account =
  fixes E :: "'k env" and t :: target
    and held :: "task \<Rightarrow> 'a multiset"
    and debit credit :: "(call \<times> sysret) list \<Rightarrow> 'a multiset"
    and good :: "call \<times> sysret \<Rightarrow> bool"
    and fine :: "task \<Rightarrow> bool"
  assumes debit_Nil: "debit [] = {#}" and debit_append: "debit (tr @ tr') = debit tr + debit tr'"
    and credit_Nil: "credit [] = {#}" and credit_append: "credit (tr @ tr') = credit tr + credit tr'"
    and running_fine: "running tk \<Longrightarrow> fine tk"
    and poll_account: "poll_task E t tk w = Some (tk', w') \<Longrightarrow>
      \<exists>tr. trace w' = trace w @ tr \<and>
        (list_all good tr \<longrightarrow> fine tk' \<longrightarrow> held tk + debit tr = held tk' + credit tr)"
    and drop_account: "running tk \<Longrightarrow>
      \<exists>tr. trace (drop_task E tk w) = trace w @ tr \<and>
        (list_all good tr \<longrightarrow> held tk + debit tr = held Dropped + credit tr)"
begin

definition accounted :: "'k runtime \<Rightarrow> bool" where
  "accounted rt \<longleftrightarrow>
     (list_all good (trace (rt_world rt)) \<longrightarrow> list_all fine (tasks rt) \<longrightarrow>
      total held (spawned rt) + debit (trace (rt_world rt)) =
      total held (tasks rt) + credit (trace (rt_world rt)))"

lemma accounted_update:
  assumes "accounted rt" and i: "i < length (tasks rt)" and running: "running (tasks rt ! i)"
    and tr: "trace w = trace (rt_world rt) @ tr"
    and account: "list_all good tr \<longrightarrow> fine tk \<longrightarrow> held (tasks rt ! i) + debit tr = held tk + credit tr"
  shows "accounted (rt\<lparr>tasks := (tasks rt)[i := tk], rt_world := w\<rparr>)"
  unfolding accounted_def
proof (intro impI)
  let ?s = "total held (spawned rt)" and ?d = "debit (trace (rt_world rt))"
    and ?c = "credit (trace (rt_world rt))" and ?x = "held (tasks rt ! i)"
    and ?rt = "rt\<lparr>tasks := (tasks rt)[i := tk], rt_world := w\<rparr>"
  assume good: "list_all good (trace (rt_world ?rt))" and fine: "list_all fine (tasks ?rt)"
  then have "fine tk" and "list_all fine (tasks rt)"
    using i running_fine[OF running] by (auto simp: list_all_length nth_list_update split: if_splits)
  then have old: "?s + ?d = total held (tasks rt) + ?c" and new: "?x + debit tr = held tk + credit tr"
    using assms(1) account good tr by (simp_all add: accounted_def)
  have "?s + (?d + debit tr) + ?x = total held (tasks rt) + ?c + (?x + debit tr)"
    using old by (simp add: ac_simps)
  also have "\<dots> = (total held (tasks rt) + held tk) + (?c + credit tr)"
    using new by (simp add: ac_simps)
  also have "\<dots> = total held ((tasks rt)[i := tk]) + (?c + credit tr) + ?x"
    using total_update[OF i, of held tk] by (simp add: ac_simps)
  finally show "total held (spawned ?rt) + debit (trace (rt_world ?rt)) =
      total held (tasks ?rt) + credit (trace (rt_world ?rt))"
    using tr by (simp add: debit_append credit_append)
qed

lemma runtime_step_accounted: "runtime_step E t rt rt' \<Longrightarrow> accounted rt \<Longrightarrow> accounted rt'"
proof (induction rule: runtime_step.induct)
  case (spawn tk rt)
  then show ?case
    by (simp add: accounted_def ac_simps)
next
  case (polled i rt k tk w)
  then show ?case
    using poll_account[OF polled(2)] poll_task_running[OF polled(2)] by (auto intro: accounted_update)
next
  case (dropped i rt k)
  then show ?case
    using drop_account[OF dropped(2), of "(rt_world rt)\<lparr>kst := k\<rparr>"] by (auto intro: accounted_update)
qed

lemma reachable_accounted: "reachable E t rt \<Longrightarrow> accounted rt"
proof (induction rule: reachable.induct)
  case (start k)
  then show ?case
    by (simp add: accounted_def debit_Nil credit_Nil)
qed (rule runtime_step_accounted)

end

section \<open>Operations that send nothing\<close>

abbreviation silent :: "('k, 'a) io \<Rightarrow> bool" where
  "silent \<equiv> keeps (\<lambda>tr. sent tr = [])"

interpretation silence: recv_call_account "\<lambda>tr. sent tr = []"
proof
  show "sent [(c, v)] = []" if "plain c" for c v
    using that by (cases c) simp_all
qed simp

interpretation silence: register_account "\<lambda>tr. sent tr = []"
  by unfold_locales simp

lemma sent_setsockopt: "sent [(C_setsockopt d level opt val, v)] = []"
  by simp

lemmas silent_setup [keep_intros] = silence.keeps_setup[OF sent_setsockopt]
lemmas silent_connects [keep_intros] = silence.keeps_connects[OF sent_setsockopt silence.keeps_register]

lemmas connect_silent = silence.connect_records[OF _ _ silent_connects(2)]

section \<open>The messages of all tasks\<close>

definition sndinfo_control :: "target \<Rightarrow> SendInfo \<Rightarrow> byte list" where
  "sndinfo_control t info =
     cmsg_bytes t (IPPROTO_SCTP, SCTP_CMSG_SNDINFO, sndinfo_bytes t info)"

fun message :: "target \<Rightarrow> task \<Rightarrow> (fd \<times> byte list option \<times> byte list \<times> byte list) multiset" where
  "message t (Stream_send st buf info) =
     {#(raw (sock (stream_io st)), None, buf, sndinfo_control t info)#}"
| "message t (Endpoint_send ep buf info) =
     {#(raw (sock (endpoint_io ep)), None, buf, sndinfo_control t info)#}"
| "message t (Endpoint_send_to ep buf addr info) =
     {#(raw (sock (endpoint_io ep)), Some (sockaddr_bytes t addr), buf, sndinfo_control t info)#}"
| "message t _ = {#}"

text \<open>What a task has to show for: its message, once it has finished successfully.\<close>

fun delivered :: "target \<Rightarrow> task \<Rightarrow> (fd \<times> byte list option \<times> byte list \<times> byte list) multiset" where
  "delivered t (Finished tk (Sent (Inr n))) = message t tk"
| "delivered t _ = {#}"

lemma progress_eq_Some:
  "progress p resume finish = Some (tk, w') \<longleftrightarrow>
     (\<exists>out. p = Some (out, w') \<and> tk = (case out of Pending s \<Rightarrow> resume s | Ready r \<Rightarrow> finish r))"
  by (auto simp: progress_def)

lemma send_poll_account:
  assumes "poll_write_op E t io (\<lambda>_ s. imp_send_msg E t s buf dest info) unchanged () w = Some (out, w')"
  shows "\<exists>tr. trace w' = trace w @ tr \<and> mset (sent tr) = (case out of
      Ready (Inr n) \<Rightarrow> {#(raw (sock io), map_option (sockaddr_bytes t) dest, buf, sndinfo_control t info)#}
    | _ \<Rightarrow> {#})"
proof -
  have "drive (poll_write_op E t io (\<lambda>_ s. imp_send_msg E t s buf dest info) unchanged) () w [] = Some (out, w', [])"
    using assms by (rule poll_drive)
  from send_account[OF this] show ?thesis
    by (auto simp: sndinfo_control_def split: poll.splits sum.splits simp del: cmsg_bytes.simps)
qed

text \<open>Dropping a task closes at most the descriptor it owns.\<close>

abbreviation only_closes :: "(call \<times> sysret) list \<Rightarrow> bool" where
  "only_closes tr \<equiv> list_all (\<lambda>x. \<exists>d. fst x = C_close d) tr"

lemma drop_connect_trace: "\<exists>tr. trace (drop_connect E arg s w) = trace w @ tr \<and> only_closes tr"
proof (cases "connect_owned arg s")
  case (Some d)
  obtain v w1 where "sys_call E (C_close d) w = (v, w1)"
    by fastforce
  then show ?thesis
    using Some by (auto simp: drop_connect_def dest: sys_call_trace)
qed (simp add: drop_connect_def)

lemma drop_task_trace: "\<exists>tr. trace (drop_task E tk w) = trace w @ tr \<and> only_closes tr"
  by (cases "(E, tk, w)" rule: drop_task.cases) (auto intro: drop_connect_trace)

lemma closes_send_nothing: "only_closes tr \<Longrightarrow> sent tr = []"
  by (induction tr rule: sent.induct) auto

lemma delivered_running: "running tk \<Longrightarrow> delivered t tk = {#}"
  by (cases tk) auto

lemma quiet_task_account:
  assumes "progress p resume finish = Some (tk', w')"
    and "\<And>out. p = Some (out, w') \<Longrightarrow> records (\<lambda>tr. sent tr = []) w w'"
    and "running tk" and "\<And>s. delivered t (resume s) = {#}" and "\<And>r. delivered t (finish r) = {#}"
  shows "\<exists>tr. trace w' = trace w @ tr \<and> delivered t tk + mset (sent tr) = delivered t tk' + {#}"
proof -
  obtain out where out: "p = Some (out, w')"
    and "tk' = (case out of Pending s \<Rightarrow> resume s | Ready r \<Rightarrow> finish r)"
    using assms(1) by (auto simp: progress_eq_Some)
  then have "delivered t tk' = {#}"
    using assms(4,5) by (cases out) simp_all
  with assms(2)[OF out] show ?thesis
    using delivered_running[OF assms(3)] by (auto simp: records_def)
qed

lemma send_task_account:
  assumes "progress (poll_write_op E t io (\<lambda>_ s. imp_send_msg E t s buf dest info) unchanged () w)
      (\<lambda>_. tk) (\<lambda>r. Finished tk (Sent r)) = Some (tk', w')"
    and "message t tk =
      {#(raw (sock io), map_option (sockaddr_bytes t) dest, buf, sndinfo_control t info)#}"
    and "running tk"
  shows "\<exists>tr. trace w' = trace w @ tr \<and> delivered t tk + mset (sent tr) = delivered t tk' + {#}"
proof -
  obtain out where "poll_write_op E t io (\<lambda>_ s. imp_send_msg E t s buf dest info) unchanged () w = Some (out, w')"
    and tk': "tk' = (case out of Pending s \<Rightarrow> tk | Ready r \<Rightarrow> Finished tk (Sent r))"
    using assms(1) by (auto simp: progress_eq_Some)
  from send_poll_account[OF this(1)] obtain tr where "trace w' = trace w @ tr"
    "mset (sent tr) = (case out of Ready (Inr n) \<Rightarrow> message t tk | _ \<Rightarrow> {#})"
    unfolding assms(2) by blast
  then show ?thesis
    using tk' delivered_running[OF assms(3)] by (auto split: poll.splits sum.splits)
qed

lemma messages_poll:
  assumes "poll_task E t tk w = Some (tk', w')"
  shows "\<exists>tr. trace w' = trace w @ tr \<and> delivered t tk + mset (sent tr) = delivered t tk' + {#}"
proof (cases tk)
  case (Stream_send st buf info)
  then show ?thesis
    using assms send_task_account[of E t "stream_io st" buf None info w tk tk' w']
    by (simp add: poll_stream_send_msg_def)
next
  case (Endpoint_send ep buf info)
  then show ?thesis
    using assms send_task_account[of E t "endpoint_io ep" buf None info w tk tk' w']
    by (simp add: poll_endpoint_send_msg_def)
next
  case (Endpoint_send_to ep buf addr info)
  then show ?thesis
    using assms send_task_account[of E t "endpoint_io ep" buf "Some addr" info w tk tk' w']
    by (simp add: poll_endpoint_send_msg_to_def)
next
  case (Stream_recv st buf)
  show ?thesis
    using assms unfolding Stream_recv poll_task.simps
    by (rule quiet_task_account) (auto simp: poll_stream_recv_msg_def case_prod_unfold intro: keep_intros elim!: silence.op_records(1))
next
  case (Endpoint_recv ep buf)
  show ?thesis
    using assms unfolding Endpoint_recv poll_task.simps
    by (rule quiet_task_account) (auto simp: poll_endpoint_recv_msg_def case_prod_unfold intro: keep_intros elim!: silence.op_records(1))
next
  case (Endpoint_recv_from ep buf)
  show ?thesis
    using assms unfolding Endpoint_recv_from poll_task.simps
    by (rule quiet_task_account) (auto simp: poll_endpoint_recv_msg_from_def case_prod_unfold intro: keep_intros elim!: silence.op_records(1))
next
  case (Accept s)
  show ?thesis
    using assms unfolding Accept poll_task.simps
    by (rule quiet_task_account) (auto elim: silence.accept_records[OF sent_setsockopt])
next
  case (Connectx s)
  show ?thesis
    using assms unfolding Connectx poll_task.simps
    by (rule quiet_task_account) (auto simp: poll_connectx_def intro: keep_intros elim!: connect_silent)
next
  case (Connectx_from_socket s)
  show ?thesis
    using assms unfolding Connectx_from_socket poll_task.simps
    by (rule quiet_task_account) (auto simp: poll_connectx_from_socket_def intro: keep_intros elim!: connect_silent)
next
  case (Connect s)
  show ?thesis
    using assms unfolding Connect poll_task.simps
    by (rule quiet_task_account) (auto simp: poll_connect_def intro: keep_intros elim!: connect_silent)
qed (use assms in auto)

interpretation messages: task_account E t "delivered t" "\<lambda>tr. mset (sent tr)" "\<lambda>_. {#}"
  "\<lambda>_. True" "\<lambda>_. True" for E t
proof
  show "\<exists>tr. trace w' = trace w @ tr \<and>
      (list_all (\<lambda>_. True) tr \<longrightarrow> True \<longrightarrow> delivered t tk + mset (sent tr) = delivered t tk' + {#})"
    if "poll_task E t tk w = Some (tk', w')" for tk w tk' w'
    using messages_poll[OF that] by blast
  show "\<exists>tr. trace (drop_task E tk w) = trace w @ tr \<and>
      (list_all (\<lambda>_. True) tr \<longrightarrow> delivered t tk + mset (sent tr) = delivered t Dropped + {#})"
    if "running tk" for tk w
    using drop_task_trace[of E tk w] delivered_running[OF that] by (auto simp: closes_send_nothing)
qed simp_all

section \<open>The descriptors of all tasks\<close>

text \<open>
  What a task owns: a connect its socket; a finished accept or connect the descriptor of the
  stream it returned, which is then the program's. Every other task borrows its socket.
\<close>

fun stream_result :: "SctpStream io_result \<Rightarrow> fd multiset" where
  "stream_result (Inr st) = {#raw (sock (stream_io st))#}"
| "stream_result (Inl e) = {#}"

fun held :: "task \<Rightarrow> fd multiset" where
  "held (Connectx s) = option_mset (connect_owned builder_arg s)"
| "held (Connectx_from_socket s) = option_mset (connect_owned socket_arg s)"
| "held (Connect s) = option_mset (connect_owned no_arg s)"
| "held (Finished tk (Connected r)) = stream_result r"
| "held (Finished tk (Accepted r)) = stream_result (map_sum id fst r)"
| "held _ = {#}"

lemma handed_on_Ready: "handed_on (Ready r) = stream_result r"
  by (cases r) (simp_all add: handed_on_def)

lemma op_balanced:
  assumes "poll_loop E t wait io f after op_next s w = Some (out, w')"
    and "\<And>d. waits (wait d)" and "\<And>s. borrows t' (f s)"
  shows "balanced t' w w'"
proof -
  have f: "records (\<lambda>tr. opened t' tr = closed tr) w w'" if "f s w = Some (r, w')" for s w r w'
    using assms(3) that unfolding borrows_balanced balanced_records by blast
  have "drive (poll_loop E t wait io f after op_next) s w [] = Some (out, w', [])"
    using assms(1) by (rule poll_drive)
  then show ?thesis
    unfolding balanced_records using assms(2) f
    by (rule balance.op_outcome) (use f balance.records_trans in blast)+
qed

lemma accept_poll_account:
  assumes "poll_accept E t s w = Some (out, w')"
  shows "\<exists>tr. trace w' = trace w @ tr \<and>
    opened t tr = (case out of Pending _ \<Rightarrow> {#} | Ready r \<Rightarrow> stream_result (map_sum id fst r)) + closed tr"
proof -
  define l where "l = (case s of Unresumed l \<Rightarrow> l | Suspended l _ \<Rightarrow> l)"
  let ?f = "accept_nonblocking E t (sock (listener_io l))"
  have owns: "owns t {#} (\<lambda>(s, peer). {#raw s#}) {#} ?f"
    using accept_source.source_owns[of t E] by (simp add: accept_nonblocking_def case_prod_unfold)
  have fin: "owns t {#} (\<lambda>(st, peer). {#raw (sock (stream_io st))#}) {#} (io_bind ?f (\<lambda>x. accept_finish E (Ok x)))"
    using owns unfolding accept_finish_def
    by (rule owns_bind) (auto intro!: owns_bind[OF owns_from_nonblocking_imp] split: prod.splits)
  have wb: "records (\<lambda>tr. opened t tr = closed tr) w w'" if "?f w = Some (r, w')" "would_block t r" for w r w'
    using owns that unfolding owns_def by (fastforce simp: records_def would_block_iff)
  let ?loop = "poll_loop E t C_reactor_readable (listener_io l) (\<lambda>_ :: unit. ?f)
    (\<lambda>s. unchanged s (sock (listener_io l))) op_next"
  obtain out1 w1 where p: "?loop () w = Some (out1, w1)"
    and r: "case out1 of Pending s' \<Rightarrow> out = Pending (Suspended l s') \<and> w' = w1
      | Ready r \<Rightarrow> \<exists>r'. accept_finish E r w1 = Some (r', w') \<and> out = Ready r'"
    using assms
    by (cases s) (auto simp: l_def poll_accept_def poll_read_op_def poll_resume_def io_lift_def
        split: option.splits poll.splits prod.splits)
  have "drive ?loop () w [] = Some (out1, w1, [])"
    using p by (rule poll_drive)
  then show ?thesis
    using waits_readiness(1) wb
  proof (rule balance.op_outcome)
    fix s'
    assume "out1 = Pending s'" "records (\<lambda>tr. opened t tr = closed tr) w w1"
    then show ?thesis
      using r by (auto simp: records_def)
  next
    fix e
    assume "out1 = Ready (Inl e)" "records (\<lambda>tr. opened t tr = closed tr) w w1"
    then show ?thesis
      using r by (auto simp: records_def accept_finish_def io_lift_run)
  next
    fix s1 q w2
    assume q: "out1 = Ready q" "records (\<lambda>tr. opened t tr = closed tr) w w2" "?f w2 = Some (q, w1)"
    then obtain r' where r': "accept_finish E q w1 = Some (r', w')" "out = Ready r'"
      using r by auto
    have "io_bind ?f (\<lambda>x. accept_finish E (Ok x)) w2 = Some (r', w')"
      using q(3) r'(1) by (cases q) (auto simp: io_bind_def accept_finish_def io_lift_def)
    then obtain tr where tr: "trace w' = trace w2 @ tr"
      "opened t tr = stream_result (map_sum id fst r') + closed tr"
      using fin unfolding owns_def by (cases r') (fastforce split: prod.splits)+
    obtain tr0 where "trace w2 = trace w @ tr0" "opened t tr0 = closed tr0"
      using q(2) by (auto simp: records_def)
    with tr r'(2) show ?thesis
      by (intro exI[of _ "tr0 @ tr"]) (simp add: ac_simps)
  qed
qed

lemma connect_poll_account:
  assumes "levels_ok t"
    and start: "\<And>i. owns t (option_mset (arg i)) (\<lambda>x. {#raw (sock (fst (fst x)))#}) {#} (start i)"
      "\<And>i. silent (start i)"
    and poll: "poll_async start (\<lambda>(io, _). poll_established E t io) (connectx_finish E t) s w = Some (out, w')"
  shows "\<exists>tr. trace w' = trace w @ tr \<and> option_mset (connect_owned arg s) + opened t tr =
    (case out of Pending s' \<Rightarrow> option_mset (connect_owned arg s') | Ready r \<Rightarrow> stream_result r) + closed tr"
proof -
  let ?p = "poll_async start (\<lambda>(io, _). poll_established E t io) (connectx_finish E t)"
  have d: "drive ?p s w [] = Some (out, w', [])"
    using poll by (rule poll_drive)
  have "\<exists>tr. trace (given_up E arg out w') = trace w @ tr \<and>
      option_mset (connect_owned arg s) + opened t tr = handed_on out + closed tr"
  proof (cases s)
    case (Unresumed i)
    have "drive ?p (Unresumed i) w [] = Some (out, w', [])"
      using d Unresumed by simp
    with assms(1) start(1)[of i] show ?thesis
      unfolding Unresumed connect_owned.simps by (rule connect_owned)
  next
    case (Suspended c s')
    then show ?thesis
      using suspended_connect_owned[where arg = arg, OF assms(1)] d by (cases c) fastforce
  qed
  then obtain tr where tr: "trace (given_up E arg out w') = trace w @ tr"
    "option_mset (connect_owned arg s) + opened t tr = handed_on out + closed tr"
    by blast
  obtain tr0 where tr0: "trace w' = trace w @ tr0"
    using connect_silent[OF poll start(2)] by (auto simp: records_def)
  show ?thesis
  proof (cases out)
    case (Ready r)
    then show ?thesis
      using tr by (auto simp: given_up_def handed_on_Ready)
  next
    case (Pending s')
    show ?thesis
    proof (cases "connect_owned arg s'")
      case None
      then show ?thesis
        using tr Pending by (auto simp: given_up_def drop_connect_def handed_on_def)
    next
      case (Some x)
      obtain v w1 where "sys_call E (C_close x) w' = (v, w1)"
        by fastforce
      with tr Some Pending tr0 have "tr = tr0 @ [(C_close x, v)]"
        by (auto simp: given_up_def drop_connect_def dest!: sys_call_trace)
      with tr(2) Some Pending tr0 show ?thesis
        by (auto simp: handed_on_def)
    qed
  qed
qed

lemma borrowing_task_account:
  assumes "progress p resume finish = Some (tk', w')"
    and "\<And>out. p = Some (out, w') \<Longrightarrow> balanced t w w'"
    and "held tk = {#}" and "\<And>s. held (resume s) = {#}" and "\<And>r. held (finish r) = {#}"
  shows "\<exists>tr. trace w' = trace w @ tr \<and> held tk + opened t tr = held tk' + closed tr"
proof -
  obtain out where out: "p = Some (out, w')"
    and "tk' = (case out of Pending s \<Rightarrow> resume s | Ready r \<Rightarrow> finish r)"
    using assms(1) by (auto simp: progress_eq_Some)
  then have "held tk' = {#}"
    using assms(4,5) by (cases out) simp_all
  with assms(2)[OF out] show ?thesis
    using assms(3) by (auto simp: balanced_def)
qed

lemma borrowing_op_account:
  assumes "progress (poll_loop E t wait io f after op_next s w) resume finish = Some (tk', w')"
    and "\<And>d. waits (wait d)" and "\<And>s. borrows t (f s)"
    and "held tk = {#}" and "\<And>s. held (resume s) = {#}" and "\<And>r. held (finish r) = {#}"
  shows "\<exists>tr. trace w' = trace w @ tr \<and> held tk + opened t tr = held tk' + closed tr"
  using assms(1) op_balanced[OF _ assms(2,3)] assms(4-6) by (rule borrowing_task_account)

lemma owning_task_account:
  assumes "progress p resume finish = Some (tk', w')"
    and "\<And>out. p = Some (out, w') \<Longrightarrow> \<exists>tr. trace w' = trace w @ tr \<and> held tk + opened t tr =
      (case out of Pending s \<Rightarrow> held (resume s) | Ready r \<Rightarrow> held (finish r)) + closed tr"
  shows "\<exists>tr. trace w' = trace w @ tr \<and> held tk + opened t tr = held tk' + closed tr"
proof -
  obtain out where out: "p = Some (out, w')"
    and tk': "tk' = (case out of Pending s \<Rightarrow> resume s | Ready r \<Rightarrow> finish r)"
    using assms(1) by (auto simp: progress_eq_Some)
  then have "held tk' = (case out of Pending s \<Rightarrow> held (resume s) | Ready r \<Rightarrow> held (finish r))"
    by (cases out) simp_all
  with assms(2)[OF out] show ?thesis
    by metis
qed

lemmas borrowing_polls =
  poll_stream_send_msg_def poll_endpoint_send_msg_def poll_endpoint_send_msg_to_def
  poll_stream_recv_msg_def poll_endpoint_recv_msg_def poll_endpoint_recv_msg_from_def
  poll_write_op_def poll_read_op_def

lemma connect_starts:
  assumes "levels_ok t"
  shows "owns t (option_mset (builder_arg i)) (\<lambda>x. {#raw (sock (fst (fst x)))#}) {#} (connectx_start E t i)"
    "owns t (option_mset (socket_arg j)) (\<lambda>x. {#raw (sock (fst (fst x)))#}) {#} (from_socket_start E t j)"
    "owns t (option_mset (no_arg addr)) (\<lambda>x. {#raw (sock (fst (fst x)))#}) {#}
      (io_bind (SctpStream_builder E t (addr_family addr)) (\<lambda>b. connectx_start E t (b, [addr])))"
proof -
  show "owns t (option_mset (builder_arg i)) (\<lambda>x. {#raw (sock (fst (fst x)))#}) {#} (connectx_start E t i)"
    using owns_connectx_start[OF assms] by (cases i) simp
  show "owns t (option_mset (socket_arg j)) (\<lambda>x. {#raw (sock (fst (fst x)))#}) {#} (from_socket_start E t j)"
    using owns_from_socket_start[OF assms] by (cases j) simp
  show "owns t (option_mset (no_arg addr)) (\<lambda>x. {#raw (sock (fst (fst x)))#}) {#}
      (io_bind (SctpStream_builder E t (addr_family addr)) (\<lambda>b. connectx_start E t (b, [addr])))"
    using owns_bind[OF stream_builder_source.source_owns[of t E "addr_family addr"]
        owns_connectx_start[OF assms, where E = E and addrs = "[addr]"]] by simp
qed

lemma descriptors_poll:
  assumes "poll_task E t tk w = Some (tk', w')" and levels: "levels_ok t"
  shows "\<exists>tr. trace w' = trace w @ tr \<and> held tk + opened t tr = held tk' + closed tr"
proof (cases tk)
  case (Stream_send st buf info)
  show ?thesis
    using assms(1) unfolding Stream_send poll_task.simps borrowing_polls
    by (rule borrowing_op_account) (auto intro!: own_intros split: prod.splits)
next
  case (Endpoint_send ep buf info)
  show ?thesis
    using assms(1) unfolding Endpoint_send poll_task.simps borrowing_polls
    by (rule borrowing_op_account) (auto intro!: own_intros split: prod.splits)
next
  case (Endpoint_send_to ep buf addr info)
  show ?thesis
    using assms(1) unfolding Endpoint_send_to poll_task.simps borrowing_polls
    by (rule borrowing_op_account) (auto intro!: own_intros split: prod.splits)
next
  case (Stream_recv st buf)
  show ?thesis
    using assms(1) unfolding Stream_recv poll_task.simps borrowing_polls
    by (rule borrowing_op_account) (auto intro!: own_intros split: prod.splits)
next
  case (Endpoint_recv ep buf)
  show ?thesis
    using assms(1) unfolding Endpoint_recv poll_task.simps borrowing_polls
    by (rule borrowing_op_account) (auto intro!: own_intros split: prod.splits)
next
  case (Endpoint_recv_from ep buf)
  show ?thesis
    using assms(1) unfolding Endpoint_recv_from poll_task.simps borrowing_polls
    by (rule borrowing_op_account) (auto intro!: own_intros split: prod.splits)
next
  case (Accept s)
  show ?thesis
    using assms(1) unfolding Accept poll_task.simps
    by (rule owning_task_account) (drule accept_poll_account, simp cong: poll.case_cong)
next
  case (Connectx s)
  show ?thesis
    using assms(1) unfolding Connectx poll_task.simps poll_connectx_def
    by (rule owning_task_account)
      (drule connect_poll_account[where arg = builder_arg, OF levels connect_starts(1)[OF levels] silent_connects(1)],
        simp cong: poll.case_cong)
next
  case (Connectx_from_socket s)
  show ?thesis
    using assms(1) unfolding Connectx_from_socket poll_task.simps poll_connectx_from_socket_def
    by (rule owning_task_account)
      (drule connect_poll_account[where arg = socket_arg, OF levels connect_starts(2)[OF levels] silent_connects(3)],
        simp cong: poll.case_cong)
next
  case (Connect s)
  show ?thesis
    using assms(1) unfolding Connect poll_task.simps poll_connect_def
    by (rule owning_task_account)
      (drule connect_poll_account[where arg = no_arg, OF levels connect_starts(3)[OF levels] silent_connects(4)],
        simp cong: poll.case_cong)
qed (use assms in auto)

lemma drop_connect_account:
  "\<exists>tr. trace (drop_connect E arg s w) = trace w @ tr \<and>
     option_mset (connect_owned arg s) + opened t tr = closed tr"
proof (cases "connect_owned arg s")
  case (Some d)
  obtain v w1 where "sys_call E (C_close d) w = (v, w1)"
    by fastforce
  then show ?thesis
    using Some by (auto simp: drop_connect_def dest: sys_call_trace)
qed (simp add: drop_connect_def)

lemma descriptors_account:
  "levels_ok t \<Longrightarrow> task_account E t held (opened t) closed (\<lambda>_. True) (\<lambda>_. True)"
proof
  show "\<exists>tr. trace w' = trace w @ tr \<and>
      (list_all (\<lambda>_. True) tr \<longrightarrow> True \<longrightarrow> held tk + opened t tr = held tk' + closed tr)"
    if "levels_ok t" "poll_task E t tk w = Some (tk', w')" for tk w tk' w'
    using descriptors_poll[OF that(2,1)] by blast
  show "\<exists>tr. trace (drop_task E tk w) = trace w @ tr \<and>
      (list_all (\<lambda>_. True) tr \<longrightarrow> held tk + opened t tr = held Dropped + closed tr)"
    if "running tk" for tk w
    using that by (cases tk) (auto intro: drop_connect_account)
qed simp_all

section \<open>Properties\<close>

text \<open>
  C11: with any number of tasks on any sockets, polled in any order and dropped at any
  suspension, the messages the kernel took over are exactly those of the send tasks that have
  finished successfully, each once: no message is lost, duplicated or mixed up with another by
  the interleaving, and a task that failed, is pending or was dropped has sent nothing.
\<close>

theorem concurrent_sends_exactly_once:
  assumes "reachable E t rt"
  shows "mset (sent (trace (rt_world rt))) = total (delivered t) (tasks rt)"
  using messages.reachable_accounted[OF assms]
  by (simp add: messages.accounted_def total_spawned[OF assms delivered_running])

theorem concurrent_sends_exactly_once_witness:
  "let t = linux_x86_64; st = SctpStream (Io (imp_Socket 3));
       info = \<lparr>si_sid = 1, si_ppid = Ppid 60, si_flags = SendFlags 0, si_context = 0, si_assoc_id = AssocId 0\<rparr>;
       a = Stream_send st [1] info; b = Stream_send st [2] info
   in \<exists>rt. reachable scripted t rt \<and> tasks rt = [a, Finished b (Sent (Ok 1))] \<and>
      mset (sent (trace (rt_world rt))) = {#(3, None, [2], sndinfo_control t info)#}"
proof -
  let ?t = linux_x86_64 and ?io = "Io (imp_Socket 3)"
  let ?info = "\<lparr>si_sid = 1, si_ppid = Ppid 60, si_flags = SendFlags 0, si_context = 0, si_assoc_id = AssocId 0\<rparr>"
  let ?a = "Stream_send (SctpStream ?io) [1] ?info" and ?b = "Stream_send (SctpStream ?io) [2] ?info"
  let ?pend = "sr_ok\<lparr>sr_ret := 1\<rparr>"
  let ?p = "\<lambda>buf. poll_stream_send_msg scripted ?t (SctpStream ?io) buf ?info ()"
  define rt0 where "rt0 = \<lparr>spawned = [?a, ?b], tasks = [?a, ?b], rt_world = \<lparr>kst = [], trace = []\<rparr> :: sysret list world\<rparr>"
  define w1 :: "sysret list world" where "w1 = \<lparr>kst = [], trace = [(C_reactor_writable 3, ?pend)]\<rparr>"
  have p1: "?p [1] \<lparr>kst = [?pend], trace = []\<rparr> = Some (Pending (), w1)"
    unfolding poll_stream_send_msg_def poll_write_op_def w1_def
    by (rule poll_loop_pending[where v = ?pend]) (simp_all add: is_pending_def)
  obtain w2 where "imp_send_msg scripted ?t (imp_Socket 3) [2] None ?info
      \<lparr>kst = [?pend], trace = trace w1 @ [(C_reactor_writable 3, sr_ok)]\<rparr> = Some (Ok 1, w2)"
    unfolding send_msg_run sys_call_scripted by (simp add: cvt_size_def)
  then have p2: "?p [2] (w1\<lparr>kst := [sr_ok, ?pend]\<rparr>) = Some (Ready (Ok 1), w2)"
    unfolding poll_stream_send_msg_def poll_write_op_def
    by (intro poll_loop_done[where v = sr_ok]) (simp_all add: is_pending_def op_next_def w1_def)
  have 0: "reachable scripted ?t rt0"
    using reachable.step[OF reachable.step[OF reachable.start[of scripted ?t "[]"]
          runtime_step.spawn[of ?a]] runtime_step.spawn[of ?b]]
    by (simp add: rt0_def)
  have 1: "reachable scripted ?t (rt0\<lparr>rt_world := w1\<rparr>)"
    using reachable.step[OF 0 runtime_step.polled[of 0 rt0 scripted ?t "[?pend]" ?a w1]] p1
    by (simp add: rt0_def progress_eq_Some)
  have 2: "reachable scripted ?t (rt0\<lparr>tasks := [?a, Finished ?b (Sent (Ok 1))], rt_world := w2\<rparr>)"
    using reachable.step[OF 1 runtime_step.polled[of 1 "rt0\<lparr>rt_world := w1\<rparr>" scripted ?t
          "[sr_ok, ?pend]" "Finished ?b (Sent (Ok 1))" w2]] p2
    by (simp add: rt0_def progress_eq_Some)
  show ?thesis
    unfolding Let_def using concurrent_sends_exactly_once[OF 2] 2
    by (intro exI[of _ "rt0\<lparr>tasks := [?a, Finished ?b (Sent (Ok 1))], rt_world := w2\<rparr>"]) simp
qed

text \<open>
  C13: the tasks of a runtime leak no descriptor. At every moment the descriptors handed to the
  tasks when they were spawned and those opened since are the ones that suspended connects own,
  the ones of the streams that finished accepts and connects returned, and the ones closed. So
  once every task has failed or was dropped, everything has been closed.
\<close>

theorem runtime_leaks_no_descriptor:
  assumes "reachable E t rt" and "levels_ok t"
  shows "total held (spawned rt) + opened t (trace (rt_world rt)) =
    total held (tasks rt) + closed (trace (rt_world rt))"
  using task_account.reachable_accounted[OF descriptors_account[OF assms(2)] assms(1)]
  by (simp add: task_account.accounted_def[OF descriptors_account[OF assms(2)]])

theorem runtime_leaks_no_descriptor_witness:
  "\<exists>rt. reachable scripted linux_x86_64 rt \<and> levels_ok linux_x86_64 \<and>
     spawned rt = [Connectx (Unresumed (example_builder, [V4 0x7f000001 80]))] \<and> tasks rt = [Dropped] \<and>
     {#3#} + opened linux_x86_64 (trace (rt_world rt)) = closed (trace (rt_world rt))"
proof -
  let ?tk = "Connectx (Unresumed (example_builder, [V4 0x7f000001 80]))"
  let ?sus = "Connectx (Suspended (Io (imp_Socket 3), True) (replicate 512 0))"
  define rt0 where "rt0 = \<lparr>spawned = [?tk], tasks = [?tk], rt_world = \<lparr>kst = [], trace = []\<rparr> :: sysret list world\<rparr>"
  obtain w where w: "poll_connectx scripted linux_x86_64 (Unresumed (example_builder, [V4 0x7f000001 80]))
      \<lparr>kst = example_answers, trace = []\<rparr> =
      Some (Pending (Suspended (Io (imp_Socket 3), True) (replicate 512 0)), w)"
    using example_connect_pending[of "[]"] by blast
  have 0: "reachable scripted linux_x86_64 rt0"
    using reachable.step[OF reachable.start[of scripted linux_x86_64 "[]"] runtime_step.spawn[of ?tk]]
    by (simp add: rt0_def)
  have 1: "reachable scripted linux_x86_64 (rt0\<lparr>tasks := [?sus], rt_world := w\<rparr>)"
    using reachable.step[OF 0 runtime_step.polled[of 0 rt0 scripted linux_x86_64 example_answers ?sus w]] w
    by (simp add: rt0_def progress_eq_Some)
  define w' where "w' = drop_task scripted ?sus (w\<lparr>kst := []\<rparr>)"
  have 2: "reachable scripted linux_x86_64 (rt0\<lparr>tasks := [Dropped], rt_world := w'\<rparr>)"
    using reachable.step[OF 1 runtime_step.dropped[of 0 "rt0\<lparr>tasks := [?sus], rt_world := w\<rparr>"
          scripted linux_x86_64 "[]"]]
    by (simp add: w'_def del: drop_task.simps)
  show ?thesis
    using runtime_leaks_no_descriptor[OF 2 linux_levels_ok] 2
    by (intro exI[of _ "rt0\<lparr>tasks := [Dropped], rt_world := w'\<rparr>"])
      (simp add: rt0_def example_builder_def)
qed

end
