(* ===== verification/Receivers.thy ===== *)
theory Receivers
  imports Tasks
begin

text \<open>
  Receiving in many tasks. Any number of tasks may receive on the same sockets while others
  connect, send or accept, and any of them may be dropped. The account is that of the user
  messages (or parts of messages) the kernel handed over: each of them is what exactly one
  receive returned. Receives and connects that end with an error are the ones that may have
  consumed a message they do not return: data in the middle of a notification, or before an
  association is up.
\<close>

section \<open>What the kernel hands over\<close>

text \<open>Descriptor, bytes and end-of-record flag of every answer to \<open>recvmsg\<close> that is user data.\<close>

fun data_parts :: "(call \<times> sysret) list \<Rightarrow> (fd \<times> byte list \<times> bool) list" where
  "data_parts [] = []"
| "data_parts ((C_recvmsg d n m c fl, r) # tr) =
     (if sr_ret r < 0 \<or> sr_msg_flags r AND MSG_NOTIFICATION \<noteq> 0 then data_parts tr
      else (d, sr_out r, sr_msg_flags r AND MSG_EOR \<noteq> 0) # data_parts tr)"
| "data_parts (x # tr) = data_parts tr"

text \<open>The kernel reports as many bytes as it wrote, and writes within the buffer.\<close>

fun honest :: "call \<times> sysret \<Rightarrow> bool" where
  "honest (C_recvmsg d n m c fl, r) \<longleftrightarrow>
     sr_ret r < 0 \<or> sr_ret r = int (length (sr_out r)) \<and> length (sr_out r) \<le> n"
| "honest _ \<longleftrightarrow> True"

lemma data_parts_append [simp]: "data_parts (tr @ tr') = data_parts tr @ data_parts tr'"
  by (induction tr rule: data_parts.induct) simp_all

abbreviation no_data :: "(call \<times> sysret) list \<Rightarrow> bool" where
  "no_data tr \<equiv> data_parts tr = []"

lemma no_recv_no_data: "\<not> is_recvmsg c \<Longrightarrow> no_data [(c, v)]"
  by (cases c) simp_all

lemma waits_no_recv: "waits c \<Longrightarrow> \<not> is_recvmsg c"
  by (cases c) simp_all

interpretation dataless: register_account no_data
  by unfold_locales (simp_all add: no_recv_no_data waits_no_recv)

lemma no_data_setsockopt: "no_data [(C_setsockopt d level opt val, v)]"
  by simp

lemmas dataless_setup = dataless.keeps_setup[OF no_data_setsockopt]
lemmas dataless_connects = dataless.keeps_connects[OF no_data_setsockopt dataless.keeps_register]

section \<open>One receive\<close>

text \<open>
  Reassembly takes fragments of notifications; it consumes data only to report that it lost step.
\<close>

lemma reassemble_no_data:
  assumes "reassemble_loop E s out over scratch w = Some y"
  shows "fst y \<noteq> Err (Custom InvalidData ''sctp notification reassembly desynchronized'') \<longrightarrow>
    records no_data w (snd y)"
proof (rule reassemble_loop.raw_induct[where P = "\<lambda>E s out over scratch w y.
    fst y \<noteq> Err (Custom InvalidData ''sctp notification reassembly desynchronized'') \<longrightarrow>
    records no_data w (snd y)", OF _ assms], goal_cases)
  case (1 loop E s out over scratch w y)
  let ?c = "C_recvmsg (raw s) (length scratch) 0 0 0"
  obtain r w1 where r: "sys_call E ?c w = (r, w1)"
    by fastforce
  show ?case
  proof (intro impI)
    assume sync: "fst y \<noteq> Err (Custom InvalidData ''sctp notification reassembly desynchronized'')"
    then have "no_data [(?c, r)]"
      using 1(2) r by (auto simp: cvt_size_def Let_def split: if_splits)
    with r have "records no_data w w1"
      by (rule dataless.records_call)
    moreover have "records no_data w1 (snd y)"
      using 1 r sync dataless.records_refl
      by (auto simp: Let_def split: sum.splits if_splits prod.splits)
    ultimately show "records no_data w (snd y)"
      by (rule dataless.records_trans)
  qed
qed

text \<open>What a receive has consumed, by its outcome.\<close>

fun consumed :: "target \<Rightarrow> fd \<Rightarrow> (RecvMsg \<times> byte list) io_result \<Rightarrow> (call \<times> sysret) list \<Rightarrow> bool" where
  "consumed t d (Inr (Data len info eor, buf)) tr \<longleftrightarrow>
     (list_all honest tr \<longrightarrow> data_parts tr = [(d, take len buf, eor)])"
| "consumed t d (Inr (RecvNotification n, buf)) tr \<longleftrightarrow> no_data tr"
| "consumed t d (Inl e) tr \<longleftrightarrow> (blocks t e \<longrightarrow> no_data tr)"

lemma consumed_prefix: "no_data tr \<Longrightarrow> consumed t d r tr' \<Longrightarrow> consumed t d r (tr @ tr')"
  by (induction t d r tr' rule: consumed.induct) simp_all

abbreviation received_part :: "((RecvMsg \<times> SocketAddr option) \<times> byte list) io_result \<Rightarrow> (RecvMsg \<times> byte list) io_result" where
  "received_part \<equiv> map_sum id (\<lambda>((msg, src), buf). (msg, buf))"

lemma recv_consumes:
  assumes "imp_recv_msg E t s buf want_from w = Some (r, w')"
  shows "records (consumed t (raw s) (received_part r)) w w'"
proof -
  let ?c = "recv_call s buf want_from"
  obtain v w1 where v: "sys_call E ?c w = (v, w1)"
    by fastforce
  note run = assms[unfolded imp_recv_msg_def io_bind_do_call[OF v]]
  have first: "records no_data w w1" if "no_data [(?c, v)]"
    using v that by (rule dataless.records_call)
  consider (failed) "sr_ret v < 0" | (data) "\<not> sr_ret v < 0" "sr_msg_flags v AND MSG_NOTIFICATION = 0"
    | (event) "\<not> sr_ret v < 0" "sr_msg_flags v AND MSG_NOTIFICATION \<noteq> 0"
    by blast
  then show ?thesis
  proof cases
    case failed
    then have "r = Err (Os (sr_errno v))" "w' = w1"
      using run by (simp_all add: cvt_size_def io_lift_run)
    then show ?thesis
      using first failed by (auto simp: records_def)
  next
    case data
    then have n: "cvt_size v = Ok (nat (sr_ret v))"
      by (simp add: cvt_size_def)
    have "trace w' = trace w @ [(?c, v)]"
      using run data sys_call_trace[OF v] unfolding n io_bind_lift Let_def
      by (auto simp: io_bind_Some_iff io_lift_def)
    moreover have "consumed t (raw s) (received_part r) [(?c, v)]"
      using run data unfolding n io_bind_lift Let_def
      by (auto simp: io_bind_Some_iff io_lift_def try_bind_eq_Inl overlay_def split: if_splits
          dest: slice_to_never_blocks[of _ _ _ t])
    ultimately show ?thesis
      by (auto simp: records_def)
  next
    case event
    then have n: "cvt_size v = Ok (nat (sr_ret v))"
      by (simp add: cvt_size_def)
    have re: "records no_data w1 w2" if "reassemble_notification E s bs w1 = Some (q, w2)"
      "\<And>e. q = Inl e \<Longrightarrow> blocks t e" for bs q w2
      using reassemble_no_data[of E s bs False "replicate 4096 0" w1 "(q, w2)"] that
      by (auto simp: reassemble_notification_def)
    have quiet: "records no_data w1 w'" if "\<And>e. r = Inl e \<Longrightarrow> blocks t e"
      using run event that dataless.records_refl unfolding n io_bind_lift Let_def
      by (auto simp: io_bind_Some_iff io_lift_def try_bind_eq_Inl split: if_splits intro: re
          dest: slice_to_never_blocks[of _ _ _ t] parse_never_blocks[of _ _ _ t])
    have "no_data [(?c, v)]"
      using event by simp
    then have all: "records no_data w w'" if "\<And>e. r = Inl e \<Longrightarrow> blocks t e"
      using dataless.records_trans[OF first quiet] that by blast
    have notified: "\<exists>n src buf. r = Inr ((RecvNotification n, src), buf)" if "r = Inr x" for x
      using run event that unfolding n io_bind_lift Let_def
      by (auto simp: io_bind_Some_iff io_lift_def split: if_splits)
    have "\<exists>tr. trace w' = trace w @ tr"
      using extends_owns[OF borrows_recv_msg] assms unfolding extends_def by blast
    then show ?thesis
      using all notified by (cases r) (auto simp: records_def)
  qed
qed

section \<open>One poll\<close>

text \<open>
  A receive that is pending has consumed nothing, one that succeeds what it returns: \<open>part\<close> of the
  result \<open>g\<close> makes of it.
\<close>

lemma read_op_consumes:
  assumes "poll_read_op E t io (\<lambda>buf s. io_bind (imp_recv_msg E t s buf want_from) (\<lambda>y. io_return (g y)))
      after buf w = Some (out, w')"
    and g: "\<And>msg src buf. part (g ((msg, src), buf)) = (msg, buf)"
  shows "case out of Pending _ \<Rightarrow> records no_data w w'
    | Ready r \<Rightarrow> records (\<lambda>tr. \<forall>x. r = Inr x \<longrightarrow> consumed t (raw (sock io)) (Inr (part x)) tr) w w'"
proof -
  let ?f = "\<lambda>buf. io_bind (imp_recv_msg E t (sock io) buf want_from) (\<lambda>y. io_return (g y))"
  have d: "drive (poll_loop E t C_reactor_readable io ?f (\<lambda>buf. after buf (sock io)) op_next) buf w [] =
      Some (out, w', [])"
    using assms(1) unfolding poll_read_op_def by (rule poll_drive)
  have attempt: "records (consumed t (raw (sock io)) (map_sum id part r)) w w'" if "?f buf w = Some (r, w')"
    for buf w r w'
    using that by (auto simp: io_bind_Some_iff io_lift_def g dest!: recv_consumes)
  have wb: "records no_data w w'" if "?f buf w = Some (r, w')" "would_block t r" for buf w r w'
    using attempt[OF that(1)] that(2) by (auto simp: records_def would_block_iff)
  show ?thesis
    using d waits_readiness(1) wb
  proof (rule dataless.op_outcome)
    fix b r w1
    assume out: "out = Ready r" and q: "records no_data w w1" and f: "?f b w1 = Some (r, w')"
    obtain tr where tr: "trace w1 = trace w @ tr" "no_data tr"
      using q by (auto simp: records_def)
    obtain tr' where tr': "trace w' = trace w1 @ tr'" "consumed t (raw (sock io)) (map_sum id part r) tr'"
      using attempt[OF f] by (auto simp: records_def)
    show ?thesis
      using out tr(1) tr'(1) consumed_prefix[OF tr(2) tr'(2)] by (auto simp: records_def)
  qed (auto simp: records_def)
qed

text \<open>The wait of a connect consumes data only if it fails.\<close>

lemma established_no_data:
  assumes "poll_established E t io s w = Some (out, w')" and ok: "\<And>e. out \<noteq> Ready (Inl e)"
  shows "records no_data w w'"
proof -
  let ?next = "setup_next E t io" and ?attempt = "\<lambda>buf. setup_recv E t buf (sock io)"
  have d: "drive (poll_loop E t C_reactor_readable io ?attempt (\<lambda>buf. buf_after E False buf (sock io)) ?next) s w [] = Some (out, w', [])"
    using assms(1) unfolding poll_established_def by (rule poll_drive)
  have notified: "records no_data w w'"
    if "?attempt s w = Some (Ok ((msg, src), buf), w')" "setup_verdict msg \<in> {Ignored, Up}" for s w msg src buf w'
    using recv_consumes[OF that(1)] that(2)
    by (cases msg) (auto simp: setup_verdict_def records_def split: if_splits)
  have again: "records no_data w w'"
    if "?attempt s w = Some (r, w')" "would_block t r \<or> (\<exists>s'. ?next s r = Inl s')" for s w r w'
  proof (cases r)
    case (Inl e)
    then show ?thesis
      using recv_consumes[OF that(1)] that(2) by (auto simp: records_def would_block_iff setup_next_def)
  next
    case (Inr x)
    then show ?thesis
      using that notified by (auto simp: would_block_iff setup_next_def split: prod.splits verdict.splits)
  qed
  have ended: "records no_data w1 w'" if "loop_end E t C_reactor_readable io ?attempt ?next (s1, w1) (Ok x) w'" for s1 w1 x
    using that
  proof cases
    case (finishes v w2 r w3 m)
    have "\<exists>msg src buf. r = Ok ((msg, src), buf) \<and> setup_verdict msg = Up \<and> w' = w3"
      using finishes(4,5)
      by (auto simp: setup_next_def io_lift_def setup_failure_def io_bind_Some_iff
          split: sum.splits prod.splits verdict.splits)
    moreover have "records no_data w1 w2"
      using finishes(1) by (rule dataless.records_call) simp
    ultimately show ?thesis
      using finishes(2) notified dataless.records_trans by blast
  qed
  have "(\<exists>s'. out = Pending s' \<and> records no_data w w') \<or>
      (\<exists>r s1 w1. out = Ready r \<and> records no_data w w1 \<and>
         loop_end E t C_reactor_readable io ?attempt ?next (s1, w1) r w')"
    using d waits_readiness(1) again by (rule dataless.drive_records)
  then show ?thesis
    using ended dataless.records_trans ok by (metis sum.exhaust)
qed

lemma connect_no_data:
  assumes "poll_async start (\<lambda>(io, _). poll_established E t io) (connectx_finish E t) s w = Some (out, w')"
    and start: "\<And>i. keeps no_data (start i)" and ok: "\<And>e. out \<noteq> Ready (Inl e)"
  shows "records no_data w w'"
proof -
  have resume: "records no_data w w'"
    if r: "poll_resume (\<lambda>(io, _). poll_established E t io) (connectx_finish E t) c s w = Some (out, w')" for c s w
  proof -
    obtain out1 w1 where p: "poll_established E t (fst c) s w = Some (out1, w1)"
      using r by (cases "poll_established E t (fst c) s w") (auto simp: poll_resume_def case_prod_unfold)
    have rest: "case out1 of Pending s' \<Rightarrow> w' = w1
        | Ready r \<Rightarrow> \<exists>r'. connectx_finish E t c r w1 = Some (r', w') \<and> out = Ready r'"
      using r p by (cases out1) (auto simp: poll_resume_def case_prod_unfold)
    have "out1 \<noteq> Ready (Inl e)" for e
      using rest ok by (auto simp: connectx_finish_def case_prod_unfold dropping_def io_lift_run split: prod.splits)
    with p have "records no_data w w1"
      by (rule established_no_data)
    then show ?thesis
      using rest by (cases out1) (auto intro: dataless.records_trans keepsD[OF dataless_connects(2)])
  qed
  show ?thesis
  proof (cases s)
    case (Unresumed i)
    then show ?thesis
      using assms(1) keepsD[OF start] resume dataless.records_trans
      by (fastforce split: option.splits sum.splits prod.splits)
  next
    case (Suspended c s')
    then show ?thesis
      using assms(1) resume by simp
  qed
qed

section \<open>All tasks\<close>

text \<open>The data a finished receive returned, with the descriptor it received on.\<close>

fun part_of :: "fd \<Rightarrow> RecvMsg \<times> byte list \<Rightarrow> (fd \<times> byte list \<times> bool) multiset" where
  "part_of d (Data len info eor, buf) = {#(d, take len buf, eor)#}"
| "part_of d (RecvNotification n, buf) = {#}"

fun returned :: "task \<Rightarrow> (fd \<times> byte list \<times> bool) multiset" where
  "returned (Finished (Stream_recv st b) (Received (Inr x))) = part_of (raw (sock (stream_io st))) x"
| "returned (Finished (Endpoint_recv ep b) (Received (Inr x))) = part_of (raw (sock (endpoint_io ep))) x"
| "returned (Finished (Endpoint_recv_from ep b) (ReceivedFrom (Inr ((msg, src), buf)))) =
     part_of (raw (sock (endpoint_io ep))) (msg, buf)"
| "returned _ = {#}"

text \<open>Receives and connects that ended with an error.\<close>

fun failed :: "task \<Rightarrow> bool" where
  "failed (Finished tk (Received (Inl e))) \<longleftrightarrow> True"
| "failed (Finished tk (ReceivedFrom (Inl e))) \<longleftrightarrow> True"
| "failed (Finished tk (Connected (Inl e))) \<longleftrightarrow> True"
| "failed _ \<longleftrightarrow> False"

lemma running_not_failed: "running tk \<Longrightarrow> \<not> failed tk \<and> returned tk = {#}"
  by (cases tk) simp_all

lemma consumed_part_of:
  "consumed t d (Inr x) tr \<Longrightarrow> list_all honest tr \<Longrightarrow> mset (data_parts tr) = part_of d x"
  by (cases "(d, x)" rule: part_of.cases) simp_all

text \<open>The account of a poll, unless it fails.\<close>

definition receipts :: "task \<Rightarrow> 'k world \<Rightarrow> 'k world \<Rightarrow> bool" where
  "receipts tk w w' \<longleftrightarrow>
     (\<exists>tr. trace w' = trace w @ tr \<and> (list_all honest tr \<longrightarrow> mset (data_parts tr) = returned tk))"

lemma dataless_receipts:
  assumes "progress p resume finish = Some (tk', w')" and "\<not> failed tk'"
    and "\<And>out. p = Some (out, w') \<Longrightarrow> \<not> failed (case out of Pending s \<Rightarrow> resume s | Ready r \<Rightarrow> finish r) \<Longrightarrow>
      records no_data w w'"
    and "\<And>s. returned (resume s) = {#}" and "\<And>r. returned (finish r) = {#}"
  shows "receipts tk' w w'"
proof -
  obtain out where out: "p = Some (out, w')"
    and tk': "tk' = (case out of Pending s \<Rightarrow> resume s | Ready r \<Rightarrow> finish r)"
    using assms(1) by (auto simp: progress_eq_Some)
  have "returned tk' = {#}"
    using assms(4,5) tk' by (cases out) simp_all
  then show ?thesis
    using assms(3)[OF out] assms(2) tk' by (auto simp: receipts_def records_def)
qed

lemma recv_receipts:
  assumes "progress (poll_read_op E t io
      (\<lambda>buf s. io_bind (imp_recv_msg E t s buf want_from) (\<lambda>y. io_return (g y))) after buf w) resume finish =
      Some (tk', w')"
    and g: "\<And>msg src buf. part (g ((msg, src), buf)) = (msg, buf)"
    and "\<And>b. running (resume b)" and "\<not> failed tk'" and "\<And>e. failed (finish (Inl e))"
    and "\<And>x. returned (finish (Inr x)) = part_of (raw (sock io)) (part x)"
  shows "receipts tk' w w'"
proof -
  obtain out where out: "poll_read_op E t io
      (\<lambda>buf s. io_bind (imp_recv_msg E t s buf want_from) (\<lambda>y. io_return (g y))) after buf w = Some (out, w')"
    and tk': "tk' = (case out of Pending b \<Rightarrow> resume b | Ready r \<Rightarrow> finish r)"
    using assms(1) by (auto simp: progress_eq_Some)
  note use = read_op_consumes[OF out g]
  show ?thesis
  proof (cases out)
    case (Pending u)
    then show ?thesis
      using use tk' running_not_failed[OF assms(3)] by (auto simp: receipts_def records_def)
  next
    case (Ready r)
    then obtain x where "r = Inr x"
      using assms(4,5) tk' by (cases r) auto
    then show ?thesis
      using use Ready tk' assms(6) by (auto simp: receipts_def records_def dest: consumed_part_of)
  qed
qed

lemma dataless_send: "keeps no_data (imp_send_msg E t s buf dest info)"
  by (auto simp: keeps_def send_msg_run split: prod.splits intro: dataless.records_call)

lemmas send_no_data = dataless.op_records(2)[OF _ dataless_send]
lemmas accept_no_data = dataless.accept_records[OF no_data_setsockopt]

lemma recv_parts:
  "(\<lambda>((msg, _), buf). io_return (msg, buf)) = (\<lambda>y. io_return ((\<lambda>((msg, src), buf). (msg, buf)) y))"
  by (auto simp: fun_eq_iff)

lemma receives_poll:
  assumes "poll_task E t tk w = Some (tk', w')" and ok: "\<not> failed tk'"
  shows "receipts tk' w w'"
proof (cases tk)
  case (Stream_send st buf info)
  show ?thesis
    using assms(1) ok unfolding Stream_send poll_task.simps poll_stream_send_msg_def
    by (rule dataless_receipts) (auto elim: send_no_data)
next
  case (Endpoint_send ep buf info)
  show ?thesis
    using assms(1) ok unfolding Endpoint_send poll_task.simps poll_endpoint_send_msg_def
    by (rule dataless_receipts) (auto elim: send_no_data)
next
  case (Endpoint_send_to ep buf addr info)
  show ?thesis
    using assms(1) ok unfolding Endpoint_send_to poll_task.simps poll_endpoint_send_msg_to_def
    by (rule dataless_receipts) (auto elim: send_no_data)
next
  case (Stream_recv st buf)
  show ?thesis
    using assms(1)[unfolded Stream_recv poll_task.simps poll_stream_recv_msg_def recv_parts]
    by (rule recv_receipts[where part = id]) (use ok in auto)
next
  case (Endpoint_recv ep buf)
  show ?thesis
    using assms(1)[unfolded Endpoint_recv poll_task.simps poll_endpoint_recv_msg_def recv_parts]
    by (rule recv_receipts[where part = id]) (use ok in auto)
next
  case (Endpoint_recv_from ep buf)
  show ?thesis
    using assms(1)[unfolded Endpoint_recv_from poll_task.simps poll_endpoint_recv_msg_from_def]
    by (rule recv_receipts[where part = "\<lambda>((msg, src), buf). (msg, buf)" and g = "\<lambda>y. y", unfolded io_bind_return])
      (use ok in auto)
next
  case (Accept s)
  show ?thesis
    using assms(1) ok unfolding Accept poll_task.simps
    by (rule dataless_receipts) (auto elim: accept_no_data)
next
  case (Connectx s)
  show ?thesis
    using assms(1) ok unfolding Connectx poll_task.simps poll_connectx_def
    by (rule dataless_receipts) (auto elim!: connect_no_data intro: dataless_connects)
next
  case (Connectx_from_socket s)
  show ?thesis
    using assms(1) ok unfolding Connectx_from_socket poll_task.simps poll_connectx_from_socket_def
    by (rule dataless_receipts) (auto elim!: connect_no_data intro: dataless_connects)
next
  case (Connect s)
  show ?thesis
    using assms(1) ok unfolding Connect poll_task.simps poll_connect_def
    by (rule dataless_receipts) (auto elim!: connect_no_data intro: dataless_connects)
qed (use assms in auto)

lemma closes_receive_nothing: "only_closes tr \<Longrightarrow> no_data tr"
  by (induction tr rule: data_parts.induct) auto

interpretation receipt: task_account E t returned "\<lambda>tr. mset (data_parts tr)" "\<lambda>_. {#}" honest
  "\<lambda>tk. \<not> failed tk" for E t
proof
  show "\<exists>tr. trace w' = trace w @ tr \<and> (list_all honest tr \<longrightarrow> \<not> failed tk' \<longrightarrow>
      returned tk + mset (data_parts tr) = returned tk' + {#})"
    if p: "poll_task E t tk w = Some (tk', w')" for tk w tk' w'
  proof -
    obtain tr where tr: "trace w' = trace w @ tr"
      using messages_poll[OF p] by blast
    have "mset (data_parts tr) = returned tk'" if "\<not> failed tk'" "list_all honest tr"
      using receives_poll[OF p that(1)] that(2) tr by (auto simp: receipts_def)
    then show ?thesis
      using tr running_not_failed[OF poll_task_running[OF p]] by auto
  qed
  show "\<exists>tr. trace (drop_task E tk w) = trace w @ tr \<and> (list_all honest tr \<longrightarrow>
      returned tk + mset (data_parts tr) = returned Dropped + {#})" if "running tk" for tk w
    using drop_task_trace[of E tk w] running_not_failed[OF that] by (auto simp: closes_receive_nothing)
qed (auto simp: running_not_failed)

section \<open>Properties\<close>

text \<open>
  C12: concurrent receivers lose nothing and share nothing. In every state of a runtime in which
  no receive and no connect has failed, the user messages (or parts of messages) the kernel has
  handed over are exactly those the completed receives returned: each was returned once, with its
  bytes and its end-of-record flag, by a receive on the descriptor it arrived on; tasks that are
  pending or were dropped, and those that send, accept or connect, have taken none. The kernel is
  assumed to report as many bytes as it wrote into the buffer.
\<close>

theorem concurrent_receives_lose_nothing:
  assumes "reachable E t rt" and "list_all honest (trace (rt_world rt))"
    and "list_all (\<lambda>tk. \<not> failed tk) (tasks rt)"
  shows "mset (data_parts (trace (rt_world rt))) = total returned (tasks rt)"
proof -
  have "total returned (spawned rt) = {#}"
    using assms(1) by (rule total_spawned) (simp add: running_not_failed)
  then show ?thesis
    using receipt.reachable_accounted[OF assms(1)] assms(2,3) by (simp add: receipt.accounted_def)
qed

theorem concurrent_receives_lose_nothing_witness:
  "let t = linux_x86_64; ep = SctpEndpoint (Io (imp_Socket 4));
       a = Endpoint_recv ep [0]; b = Endpoint_recv ep [0, 0, 0];
       data = sr_ok\<lparr>sr_ret := 2, sr_out := [7, 8], sr_msg_flags := MSG_EOR\<rparr>
   in \<exists>rt. reachable scripted t rt \<and> list_all honest (trace (rt_world rt)) \<and>
      tasks rt = [Dropped, Finished b (Received (Ok (Data 2 None True, [7, 8, 0])))] \<and>
      mset (data_parts (trace (rt_world rt))) = {#(4, [7, 8], True)#}"
proof -
  let ?t = linux_x86_64 and ?io = "Io (imp_Socket 4)" and ?pend = "sr_ok\<lparr>sr_ret := 1\<rparr>"
  let ?a = "Endpoint_recv (SctpEndpoint ?io) [0]" and ?b = "Endpoint_recv (SctpEndpoint ?io) [0, 0, 0]"
  let ?done = "Finished ?b (Received (Ok (Data 2 None True, [7, 8, 0])))"
  define data where "data = sr_ok\<lparr>sr_ret := 2, sr_out := [7, 8], sr_msg_flags := MSG_EOR\<rparr>"
  define rt0 where "rt0 = \<lparr>spawned = [?a, ?b], tasks = [?a, ?b], rt_world = \<lparr>kst = [], trace = []\<rparr> :: sysret list world\<rparr>"
  define w1 :: "sysret list world" where "w1 = \<lparr>kst = [], trace = [(C_reactor_readable 4, ?pend)]\<rparr>"
  let ?w = "\<lparr>kst = [data], trace = trace w1 @ [(C_reactor_readable 4, sr_ok)]\<rparr>"
  define w2 :: "sysret list world" where "w2 = \<lparr>kst = [], trace = trace ?w @ [(recv_call (imp_Socket 4) [0, 0, 0] False, data)]\<rparr>"
  have p1: "poll_endpoint_recv_msg scripted ?t (SctpEndpoint ?io) [0] \<lparr>kst = [?pend], trace = []\<rparr> =
      Some (Pending [0], w1)"
    by (simp add: poll_endpoint_recv_msg_def w1_def)
  have "delivers ?t data (length [0 :: byte, 0, 0]) [7, 8] None []"
    by (simp add: delivers_def data_def)
  note recv = recv_msg_head[OF sys_call_scripted this]
  have "imp_recv_msg scripted ?t (imp_Socket 4) [0, 0, 0] False ?w = Some (Ok ((Data 2 None True, None), [7, 8, 0]), w2)"
    unfolding recv by (simp add: data_def w2_def MSG_NOTIFICATION_def MSG_EOR_def overlay_def last_rcvinfo_def)
  then have p2: "poll_endpoint_recv_msg scripted ?t (SctpEndpoint ?io) [0, 0, 0] (w1\<lparr>kst := [sr_ok, data]\<rparr>) =
      Some (Ready (Ok (Data 2 None True, [7, 8, 0])), w2)"
    unfolding poll_endpoint_recv_msg_def poll_read_op_def
    by (intro poll_loop_done[where v = sr_ok and ?w1.0 = ?w])
      (simp_all add: is_pending_def op_next_def io_bind_def io_lift_def w1_def)
  have 0: "reachable scripted ?t rt0"
    using reachable.step[OF reachable.step[OF reachable.start[of scripted ?t "[]"]
          runtime_step.spawn[of ?a]] runtime_step.spawn[of ?b]]
    by (simp add: rt0_def)
  have 1: "reachable scripted ?t (rt0\<lparr>rt_world := w1\<rparr>)"
    using reachable.step[OF 0 runtime_step.polled[of 0 rt0 scripted ?t "[?pend]" ?a w1]] p1
    by (simp add: rt0_def progress_eq_Some)
  have 2: "reachable scripted ?t (rt0\<lparr>tasks := [?a, ?done], rt_world := w2\<rparr>)"
    using reachable.step[OF 1 runtime_step.polled[of 1 "rt0\<lparr>rt_world := w1\<rparr>" scripted ?t
          "[sr_ok, data]" ?done w2]] p2
    by (simp add: rt0_def progress_eq_Some)
  have 3: "reachable scripted ?t (rt0\<lparr>tasks := [Dropped, ?done], rt_world := w2\<rparr>)"
    using reachable.step[OF 2 runtime_step.dropped[of 0 _ scripted ?t "[]"]] by (simp add: rt0_def w2_def)
  have "list_all honest (trace w2)"
    by (simp add: w2_def w1_def data_def)
  then show ?thesis
    unfolding Let_def data_def[symmetric] using concurrent_receives_lose_nothing[OF 3] 3
    by (intro exI[of _ "rt0\<lparr>tasks := [Dropped, ?done], rt_world := w2\<rparr>"]) simp
qed

end
