(* ===== verification/End_To_End.thy ===== *)
theory End_To_End
  imports Kernel_Data
begin

text \<open>
  From one socket to the other. What SCTP carries from a sender to a receiver, and back to the
  sender when it cannot be delivered, is described by what the kernels read and write at the
  offsets of \<open>linux/sctp.h\<close>, independently of the crate's own structures. The sender's and the
  receiver's targets may differ: the kernel passes the payload protocol identifier on as four
  opaque bytes, so that it arrives as the same number is the crate's doing.
\<close>

section \<open>The kernels\<close>

record sent_message =
  m_sid :: u16
  m_flags :: u16
  m_ppid :: "byte list"  \<comment> \<open>the four bytes of \<open>snd_ppid\<close> in memory\<close>
  m_context :: u32
  m_data :: "byte list"

text \<open>
  What the sender's kernel reads from a \<open>sendmsg\<close>: a \<open>cmsghdr\<close> of level \<open>IPPROTO_SCTP\<close> and type
  \<open>SCTP_SNDINFO\<close> with a \<open>struct sctp_sndinfo\<close> behind it, and the data.
\<close>

fun kernel_takes :: "target \<Rightarrow> call \<Rightarrow> sent_message option" where
  "kernel_takes t (C_sendmsg d name iov ctl fl) =
     (let p = usize_bytes t; info = drop (p + 8) ctl
      in if length ctl = p + 24 \<and> ne_val t (take p ctl) = p + 24 \<and>
            (from_ne_bytes t (take 4 (drop p ctl)) :: i32) = IPPROTO_SCTP \<and>
            (from_ne_bytes t (take 4 (drop (p + 4) ctl)) :: i32) = SCTP_CMSG_SNDINFO
         then Some \<lparr>m_sid = from_ne_bytes t (take 2 info),
                    m_flags = from_ne_bytes t (take 2 (drop 2 info)),
                    m_ppid = take 4 (drop 4 info),
                    m_context = from_ne_bytes t (take 4 (drop 8 info)),
                    m_data = iov\<rparr>
         else None)"
| "kernel_takes t _ = None"

text \<open>
  What the receiver's kernel writes: a \<open>struct sctp_rcvinfo\<close> with the sender's stream, the
  unordered bit and the identifier's bytes. The sequence numbers, the context and the
  association are its own.
\<close>

definition rcvinfo_memory ::
    "target \<Rightarrow> sent_message \<Rightarrow> u16 \<Rightarrow> u32 \<Rightarrow> u32 \<Rightarrow> u32 \<Rightarrow> i32 \<Rightarrow> byte list" where
  "rcvinfo_memory t m ssn tsn cumtsn ctx aid =
     to_ne_bytes t (m_sid m) @ to_ne_bytes t ssn @ to_ne_bytes t (m_flags m AND SCTP_UNORDERED)
       @ replicate 2 (pad_byte t) @ m_ppid m @ to_ne_bytes t tsn @ to_ne_bytes t cumtsn
       @ to_ne_bytes t ctx @ to_ne_bytes t aid"

definition kernel_delivers ::
    "target \<Rightarrow> sysret \<Rightarrow> nat \<Rightarrow> SocketAddr option \<Rightarrow> sent_message \<Rightarrow> byte list \<Rightarrow> bool" where
  "kernel_delivers t r room src m info \<longleftrightarrow>
     delivers t r room (m_data m) src [(IPPROTO_SCTP, SCTP_CMSG_RCVINFO, info)] \<and>
     sr_msg_flags r AND MSG_NOTIFICATION = 0 \<and> sr_msg_flags r AND MSG_EOR \<noteq> 0"

text \<open>
  The event with which a kernel reports that a message was not delivered: in either layout it
  has the stream, the identifier's bytes and the context of the send, and the data.
\<close>

fun reports_failure :: "target \<Rightarrow> sent_message \<Rightarrow> kernel_event \<Rightarrow> bool" where
  "reports_failure t m (K_send_failed er info aid data) \<longleftrightarrow>
     sinfo_stream info = m_sid m \<and> to_ne_bytes t (sinfo_ppid info) = m_ppid m \<and>
     sinfo_context info = m_context m \<and> data = m_data m"
| "reports_failure t m (K_send_failed_event er info aid data) \<longleftrightarrow>
     snd_sid info = m_sid m \<and> to_ne_bytes t (snd_ppid info) = m_ppid m \<and>
     snd_context info = m_context m \<and> data = m_data m"
| "reports_failure t m _ \<longleftrightarrow> False"

fun failure_cause :: "kernel_event \<Rightarrow> u32 \<times> i32" where
  "failure_cause (K_send_failed er info aid data) = (er, aid)"
| "failure_cause (K_send_failed_event er info aid data) = (er, aid)"
| "failure_cause _ = (0, 0)"

text \<open>A kernel that delivers the bytes of an event, whole or in pieces.\<close>

definition notifies ::
    "'k env \<Rightarrow> target \<Rightarrow> imp_Socket \<Rightarrow> byte list \<Rightarrow> bool \<Rightarrow> byte list \<Rightarrow> 'k world \<Rightarrow> 'k world \<Rightarrow> bool" where
  "notifies E t s buf want_from bs w w' \<longleftrightarrow>
     (\<exists>r w1 first src ms. sys_call E (recv_call s buf want_from) w = (r, w1) \<and>
        delivers t r (length buf) first src ms \<and> sr_msg_flags r AND MSG_NOTIFICATION \<noteq> 0 \<and>
        (if sr_msg_flags r AND MSG_EOR \<noteq> 0 then first = bs \<and> w' = w1
         else \<exists>fs w2 r'. hands_over E s fs w1 w2 \<and>
           sys_call E (C_recvmsg (raw s) 4096 0 0 0) w2 = (r', w') \<and> ends_reassembly r' \<and>
           \<not> sr_ret r' < 0 \<and> sr_msg_flags r' AND MSG_NOTIFICATION \<noteq> 0 \<and>
           first @ concat fs @ sr_out r' = bs))"

section \<open>Sender and receiver\<close>

lemma sndinfo_image_taken:
  "kernel_takes t (C_sendmsg d name buf
      (cmsg_bytes t (IPPROTO_SCTP, SCTP_CMSG_SNDINFO, sndinfo_bytes t info)) fl) =
   Some \<lparr>m_sid = si_sid info, m_flags = SendFlags_bits (si_flags info),
     m_ppid = to_be_bytes (ppid_raw (si_ppid info)), m_context = si_context info, m_data = buf\<rparr>"
proof -
  have a: "align t 16 = 16"
    using usize_bytes_cases[of t] by (auto simp: align_round_up round_up_def)
  have "p + 24 < 256 ^ p" if "p = 4 \<or> p = 8" for p :: nat
    using that by auto
  then have l: "(24 + usize_bytes t) mod 256 ^ usize_bytes t = usize_bytes t + 24"
    using usize_bytes_cases[of t] by (simp add: add.commute)
  show ?thesis
    by (simp add: Let_def a l cmsg_len_def HDR_LEN_cases ne_val_ne_bytes from_to_ne_bytes sndinfo_bytes_eq)
qed

lemma send_taken:
  assumes "imp_send_msg E t s buf dest info w = Some (r, w')"
  shows "\<exists>c v. trace w' = trace w @ [(c, v)] \<and> kernel_takes t c =
    Some \<lparr>m_sid = si_sid info, m_flags = SendFlags_bits (si_flags info),
      m_ppid = to_be_bytes (ppid_raw (si_ppid info)), m_context = si_context info, m_data = buf\<rparr>"
proof -
  let ?c = "C_sendmsg (raw s) (map_option (sockaddr_bytes t) dest) buf
    (cmsg_bytes t (IPPROTO_SCTP, SCTP_CMSG_SNDINFO, sndinfo_bytes t info)) (MSG_NOSIGNAL (libc t))"
  obtain v where "sys_call E ?c w = (v, w')"
    using assms unfolding send_msg_run by (auto split: prod.splits)
  from sys_call_trace[OF this] sndinfo_image_taken show ?thesis
    by blast
qed

lemma rcvinfo_image:
  "struct_bytes t False (sctp_rcvinfo_fields t r) =
     to_ne_bytes t (rcv_sid r) @ to_ne_bytes t (rcv_ssn r) @ to_ne_bytes t (rcv_flags r)
       @ replicate 2 (pad_byte t) @ to_ne_bytes t (rcv_ppid r) @ to_ne_bytes t (rcv_tsn r)
       @ to_ne_bytes t (rcv_cumtsn r) @ to_ne_bytes t (rcv_context r) @ to_ne_bytes t (rcv_assoc_id r)"
  by (simp add: sctp_rcvinfo_fields_def struct_bytes_def layout_simps flip: numeral_2_eq_2)

lemma rcvinfo_memory_read:
  assumes "m_ppid m = to_be_bytes (ppid_raw ppid)"
  shows "RcvInfo_from_sys t (sctp_rcvinfo_of_bytes t (rcvinfo_memory t m ssn tsn cumtsn ctx aid)) =
    \<lparr>ri_sid = m_sid m, ri_ssn = ssn, ri_flags = RcvFlags (m_flags m AND SCTP_UNORDERED), ri_ppid = ppid,
     ri_tsn = tsn, ri_cumtsn = cumtsn, ri_context = ctx, ri_assoc_id = AssocId aid\<rparr>"
proof -
  define raw where "raw = \<lparr>rcv_sid = m_sid m, rcv_ssn = ssn, rcv_flags = m_flags m AND SCTP_UNORDERED,
    rcv_ppid = to_wire t ppid, rcv_tsn = tsn, rcv_cumtsn = cumtsn, rcv_context = ctx, rcv_assoc_id = aid\<rparr>"
  have "rcvinfo_memory t m ssn tsn cumtsn ctx aid = struct_bytes t False (sctp_rcvinfo_fields t raw)"
    by (simp add: rcvinfo_image rcvinfo_memory_def raw_def assms to_wire_def to_ne_bytes_to_be)
  then have "sctp_rcvinfo_of_bytes t (rcvinfo_memory t m ssn tsn cumtsn ctx aid) = raw"
    by (simp add: sctp_rcvinfo_cs.of_to_bytes_exact sctp_rcvinfo_ok_def)
  then show ?thesis
    by (simp add: RcvInfo_from_sys_def raw_def)
qed

lemma recv_event:
  assumes "notifies E t s buf want_from (event_bytes t fl len ev) w w'"
    and "length (event_bytes t fl len ev) \<le> 1048576"
  shows "\<exists>src buf'. imp_recv_msg E t s buf want_from w =
    Some (Ok ((RecvNotification (event_notification t fl ev), src), buf'), w')"
proof -
  let ?bs = "event_bytes t fl len ev"
  obtain r w1 first src ms where r: "sys_call E (recv_call s buf want_from) w = (r, w1)"
    "delivers t r (length buf) first src ms" "sr_msg_flags r AND MSG_NOTIFICATION \<noteq> 0"
    and rest: "if sr_msg_flags r AND MSG_EOR \<noteq> 0 then first = ?bs \<and> w' = w1
      else \<exists>fs w2 r'. hands_over E s fs w1 w2 \<and>
        sys_call E (C_recvmsg (raw s) 4096 0 0 0) w2 = (r', w') \<and> ends_reassembly r' \<and>
        \<not> sr_ret r' < 0 \<and> sr_msg_flags r' AND MSG_NOTIFICATION \<noteq> 0 \<and>
        first @ concat fs @ sr_out r' = ?bs"
    using assms(1) unfolding notifies_def by blast
  have "(if sr_msg_flags r AND MSG_EOR \<noteq> 0 then io_return first
      else reassemble_notification E s first) w1 = Some (Ok ?bs, w')"
  proof (cases "sr_msg_flags r AND MSG_EOR \<noteq> 0")
    case True
    then show ?thesis
      using rest by (simp add: io_lift_run)
  next
    case False
    then obtain fs w2 r' where f: "hands_over E s fs w1 w2"
      "sys_call E (C_recvmsg (raw s) 4096 0 0 0) w2 = (r', w')" "ends_reassembly r'"
      and g: "\<not> sr_ret r' < 0" "sr_msg_flags r' AND MSG_NOTIFICATION \<noteq> 0"
        "first @ concat fs @ sr_out r' = ?bs"
      using rest by auto
    have "reassembled (first @ concat fs) r' = Ok ?bs"
      using g assms(2) by (simp add: reassembled_def MAX_NOTIFICATION_def flip: g(3))
    then show ?thesis
      using reassemble_run[OF f, of first] False by simp
  qed
  then show ?thesis
    using recv_msg_head[OF r(1,2)] r(3)
    by (simp add: Let_def io_bind_run(1) parse_event io_lift_run)
qed

lemma failure_notification:
  assumes "reports_failure t m ev" and "m_ppid m = to_be_bytes (ppid_raw ppid)"
  shows "event_notification t fl ev = N_SendFailed
    \<lparr>sf_unsent = (fl = SCTP_DATA_UNSENT), sf_error = fst (failure_cause ev), sf_sid = m_sid m,
     sf_ppid = ppid, sf_context = m_context m, sf_assoc_id = AssocId (snd (failure_cause ev)),
     sf_payload = m_data m\<rparr>"
proof -
  have "from_wire t v = ppid" if "to_ne_bytes t v = to_be_bytes (ppid_raw ppid)" for v :: u32
  proof -
    have "to_ne_bytes t v = to_ne_bytes t (to_wire t ppid)"
      using that by (simp add: to_wire_def to_ne_bytes_to_be)
    then have "(from_ne_bytes t (to_ne_bytes t v) :: u32) = from_ne_bytes t (to_ne_bytes t (to_wire t ppid))"
      by simp
    then have "v = to_wire t ppid"
      by (simp add: from_to_ne_bytes)
    then show ?thesis
      by simp
  qed
  then show ?thesis
    using assms by (cases ev) auto
qed

lemma unordered_bit:
  "b AND SCTP_UNORDERED \<noteq> 0 \<longleftrightarrow> b AND SCTP_UNORDERED = SCTP_UNORDERED"
  by (simp add: SCTP_UNORDERED_def and_one_eq mod_2_eq_odd)

text \<open>A concrete send, and a big-endian 32-bit machine to receive it.\<close>

definition example_info :: SendInfo where
  "example_info = \<lparr>si_sid = 1, si_ppid = Ppid_NGAP, si_flags = SendFlags_UNORDERED, si_context = 9,
     si_assoc_id = AssocId 0\<rparr>"

definition example_message :: sent_message where
  "example_message = \<lparr>m_sid = 1, m_flags = SCTP_UNORDERED, m_ppid = to_be_bytes (60 :: u32),
     m_context = 9, m_data = [1, 2]\<rparr>"

definition example_peer :: target where
  "example_peer = linux_x86_64\<lparr>endianness := Big, pointer_width := W32\<rparr>"

lemma example_sent:
  "\<exists>w'. imp_send_msg scripted linux_x86_64 (imp_Socket 3) [1, 2] None example_info
     \<lparr>kst = [sr_ok\<lparr>sr_ret := 2\<rparr>], trace = []\<rparr> = Some (Ok 2, w')"
  unfolding send_msg_run sys_call_scripted by (simp add: cvt_size_def)

lemma example_taken:
  assumes "imp_send_msg scripted linux_x86_64 (imp_Socket 3) [1, 2] None example_info w = Some (r, w')"
    and "trace w' = trace w @ [(c, v)]"
  shows "kernel_takes linux_x86_64 c = Some example_message"
  using send_taken[OF assms(1)] assms(2)
  by (auto simp: example_info_def example_message_def Ppid_NGAP_def SendFlags_UNORDERED_def)

section \<open>Properties\<close>

text \<open>
  C5: a message arrives as it was sent, between any two targets. The one call a send makes is
  read by the sender's kernel as a well-formed message; when the receiver's kernel delivers that
  message into a buffer that holds it, the receiver gets exactly the sender's bytes, its stream
  number, its payload protocol identifier and whether it was unordered, whatever the byte order
  and the pointer width of the two machines.
\<close>

theorem message_end_to_end:
  assumes "imp_send_msg E t s buf dest info w = Some (Ok n, w')"
  shows "\<exists>c v m. trace w' = trace w @ [(c, v)] \<and> kernel_takes t c = Some m \<and>
    (\<forall>t' r u u' s' buf' want_from src ssn tsn cumtsn ctx aid.
       kernel_delivers t' r (length buf') src m (rcvinfo_memory t' m ssn tsn cumtsn ctx aid) \<longrightarrow>
       sys_call (E' :: 'j env) (recv_call s' buf' want_from) u = (r, u') \<longrightarrow>
       (\<exists>ri. imp_recv_msg E' t' s' buf' want_from u =
          Some (Ok ((Data (length buf) (Some ri) True, if want_from then src else None),
            buf @ drop (length buf) buf'), u') \<and>
        ri_sid ri = si_sid info \<and> ri_ppid ri = si_ppid info \<and>
        RcvFlags_unordered (ri_flags ri) = SendFlags_contains (si_flags info) SendFlags_UNORDERED))"
proof -
  define m where "m = \<lparr>m_sid = si_sid info, m_flags = SendFlags_bits (si_flags info),
    m_ppid = to_be_bytes (ppid_raw (si_ppid info)), m_context = si_context info, m_data = buf\<rparr>"
  obtain c v where c: "trace w' = trace w @ [(c, v)]" "kernel_takes t c = Some m"
    using send_taken[OF assms] unfolding m_def by blast
  have arrives: "\<exists>ri. imp_recv_msg E' t' s' buf' want_from u =
        Some (Ok ((Data (length buf) (Some ri) True, if want_from then src else None),
          buf @ drop (length buf) buf'), u') \<and>
      ri_sid ri = si_sid info \<and> ri_ppid ri = si_ppid info \<and>
      RcvFlags_unordered (ri_flags ri) = SendFlags_contains (si_flags info) SendFlags_UNORDERED"
    if k: "kernel_delivers t' r (length buf') src m (rcvinfo_memory t' m ssn tsn cumtsn ctx aid)"
      and call: "sys_call E' (recv_call s' buf' want_from) u = (r, u')"
    for t' r u u' s' buf' want_from src ssn tsn cumtsn ctx aid
  proof -
    let ?mem = "rcvinfo_memory t' m ssn tsn cumtsn ctx aid"
    have d: "delivers t' r (length buf') buf src [(IPPROTO_SCTP, SCTP_CMSG_RCVINFO, ?mem)]"
      using k by (simp add: kernel_delivers_def m_def)
    have "length ?mem = 28"
      by (simp add: rcvinfo_memory_def m_def)
    then have "last_rcvinfo t' [(IPPROTO_SCTP, SCTP_CMSG_RCVINFO, ?mem)] =
        Some (RcvInfo_from_sys t' (sctp_rcvinfo_of_bytes t' ?mem))"
      by (simp add: last_rcvinfo_def is_rcvinfo_def)
    moreover have "RcvInfo_from_sys t' (sctp_rcvinfo_of_bytes t' ?mem) =
        \<lparr>ri_sid = si_sid info, ri_ssn = ssn, ri_flags = RcvFlags (SendFlags_bits (si_flags info) AND SCTP_UNORDERED),
         ri_ppid = si_ppid info, ri_tsn = tsn, ri_cumtsn = cumtsn, ri_context = ctx, ri_assoc_id = AssocId aid\<rparr>"
      by (subst rcvinfo_memory_read[where ppid = "si_ppid info"]) (simp_all add: m_def)
    moreover have "buf @ drop (length buf) buf' = overlay buf buf'"
      using d by (simp add: overlay_def delivers_def)
    ultimately show ?thesis
      using recv_msg_head[OF call d] k
      by (simp add: kernel_delivers_def Let_def RcvFlags_unordered_def SendFlags_contains_def
          SendFlags_UNORDERED_def unordered_bit)
  qed
  show ?thesis
    using c arrives by blast
qed

theorem message_end_to_end_witness:
  "\<exists>w' r ri. imp_send_msg scripted linux_x86_64 (imp_Socket 3) [1, 2] None example_info
       \<lparr>kst = [sr_ok\<lparr>sr_ret := 2\<rparr>], trace = []\<rparr> = Some (Ok 2, w') \<and>
     kernel_delivers example_peer r 3 None example_message
       (rcvinfo_memory example_peer example_message 4 5 6 0 7) \<and>
     map_option fst (imp_recv_msg scripted example_peer (imp_Socket 4) [0, 0, 0] False
       \<lparr>kst = [r], trace = []\<rparr>) = Some (Ok ((Data 2 (Some ri) True, None), [1, 2, 0])) \<and>
     ri_sid ri = 1 \<and> ri_ppid ri = Ppid_NGAP \<and> RcvFlags_unordered (ri_flags ri)"
proof -
  let ?t = linux_x86_64 and ?t' = example_peer and ?m = example_message
  let ?w = "\<lparr>kst = [sr_ok\<lparr>sr_ret := 2\<rparr>], trace = []\<rparr> :: sysret list world"
  define mem where "mem = rcvinfo_memory ?t' ?m 4 5 6 0 7"
  define ctl where "ctl = cmsg_bytes ?t' (IPPROTO_SCTP, SCTP_CMSG_RCVINFO, mem)"
  define r where "r = sr_ok\<lparr>sr_ret := 2, sr_out := [1, 2], sr_control := ctl,
    sr_controllen := length ctl, sr_msg_flags := MSG_EOR\<rparr>"
  obtain w' where w': "imp_send_msg scripted ?t (imp_Socket 3) [1, 2] None example_info ?w = Some (Ok 2, w')"
    using example_sent by blast
  have p: "usize_bytes ?t' = 4"
    by (simp add: example_peer_def usize_bytes_def)
  have mem: "length mem = 28"
    by (simp add: mem_def rcvinfo_memory_def example_message_def)
  have "length ctl = 40"
    by (simp add: ctl_def mem space_def HDR_LEN_cases p align_round_up round_up_def del: cmsg_bytes.simps)
  then have k: "kernel_delivers ?t' r (length [0 :: byte, 0, 0]) None ?m mem"
    by (simp add: kernel_delivers_def delivers_def r_def ctl_def[symmetric] RCV_CMSG_SPACE_def mem
        cmsg_len_def HDR_LEN_cases p example_message_def MSG_EOR_def MSG_NOTIFICATION_def
        del: cmsg_bytes.simps)
  from message_end_to_end[OF w', where E' = scripted] obtain c v m where
    c: "trace w' = trace ?w @ [(c, v)]" "kernel_takes ?t c = Some m"
    and recv: "\<And>t' r u u' s' buf' want_from src ssn tsn cumtsn ctx aid.
       kernel_delivers t' r (length buf') src m (rcvinfo_memory t' m ssn tsn cumtsn ctx aid) \<Longrightarrow>
       sys_call scripted (recv_call s' buf' want_from) u = (r, u') \<Longrightarrow>
       (\<exists>ri. imp_recv_msg scripted t' s' buf' want_from u =
          Some (Ok ((Data (length [1 :: byte, 2]) (Some ri) True, if want_from then src else None),
            [1, 2] @ drop (length [1 :: byte, 2]) buf'), u') \<and>
        ri_sid ri = si_sid example_info \<and> ri_ppid ri = si_ppid example_info \<and>
        RcvFlags_unordered (ri_flags ri) =
          SendFlags_contains (si_flags example_info) SendFlags_UNORDERED)"
    by blast
  have m: "m = ?m"
    using example_taken[OF w' c(1)] c(2) by simp
  obtain ri u where "imp_recv_msg scripted ?t' (imp_Socket 4) [0, 0, 0] False \<lparr>kst = [r], trace = []\<rparr> =
      Some (Ok ((Data 2 (Some ri) True, None), [1, 2, 0]), u)"
    and "ri_sid ri = 1 \<and> ri_ppid ri = Ppid_NGAP \<and> RcvFlags_unordered (ri_flags ri)"
    using recv[OF k[unfolded mem_def, folded m] sys_call_scripted, of "imp_Socket 4" False "[]" "[]"]
    by (auto simp: example_info_def SendFlags_contains_def numeral_2_eq_2)
  then show ?thesis
    using w' k unfolding mem_def by (intro exI[of _ w'] exI[of _ r] exI[of _ ri]) (simp add: numeral_3_eq_3)
qed

text \<open>
  C7: a failed send is reported with what the caller gave it. When the kernel reports, with an
  event of the old or the new layout, whole or in pieces, that the message of a send was not
  delivered, the notification has the stream, the payload protocol identifier and the context of
  that send and the undelivered bytes.
\<close>

theorem failed_send_identified:
  assumes "imp_send_msg E t s buf dest info w = Some (Ok n, w')"
  shows "\<exists>c v m. trace w' = trace w @ [(c, v)] \<and> kernel_takes t c = Some m \<and>
    (\<forall>ev fl len s' buf' want_from u u'.
       reports_failure t m ev \<longrightarrow> length (event_bytes t fl len ev) \<le> 1048576 \<longrightarrow>
       notifies E t s' buf' want_from (event_bytes t fl len ev) u u' \<longrightarrow>
       (\<exists>src buf''. imp_recv_msg E t s' buf' want_from u = Some (Ok ((RecvNotification (N_SendFailed
          \<lparr>sf_unsent = (fl = SCTP_DATA_UNSENT), sf_error = fst (failure_cause ev),
           sf_sid = si_sid info, sf_ppid = si_ppid info, sf_context = si_context info,
           sf_assoc_id = AssocId (snd (failure_cause ev)), sf_payload = buf\<rparr>), src), buf''), u')))"
proof -
  define m where "m = \<lparr>m_sid = si_sid info, m_flags = SendFlags_bits (si_flags info),
    m_ppid = to_be_bytes (ppid_raw (si_ppid info)), m_context = si_context info, m_data = buf\<rparr>"
  obtain c v where c: "trace w' = trace w @ [(c, v)]" "kernel_takes t c = Some m"
    using send_taken[OF assms] unfolding m_def by blast
  have "event_notification t fl ev = N_SendFailed
      \<lparr>sf_unsent = (fl = SCTP_DATA_UNSENT), sf_error = fst (failure_cause ev),
       sf_sid = si_sid info, sf_ppid = si_ppid info, sf_context = si_context info,
       sf_assoc_id = AssocId (snd (failure_cause ev)), sf_payload = buf\<rparr>"
    if "reports_failure t m ev" for ev fl
    using failure_notification[OF that, of "si_ppid info"] by (simp add: m_def)
  then show ?thesis
    using c recv_event[of E t] by metis
qed

theorem failed_send_identified_witness:
  "\<exists>w' r. imp_send_msg scripted linux_x86_64 (imp_Socket 3) [1, 2] None example_info
       \<lparr>kst = [sr_ok\<lparr>sr_ret := 2\<rparr>], trace = []\<rparr> = Some (Ok 2, w') \<and>
     (\<exists>src buf. map_option fst (imp_recv_msg scripted linux_x86_64 (imp_Socket 3) (replicate 64 0) False
       \<lparr>kst = [r], trace = []\<rparr>) = Some (Ok ((RecvNotification (N_SendFailed
         \<lparr>sf_unsent = True, sf_error = 5, sf_sid = 1, sf_ppid = Ppid_NGAP, sf_context = 9,
          sf_assoc_id = AssocId 7, sf_payload = [1, 2]\<rparr>), src), buf)))"
proof -
  let ?t = linux_x86_64 and ?m = example_message and ?s = "imp_Socket 3"
  let ?w = "\<lparr>kst = [sr_ok\<lparr>sr_ret := 2\<rparr>], trace = []\<rparr> :: sysret list world"
  define ev where "ev = K_send_failed_event 5 \<lparr>snd_sid = 1, snd_flags = 0,
    snd_ppid = to_wire ?t Ppid_NGAP, snd_context = 9, snd_assoc_id = 7\<rparr> 7 [1, 2]"
  define bs where "bs = event_bytes ?t SCTP_DATA_UNSENT 34 ev"
  define r where "r = sr_ok\<lparr>sr_ret := 34, sr_out := bs, sr_msg_flags := MSG_NOTIFICATION OR MSG_EOR\<rparr>"
  define u u' where "u = (\<lparr>kst = [r], trace = []\<rparr> :: sysret list world)"
    and "u' = snd (sys_call scripted (recv_call ?s (replicate 64 0) False) u)"
  obtain w' where w': "imp_send_msg scripted ?t ?s [1, 2] None example_info ?w = Some (Ok 2, w')"
    using example_sent by blast
  have len: "length bs = 34"
    by (simp add: bs_def ev_def event_bytes_def sndinfo_image)
  have "delivers ?t r (length (replicate 64 (0 :: byte))) bs None []"
    by (simp add: delivers_def r_def len)
  then have k: "notifies scripted ?t ?s (replicate 64 0) False bs u u'"
    unfolding notifies_def
    by (intro exI[of _ r] exI[of _ u'] exI[of _ bs] exI[of _ None] exI[of _ "[]"])
      (simp add: u_def u'_def r_def MSG_NOTIFICATION_def MSG_EOR_def)
  have f: "reports_failure ?t ?m ev"
    by (simp add: ev_def example_message_def to_wire_def Ppid_NGAP_def to_ne_bytes_to_be)
  from failed_send_identified[OF w'] obtain c v m where
    c: "trace w' = trace ?w @ [(c, v)]" "kernel_takes ?t c = Some m"
    and recv: "\<And>ev fl len s' buf' want_from u u'.
       reports_failure ?t m ev \<Longrightarrow> length (event_bytes ?t fl len ev) \<le> 1048576 \<Longrightarrow>
       notifies scripted ?t s' buf' want_from (event_bytes ?t fl len ev) u u' \<Longrightarrow>
       (\<exists>src buf''. imp_recv_msg scripted ?t s' buf' want_from u = Some (Ok ((RecvNotification (N_SendFailed
          \<lparr>sf_unsent = (fl = SCTP_DATA_UNSENT), sf_error = fst (failure_cause ev),
           sf_sid = si_sid example_info, sf_ppid = si_ppid example_info,
           sf_context = si_context example_info,
           sf_assoc_id = AssocId (snd (failure_cause ev)), sf_payload = [1, 2]\<rparr>), src), buf''), u'))"
    by blast
  have "m = ?m"
    using example_taken[OF w' c(1)] c(2) by simp
  then have "\<exists>src buf. imp_recv_msg scripted ?t ?s (replicate 64 0) False u = Some (Ok ((RecvNotification (N_SendFailed
      \<lparr>sf_unsent = True, sf_error = 5, sf_sid = 1, sf_ppid = Ppid_NGAP, sf_context = 9,
       sf_assoc_id = AssocId 7, sf_payload = [1, 2]\<rparr>), src), buf), u')"
    using recv[of ev SCTP_DATA_UNSENT 34 ?s "replicate 64 0" False u u'] f k len
    by (simp add: bs_def[symmetric] example_info_def) (simp add: ev_def)
  then show ?thesis
    using w' unfolding u_def by fastforce
qed

end
