(* ===== verification/Builders.thy ===== *)
theory Builders
  imports Net_Listener Net_Endpoint
begin

text \<open>
  Chains of builder methods, as applications write them: \<open>builder(family)?.m1(..)?.m2(..)?\<close>
  followed by \<open>connectx\<close>, \<open>listen\<close> or \<open>build\<close>. The settings of the three builders are data, a chain
  is a list of them, and its specification is the list of kernel calls the settings stand for. The
  contract of a builder method is a locale; what a chain does is proved there once and holds for
  the builders of streams, listeners and endpoints by interpretation.
\<close>

section \<open>Settings\<close>

text \<open>The methods all three builders have, and those of the builders of one-to-one sockets.\<close>

datatype common_setting =
    Bindx "SocketAddr list"
  | Init_params InitParams
  | Subscribe_events "EventType list"
  | Nodelay bool
  | Send_buffer_size nat
  | Recv_buffer_size nat
  | Reuse_address bool

datatype setting =
    Common common_setting
  | Rto_info RtoInfo
  | Peer_addr_params PeerAddrParams
  | Delayed_sack SackInfo
  | Assoc_info AssocInfo
  | Reuse_port bool

fun endpoint_method ::
    "'k env \<Rightarrow> target \<Rightarrow> common_setting \<Rightarrow> EndpointBuilder \<Rightarrow> ('k, EndpointBuilder) io" where
  "endpoint_method E t (Bindx addrs) b = EndpointBuilder_bindx E t b addrs"
| "endpoint_method E t (Init_params params) b = EndpointBuilder_init_params E t b params"
| "endpoint_method E t (Subscribe_events events) b = EndpointBuilder_subscribe_events E t b events"
| "endpoint_method E t (Nodelay on) b = EndpointBuilder_nodelay E t b on"
| "endpoint_method E t (Send_buffer_size n) b = EndpointBuilder_send_buffer_size E t b n"
| "endpoint_method E t (Recv_buffer_size n) b = EndpointBuilder_recv_buffer_size E t b n"
| "endpoint_method E t (Reuse_address on) b = EndpointBuilder_reuse_address E t b on"

fun listener_method ::
    "'k env \<Rightarrow> target \<Rightarrow> setting \<Rightarrow> ListenerBuilder \<Rightarrow> ('k, ListenerBuilder) io" where
  "listener_method E t (Common (Bindx addrs)) b = ListenerBuilder_bindx E t b addrs"
| "listener_method E t (Common (Init_params params)) b = ListenerBuilder_init_params E t b params"
| "listener_method E t (Common (Subscribe_events events)) b = ListenerBuilder_subscribe_events E t b events"
| "listener_method E t (Common (Nodelay on)) b = ListenerBuilder_nodelay E t b on"
| "listener_method E t (Common (Send_buffer_size n)) b = ListenerBuilder_send_buffer_size E t b n"
| "listener_method E t (Common (Recv_buffer_size n)) b = ListenerBuilder_recv_buffer_size E t b n"
| "listener_method E t (Common (Reuse_address on)) b = ListenerBuilder_reuse_address E t b on"
| "listener_method E t (Rto_info info) b = ListenerBuilder_rto_info E t b info"
| "listener_method E t (Peer_addr_params params) b = ListenerBuilder_peer_addr_params E t b params"
| "listener_method E t (Delayed_sack info) b = ListenerBuilder_delayed_sack E t b info"
| "listener_method E t (Assoc_info info) b = ListenerBuilder_assoc_info E t b info"
| "listener_method E t (Reuse_port on) b = ListenerBuilder_reuse_port E t b on"

fun stream_method ::
    "'k env \<Rightarrow> target \<Rightarrow> setting \<Rightarrow> StreamBuilder \<Rightarrow> ('k, StreamBuilder) io" where
  "stream_method E t (Common (Bindx addrs)) b = StreamBuilder_bindx E t b addrs"
| "stream_method E t (Common (Init_params params)) b = StreamBuilder_init_params E t b params"
| "stream_method E t (Common (Subscribe_events events)) b = StreamBuilder_subscribe_events E t b events"
| "stream_method E t (Common (Nodelay on)) b = StreamBuilder_nodelay E t b on"
| "stream_method E t (Common (Send_buffer_size n)) b = StreamBuilder_send_buffer_size E t b n"
| "stream_method E t (Common (Recv_buffer_size n)) b = StreamBuilder_recv_buffer_size E t b n"
| "stream_method E t (Common (Reuse_address on)) b = StreamBuilder_reuse_address E t b on"
| "stream_method E t (Rto_info info) b = StreamBuilder_rto_info E t b info"
| "stream_method E t (Peer_addr_params params) b = StreamBuilder_peer_addr_params E t b params"
| "stream_method E t (Delayed_sack info) b = StreamBuilder_delayed_sack E t b info"
| "stream_method E t (Assoc_info info) b = StreamBuilder_assoc_info E t b info"
| "stream_method E t (Reuse_port on) b = StreamBuilder_reuse_port E t b on"

text \<open>A chain of methods, each on the builder the previous one returned.\<close>

fun chain :: "('x \<Rightarrow> 'b \<Rightarrow> ('k, 'b) io) \<Rightarrow> 'x list \<Rightarrow> 'b \<Rightarrow> ('k, 'b) io" where
  "chain invoke [] b = io_return b"
| "chain invoke (x # xs) b = io_bind (invoke x b) (chain invoke xs)"

section \<open>What settings stand for\<close>

text \<open>
  The calls a setting asks for, or the error with which it is refused before any call. All of
  them configure the associations the socket will have (\<open>FUTURE\<close>), none a single path.
\<close>

abbreviation sctp_opt :: "SctpSocket \<Rightarrow> i32 \<Rightarrow> byte list \<Rightarrow> call" where
  "sctp_opt s opt m \<equiv> C_setsockopt (raw (inner s)) SOL_SCTP opt (PBytes m)"

abbreviation socket_opt :: "target \<Rightarrow> SctpSocket \<Rightarrow> i32 \<Rightarrow> i32 \<Rightarrow> call" where
  "socket_opt t s opt v \<equiv> C_setsockopt (raw (inner s)) (SOL_SOCKET (libc t)) opt (PBytes (to_ne_bytes t v))"

type_synonym plan = "exn + call list"

definition buffer_plan :: "target \<Rightarrow> SctpSocket \<Rightarrow> i32 \<Rightarrow> nat \<Rightarrow> plan" where
  "buffer_plan t s opt n =
     (if n < 2 ^ 31 then Inr [socket_opt t s opt (word_of_nat n)]
      else Inl (IoErr (Custom InvalidInput ''socket buffer size exceeds i32::MAX'')))"

fun common_plan :: "target \<Rightarrow> SctpSocket \<Rightarrow> common_setting \<Rightarrow> plan" where
  "common_plan t s (Bindx addrs) =
     Inr [sctp_opt s SCTP_SOCKOPT_BINDX_ADD (concat (map (sockaddr_bytes t) addrs))]"
| "common_plan t s (Init_params params) =
     Inr [sctp_opt s SCTP_INITMSG (initmsg_mem t (InitParams_to_sys params))]"
| "common_plan t s (Subscribe_events events) = Inr (map (event_on_call t s) events)"
| "common_plan t s (Nodelay on) = Inr [sctp_opt s SCTP_NODELAY (to_ne_bytes t (bool_i32 on))]"
| "common_plan t s (Send_buffer_size n) = buffer_plan t s (SO_SNDBUF (libc t)) n"
| "common_plan t s (Recv_buffer_size n) = buffer_plan t s (SO_RCVBUF (libc t)) n"
| "common_plan t s (Reuse_address on) = Inr [socket_opt t s (SO_REUSEADDR (libc t)) (bool_i32 on)]"

fun setting_plan :: "target \<Rightarrow> SctpSocket \<Rightarrow> setting \<Rightarrow> plan" where
  "setting_plan t s (Common x) = common_plan t s x"
| "setting_plan t s (Rto_info info) =
     Inr [sctp_opt s SCTP_RTOINFO (rtoinfo_mem t \<lparr>srto_assoc_id = assoc_raw FUTURE,
       srto_initial = rto_initial info, srto_max = rto_max info, srto_min = rto_min info\<rparr>)]"
| "setting_plan t s (Peer_addr_params params) =
     Inr [sctp_opt s SCTP_PEER_ADDR_PARAMS (paddrparams_mem t (sctp_paddrparams_default
       \<lparr>spp_assoc_id := assoc_raw FUTURE, spp_address := packed_storage t None,
        spp_hbinterval := pp_hb_interval params, spp_pathmaxrxt := pp_path_max_rxt params,
        spp_pathmtu := pp_path_mtu params, spp_sackdelay := pp_sack_delay params,
        spp_flags := SppFlags_bits (pp_flags params),
        spp_ipv6_flowlabel := pp_ipv6_flowlabel params, spp_dscp := pp_dscp params\<rparr>))]"
| "setting_plan t s (Delayed_sack info) =
     Inr [sctp_opt s SCTP_DELAYED_SACK (sack_info_mem t \<lparr>sack_assoc_id = assoc_raw FUTURE,
       sack_delay = sk_delay_ms info, sack_freq = sk_freq info\<rparr>)]"
| "setting_plan t s (Assoc_info info) =
     Inr [sctp_opt s SCTP_ASSOCINFO (assocparams_mem t (sctp_assocparams_default
       \<lparr>sasoc_assoc_id := assoc_raw FUTURE, sasoc_asocmaxrxt := ai_asocmaxrxt info,
        sasoc_cookie_life := ai_cookie_life info\<rparr>))]"
| "setting_plan t s (Reuse_port on) =
     Inr [sctp_opt s SCTP_REUSE_PORT (to_ne_bytes t (bool_i32 on))]"

text \<open>
  The calls of a list of plans, up to the first that is refused, and that refusal.
\<close>

fun planned_calls :: "plan list \<Rightarrow> call list" where
  "planned_calls [] = []"
| "planned_calls (Inl e # ps) = []"
| "planned_calls (Inr cs # ps) = cs @ planned_calls ps"

fun planned_refusal :: "plan list \<Rightarrow> exn option" where
  "planned_refusal [] = None"
| "planned_refusal (Inl e # ps) = Some e"
| "planned_refusal (Inr cs # ps) = planned_refusal ps"

fun follow :: "'k env \<Rightarrow> plan \<Rightarrow> ('k, unit) io" where
  "follow E (Inl e) = io_lift (Inl e)"
| "follow E (Inr cs) = make_calls E cs"

definition follow_all :: "'k env \<Rightarrow> plan list \<Rightarrow> ('k, unit) io" where
  "follow_all E ps = io_bind (make_calls E (planned_calls ps)) (\<lambda>_.
     io_lift (case planned_refusal ps of None \<Rightarrow> Inr () | Some e \<Rightarrow> Inl e))"

lemma follow_all_simps:
  "follow_all E [] = io_return ()"
  "follow_all E (p # ps) = io_bind (follow E p) (\<lambda>_. follow_all E ps)"
  by (simp add: follow_all_def) (cases p; simp add: follow_all_def make_calls_append io_bind_assoc)

lemma common_plan_plain: "common_plan t s x = Inr cs \<Longrightarrow> list_all plain_call cs"
  by (cases x) (auto simp: buffer_plan_def list_all_iff split: if_splits)

lemma setting_plan_plain: "setting_plan t s x = Inr cs \<Longrightarrow> list_all plain_call cs"
  by (cases x) (auto dest: common_plan_plain)

text \<open>
  The outcome of a chain that asked for the calls \<open>cs\<close> on the descriptor \<open>d\<close>, whose next setting, if
  any, was refused with \<open>refusal\<close>: the calls were made in order and all succeeded, or they
  stopped at the first that failed, or the refusal came after them. A failure closes the
  descriptor and does nothing else.
\<close>

definition chain_result ::
    "call list \<Rightarrow> exn option \<Rightarrow> fd \<Rightarrow> 'b \<Rightarrow> 'k world \<Rightarrow> 'b io_result \<Rightarrow> 'k world \<Rightarrow> bool" where
  "chain_result cs refusal d b w r w' \<longleftrightarrow>
     (\<exists>rs. length rs \<le> length cs \<and> all_ok (butlast rs) \<and>
       (case r of
          Inr b' \<Rightarrow> b' = b \<and> refusal = None \<and> length rs = length cs \<and> all_ok rs \<and>
            trace w' = trace w @ zip cs rs
        | Inl e \<Rightarrow>
            (rs \<noteq> [] \<and> sr_ret (last rs) < 0 \<and> e = os_failure (last rs) \<or>
             length rs = length cs \<and> all_ok rs \<and> refusal = Some e) \<and>
            (\<exists>c. trace w' = trace w @ zip cs rs @ [(C_close d, c)])))"

section \<open>The contract of a builder method\<close>

text \<open>
  A method consumes its builder: it follows the plan of the setting on the builder's socket and
  hands over the builder, changed by \<open>upd\<close> at most outside its socket, or drops it on an error.
\<close>

locale builder_methods =
  fixes E :: "'k env" and t :: target
    and socket_of :: "'b \<Rightarrow> SctpSocket"
    and invoke :: "'x \<Rightarrow> 'b \<Rightarrow> ('k, 'b) io"
    and plan :: "SctpSocket \<Rightarrow> 'x \<Rightarrow> plan"
    and upd :: "'x \<Rightarrow> 'b \<Rightarrow> 'b"
  assumes invoke_plan:
      "invoke x b = builder_opt E (socket_of b) (follow E (plan (socket_of b) x)) (upd x b)"
    and socket_upd: "socket_of (upd x b) = socket_of b"
    and calls_plain: "plan s x = Inr cs \<Longrightarrow> list_all plain_call cs"
begin

abbreviation fd_of :: "'b \<Rightarrow> fd" where
  "fd_of b \<equiv> raw (inner (socket_of b))"

lemma chain_follows:
  "chain invoke xs b = dropping E (fd_of b)
     (io_bind (follow_all E (map (plan (socket_of b)) xs)) (\<lambda>_. io_return (fold upd xs b)))"
proof (induction xs arbitrary: b)
  case Nil
  show ?case
    by (simp add: follow_all_simps)
next
  case (Cons x xs)
  have "io_bind (invoke x b) (chain invoke xs) =
      io_bind (dropping E (fd_of b) (follow E (plan (socket_of b) x))) (\<lambda>_. chain invoke xs (upd x b))"
    by (auto simp: invoke_plan builder_opt_def io_bind_def dropping_def io_lift_def fun_eq_iff
        split: option.splits sum.splits prod.splits)
  then show ?case
    by (simp add: Cons.IH socket_upd dropping_bind[symmetric] follow_all_simps io_bind_assoc)
qed

lemma borrows_follow_all: "borrows t' (follow_all E (map (plan s) xs))"
proof -
  have "list_all plain_call (planned_calls (map (plan s) xs))"
  proof (induction xs)
    case (Cons x xs)
    then show ?case
      by (cases "plan s x") (auto dest: calls_plain)
  qed simp
  then show ?thesis
    unfolding follow_all_def by (intro own_intros borrows_make_calls)
qed

lemma socket_fold_upd: "socket_of (fold upd xs b) = socket_of b"
  by (induction xs arbitrary: b) (simp_all add: socket_upd)

lemma chain_owned: "owns t' {#fd_of b#} (\<lambda>b'. {#fd_of b'#}) {#} (chain invoke xs b)"
  unfolding chain_follows
  by (intro owns_dropping owns_bind_borrowed borrows_follow_all owns_return)
    (simp_all add: socket_fold_upd)

lemma chain_outcome:
  fixes xs b
  defines "cs \<equiv> planned_calls (map (plan (socket_of b)) xs)"
    and "refusal \<equiv> planned_refusal (map (plan (socket_of b)) xs)"
  shows "\<exists>r w'. chain invoke xs b w = Some (r, w') \<and>
    chain_result cs refusal (fd_of b) (fold upd xs b) w r w'"
proof -
  obtain r w1 rs where calls: "make_calls E cs w = Some (r, w1)"
    and tr: "trace w1 = trace w @ zip cs rs" "length rs \<le> length cs" "all_ok (butlast rs)"
    and r: "case r of Inr _ \<Rightarrow> length rs = length cs \<and> all_ok rs
      | Inl e \<Rightarrow> rs \<noteq> [] \<and> sr_ret (last rs) < 0 \<and> e = os_failure (last rs)"
    using make_calls_outcome by blast
  obtain c w2 where close: "sys_call E (C_close (fd_of b)) w1 = (c, w2)"
    by fastforce
  have run: "chain invoke xs b w = dropping E (fd_of b) (io_bind (io_bind (make_calls E cs) (\<lambda>_.
      io_lift (case refusal of None \<Rightarrow> Inr () | Some e \<Rightarrow> Inl e))) (\<lambda>_. io_return (fold upd xs b))) w"
    unfolding chain_follows follow_all_def cs_def refusal_def ..
  show ?thesis
  proof (cases r)
    case (Inl e)
    then have "chain invoke xs b w = Some (Inl e, w2)"
      using calls close unfolding run by (simp add: dropping_def io_bind_def)
    then show ?thesis
      using tr r sys_call_trace[OF close] Inl unfolding chain_result_def
      by (intro exI[of _ "Inl e"] exI[of _ w2]) (auto intro!: exI[of _ rs])
  next
    case ok: (Inr u)
    show ?thesis
    proof (cases refusal)
      case None
      then have "chain invoke xs b w = Some (Inr (fold upd xs b), w1)"
        using calls ok unfolding run by (simp add: dropping_def io_bind_def io_lift_def)
      then show ?thesis
        using tr r ok None unfolding chain_result_def
        by (intro exI[of _ "Inr (fold upd xs b)"] exI[of _ w1]) (auto intro!: exI[of _ rs])
    next
      case (Some e)
      then have "chain invoke xs b w = Some (Inl e, w2)"
        using calls ok close unfolding run by (simp add: dropping_def io_bind_def io_lift_def)
      then show ?thesis
        using tr r ok Some sys_call_trace[OF close] unfolding chain_result_def
        by (intro exI[of _ "Inl e"] exI[of _ w2]) (auto intro!: exI[of _ rs])
    qed
  qed
qed

end

section \<open>The three builders\<close>

lemma setter_plans:
  "SctpSocket_bindx_add E t s addrs = follow E (common_plan t s (Bindx addrs))"
  "SctpSocket_set_init_params E t s params = follow E (common_plan t s (Init_params params))"
  "SctpSocket_subscribe_events E t s events = follow E (common_plan t s (Subscribe_events events))"
  "SctpSocket_set_nodelay E t s on = follow E (common_plan t s (Nodelay on))"
  "SctpSocket_set_send_buffer_size E t s n = follow E (common_plan t s (Send_buffer_size n))"
  "SctpSocket_set_recv_buffer_size E t s n = follow E (common_plan t s (Recv_buffer_size n))"
  "SctpSocket_set_reuse_address E t s on = follow E (common_plan t s (Reuse_address on))"
  "SctpSocket_set_rto_info E t s FUTURE rto = follow E (setting_plan t s (Rto_info rto))"
  "SctpSocket_set_peer_addr_params E t s FUTURE None pp = follow E (setting_plan t s (Peer_addr_params pp))"
  "SctpSocket_set_delayed_sack E t s FUTURE sack = follow E (setting_plan t s (Delayed_sack sack))"
  "SctpSocket_set_assoc_info E t s FUTURE info = follow E (setting_plan t s (Assoc_info info))"
  "SctpSocket_set_reuse_port E t s on = follow E (setting_plan t s (Reuse_port on))"
  by (simp_all add: SctpSocket_bindx_add_def imp_bindx_add_def imp_bindx_def pack_addr_list_ok
      SctpSocket_set_init_params_def imp_set_init_params_def subscribe_events_calls
      SctpSocket_set_nodelay_def imp_set_nodelay_def imp_setsockopt_i32_def imp_setsockopt_def
      SctpSocket_set_send_buffer_size_def imp_set_send_buffer_size_def checked_buffer_size_def
      SctpSocket_set_recv_buffer_size_def imp_set_recv_buffer_size_def buffer_plan_def
      SctpSocket_set_reuse_address_def imp_set_reuse_address_def SctpSocket_set_rto_info_def
      imp_set_rto_info_def SctpSocket_set_peer_addr_params_def imp_set_peer_addr_params_def
      pack_optional_addr_ok SctpSocket_set_delayed_sack_def imp_set_delayed_sack_def
      SctpSocket_set_assoc_info_def imp_set_assoc_info_def SctpSocket_set_reuse_port_def
      imp_set_reuse_port_def)

text \<open>Whether a setting subscribes to association changes, which the stream builder remembers.\<close>

fun asks_assoc_change :: "setting \<Rightarrow> bool" where
  "asks_assoc_change (Common (Subscribe_events events)) = (Ev_AssocChange \<in> set events)"
| "asks_assoc_change _ = False"

definition note_setting :: "setting \<Rightarrow> StreamBuilder \<Rightarrow> StreamBuilder" where
  "note_setting x b = (if asks_assoc_change x then b\<lparr>assoc_change_subscribed := True\<rparr> else b)"

lemma fold_note_setting:
  "fold note_setting xs b =
     b\<lparr>assoc_change_subscribed := assoc_change_subscribed b \<or> list_ex asks_assoc_change xs\<rparr>"
  by (induction xs arbitrary: b) (auto simp: note_setting_def)

interpretation stream_chain: builder_methods E t stb_sock "stream_method E t" "setting_plan t" note_setting
  for E t
proof
  show "stream_method E t x b =
      builder_opt E (stb_sock b) (follow E (setting_plan t (stb_sock b) x)) (note_setting x b)" for x b
  proof (cases x)
    case (Common y)
    then show ?thesis
      by (cases y) (simp_all add: note_setting_def StreamBuilder_bindx_def StreamBuilder_init_params_def
          StreamBuilder_subscribe_events_def StreamBuilder_nodelay_def StreamBuilder_send_buffer_size_def
          StreamBuilder_recv_buffer_size_def StreamBuilder_reuse_address_def setter_plans)
  qed (simp_all add: note_setting_def StreamBuilder_rto_info_def StreamBuilder_peer_addr_params_def
      StreamBuilder_delayed_sack_def StreamBuilder_assoc_info_def StreamBuilder_reuse_port_def
      setter_plans)
qed (simp_all add: note_setting_def setting_plan_plain)

interpretation listener_chain: builder_methods E t lb_sock "listener_method E t" "setting_plan t" "\<lambda>_ b. b"
  for E t
proof
  show "listener_method E t x b =
      builder_opt E (lb_sock b) (follow E (setting_plan t (lb_sock b) x)) b" for x b
  proof (cases x)
    case (Common y)
    then show ?thesis
      by (cases y) (simp_all add: ListenerBuilder_bindx_def ListenerBuilder_init_params_def
          ListenerBuilder_subscribe_events_def ListenerBuilder_nodelay_def
          ListenerBuilder_send_buffer_size_def ListenerBuilder_recv_buffer_size_def
          ListenerBuilder_reuse_address_def setter_plans)
  qed (simp_all add: ListenerBuilder_rto_info_def ListenerBuilder_peer_addr_params_def
      ListenerBuilder_delayed_sack_def ListenerBuilder_assoc_info_def ListenerBuilder_reuse_port_def
      setter_plans)
qed (simp_all add: setting_plan_plain)

interpretation endpoint_chain: builder_methods E t eb_sock "endpoint_method E t" "common_plan t" "\<lambda>_ b. b"
  for E t
proof
  show "endpoint_method E t x b =
      builder_opt E (eb_sock b) (follow E (common_plan t (eb_sock b) x)) b" for x b
    by (cases x) (simp_all add: EndpointBuilder_bindx_def EndpointBuilder_init_params_def
        EndpointBuilder_subscribe_events_def EndpointBuilder_nodelay_def
        EndpointBuilder_send_buffer_size_def EndpointBuilder_recv_buffer_size_def
        EndpointBuilder_reuse_address_def setter_plans)
qed (simp_all add: common_plan_plain)

lemma fold_same [simp]: "fold (\<lambda>_ b. b) xs b = b"
  by (induction xs) simp_all

section \<open>Setting up sockets\<close>

definition stream_setup ::
    "'k env \<Rightarrow> target \<Rightarrow> Family \<Rightarrow> setting list \<Rightarrow> SocketAddr list \<Rightarrow> ('k, SctpStream) io" where
  "stream_setup E t family xs addrs =
     io_bind (SctpStream_builder E t family) (\<lambda>b.
     io_bind (chain (stream_method E t) xs b) (\<lambda>b. StreamBuilder_connectx E t b addrs))"

definition listener_setup ::
    "'k env \<Rightarrow> target \<Rightarrow> Family \<Rightarrow> setting list \<Rightarrow> i32 \<Rightarrow> ('k, SctpListener) io" where
  "listener_setup E t family xs backlog =
     io_bind (SctpListener_builder E t family) (\<lambda>b.
     io_bind (chain (listener_method E t) xs b) (\<lambda>b. ListenerBuilder_listen E t b backlog))"

text \<open>An endpoint is built with or without listening.\<close>

definition endpoint_setup ::
    "'k env \<Rightarrow> target \<Rightarrow> Family \<Rightarrow> common_setting list \<Rightarrow> i32 option \<Rightarrow> ('k, SctpEndpoint) io" where
  "endpoint_setup E t family xs backlog =
     io_bind (SctpEndpoint_builder E t family) (\<lambda>b.
     io_bind (chain (endpoint_method E t) xs b) (\<lambda>b.
     case backlog of None \<Rightarrow> EndpointBuilder_build E t b | Some n \<Rightarrow> EndpointBuilder_listen E t b n))"

lemma owns_stream_setup:
  "levels_ok t \<Longrightarrow>
     owns t {#} (\<lambda>st. {#raw (sock (stream_io st))#}) {#} (stream_setup E t family xs addrs)"
  unfolding stream_setup_def
  by (rule owns_bind[OF stream_builder_source.source_owns])
    (rule owns_bind[OF stream_chain.chain_owned owns_stream_connectx])

lemma owns_listener_setup:
  "levels_ok t \<Longrightarrow>
     owns t {#} (\<lambda>l. {#raw (sock (listener_io l))#}) {#} (listener_setup E t family xs backlog)"
  unfolding listener_setup_def
  by (rule owns_bind[OF listener_builder_source.source_owns])
    (rule owns_bind[OF listener_chain.chain_owned owns_listener_listen])

lemma owns_endpoint_setup:
  assumes "levels_ok t"
  shows "owns t {#} (\<lambda>ep. {#raw (sock (endpoint_io ep))#}) {#} (endpoint_setup E t family ys backlog)"
proof -
  have "owns t {#raw (inner (eb_sock b))#} (\<lambda>ep. {#raw (sock (endpoint_io ep))#}) {#}
      (case backlog of None \<Rightarrow> EndpointBuilder_build E t b | Some n \<Rightarrow> EndpointBuilder_listen E t b n)" for b
    by (cases backlog)
      (simp_all add: EndpointBuilder_build_def owns_endpoint_from_socket owns_endpoint_listen assms)
  then show ?thesis
    unfolding endpoint_setup_def
    by (intro owns_bind[OF endpoint_builder_source.source_owns]) (rule owns_bind[OF endpoint_chain.chain_owned])
qed

section \<open>Properties\<close>

text \<open>
  C16: a chain of builder methods does what its settings stand for, for streams, listeners and
  endpoints, whatever the settings, their number and the answers of the kernel. It always
  returns; it makes the calls of the settings in order, for future associations, up to the first
  failure; a buffer size beyond \<open>i32::MAX\<close> stops it before the call; on a failure the socket is
  closed and nothing else happens; on success the builder has the same socket, and that of a
  stream has noted exactly whether the caller subscribed to association changes.
\<close>

theorem builder_chains_apply_settings:
  "(\<exists>r w'. chain (stream_method E t) xs b w = Some (r, w') \<and>
      chain_result (planned_calls (map (setting_plan t (stb_sock b)) xs))
        (planned_refusal (map (setting_plan t (stb_sock b)) xs)) (raw (inner (stb_sock b)))
        (b\<lparr>assoc_change_subscribed := assoc_change_subscribed b \<or> list_ex asks_assoc_change xs\<rparr>) w r w') \<and>
   (\<exists>r w'. chain (listener_method E t) xs lb w = Some (r, w') \<and>
      chain_result (planned_calls (map (setting_plan t (lb_sock lb)) xs))
        (planned_refusal (map (setting_plan t (lb_sock lb)) xs)) (raw (inner (lb_sock lb))) lb w r w') \<and>
   (\<exists>r w'. chain (endpoint_method E t) ys eb w = Some (r, w') \<and>
      chain_result (planned_calls (map (common_plan t (eb_sock eb)) ys))
        (planned_refusal (map (common_plan t (eb_sock eb)) ys)) (raw (inner (eb_sock eb))) eb w r w')"
  using stream_chain.chain_outcome[of E t xs b w] listener_chain.chain_outcome[of E t xs lb w]
    endpoint_chain.chain_outcome[of E t ys eb w]
  by (simp add: fold_note_setting)

end
