(* ===== verification/Subscriptions.thy ===== *)
theory Subscriptions
  imports Builders Call_Account
begin

text \<open>
  Which notifications a socket delivers once it is set up. The kernel's side is the set of event
  types subscribed on a descriptor, computed from the \<open>SCTP_EVENT\<close> calls of the trace as the
  kernel decodes them. Setting up a socket through its builder leaves exactly the subscriptions
  the caller asked for: the temporary one of a connect is gone, one the caller made stays.
\<close>

section \<open>The kernel's subscriptions\<close>

text \<open>A successful \<open>SCTP_EVENT\<close> call on the descriptor adds or removes the type it names.\<close>

fun event_call :: "call \<Rightarrow> bool" where
  "event_call (C_setsockopt d level opt val) = (level = SOL_SCTP \<and> opt = SCTP_EVENT)"
| "event_call _ = False"

fun subscribe_call :: "target \<Rightarrow> fd \<Rightarrow> call \<Rightarrow> u16 set \<Rightarrow> u16 set" where
  "subscribe_call t d (C_setsockopt d' level opt (PBytes m)) S =
     (if d' = d \<and> level = SOL_SCTP \<and> opt = SCTP_EVENT then
        let ev = sctp_event_of_bytes t m
        in if se_on ev \<noteq> 0 then insert (se_type ev) S else S - {se_type ev}
      else S)"
| "subscribe_call t d _ S = S"

definition subscribe_answered :: "target \<Rightarrow> fd \<Rightarrow> call \<times> sysret \<Rightarrow> u16 set \<Rightarrow> u16 set" where
  "subscribe_answered t d x S = (if 0 \<le> sr_ret (snd x) then subscribe_call t d (fst x) S else S)"

definition subscriptions :: "target \<Rightarrow> fd \<Rightarrow> (call \<times> sysret) list \<Rightarrow> u16 set" where
  "subscriptions t d tr = fold (subscribe_answered t d) tr {}"

section \<open>Operations that subscribe to nothing\<close>

abbreviation no_events :: "(call \<times> sysret) list \<Rightarrow> bool" where
  "no_events tr \<equiv> list_all (\<lambda>x. \<not> event_call (fst x)) tr"

lemma waits_no_event: "waits c \<Longrightarrow> \<not> event_call c"
  by (cases c) simp_all

interpretation eventless: recv_call_account no_events
proof
  show "no_events [(c, v)]" if "plain c" for c v
    using that by (cases c) simp_all
qed (simp_all add: waits_no_event)

interpretation eventless: register_account no_events
  by unfold_locales simp

lemma no_event_call: "\<not> event_call c \<Longrightarrow> subscribe_call t d c S = S"
  by (induction t d c S rule: subscribe_call.induct) auto

lemma no_events_fold: "no_events tr \<Longrightarrow> fold (subscribe_answered t d) tr S = S"
  by (induction tr arbitrary: S) (simp_all add: subscribe_answered_def no_event_call)

text \<open>
  \<open>subscribes t d m g\<close>: whenever \<open>m\<close> succeeds, the subscriptions \<open>S\<close> of \<open>d\<close> have become \<open>g S\<close>.
\<close>

definition subscribes :: "target \<Rightarrow> fd \<Rightarrow> ('k, 'a) io \<Rightarrow> (u16 set \<Rightarrow> u16 set) \<Rightarrow> bool" where
  "subscribes t d m g \<longleftrightarrow>
     (\<forall>w x w'. m w = Some (Ok x, w') \<longrightarrow>
        (\<exists>tr. trace w' = trace w @ tr \<and> (\<forall>S. fold (subscribe_answered t d) tr S = g S)))"

lemma subscribes_keeps: "keeps no_events m \<Longrightarrow> subscribes t d m (\<lambda>S. S)"
  unfolding subscribes_def by (fastforce dest: keepsD simp: records_def no_events_fold)

lemma subscribes_bind:
  assumes "subscribes t d m g" and "\<And>w x w'. m w = Some (Ok x, w') \<Longrightarrow> subscribes t d (f x) h"
  shows "subscribes t d (io_bind m f) (\<lambda>S. h (g S))"
  unfolding subscribes_def
proof (intro allI impI)
  fix w x w'
  assume "io_bind m f w = Some (Ok x, w')"
  then obtain y w1 where run: "m w = Some (Inr y, w1)" "f y w1 = Some (Ok x, w')"
    by (auto simp: io_bind_Some_iff)
  obtain tr tr' where "trace w1 = trace w @ tr" "\<forall>S. fold (subscribe_answered t d) tr S = g S"
    "trace w' = trace w1 @ tr'" "\<forall>S. fold (subscribe_answered t d) tr' S = h S"
    using assms(1) assms(2)[OF run(1)] run unfolding subscribes_def by blast
  then show "\<exists>tr. trace w' = trace w @ tr \<and> (\<forall>S. fold (subscribe_answered t d) tr S = h (g S))"
    by (intro exI[of _ "tr @ tr'"]) simp
qed

lemma subscribes_then:
  "subscribes t d m g \<Longrightarrow> (\<And>x. keeps no_events (f x)) \<Longrightarrow> subscribes t d (io_bind m f) g"
  using subscribes_bind[of t d m g f "\<lambda>S. S"] subscribes_keeps by blast

lemma subscribes_after:
  "keeps no_events m \<Longrightarrow> (\<And>x. subscribes t d (f x) g) \<Longrightarrow> subscribes t d (io_bind m f) g"
  using subscribes_bind[OF subscribes_keeps, of m t d f g] by simp

lemma subscribes_dropping: "subscribes t d m g \<Longrightarrow> subscribes t d (dropping E d' m) g"
  unfolding subscribes_def using dropping_okD by fast

text \<open>Calls that all succeed have their effects in order.\<close>

lemma fold_answered:
  "all_ok rs \<Longrightarrow> length rs = length cs \<Longrightarrow>
     fold (subscribe_answered t d) (zip cs rs) S = fold (subscribe_call t d) cs S"
proof (induction cs arbitrary: rs S)
  case (Cons c cs)
  then show ?case
    by (cases rs) (simp_all add: subscribe_answered_def)
qed simp

lemma make_calls_subscribes: "subscribes t d (make_calls E cs) (fold (subscribe_call t d) cs)"
  unfolding subscribes_def
proof (intro allI impI)
  fix w x w'
  assume "make_calls E cs w = Some (Ok x, w')"
  then obtain rs where "trace w' = trace w @ zip cs rs" "length rs = length cs" "all_ok rs"
    using make_calls_outcome[of E cs w] by auto
  then show "\<exists>tr. trace w' = trace w @ tr \<and>
      (\<forall>S. fold (subscribe_answered t d) tr S = fold (subscribe_call t d) cs S)"
    by (intro exI[of _ "zip cs rs"]) (simp add: fold_answered)
qed

section \<open>What settings subscribe to\<close>

fun common_asks :: "common_setting \<Rightarrow> EventType set" where
  "common_asks (Subscribe_events events) = set events"
| "common_asks _ = {}"

fun asks :: "setting \<Rightarrow> EventType set" where
  "asks (Common x) = common_asks x"
| "asks _ = {}"

abbreviation raw_events :: "EventType set \<Rightarrow> u16 set" where
  "raw_events A \<equiv> EventType_to_raw ` A"

lemma asks_assoc_change_iff: "asks_assoc_change x \<longleftrightarrow> Ev_AssocChange \<in> asks x"
  by (cases x rule: asks_assoc_change.cases) auto

lemma decode_event [simp]: "sctp_event_of_bytes t (event_mem t ev) = ev"
  by (rule sctp_event_cs.of_to_bytes_exact) (simp add: sctp_event_ok_def)

lemma subscribe_on: "subscribe_call t (raw (inner s)) (event_on_call t s ev) S = insert (EventType_to_raw ev) S"
  by simp

lemma fold_events_on:
  "fold (subscribe_call t (raw (inner s))) (map (event_on_call t s) evs) S = S \<union> raw_events (set evs)"
  by (induction evs arbitrary: S) auto

lemmas option_numbers = SCTP_EVENT_def SCTP_SOCKOPT_BINDX_ADD_def SCTP_INITMSG_def SCTP_NODELAY_def
  SCTP_RTOINFO_def SCTP_PEER_ADDR_PARAMS_def SCTP_DELAYED_SACK_def SCTP_ASSOCINFO_def
  SCTP_REUSE_PORT_def SCTP_RECVRCVINFO_def SCTP_DELAYED_ACK_TIME_def

lemma common_plan_subscribes:
  assumes "levels_ok t" and "common_plan t s x = Inr cs"
  shows "fold (subscribe_call t (raw (inner s))) cs S = S \<union> raw_events (common_asks x)"
proof (cases x)
  case (Subscribe_events evs)
  then show ?thesis
    using assms(2) fold_events_on[of t s evs S] by auto
qed (use assms in \<open>auto simp: buffer_plan_def levels_ok_def option_numbers split: if_splits\<close>)

lemma setting_plan_subscribes:
  assumes "levels_ok t" and "setting_plan t s x = Inr cs"
  shows "fold (subscribe_call t (raw (inner s))) cs S = S \<union> raw_events (asks x)"
  using assms common_plan_subscribes[OF assms(1)]
  by (cases x) (auto simp: option_numbers)

context builder_methods
begin

lemma chain_subscribes:
  assumes "\<And>x cs S. plan (socket_of b) x = Inr cs \<Longrightarrow>
    fold (subscribe_call t (fd_of b)) cs S = S \<union> raw_events (A x)"
  shows "subscribes t (fd_of b) (chain invoke xs b) (\<lambda>S. S \<union> raw_events (\<Union>x\<in>set xs. A x))"
proof -
  let ?d = "fd_of b"
  have one: "subscribes t ?d (follow E (plan (socket_of b) x)) (\<lambda>S. S \<union> raw_events (A x))" for x
  proof (cases "plan (socket_of b) x")
    case (Inr cs)
    then have "fold (subscribe_call t ?d) cs = (\<lambda>S. S \<union> raw_events (A x))"
      using assms by blast
    then show ?thesis
      using make_calls_subscribes[of t ?d E cs] Inr by simp
  qed (simp add: subscribes_def io_lift_def)
  have "subscribes t ?d (follow_all E (map (plan (socket_of b)) xs))
      (\<lambda>S. S \<union> raw_events (\<Union>x\<in>set xs. A x))"
  proof (induction xs)
    case Nil
    show ?case
      using subscribes_keeps[OF eventless.keeps_lift] by (simp add: follow_all_simps)
  next
    case (Cons x xs)
    have "subscribes t ?d (follow_all E (map (plan (socket_of b)) (x # xs)))
        (\<lambda>S. S \<union> raw_events (A x) \<union> raw_events (\<Union>x\<in>set xs. A x))"
      unfolding list.map follow_all_simps by (rule subscribes_bind[OF one Cons.IH])
    then show ?case
      by (simp add: image_Un Un_assoc)
  qed
  then show ?thesis
    unfolding chain_follows by (intro subscribes_dropping subscribes_then eventless.keeps_lift)
qed

end

section \<open>Set-ups\<close>

lemma keeps_new: "keeps no_events (SctpSocket_new E t family style)"
proof -
  have "keeps no_events (enable_rcvinfo E t s)" for s
    unfolding enable_rcvinfo_def imp_setsockopt_i32_def
    by (rule eventless.keeps_setsockopt) (simp add: option_numbers)
  then show ?thesis
    unfolding SctpSocket_new_def imp_new_def Let_def by (intro keep_intros; simp)
qed

lemma keeps_from_socket:
  "keeps no_events (SctpListener_from_socket E t s)" "keeps no_events (SctpEndpoint_from_socket E t s)"
  unfolding SctpListener_from_socket_def SctpEndpoint_from_socket_def by (intro keep_intros)+

lemma register_sock: "register E t s w = Some (Ok io, w') \<Longrightarrow> sock io = s"
  unfolding register_def AsyncFd_new_def reactor_register_def
  by (auto simp: io_bind_Some_iff dest!: dropping_okD io_lift_okD)

lemma event_subscribes:
  "subscribes t (raw s) (imp_subscribe_event E t s ev on)
     (if on then insert (EventType_to_raw ev) else (\<lambda>S. S - {EventType_to_raw ev}))"
proof -
  define c where "c = C_setsockopt (raw s) SOL_SCTP SCTP_EVENT (PBytes (event_mem t
    \<lparr>se_assoc_id = assoc_raw FUTURE, se_type = EventType_to_raw ev, se_on = (if on then 1 else 0)\<rparr>))"
  have "imp_subscribe_event E t s ev on = make_calls E [c]"
    by (simp add: c_def imp_subscribe_event_def imp_subscribe_event_for_def imp_setsockopt_def)
  moreover have "fold (subscribe_call t (raw s)) [c] =
      (if on then insert (EventType_to_raw ev) else (\<lambda>S. S - {EventType_to_raw ev}))"
    by (auto simp: c_def fun_eq_iff)
  ultimately show ?thesis
    using make_calls_subscribes[of t "raw s" E "[c]"] by argo
qed

text \<open>A connect undoes its own subscription, if it made one.\<close>

lemma connectx_subscribes:
  "subscribes t (raw (inner (stb_sock b))) (StreamBuilder_connectx E t b addrs)
     (\<lambda>S. if assoc_change_subscribed b then S else S - {EventType_to_raw Ev_AssocChange})"
proof (cases "assoc_change_subscribed b")
  case True
  then show ?thesis
    unfolding StreamBuilder_connectx_def
    by (simp, intro subscribes_keeps keep_intros)
next
  case False
  let ?d = "raw (inner (stb_sock b))" and ?a = "EventType_to_raw Ev_AssocChange"
  have rest: "subscribes t ?d (dropping E (raw (sock io)) (io_bind (imp_connectx E t (sock io) addrs) (\<lambda>_.
        io_bind (established E t io) (\<lambda>_.
        io_bind (imp_subscribe_event E t (sock io) Ev_AssocChange False) (\<lambda>_.
        io_return (SctpStream io)))))) (\<lambda>S. S - {?a})" if "sock io = inner (stb_sock b)" for io
    using event_subscribes[of t "sock io" E Ev_AssocChange False] that
    by (intro subscribes_dropping subscribes_after subscribes_then keep_intros) simp_all
  have on: "subscribes t ?d (dropping E ?d (imp_subscribe_event E t (inner (stb_sock b)) Ev_AssocChange True))
      (insert ?a)"
    by (rule subscribes_dropping)
      (use event_subscribes[of t "inner (stb_sock b)" E Ev_AssocChange True] in simp)
  have off: "subscribes t ?d (io_bind (register E t (inner (stb_sock b))) (\<lambda>io.
      dropping E (raw (sock io)) (io_bind (imp_connectx E t (sock io) addrs) (\<lambda>_.
        io_bind (established E t io) (\<lambda>_.
        io_bind (imp_subscribe_event E t (sock io) Ev_AssocChange False) (\<lambda>_.
        io_return (SctpStream io))))))) (\<lambda>S. S - {?a})"
    by (rule subscribes_bind[where g = "\<lambda>S. S"])
      (blast intro: subscribes_keeps eventless.keeps_register, blast intro: rest register_sock)
  have "subscribes t ?d (StreamBuilder_connectx E t b addrs) (\<lambda>S. insert ?a S - {?a})"
    unfolding StreamBuilder_connectx_def SctpSocket_subscribe_event_def if_not_P[OF False]
    by (rule subscribes_bind[OF on off])
  then show ?thesis
    by (simp add: False)
qed

lemma finished_sock:
  "StreamBuilder_connectx E t b addrs w = Some (Ok st, w') \<Longrightarrow> sock (stream_io st) = inner (stb_sock b)"
  "SctpListener_from_socket E t s w = Some (Ok l, w') \<Longrightarrow> sock (listener_io l) = inner s"
  "SctpEndpoint_from_socket E t s w = Some (Ok ep, w') \<Longrightarrow> sock (endpoint_io ep) = inner s"
  unfolding StreamBuilder_connectx_def SctpListener_from_socket_def SctpEndpoint_from_socket_def
  by (auto simp: io_bind_Some_iff dest!: dropping_okD io_lift_okD register_sock)

text \<open>
  A set-up is a fresh socket, a chain of methods and a last step on what the chain returned.
\<close>

context builder_methods
begin

lemma setup_subscriptions:
  assumes run: "io_bind new (\<lambda>b. io_bind (chain invoke xs b) finish) w = Some (Ok x, w')"
    and new: "keeps no_events new"
    and plan: "\<And>s x cs S. plan s x = Inr cs \<Longrightarrow>
      fold (subscribe_call t (raw (inner s))) cs S = S \<union> raw_events (A x)"
    and finish: "\<And>b w w'. new w = Some (Ok b, w') \<Longrightarrow> subscribes t (fd_of b) (finish (fold upd xs b)) g"
    and kept: "g (raw_events (\<Union>x\<in>set xs. A x)) = raw_events (\<Union>x\<in>set xs. A x)"
    and fd: "\<And>b w x w'. finish b w = Some (Ok x, w') \<Longrightarrow> fd x = fd_of b"
  shows "\<exists>tr. trace w' = trace w @ tr \<and> subscriptions t (fd x) tr = raw_events (\<Union>x\<in>set xs. A x)"
proof -
  let ?asked = "raw_events (\<Union>x\<in>set xs. A x)"
  obtain b w1 where b: "new w = Some (Ok b, w1)"
    and rest: "io_bind (chain invoke xs b) finish w1 = Some (Ok x, w')"
    using run by (auto simp: io_bind_Some_iff)
  obtain tr where tr: "trace w1 = trace w @ tr" "no_events tr"
    using keepsD[OF new b] by (auto simp: records_def)
  have result: "b' = fold upd xs b" if "chain invoke xs b v = Some (Ok b', v')" for b' v v'
    using that chain_outcome[of xs b v] by (auto simp: chain_result_def)
  have "subscribes t (fd_of b) (io_bind (chain invoke xs b) finish) (\<lambda>S. g (S \<union> ?asked))"
    by (rule subscribes_bind[OF chain_subscribes[OF plan]]) (auto dest!: result intro: finish[OF b])
  then obtain tr' where tr': "trace w' = trace w1 @ tr'"
    "\<forall>S. fold (subscribe_answered t (fd_of b)) tr' S = g (S \<union> ?asked)"
    using rest unfolding subscribes_def by blast
  have "fd x = fd_of b"
    using rest by (auto simp: io_bind_Some_iff socket_fold_upd dest!: result fd)
  then have "subscriptions t (fd x) (tr @ tr') = ?asked"
    using tr'(2) tr(2) kept by (simp add: subscriptions_def no_events_fold)
  then show ?thesis
    using tr(1) tr'(1) by (intro exI[of _ "tr @ tr'"]) simp
qed

end

lemma stream_subscriptions:
  assumes levels: "levels_ok t" and run: "stream_setup E t family xs addrs w = Some (Ok st, w')"
  shows "\<exists>tr. trace w' = trace w @ tr \<and>
    subscriptions t (raw (sock (stream_io st))) tr = raw_events (\<Union>x\<in>set xs. asks x)"
  using run unfolding stream_setup_def
proof (rule stream_chain.setup_subscriptions)
  let ?a = "EventType_to_raw Ev_AssocChange" and ?asked = "\<Union>x\<in>set xs. asks x"
  show "keeps no_events (SctpStream_builder E t family)"
    unfolding SctpStream_builder_def by (intro keep_intros keeps_new)
  show "subscribes t (raw (inner (stb_sock b))) (StreamBuilder_connectx E t (fold note_setting xs b) addrs)
      (\<lambda>S. if Ev_AssocChange \<in> ?asked then S else S - {?a})"
    if "SctpStream_builder E t family v = Some (Ok b, v')" for b v v'
  proof -
    have "\<not> assoc_change_subscribed b"
      using that by (auto simp: SctpStream_builder_def io_bind_Some_iff dest!: io_lift_okD)
    then show ?thesis
      using connectx_subscribes[of t "fold note_setting xs b" E addrs]
      by (simp add: fold_note_setting list_ex_iff asks_assoc_change_iff)
  qed
  show "(if Ev_AssocChange \<in> ?asked then raw_events ?asked else raw_events ?asked - {?a}) = raw_events ?asked"
    by (auto simp: EventType_to_raw_inj simp del: EventType_to_raw.simps)
qed (auto simp: finished_sock setting_plan_subscribes[OF levels])

lemma listener_subscriptions:
  assumes levels: "levels_ok t" and run: "listener_setup E t family xs backlog w = Some (Ok l, w')"
  shows "\<exists>tr. trace w' = trace w @ tr \<and>
    subscriptions t (raw (sock (listener_io l))) tr = raw_events (\<Union>x\<in>set xs. asks x)"
  using run unfolding listener_setup_def
proof (rule listener_chain.setup_subscriptions[where g = "\<lambda>S. S"])
  show "keeps no_events (SctpListener_builder E t family)"
    unfolding SctpListener_builder_def by (intro keep_intros keeps_new)
  show "subscribes t (raw (inner (lb_sock b))) (ListenerBuilder_listen E t (fold (\<lambda>_ b. b) xs b) backlog)
      (\<lambda>S. S)" for b
    unfolding ListenerBuilder_listen_def SctpSocket_listen_def
    by (intro subscribes_keeps keep_intros keeps_from_socket)
qed (auto simp: ListenerBuilder_listen_def io_bind_Some_iff finished_sock setting_plan_subscribes[OF levels])

lemma endpoint_subscriptions:
  assumes levels: "levels_ok t" and run: "endpoint_setup E t family ys listen w = Some (Ok ep, w')"
  shows "\<exists>tr. trace w' = trace w @ tr \<and>
    subscriptions t (raw (sock (endpoint_io ep))) tr = raw_events (\<Union>y\<in>set ys. common_asks y)"
  using run unfolding endpoint_setup_def
proof (rule endpoint_chain.setup_subscriptions[where g = "\<lambda>S. S"])
  show "keeps no_events (SctpEndpoint_builder E t family)"
    unfolding SctpEndpoint_builder_def by (intro keep_intros keeps_new)
  show "subscribes t (raw (inner (eb_sock b)))
      (case listen of None \<Rightarrow> EndpointBuilder_build E t (fold (\<lambda>_ b. b) ys b)
       | Some n \<Rightarrow> EndpointBuilder_listen E t (fold (\<lambda>_ b. b) ys b) n) (\<lambda>S. S)" for b
    unfolding EndpointBuilder_listen_def EndpointBuilder_build_def SctpSocket_listen_def
    by (cases listen; simp only: option.case; intro subscribes_keeps keep_intros keeps_from_socket)
qed (auto simp: EndpointBuilder_listen_def EndpointBuilder_build_def io_bind_Some_iff finished_sock
    common_plan_subscribes[OF levels] split: option.splits)

section \<open>Properties\<close>

text \<open>
  C15: a socket that was set up delivers the notifications the caller asked for and no others. When
  a stream has been connected, or a listener or an endpoint made, through any chain of builder
  methods, the event types the kernel has subscribed on the descriptor of the socket returned
  are exactly those of the caller's \<open>subscribe_events\<close>: waiting for the association subscribes to
  its changes, but that subscription remains only if it is the caller's too.
\<close>

theorem subscriptions_as_asked:
  assumes "levels_ok t"
  shows "(stream_setup E t family xs addrs w = Some (Ok st, w') \<longrightarrow>
      (\<exists>tr. trace w' = trace w @ tr \<and>
        subscriptions t (raw (sock (stream_io st))) tr = raw_events (\<Union>x\<in>set xs. asks x))) \<and>
    (listener_setup E t family xs backlog w = Some (Ok l, w') \<longrightarrow>
      (\<exists>tr. trace w' = trace w @ tr \<and>
        subscriptions t (raw (sock (listener_io l))) tr = raw_events (\<Union>x\<in>set xs. asks x))) \<and>
    (endpoint_setup E t family ys listen w = Some (Ok ep, w') \<longrightarrow>
      (\<exists>tr. trace w' = trace w @ tr \<and>
        subscriptions t (raw (sock (endpoint_io ep))) tr = raw_events (\<Union>y\<in>set ys. common_asks y)))"
  by (intro conjI impI; erule stream_subscriptions[OF assms] listener_subscriptions[OF assms]
      endpoint_subscriptions[OF assms])

text \<open>An operation that succeeds when the scripted kernel gives these answers.\<close>

definition answered_by :: "(sysret list, 'a) io \<Rightarrow> sysret list \<Rightarrow> 'a \<Rightarrow> bool" where
  "answered_by m as x \<longleftrightarrow>
     (\<forall>rs tr. \<exists>tr'. m \<lparr>kst = as @ rs, trace = tr\<rparr> = Some (Ok x, \<lparr>kst = rs, trace = tr'\<rparr>))"

lemma answered_bind:
  assumes "answered_by m as x" and "answered_by (f x) bs y"
  shows "answered_by (io_bind m f) (as @ bs) y"
  unfolding answered_by_def
proof (intro allI)
  fix rs tr
  obtain tr1 where m: "m \<lparr>kst = as @ bs @ rs, trace = tr\<rparr> = Some (Ok x, \<lparr>kst = bs @ rs, trace = tr1\<rparr>)"
    using assms(1) unfolding answered_by_def by blast
  then show "\<exists>tr'. io_bind m f \<lparr>kst = (as @ bs) @ rs, trace = tr\<rparr> = Some (Ok y, \<lparr>kst = rs, trace = tr'\<rparr>)"
    using assms(2) unfolding answered_by_def by (simp add: io_bind_def m)
qed

lemma answered_dropping: "answered_by m as x \<Longrightarrow> answered_by (dropping E d m) as x"
  unfolding answered_by_def
proof (intro allI)
  fix rs tr
  assume "\<forall>rs tr. \<exists>tr'. m \<lparr>kst = as @ rs, trace = tr\<rparr> = Some (Ok x, \<lparr>kst = rs, trace = tr'\<rparr>)"
  then obtain tr' where "m \<lparr>kst = as @ rs, trace = tr\<rparr> = Some (Ok x, \<lparr>kst = rs, trace = tr'\<rparr>)"
    by blast
  then show "\<exists>tr'. dropping E d m \<lparr>kst = as @ rs, trace = tr\<rparr> = Some (Ok x, \<lparr>kst = rs, trace = tr'\<rparr>)"
    by (simp add: dropping_def)
qed

lemma answered_return: "answered_by (io_return x) [] x"
  by (simp add: answered_by_def io_lift_def)

lemma answered_setsockopt: "answered_by (imp_setsockopt scripted s level opt val) [sr_ok] ()"
  by (simp add: answered_by_def setsockopt_run)

text \<open>A kernel that sets up the association at the first wait.\<close>

definition example_up :: sysret where
  "example_up = (let bs = event_bytes linux_x86_64 0 20 (K_assoc_change SCTP_COMM_UP 0 5 5 7 [])
     in sr_ok\<lparr>sr_ret := int (length bs), sr_out := bs, sr_msg_flags := MSG_NOTIFICATION OR MSG_EOR\<rparr>)"

lemma example_established: "answered_by (established scripted linux_x86_64 (Io (imp_Socket 3))) [sr_ok, example_up] ()"
  unfolding answered_by_def
proof (intro allI)
  fix rs tr
  let ?t = linux_x86_64 and ?io = "Io (imp_Socket 3)" and ?buf = "replicate 512 (0 :: byte)"
  let ?w = "\<lparr>kst = sr_ok # example_up # rs, trace = tr\<rparr>"
  let ?w1 = "\<lparr>kst = example_up # rs, trace = tr @ [(C_reactor_readable 3, sr_ok)]\<rparr>"
  define bs where "bs = event_bytes ?t 0 20 (K_assoc_change SCTP_COMM_UP 0 5 5 7 [])"
  have len: "length bs = 20"
    by (simp add: bs_def event_bytes_def)
  have flags: "sr_msg_flags example_up = MSG_NOTIFICATION OR MSG_EOR"
    by (simp add: example_up_def Let_def)
  have "delivers ?t example_up (length ?buf) bs None []"
    by (simp add: delivers_def example_up_def bs_def[symmetric] len)
  note recv = recv_msg_head[OF sys_call_scripted this]
  have "\<exists>ac b tr'. imp_recv_msg scripted ?t (imp_Socket 3) ?buf False ?w1 =
      Some (Ok ((RecvNotification (N_AssocChange ac), None), b), \<lparr>kst = rs, trace = tr'\<rparr>) \<and> ac_state ac = CommUp"
    unfolding recv
    by (simp add: flags MSG_NOTIFICATION_def MSG_EOR_def bs_def parse_event io_lift_run
        AssocChangeState_from_raw_def sys_consts)
  then obtain ac b tr' where i: "imp_recv_msg scripted ?t (imp_Socket 3) ?buf False ?w1 =
      Some (Ok ((RecvNotification (N_AssocChange ac), None), b), \<lparr>kst = rs, trace = tr'\<rparr>)" "ac_state ac = CommUp"
    by blast
  have "decisive scripted ?t C_reactor_readable ?io (setup_recv scripted ?t) (?buf, ?w)
      (Ok ((RecvNotification (N_AssocChange ac), None), b)) \<lparr>kst = rs, trace = tr'\<rparr>"
    by (rule decided) (use i in \<open>simp_all add: call_cvt_run[OF sys_call_scripted]\<close>)
  then have "setup_end scripted ?t ?io (?buf, ?w) (Ok ()) \<lparr>kst = rs, trace = tr'\<rparr>"
    using i(2) by (rule setup_up)
  from established_complete[OF rtranclp.rtrancl_refl this] show
    "\<exists>tr'. established scripted ?t ?io \<lparr>kst = [sr_ok, example_up] @ rs, trace = tr\<rparr> =
       Some (Ok (), \<lparr>kst = rs, trace = tr'\<rparr>)"
    by (auto simp: established_def)
qed

lemma example_setup_steps:
  "answered_by (SctpStream_builder scripted linux_x86_64 Ipv4) [sr_ok\<lparr>sr_ret := 3\<rparr>, sr_ok]
     \<lparr>stb_sock = SctpSocket (imp_Socket 3), assoc_change_subscribed = False\<rparr>"
  "answered_by (register scripted linux_x86_64 (imp_Socket 3)) [sr_ok\<lparr>sr_ret := 0x800\<rparr>, sr_ok] (Io (imp_Socket 3))"
  "\<exists>a. answered_by (imp_connectx scripted linux_x86_64 (imp_Socket 3) [V4 0x7f000001 80]) [sr_ok] a"
  by (auto simp: answered_by_def SctpStream_builder_def SctpSocket_new_def imp_new_def enable_rcvinfo_def
      imp_setsockopt_i32_def imp_setsockopt_def from_raw_fd_def register_def AsyncFd_new_def reactor_register_def
      no_runtime_def cvt_def
      imp_set_nonblocking_def imp_connectx_def pack_addr_list_ok io_bind_def dropping_def io_lift_def
      do_call_def call_cvt_run[OF sys_call_scripted] linux_x86_64_libc_def)

lemma example_connectx:
  "answered_by (StreamBuilder_connectx scripted linux_x86_64
       \<lparr>stb_sock = SctpSocket (imp_Socket 3), assoc_change_subscribed = False\<rparr> [V4 0x7f000001 80])
     ([sr_ok] @ [sr_ok\<lparr>sr_ret := 0x800\<rparr>, sr_ok] @ [sr_ok] @ [sr_ok, example_up] @ [sr_ok] @ [])
     (SctpStream (Io (imp_Socket 3)))"
proof -
  obtain a where "answered_by (imp_connectx scripted linux_x86_64 (imp_Socket 3) [V4 0x7f000001 80]) [sr_ok] a"
    using example_setup_steps(3) by blast
  then have connect: "answered_by (imp_connectx scripted linux_x86_64 (sock (Io (imp_Socket 3))) [V4 0x7f000001 80]) [sr_ok] a"
    by simp
  show ?thesis
    unfolding StreamBuilder_connectx_def SctpSocket_subscribe_event_def imp_subscribe_event_def
      imp_subscribe_event_for_def Let_def StreamBuilder.select_convs if_False SctpSocket.sel
    by (rule answered_bind answered_dropping answered_setsockopt answered_return connect
        example_setup_steps(2) example_established)+
qed

theorem subscriptions_as_asked_witness:
  "let t = linux_x86_64; xs = [Common (Subscribe_events [Ev_Shutdown]), Common (Nodelay True)];
       w = \<lparr>kst = [sr_ok\<lparr>sr_ret := 3\<rparr>, sr_ok, sr_ok, sr_ok, sr_ok, sr_ok\<lparr>sr_ret := 0x800\<rparr>, sr_ok, sr_ok,
         sr_ok, example_up, sr_ok], trace = []\<rparr>
   in levels_ok t \<and>
      (\<exists>st w'. stream_setup scripted t Ipv4 xs [V4 0x7f000001 80] w = Some (Ok st, w') \<and>
         subscriptions t (raw (sock (stream_io st))) (trace w') = {SCTP_SHUTDOWN_EVENT})"
proof -
  let ?t = linux_x86_64 and ?st = "SctpStream (Io (imp_Socket 3))"
  define xs where "xs = [Common (Subscribe_events [Ev_Shutdown]), Common (Nodelay True)]"
  define w where "w = \<lparr>kst = [sr_ok\<lparr>sr_ret := 3\<rparr>, sr_ok, sr_ok, sr_ok, sr_ok, sr_ok\<lparr>sr_ret := 0x800\<rparr>, sr_ok, sr_ok,
         sr_ok, example_up, sr_ok], trace = []\<rparr>"
  let ?b = "\<lparr>stb_sock = SctpSocket (imp_Socket 3), assoc_change_subscribed = False\<rparr>"
  have chain: "answered_by (chain (stream_method scripted ?t) xs ?b) [sr_ok, sr_ok] ?b"
    unfolding stream_chain.chain_follows
    by (simp add: xs_def follow_all_def note_setting_def io_bind_def dropping_def io_lift_def
        call_cvt_run[OF sys_call_scripted] answered_by_def)
  have answers: "kst w = [sr_ok\<lparr>sr_ret := 3\<rparr>, sr_ok] @ [sr_ok, sr_ok] @
      ([sr_ok] @ [sr_ok\<lparr>sr_ret := 0x800\<rparr>, sr_ok] @ [sr_ok] @ [sr_ok, example_up] @ [sr_ok] @ [])"
    by (simp add: w_def)
  have "answered_by (stream_setup scripted ?t Ipv4 xs [V4 0x7f000001 80]) (kst w) ?st"
    unfolding stream_setup_def answers
    by (rule answered_bind, rule example_setup_steps, rule answered_bind, rule chain, rule example_connectx)
  then obtain w' where run: "stream_setup scripted ?t Ipv4 xs [V4 0x7f000001 80] w = Some (Ok ?st, w')"
    unfolding answered_by_def by (metis append_Nil2 w_def world.select_convs(1))
  have "subscriptions ?t (raw (sock (stream_io ?st))) (trace w') = {SCTP_SHUTDOWN_EVENT}"
    using subscriptions_as_asked[OF linux_levels_ok, of scripted Ipv4 xs "[V4 0x7f000001 80]" w] run
    by (fastforce simp: w_def xs_def)
  then show ?thesis
    unfolding Let_def xs_def[symmetric] w_def[symmetric] using run by auto
qed

end
