(* ===== verification/Nonblocking.thy ===== *)
theory Nonblocking
  imports Tasks
begin

text \<open>
  The reactor is only ever given non-blocking sockets. A wait that is answered is followed by an
  attempt, and an attempt on a blocking socket would stop the thread that polls all other tasks.
  The mode of each descriptor is read off the trace, from what the kernel was asked for and what
  it reported; \<open>prepares\<close> is the contract of an operation on a set of descriptors known to be
  non-blocking, with rules that compose it.
\<close>

section \<open>The mode of a descriptor\<close>

definition has_flag :: "i32 \<Rightarrow> i32 \<Rightarrow> bool" where
  "has_flag flag flags \<longleftrightarrow> flags AND flag = flag"

definition set_mode :: "fd \<Rightarrow> bool \<Rightarrow> fd set \<Rightarrow> fd set" where
  "set_mode d nonblocking N = (if nonblocking then insert d N else N - {d})"

text \<open>
  The descriptors known to be non-blocking after a call: those opened with \<open>SOCK_NONBLOCK\<close> and those
  whose \<open>O_NONBLOCK\<close> flag was set or reported as set.
\<close>

fun mode1 :: "target \<Rightarrow> call \<times> sysret \<Rightarrow> fd set \<Rightarrow> fd set" where
  "mode1 t (C_socket domain ty protocol, r) N =
     (if sr_ret r < 0 then N else set_mode (sr_ret r) (has_flag (SOCK_NONBLOCK (libc t)) ty) N)"
| "mode1 t (C_accept4 d n fl, r) N =
     (if sr_ret r < 0 then N else set_mode (sr_ret r) (has_flag (SOCK_NONBLOCK (libc t)) fl) N)"
| "mode1 t (C_getsockopt d level opt buf, r) N =
     (if level = SOL_SCTP \<and> opt = SCTP_SOCKOPT_PEELOFF_FLAGS \<and> \<not> sr_ret r < 0
      then set_mode (sint (sd (p_arg (sctp_peeloff_flags_arg_t_of_bytes t (overlay (sr_out r) buf)))))
        (has_flag (SOCK_NONBLOCK (libc t)) (pflags (sctp_peeloff_flags_arg_t_of_bytes t buf))) N
      else N)"
| "mode1 t (C_fcntl_getfl d, r) N =
     (if sr_ret r < 0 then N
      else set_mode d (has_flag (O_NONBLOCK (libc t)) (word_of_int (sr_ret r))) N)"
| "mode1 t (C_fcntl_setfl d fl, r) N =
     (if sr_ret r < 0 then N else set_mode d (has_flag (O_NONBLOCK (libc t)) fl) N)"
| "mode1 t (C_close d, r) N = N - {d}"
| "mode1 t _ N = N"

definition modes :: "target \<Rightarrow> (call \<times> sysret) list \<Rightarrow> fd set \<Rightarrow> fd set" where
  "modes t tr N = fold (mode1 t) tr N"

fun register_ok :: "fd set \<Rightarrow> call \<Rightarrow> bool" where
  "register_ok N (C_reactor_register d) \<longleftrightarrow> d \<in> N"
| "register_ok N _ \<longleftrightarrow> True"

fun registers_ok :: "target \<Rightarrow> fd set \<Rightarrow> (call \<times> sysret) list \<Rightarrow> bool" where
  "registers_ok t N [] \<longleftrightarrow> True"
| "registers_ok t N (x # tr) \<longleftrightarrow> register_ok N (fst x) \<and> registers_ok t (mode1 t x N) tr"

lemma modes_simps [simp]:
  "modes t [] N = N" "modes t (x # tr) N = modes t tr (mode1 t x N)"
  "modes t (tr @ tr') N = modes t tr' (modes t tr N)"
  by (simp_all add: modes_def)

lemma register_ok_other: "\<not> is_register c \<Longrightarrow> register_ok N c"
  by (cases c) simp_all

lemma register_ok_mono: "register_ok N c \<Longrightarrow> N \<subseteq> N' \<Longrightarrow> register_ok N' c"
  by (cases c) auto

lemma registers_ok_append [simp]:
  "registers_ok t N (tr @ tr') \<longleftrightarrow> registers_ok t N tr \<and> registers_ok t (modes t tr N) tr'"
  by (induction tr arbitrary: N) simp_all

lemma mode1_mono: "N \<subseteq> N' \<Longrightarrow> mode1 t x N \<subseteq> mode1 t x N'"
  by (induction t x N rule: mode1.induct) (auto simp: set_mode_def)

lemma registers_ok_mono: "registers_ok t N tr \<Longrightarrow> N \<subseteq> N' \<Longrightarrow> registers_ok t N' tr"
proof (induction tr arbitrary: N N')
  case (Cons x tr)
  have "registers_ok t (mode1 t x N') tr"
    using Cons.prems(1) by (intro Cons.IH[OF _ mode1_mono[OF Cons.prems(2)]]) simp
  then show ?case
    using Cons.prems(1) register_ok_mono[OF _ Cons.prems(2)] by simp
qed simp

section \<open>Operations\<close>

text \<open>
  \<open>prepares t P q m\<close>: given that the descriptors \<open>P\<close> are non-blocking, \<open>m\<close> registers only
  non-blocking ones, and after a result \<open>x\<close> those of \<open>q x\<close> are.
\<close>

definition prepares :: "target \<Rightarrow> fd set \<Rightarrow> ('a \<Rightarrow> fd set) \<Rightarrow> ('k, 'a) io \<Rightarrow> bool" where
  "prepares t P q m \<longleftrightarrow>
     (\<forall>w r w'. m w = Some (r, w') \<longrightarrow>
        (\<exists>tr. trace w' = trace w @ tr \<and>
          (\<forall>N. P \<subseteq> N \<longrightarrow> registers_ok t N tr \<and> (\<forall>x. r = Ok x \<longrightarrow> q x \<subseteq> modes t tr N))))"

abbreviation careful :: "target \<Rightarrow> ('k, 'a) io \<Rightarrow> bool" where
  "careful t \<equiv> keeps (registers_ok t {})"

lemma preparesE:
  assumes "prepares t P q m" and "m w = Some (r, w')"
  obtains tr where "trace w' = trace w @ tr" and "\<And>N. P \<subseteq> N \<Longrightarrow> registers_ok t N tr"
    and "\<And>N x. P \<subseteq> N \<Longrightarrow> r = Ok x \<Longrightarrow> q x \<subseteq> modes t tr N"
proof -
  obtain tr where "trace w' = trace w @ tr"
    and "\<forall>N. P \<subseteq> N \<longrightarrow> registers_ok t N tr \<and> (\<forall>x. r = Ok x \<longrightarrow> q x \<subseteq> modes t tr N)"
    using assms unfolding prepares_def by meson
  then show thesis
    by (intro that[of tr]) simp_all
qed

lemma prepares_careful:
  assumes "prepares t {} q m"
  shows "careful t m"
  unfolding keeps_def records_def by (metis preparesE[OF assms] subset_refl)

lemma careful_prepares:
  assumes "careful t m"
  shows "prepares t {} (\<lambda>_. {}) m"
  unfolding prepares_def
proof (intro allI impI)
  fix w r w'
  assume "m w = Some (r, w')"
  then obtain tr where "trace w' = trace w @ tr" "registers_ok t {} tr"
    using keepsD[OF assms] unfolding records_def by blast
  then show "\<exists>tr. trace w' = trace w @ tr \<and>
      (\<forall>N. {} \<subseteq> N \<longrightarrow> registers_ok t N tr \<and> (\<forall>x. r = Ok x \<longrightarrow> {} \<subseteq> modes t tr N))"
    using registers_ok_mono[OF _ empty_subsetI] by (intro exI[of _ tr]) simp
qed

lemma prepares_weaken: "prepares t P q m \<Longrightarrow> P \<subseteq> P' \<Longrightarrow> (\<And>x. q' x \<subseteq> q x) \<Longrightarrow> prepares t P' q' m"
  unfolding prepares_def by (meson subset_trans)

lemma prepares_lift: "(\<And>x. r = Ok x \<Longrightarrow> q x \<subseteq> P) \<Longrightarrow> prepares t P q (io_lift r)"
  unfolding prepares_def by (auto simp: io_lift_def)

lemma prepares_bind:
  assumes "prepares t P q m" and "\<And>x. prepares t (q x) q' (f x)"
  shows "prepares t P q' (io_bind m f)"
  unfolding prepares_def
proof (intro allI impI)
  fix w r w'
  assume "io_bind m f w = Some (r, w')"
  then consider (err) e where "m w = Some (Inl e, w')" "r = Inl e"
    | (ok) x w1 where "m w = Some (Inr x, w1)" "f x w1 = Some (r, w')"
    by (auto simp: io_bind_Some_iff)
  then show "\<exists>tr. trace w' = trace w @ tr \<and>
      (\<forall>N. P \<subseteq> N \<longrightarrow> registers_ok t N tr \<and> (\<forall>x. r = Ok x \<longrightarrow> q' x \<subseteq> modes t tr N))"
  proof cases
    case err
    then show ?thesis
      by (auto elim: preparesE[OF assms(1)])
  next
    case ok
    obtain tr1 where 1: "trace w1 = trace w @ tr1" "\<And>N. P \<subseteq> N \<Longrightarrow> registers_ok t N tr1"
      "\<And>N. P \<subseteq> N \<Longrightarrow> q x \<subseteq> modes t tr1 N"
      using preparesE[OF assms(1) ok(1)] by metis
    obtain tr2 where 2: "trace w' = trace w1 @ tr2" "\<And>N. q x \<subseteq> N \<Longrightarrow> registers_ok t N tr2"
      "\<And>N y. q x \<subseteq> N \<Longrightarrow> r = Ok y \<Longrightarrow> q' y \<subseteq> modes t tr2 N"
      using preparesE[OF assms(2) ok(2)] by metis
    show ?thesis
      by (rule exI[of _ "tr1 @ tr2"]) (use 1 2 in auto)
  qed
qed

lemma prepares_cvt:
  assumes "\<not> is_register c" and "\<And>v N. P \<subseteq> N \<Longrightarrow> \<not> sr_ret v < 0 \<Longrightarrow> q v \<subseteq> mode1 t (c, v) N"
  shows "prepares t P q (call_cvt E c)"
  unfolding prepares_def
proof (intro allI impI)
  fix w r w'
  assume run: "call_cvt E c w = Some (r, w')"
  obtain v w1 where v: "sys_call E c w = (v, w1)"
    by fastforce
  then have "w' = w1" "\<And>x. r = Ok x \<Longrightarrow> x = v \<and> \<not> sr_ret v < 0"
    using run by (auto simp: call_cvt_def do_call_def io_bind_def io_lift_def cvt_def split: if_splits)
  then show "\<exists>tr. trace w' = trace w @ tr \<and>
      (\<forall>N. P \<subseteq> N \<longrightarrow> registers_ok t N tr \<and> (\<forall>x. r = Ok x \<longrightarrow> q x \<subseteq> modes t tr N))"
    using sys_call_trace[OF v] assms(2) register_ok_other[OF assms(1)]
    by (intro exI[of _ "[(c, v)]"]) (simp, blast)
qed

lemma prepares_dropping:
  assumes "prepares t P q m"
  shows "prepares t P q (dropping E d m)"
  unfolding prepares_def
proof (intro allI impI)
  fix w r w'
  assume run: "dropping E d m w = Some (r, w')"
  show "\<exists>tr. trace w' = trace w @ tr \<and>
      (\<forall>N. P \<subseteq> N \<longrightarrow> registers_ok t N tr \<and> (\<forall>x. r = Ok x \<longrightarrow> q x \<subseteq> modes t tr N))"
  proof (cases r)
    case (Inl e)
    obtain v w1 where m: "m w = Some (Inl e, w1)" and v: "sys_call E (C_close d) w1 = (v, w')"
      using run Inl by (auto simp: dropping_def split: option.splits sum.splits prod.splits)
    obtain tr where "trace w1 = trace w @ tr" "\<And>N. P \<subseteq> N \<Longrightarrow> registers_ok t N tr"
      using preparesE[OF assms m] by metis
    then show ?thesis
      using sys_call_trace[OF v] Inl by (intro exI[of _ "tr @ [(C_close d, v)]"]) auto
  next
    case (Inr x)
    then have "m w = Some (r, w')"
      using run by (auto simp: dropping_def split: option.splits sum.splits prod.splits)
    then show ?thesis
      by (auto elim: preparesE[OF assms])
  qed
qed

section \<open>Putting a socket into non-blocking mode\<close>

lemma has_flag_or [simp]: "has_flag flag (flags OR flag)" "has_flag flag (flag OR flags)"
  unfolding has_flag_def by (simp_all add: bit_eq_iff bit_and_iff bit_or_iff)

lemma has_flag_or_unchanged: "flags OR flag = flags \<Longrightarrow> has_flag flag flags"
  using has_flag_or(1)[of flag flags] by simp

lemma prepares_set_nonblocking: "prepares t P (\<lambda>_. {raw s}) (imp_set_nonblocking E t s True)"
proof -
  define flags :: "sysret \<Rightarrow> i32" where "flags r = word_of_int (sr_ret r)" for r
  define known where "known r = (if has_flag (O_NONBLOCK (libc t)) (flags r) then {raw s} else {})" for r
  have get: "prepares t P known (call_cvt E (C_fcntl_getfl (raw s)))"
    by (rule prepares_cvt) (auto simp: known_def flags_def set_mode_def)
  have put: "prepares t (known r) (\<lambda>_. {raw s})
      (io_bind (call_cvt E (C_fcntl_setfl (raw s) (flags r OR O_NONBLOCK (libc t)))) (\<lambda>_. io_return ()))" for r
    by (rule prepares_bind[OF prepares_cvt[where q = "\<lambda>_. {raw s}"] prepares_lift]) (auto simp: set_mode_def)
  have unchanged: "prepares t (known r) (\<lambda>_. {raw s}) (io_return ())"
    if "flags r OR O_NONBLOCK (libc t) = flags r" for r
    by (rule prepares_lift) (simp add: known_def has_flag_or_unchanged[OF that])
  show ?thesis
    unfolding imp_set_nonblocking_def Let_def flags_def[symmetric]
    by (rule prepares_bind[OF get]) (use put unchanged in auto)
qed

lemma prepares_register_call: "prepares t {d} (\<lambda>_. {}) (reactor_register E d)"
  unfolding prepares_def
  by (auto simp: reactor_register_def do_call_def io_bind_def io_lift_def split: prod.splits sum.splits dest!: sys_call_trace)

lemma prepares_AsyncFd: "prepares t {raw s} (\<lambda>_. {}) (AsyncFd_new E s)"
  unfolding AsyncFd_new_def
  by (intro prepares_dropping prepares_bind[OF prepares_register_call] prepares_lift) simp

lemma careful_register: "careful t (register E t s)"
proof (rule prepares_careful)
  show "prepares t {} (\<lambda>_. {}) (register E t s)"
    unfolding register_def
    by (rule prepares_bind[OF prepares_dropping[OF prepares_set_nonblocking] prepares_AsyncFd])
qed

section \<open>Sockets that are born non-blocking\<close>

lemma prepares_rcvinfo: "prepares t {d} (\<lambda>_. {d}) (enable_rcvinfo E t s)"
  unfolding enable_rcvinfo_def imp_setsockopt_i32_def imp_setsockopt_def
  by (rule prepares_bind[OF prepares_cvt[where q = "\<lambda>_. {d}"] prepares_lift]) auto

lemma prepares_from_raw_fd: "prepares t {d} (\<lambda>s. {raw s}) (io_lift (from_raw_fd d))"
  by (rule prepares_lift) (auto simp: from_raw_fd_def split: if_splits)

lemma prepares_accept: "prepares t {} (\<lambda>x. {raw (fst x)}) (accept_nonblocking E t s)"
  unfolding accept_nonblocking_def accept_with_flags_def
  by (rule prepares_bind[OF prepares_cvt[where q = "\<lambda>r. {sr_ret r}"]])
    (auto simp: set_mode_def intro!: prepares_bind[OF prepares_from_raw_fd] prepares_dropping
      prepares_bind[OF prepares_rcvinfo] prepares_bind[OF prepares_lift[where q = "\<lambda>_. {d}" for d]]
      prepares_lift)

text \<open>The flags reach the kernel in the argument of the peeloff option.\<close>

lemma peeloff_argument:
  "pflags (sctp_peeloff_flags_arg_t_of_bytes t (struct_bytes t False (sctp_peeloff_flags_arg_t_fields t
     \<lparr>p_arg = p, pflags = fl\<rparr>))) = fl"
  by (simp add: sctp_peeloff_flags_arg_t_cs.of_to_bytes_exact sctp_peeloff_flags_arg_t_ok_def
      sctp_peeloff_arg_t_ok_def)

lemma prepares_peeloff: "prepares t {} (\<lambda>x. {raw x}) (peeloff_nonblocking E t s a)"
proof -
  let ?new = "\<lambda>bs. {sint (sd (p_arg (sctp_peeloff_flags_arg_t_of_bytes t bs)))}"
  let ?arg = "struct_bytes t False (sctp_peeloff_flags_arg_t_fields t
    \<lparr>p_arg = \<lparr>associd = assoc_raw a, sd = -1\<rparr>, pflags = SOCK_CLOEXEC (libc t) OR SOCK_NONBLOCK (libc t)\<rparr>)"
  have "prepares t {} ?new (imp_getsockopt_inout E s SOL_SCTP SCTP_SOCKOPT_PEELOFF_FLAGS ?arg)"
    unfolding imp_getsockopt_inout_def
    by (rule prepares_bind[OF prepares_cvt[where q = "\<lambda>r. ?new (overlay (sr_out r) ?arg)"] prepares_lift])
      (auto simp: set_mode_def peeloff_argument)
  then show ?thesis
    unfolding peeloff_nonblocking_def peeloff_with_flags_def Let_def
    by (rule prepares_bind)
      (intro prepares_bind[OF prepares_from_raw_fd] prepares_dropping prepares_bind[OF prepares_rcvinfo]
        prepares_lift, simp)
qed

lemma prepares_from_nonblocking: "prepares t {raw s} (\<lambda>_. {}) (SctpStream_from_nonblocking_imp E s)"
  unfolding SctpStream_from_nonblocking_imp_def register_nonblocking_def
  by (intro prepares_bind[OF prepares_AsyncFd] prepares_lift) simp

section \<open>Operations that register at most through these\<close>

lemma registers_ok_later: "registers_ok t {} tr \<Longrightarrow> registers_ok t {} tr' \<Longrightarrow> registers_ok t {} (tr @ tr')"
  by (simp add: registers_ok_mono[OF _ empty_subsetI])

lemma waits_no_register: "waits c \<Longrightarrow> \<not> is_register c"
  by (cases c) simp_all

interpretation mindful: recv_call_account "registers_ok t {}" for t
  by unfold_locales (simp_all add: registers_ok_later register_ok_other waits_no_register del: registers_ok_append)

lemma registers_ok_setsockopt: "registers_ok t {} [(C_setsockopt d level opt val, v)]"
  by simp

lemmas careful_setup = mindful.keeps_setup[OF registers_ok_setsockopt]
lemmas careful_connects = mindful.keeps_connects[OF registers_ok_setsockopt careful_register]

lemma careful_send_msg: "careful t (imp_send_msg E t' s buf dest info)"
  by (auto simp: keeps_def send_msg_run split: prod.splits intro: mindful.records_call)

text \<open>An accept: the socket is registered in the poll that accepted it.\<close>

lemma prepares_accepted: "prepares t {} (\<lambda>_. {}) (io_bind (accept_nonblocking E t s) (\<lambda>x. accept_finish E (Ok x)))"
  unfolding accept_finish_def io_bind_lift case_prod_unfold
  by (intro prepares_bind[OF prepares_accept] prepares_bind[OF prepares_from_nonblocking] prepares_lift) simp

lemma accept_finish_Inl [simp]: "accept_finish E (Inl e) = io_lift (Inl e)"
  by (simp add: accept_finish_def)

lemma accept_resumed:
  assumes "poll_resume (\<lambda>l. poll_read_op E t (listener_io l) (\<lambda>_ s. accept_nonblocking E t s) unchanged)
      (\<lambda>_. accept_finish E)
      l () w = Some (out, w')"
  shows "records (registers_ok t {}) w w'"
proof -
  let ?f = "accept_nonblocking E t (sock (listener_io l))" and ?Q = "registers_ok t {}"
  obtain out1 w1 where p: "poll_read_op E t (listener_io l) (\<lambda>_ s. accept_nonblocking E t s) unchanged () w = Some (out1, w1)"
    using assms by (auto simp: poll_resume_def split: option.splits)
  note finish = assms[unfolded poll_resume_def p]
  have "drive (poll_loop E t C_reactor_readable (listener_io l) (\<lambda>_ :: unit. ?f)
      (\<lambda>s. unchanged s (sock (listener_io l))) op_next) () w [] =
      Some (out1, w1, [])"
    using p unfolding poll_read_op_def by (rule poll_drive)
  moreover have "records ?Q w w'" if "?f w = Some (r, w')" for w r w'
    using prepares_careful[OF prepares_accept] that by (rule keepsD)
  ultimately show ?thesis
  proof (rule mindful.op_outcome[OF _ waits_readiness(1)])
    fix s1 r w0
    assume out1: "out1 = Ready r" and q: "records ?Q w w0" and f: "?f w0 = Some (r, w1)"
    have "\<exists>r'. io_bind ?f (\<lambda>x. accept_finish E (Ok x)) w0 = Some (r', w')"
      using finish out1 f by (cases r) (auto simp: io_bind_def io_lift_def split: option.splits)
    then have "records ?Q w0 w'"
      using keepsD[OF prepares_careful[OF prepares_accepted]] by blast
    with q show ?thesis
      by (rule mindful.records_trans)
  qed (use finish in \<open>auto simp: io_lift_def\<close>)
qed

lemma accept_registers:
  assumes "poll_accept E t s w = Some (out, w')"
  shows "records (registers_ok t {}) w w'"
  using assms accept_resumed[of E t]
  by (cases s) (auto simp: poll_accept_def io_lift_def split: option.splits)

text \<open>The same operation as a run.\<close>

lemma careful_accept: "careful t (SctpListener_accept E t l)"
  unfolding keeps_def
proof (intro allI impI)
  fix w r w'
  let ?f = "\<lambda>_ s. accept_nonblocking E t s" and ?Q = "registers_ok t {}"
  have f: "careful t (?f u s)" for u :: unit and s
    by (rule prepares_careful[OF prepares_accept])
  assume "SctpListener_accept E t l w = Some (r, w')"
  then obtain r1 w1 where op: "read_op E t (listener_io l) ?f unchanged () w = Some (r1, w1)"
    and fin: "accept_finish E r1 w1 = Some (r, w')"
    by (auto simp: SctpListener_accept_def accept_finish_def io_bind_Some_iff io_lift_def split: sum.splits)
  obtain c where sp: "(spurious E t C_reactor_readable (listener_io l) ?f unchanged)\<^sup>*\<^sup>* ((), w) c"
    and d: "decisive E t C_reactor_readable (listener_io l) ?f c r1 w1"
    using read_op_loop.loop_sound[OF op] by blast
  have "records ?Q (snd ((), w)) (snd c)"
    using sp by (induction rule: rtranclp_induct)
      (auto intro: mindful.records_refl mindful.records_trans mindful.spurious_records[OF _ f])
  moreover from d have "records ?Q (snd c) w'"
  proof cases
    case (wait_failed w0 e s0)
    then show ?thesis
      using fin mindful.wait_records by (auto simp: io_lift_def)
  next
    case (decided w0 x w2 s0)
    have "\<exists>r'. io_bind (?f s0 (sock (listener_io l))) (\<lambda>x. accept_finish E (Ok x)) w2 = Some (r', w')"
      using decided(3) fin by (cases r1) (auto simp: io_bind_def io_lift_def)
    then show ?thesis
      using mindful.wait_records[OF decided(2)] keepsD[OF prepares_careful[OF prepares_accepted]]
        mindful.records_trans decided(1) by (metis snd_conv)
  qed
  ultimately show "records ?Q w w'"
    using mindful.records_trans by simp
qed

section \<open>Constructors\<close>

lemma careful_connectx:
  "careful t (StreamBuilder_connectx E t b addrs)"
  "careful t (SctpStream_connectx_from_socket E t s addrs)"
  unfolding StreamBuilder_connectx_def SctpStream_connectx_from_socket_def SctpSocket_subscribe_event_def
  by (intro mindful.keeps_bind mindful.keeps_dropping mindful.keeps_if mindful.keeps_lift mindful.keeps_queries
      mindful.keeps_established careful_setup careful_register)+

lemma careful_from_socket:
  "careful t (SctpListener_from_socket E t s)" "careful t (SctpEndpoint_from_socket E t s)"
  unfolding SctpListener_from_socket_def SctpEndpoint_from_socket_def
  by (intro mindful.keeps_bind mindful.keeps_dropping mindful.keeps_if mindful.keeps_lift mindful.keeps_queries
      careful_register)+

lemma careful_peeloff: "careful t (SctpEndpoint_peeloff E t ep a)"
  unfolding SctpEndpoint_peeloff_def
  by (rule prepares_careful[OF prepares_bind[OF prepares_peeloff prepares_from_nonblocking]])

section \<open>Tasks\<close>

lemma recv_polls_register:
  "poll_stream_recv_msg E t st buf w = Some (out1, w') \<Longrightarrow> records (registers_ok t {}) w w'"
  "poll_endpoint_recv_msg E t ep buf w = Some (out1, w') \<Longrightarrow> records (registers_ok t {}) w w'"
  "poll_endpoint_recv_msg_from E t ep buf w = Some (out2, w') \<Longrightarrow> records (registers_ok t {}) w w'"
  unfolding poll_stream_recv_msg_def poll_endpoint_recv_msg_def poll_endpoint_recv_msg_from_def case_prod_unfold
  by (auto intro: mindful.keeps_bind mindful.keeps_lift mindful.keeps_recv_msg elim!: mindful.op_records(1))

lemma send_polls_register:
  "poll_stream_send_msg E t st buf info () w = Some (out, w') \<Longrightarrow> records (registers_ok t {}) w w'"
  "poll_endpoint_send_msg E t ep buf info () w = Some (out, w') \<Longrightarrow> records (registers_ok t {}) w w'"
  "poll_endpoint_send_msg_to E t ep buf addr info () w = Some (out, w') \<Longrightarrow> records (registers_ok t {}) w w'"
  unfolding poll_stream_send_msg_def poll_endpoint_send_msg_def poll_endpoint_send_msg_to_def
  by (auto intro: careful_send_msg elim!: mindful.op_records(2))

lemmas connect_registers = mindful.connect_records[OF _ _ careful_connects(2)]

lemma connect_polls_register:
  "poll_connectx E t s1 w = Some (out1, w') \<Longrightarrow> records (registers_ok t {}) w w'"
  "poll_connectx_from_socket E t s2 w = Some (out2, w') \<Longrightarrow> records (registers_ok t {}) w w'"
  "poll_connect E t s3 w = Some (out3, w') \<Longrightarrow> records (registers_ok t {}) w w'"
  unfolding poll_connectx_def poll_connectx_from_socket_def poll_connect_def
  by (auto intro: careful_connects elim!: connect_registers)

lemma task_registers:
  "poll_task E t tk w = Some (tk', w') \<Longrightarrow> records (registers_ok t {}) w w'"
  by (cases tk) (auto simp: progress_eq_Some
      dest: recv_polls_register send_polls_register connect_polls_register accept_registers)

lemma closes_register_nothing: "only_closes tr \<Longrightarrow> registers_ok t N tr"
  by (induction tr arbitrary: N) auto

lemma reachable_registers: "reachable E t rt \<Longrightarrow> registers_ok t {} (trace (rt_world rt))"
proof (induction rule: reachable.induct)
  case (step rt rt')
  from step(2) show ?case
  proof cases
    case (polled i k tk w)
    then show ?thesis
      using task_registers[OF polled(3)] step.IH by (auto simp: records_def registers_ok_mono[OF _ empty_subsetI])
  next
    case (dropped i k)
    obtain tr where "trace (rt_world rt') = trace (rt_world rt) @ tr" "only_closes tr"
      using drop_task_trace[of E "tasks rt ! i" "(rt_world rt)\<lparr>kst := k\<rparr>"] dropped(1) by auto
    then show ?thesis
      using step.IH by (simp add: closes_register_nothing)
  qed (use step.IH in simp)
qed simp

section \<open>Properties\<close>

text \<open>
  C14: the reactor never gets a blocking socket. Whatever the kernel answers, a descriptor that
  the crate registers was, by the calls of the same operation, opened with \<open>SOCK_NONBLOCK\<close>, put
  into non-blocking mode or reported to be in it, and has not been put back or closed since. This
  holds of every operation that makes an asynchronous socket, whether it fails or succeeds (taking
  over a listener, an endpoint or a stream, connecting, accepting and peeling off), and of
  everything the tasks of a runtime have registered in any reachable state.
\<close>

theorem reactor_sockets_nonblocking:
  "keeps (registers_ok t {}) (SctpListener_from_socket E t s) \<and>
   keeps (registers_ok t {}) (SctpEndpoint_from_socket E t s) \<and>
   keeps (registers_ok t {}) (SctpStream_connectx_from_socket E t s addrs) \<and>
   keeps (registers_ok t {}) (StreamBuilder_connectx E t b addrs) \<and>
   keeps (registers_ok t {}) (SctpListener_accept E t l) \<and>
   keeps (registers_ok t {}) (SctpEndpoint_peeloff E t ep a) \<and>
   (reachable E t rt \<longrightarrow> registers_ok t {} (trace (rt_world rt)))"
  by (intro conjI impI careful_from_socket careful_connectx careful_accept careful_peeloff
      reachable_registers)

theorem reactor_sockets_nonblocking_witness:
  "let t = linux_x86_64; ep = Io (imp_Socket 3);
       answers = [sr_ok\<lparr>sr_out := to_ne_bytes t (5 :: i32)\<rparr>, sr_ok\<lparr>sr_ret := 2\<rparr>, sr_ok, sr_ok]
   in \<exists>w. SctpEndpoint_from_socket scripted t (SctpSocket (imp_Socket 3)) \<lparr>kst = answers, trace = []\<rparr> =
        Some (Ok (SctpEndpoint ep), w) \<and>
      (C_fcntl_setfl 3 0x802, sr_ok) \<in> set (trace w) \<and> (C_reactor_register 3, sr_ok) \<in> set (trace w) \<and>
      registers_ok t {} (trace w) \<and>
      reachable scripted t \<lparr>spawned = [], tasks = [], rt_world = \<lparr>kst = [], trace = []\<rparr>\<rparr>"
proof -
  let ?t = linux_x86_64 and ?s = "SctpSocket (imp_Socket 3)"
  let ?w = "\<lparr>kst = [sr_ok\<lparr>sr_out := to_ne_bytes ?t (5 :: i32)\<rparr>, sr_ok\<lparr>sr_ret := 2\<rparr>, sr_ok, sr_ok], trace = []\<rparr>"
  obtain w where run: "SctpEndpoint_from_socket scripted ?t ?s ?w = Some (Ok (SctpEndpoint (Io (imp_Socket 3))), w)"
    and tr: "(C_fcntl_setfl 3 0x802, sr_ok) \<in> set (trace w)" "(C_reactor_register 3, sr_ok) \<in> set (trace w)"
    by (simp add: SctpEndpoint_from_socket_def imp_style_def imp_getsockopt_i32_def imp_getsockopt_def
        imp_getsockopt_inout_def register_def AsyncFd_new_def reactor_register_def no_runtime_def cvt_def do_call_def imp_set_nonblocking_def io_bind_def dropping_def
        io_lift_def call_cvt_run[OF sys_call_scripted] overlay_full from_to_ne_bytes linux_x86_64_libc_def)
  have "registers_ok ?t {} (trace w)"
    using keepsD[OF reactor_sockets_nonblocking[THEN conjunct2, THEN conjunct1] run]
    by (simp add: records_def)
  then show ?thesis
    unfolding Let_def by (intro exI[of _ w] conjI run tr reachable.start)
qed

end
