(* ===== verification/Unit_Tests.thy ===== *)
theory Unit_Tests
  imports Kernel_Socket
begin

text \<open>
  The unit tests in the \<open>#[cfg(test)]\<close> modules of \<open>addr.rs\<close>, \<open>cmsg.rs\<close>, \<open>types.rs\<close>,
  \<open>notification.rs\<close>, \<open>sys.rs\<close> and \<open>imp/kernel.rs\<close>, one definition per test under the name the test
  has. A test passes when it returns, and fails by a panic of an assertion, an \<open>unwrap\<close> or the
  code under test. The crate runs them on the machine it is built for; here they are run on
  every target at once, so they tie the model to the behaviour its authors wrote down. The three
  tests that need a kernel with SCTP are in \<open>Kernel_Tests\<close>.
\<close>

section \<open>Assertions\<close>

definition assert :: "bool \<Rightarrow> unit io_result" where
  "assert b = (if b then Ok () else panic)"

fun unwrap :: "'a io_result \<Rightarrow> 'a io_result" where
  "unwrap (Inr x) = Ok x"
| "unwrap (Inl e) = panic"

fun unwrap_some :: "'a option \<Rightarrow> 'a io_result" where
  "unwrap_some (Some x) = Ok x"
| "unwrap_some None = panic"

definition is_err :: "'a io_result \<Rightarrow> bool" where
  "is_err r = (case r of Inl (IoErr e) \<Rightarrow> True | _ \<Rightarrow> False)"

lemma is_err_simps [simp]: "is_err (Err e)" "\<not> is_err (Ok x)" "\<not> is_err panic"
  by (simp_all add: is_err_def)

text \<open>\<open>"a.b.c.d".parse()\<close>: the number whose big-endian bytes are the octets.\<close>

definition ipv4 :: "byte \<Rightarrow> byte \<Rightarrow> byte \<Rightarrow> byte \<Rightarrow> u32" where
  "ipv4 a b c d = from_be_bytes [a, b, c, d]"

section \<open>Addresses\<close>

definition v4_roundtrip :: "target \<Rightarrow> unit io_result" where
  "v4_roundtrip t =
     (let addr = V4 (ipv4 192 0 2 1) 38412 in
      try_bind (write_sockaddr t addr (replicate SOCKADDR_IN6_LEN 0)) (\<lambda>(buf, n).
      try_bind (assert (n = SOCKADDR_IN_LEN \<and>
        (from_ne_bytes t (take 2 buf) :: u16) = AF_INET \<and>
        (from_be_bytes (take 2 (drop 2 buf)) :: u16) = 38412)) (\<lambda>_.
      try_bind (unwrap_some (read_sockaddr t buf)) (\<lambda>(parsed, consumed).
      assert (parsed = addr \<and> consumed = SOCKADDR_IN_LEN)))))"

definition v6_roundtrip :: "target \<Rightarrow> unit io_result" where
  "v6_roundtrip t =
     (let addr = V6 0x20010db8000000000000000000000002 3868 0 0 in
      try_bind (write_sockaddr t addr (replicate SOCKADDR_IN6_LEN 0)) (\<lambda>(buf, n).
      try_bind (assert (n = SOCKADDR_IN6_LEN)) (\<lambda>_.
      try_bind (unwrap_some (read_sockaddr t buf)) (\<lambda>(parsed, consumed).
      assert (parsed = addr \<and> consumed = SOCKADDR_IN6_LEN)))))"

definition mixed_list_roundtrip :: "target \<Rightarrow> unit io_result" where
  "mixed_list_roundtrip t =
     (let addrs = [V4 (ipv4 10 0 0 1) 2905, V6 0x20010db8000000000000000000000001 2905 0 0,
                   V4 (ipv4 10 0 0 2) 2905] in
      try_bind (pack_addr_list t addrs) (\<lambda>packed.
      assert (length packed = SOCKADDR_IN_LEN * 2 + SOCKADDR_IN6_LEN \<and>
        read_addr_list t packed 3 = addrs)))"

definition rejects_unknown_family_and_short_input :: "target \<Rightarrow> unit io_result" where
  "rejects_unknown_family_and_short_input t =
     try_bind (assert (read_sockaddr t [0xff, 0xff, 0, 0] = None \<and> read_sockaddr t [] = None)) (\<lambda>_.
     try_bind (write_sockaddr t (V4 (ipv4 127 0 0 1) 1) (replicate SOCKADDR_IN6_LEN 0)) (\<lambda>(buf, n).
     try_bind (slice_to buf 8) (\<lambda>short.
     assert (read_sockaddr t short = None))))"

section \<open>Control messages\<close>

definition constants_match_kernel_macros :: "target \<Rightarrow> unit io_result" where
  "constants_match_kernel_macros t =
     (let p = usize_bytes t in
      assert (HDR_LEN t = (if p = 8 then 16 else 12) \<and> space t 16 = HDR_LEN t + 16 \<and>
        cmsg_len t 16 = HDR_LEN t + 16 \<and> align t 1 = p))"

definition write_then_iterate_roundtrip :: "target \<Rightarrow> unit io_result" where
  "write_then_iterate_roundtrip t =
     (let sndinfo = replicate 16 0xab in
      try_bind (cmsg_write t (replicate 64 0) IPPROTO_SCTP SCTP_CMSG_SNDINFO sndinfo) (\<lambda>(buf, used).
      try_bind (assert (used = space t 16)) (\<lambda>_.
      try_bind (slice_to buf used) (\<lambda>written.
      try_bind (cmsg_iter t written) (\<lambda>items.
      assert (items = [(IPPROTO_SCTP, SCTP_CMSG_SNDINFO, sndinfo)]))))))"

text \<open>The second message is written through the subslice \<open>&mut buf[a..]\<close>.\<close>

definition iterates_multiple_messages :: "target \<Rightarrow> unit io_result" where
  "iterates_multiple_messages t =
     try_bind (cmsg_write t (replicate 128 0) 1 10 [1, 2, 3]) (\<lambda>(buf, a).
     try_bind (slice_from buf a) (\<lambda>rest.
     try_bind (cmsg_write t rest 2 20 (replicate 28 4)) (\<lambda>(rest, b).
     try_bind (slice_to (take a buf @ rest) (a + b)) (\<lambda>written.
     try_bind (cmsg_iter t written) (\<lambda>items.
     assert (length items = 2 \<and> items ! 0 = (1, 10, [1, 2, 3]) \<and> fst (items ! 1) = 2 \<and>
       length (snd (snd (items ! 1))) = 28))))))"

definition stops_on_truncated_or_bogus_header :: "target \<Rightarrow> unit io_result" where
  "stops_on_truncated_or_bogus_header t =
     try_bind (cmsg_write t (replicate 64 0) 1 1 (replicate 8 0)) (\<lambda>(buf, used).
     try_bind (slice_to buf (HDR_LEN t - 1)) (\<lambda>short.
     try_bind (cmsg_iter t short) (\<lambda>items.
     try_bind (assert (items = [])) (\<lambda>_.
     try_bind (copy_at 0 (replicate (usize_bytes t) 0xff) buf) (\<lambda>buf.
     try_bind (slice_to buf used) (\<lambda>bogus.
     try_bind (cmsg_iter t bogus) (\<lambda>items.
     assert (items = []))))))))"

section \<open>Parameter types\<close>

definition ppid_wire_conversion_is_big_endian :: "target \<Rightarrow> unit io_result" where
  "ppid_wire_conversion_is_big_endian t =
     assert (to_ne_bytes t (to_wire t Ppid_NGAP) = [0, 0, 0, 60] \<and>
       from_wire t (from_ne_bytes t [0, 0, 0, 60]) = Ppid_NGAP \<and>
       from_wire t (to_wire t Ppid_M3UA) = Ppid_M3UA)"

definition send_flags_compose :: "unit io_result" where
  "send_flags_compose =
     (let f = SendFlags_bitor SendFlags_UNORDERED SendFlags_SACK_IMMEDIATELY in
      assert (SendFlags_contains f SendFlags_UNORDERED \<and> \<not> SendFlags_contains f SendFlags_ABORT \<and>
        SendFlags_bits f = 9))"

definition state_mappings :: "unit io_result" where
  "state_mappings =
     assert (AssocState_from_raw 4 = Established \<and> AssocState_from_raw 99 = AssocState_Unknown 99 \<and>
       PeerAddrState_from_raw 2 = Active \<and>
       PeerAddrState_from_raw 0xffff = PeerAddrState_Unknown 0xffff)"

section \<open>Structure layouts\<close>

text \<open>A field is named by its index in the list of field types of its structure.\<close>

definition assoc_stats_layout :: "target \<Rightarrow> bool" where
  "assoc_stats_layout t =
     (let tys = sctp_assoc_stats_tys t in
      case pointer_width t of
        W64 \<Rightarrow> struct_size t False tys = 256 \<and>
          offset_of t False tys 2 = 8 \<and> \<comment> \<open>\<open>sas_obs_rto_ipaddr\<close>\<close>
          offset_of t False tys 3 = 136 \<and> \<comment> \<open>\<open>sas_maxrto\<close>\<close>
          offset_of t False tys 17 = 248 \<comment> \<open>\<open>sas_ictrlchunks\<close>\<close>
      | W32 \<Rightarrow>
          let maxrto_offset = round_up (align_u64 t) 132 in
          struct_size t False tys = maxrto_offset + 120 \<and>
          offset_of t False tys 1 = 4 \<and>
          offset_of t False tys 2 = maxrto_offset \<and>
          offset_of t False tys 16 = maxrto_offset + 112)"

definition struct_layouts_match_kernel_abi :: "target \<Rightarrow> unit io_result" where
  "struct_layouts_match_kernel_abi t =
     assert (length (storage_bytes sockaddr_storage_zeroed) = 128 \<and>
       struct_size t False (sctp_initmsg_tys t) = 8 \<and>
       struct_size t False (sctp_sndrcvinfo_tys t) = 32 \<and>
       struct_size t False (sctp_sndinfo_tys t) = 16 \<and>
       struct_size t False (sctp_rcvinfo_tys t) = 28 \<and>
       struct_size t False (sctp_nxtinfo_tys t) = 16 \<and>
       struct_size t False (sctp_event_tys t) = 8 \<and>
       struct_size t False (sctp_rtoinfo_tys t) = 16 \<and>
       struct_size t False (sctp_assocparams_tys t) = 20 \<and>
       struct_size t False (sctp_sack_info_tys t) = 12 \<and>
       assoc_stats_layout t \<and>
       struct_size t False (sctp_assoc_value_tys t) = 8 \<and>
       struct_size t True (sctp_paddrinfo_tys t) = 152 \<and>
       struct_size t False (sctp_status_tys t) = 176 \<and>
       struct_size t True (sctp_prim_tys t) = 132 \<and>
       struct_size t True (sctp_paddrparams_tys t) = 156 \<and>
       struct_size t False (sctp_peeloff_arg_t_tys t) = 8 \<and>
       struct_size t False (sctp_peeloff_flags_arg_t_tys t) = 12 \<and>
       struct_size t False (sctp_getaddrs_tys t) = 8 \<and>
       offset_of t False (sctp_rcvinfo_tys t) 3 = 8 \<and> \<comment> \<open>\<open>rcv_ppid\<close>\<close>
       offset_of t False (sctp_rcvinfo_tys t) 7 = 24 \<and> \<comment> \<open>\<open>rcv_assoc_id\<close>\<close>
       offset_of t False (sctp_sndinfo_tys t) 4 = 12 \<and> \<comment> \<open>\<open>snd_assoc_id\<close>\<close>
       offset_of t True (sctp_paddrinfo_tys t) 1 = 4 \<and> \<comment> \<open>\<open>spinfo_address\<close>\<close>
       offset_of t True (sctp_paddrinfo_tys t) 2 = 132 \<and> \<comment> \<open>\<open>spinfo_state\<close>\<close>
       offset_of t True (sctp_paddrinfo_tys t) 6 = 148 \<and> \<comment> \<open>\<open>spinfo_mtu\<close>\<close>
       offset_of t False (sctp_status_tys t) 7 = 20 \<and> \<comment> \<open>\<open>sstat_fragmentation_point\<close>\<close>
       offset_of t False (sctp_status_tys t) 8 = 24 \<and> \<comment> \<open>\<open>sstat_primary\<close>\<close>
       offset_of t True (sctp_paddrparams_tys t) 2 = 132 \<and> \<comment> \<open>\<open>spp_hbinterval\<close>\<close>
       offset_of t True (sctp_paddrparams_tys t) 3 = 136 \<and> \<comment> \<open>\<open>spp_pathmaxrxt\<close>\<close>
       offset_of t True (sctp_paddrparams_tys t) 4 = 138 \<and> \<comment> \<open>\<open>spp_pathmtu\<close>\<close>
       offset_of t True (sctp_paddrparams_tys t) 8 = 154 \<and> \<comment> \<open>\<open>spp_dscp\<close>\<close>
       offset_of t False (sctp_event_tys t) 1 = 4 \<and> \<comment> \<open>\<open>se_type\<close>\<close>
       offset_of t False (sctp_event_tys t) 2 = 6)" \<comment> \<open>\<open>se_on\<close>\<close>

text \<open>The second layout test is compiled on 64-bit targets only.\<close>

definition getaddrs_old_layout_64bit :: "target \<Rightarrow> unit io_result" where
  "getaddrs_old_layout_64bit t =
     assert (struct_size t False (sctp_getaddrs_old_tys t) = 16 \<and>
       offset_of t False (sctp_getaddrs_old_tys t) 2 = 8)"

section \<open>Notifications\<close>

text \<open>The builder of test vectors; \<open>finish\<close> patches the length of the whole into the header.\<close>

definition Builder_new :: "target \<Rightarrow> u16 \<Rightarrow> u16 \<Rightarrow> byte list" where
  "Builder_new t sn_type sn_flags =
     to_ne_bytes t sn_type @ to_ne_bytes t sn_flags @ to_ne_bytes t (0 :: u32)"

definition Builder_u16 :: "target \<Rightarrow> u16 \<Rightarrow> byte list \<Rightarrow> byte list" where
  "Builder_u16 t v b = b @ to_ne_bytes t v"

definition Builder_u32 :: "target \<Rightarrow> u32 \<Rightarrow> byte list \<Rightarrow> byte list" where
  "Builder_u32 t v b = b @ to_ne_bytes t v"

definition Builder_i32 :: "target \<Rightarrow> i32 \<Rightarrow> byte list \<Rightarrow> byte list" where
  "Builder_i32 t v b = b @ to_ne_bytes t v"

definition Builder_bytes :: "byte list \<Rightarrow> byte list \<Rightarrow> byte list" where
  "Builder_bytes v b = b @ v"

definition Builder_finish :: "target \<Rightarrow> byte list \<Rightarrow> byte list io_result" where
  "Builder_finish t b = copy_at 4 (to_ne_bytes t (word_of_nat (length b) :: u32)) b"

definition parses_assoc_change_comm_up :: "target \<Rightarrow> unit io_result" where
  "parses_assoc_change_comm_up t =
     try_bind (Builder_finish t (Builder_i32 t 42 (Builder_u16 t 5 (Builder_u16 t 10
       (Builder_u16 t 0 (Builder_u16 t SCTP_COMM_UP (Builder_new t SCTP_ASSOC_CHANGE 0))))))) (\<lambda>buf.
     try_bind (unwrap (parse t buf)) (\<lambda>n.
     case n of
       N_AssocChange ac \<Rightarrow> assert (ac_state ac = CommUp \<and> ac_outbound_streams ac = 10 \<and>
         ac_inbound_streams ac = 5 \<and> ac_assoc_id ac = AssocId 42 \<and> ac_info ac = [])
     | _ \<Rightarrow> panic))"

definition parses_peer_addr_change :: "target \<Rightarrow> unit io_result" where
  "parses_peer_addr_change t =
     (let addr = V4 (ipv4 10 1 2 3) 2905 in
      try_bind (write_sockaddr t addr (replicate 128 0)) (\<lambda>(storage, _).
      try_bind (Builder_finish t (Builder_i32 t 3 (Builder_i32 t 7
        (Builder_i32 t SCTP_ADDR_UNREACHABLE (Builder_bytes storage
          (Builder_new t SCTP_PEER_ADDR_CHANGE 0)))))) (\<lambda>buf.
      try_bind (assert (length buf = 148)) (\<lambda>_.
      try_bind (unwrap (parse t buf)) (\<lambda>n.
      case n of
        N_PeerAddrChange pc \<Rightarrow> assert (pc_address pc = Some addr \<and> pc_state pc = Unreachable \<and>
          pc_error pc = 7 \<and> pc_assoc_id pc = AssocId 3)
      | _ \<Rightarrow> panic)))))"

definition parses_shutdown_and_sender_dry :: "target \<Rightarrow> unit io_result" where
  "parses_shutdown_and_sender_dry t =
     try_bind (Builder_finish t (Builder_i32 t 9 (Builder_new t SCTP_SHUTDOWN_EVENT 0))) (\<lambda>buf.
     try_bind (unwrap (parse t buf)) (\<lambda>n.
     try_bind (case n of
         N_Shutdown e \<Rightarrow> assert (se_event_assoc_id e = AssocId 9)
       | _ \<Rightarrow> panic) (\<lambda>_.
     try_bind (Builder_finish t (Builder_i32 t 11 (Builder_new t SCTP_SENDER_DRY_EVENT 0))) (\<lambda>buf.
     try_bind (unwrap (parse t buf)) (\<lambda>n.
     case n of
       N_SenderDry e \<Rightarrow> assert (sd_assoc_id e = AssocId 11)
     | _ \<Rightarrow> panic)))))"

definition parses_new_style_send_failed :: "target \<Rightarrow> unit io_result" where
  "parses_new_style_send_failed t =
     (let payload = map of_char ''lost-message'' in
      try_bind (Builder_finish t (Builder_bytes payload (Builder_i32 t 6 (Builder_i32 t 6
        (Builder_u32 t 0xdeadbeef (Builder_u32 t (to_wire t Ppid_NGAP) (Builder_u16 t 0
          (Builder_u16 t 2 (Builder_u32 t 5
            (Builder_new t SCTP_SEND_FAILED_EVENT SCTP_DATA_UNSENT)))))))))) (\<lambda>buf.
      try_bind (unwrap (parse t buf)) (\<lambda>n.
      case n of
        N_SendFailed sf \<Rightarrow> assert (sf_unsent sf \<and> sf_error sf = 5 \<and> sf_sid sf = 2 \<and>
          sf_ppid sf = Ppid_NGAP \<and> sf_context sf = 0xdeadbeef \<and> sf_assoc_id sf = AssocId 6 \<and>
          sf_payload sf = payload)
      | _ \<Rightarrow> panic)))"

definition parses_stream_reset_with_stream_list :: "target \<Rightarrow> unit io_result" where
  "parses_stream_reset_with_stream_list t =
     try_bind (Builder_finish t (Builder_u16 t 5 (Builder_u16 t 3 (Builder_u16 t 1
       (Builder_i32 t 4
         (Builder_new t SCTP_STREAM_RESET_EVENT SCTP_STREAM_RESET_INCOMING_SSN)))))) (\<lambda>buf.
     try_bind (unwrap (parse t buf)) (\<lambda>n.
     case n of
       N_StreamReset sr \<Rightarrow> assert (sr_assoc_id sr = AssocId 4 \<and> sr_streams sr = [1, 3, 5])
     | _ \<Rightarrow> panic))"

definition unknown_type_preserved_raw :: "target \<Rightarrow> unit io_result" where
  "unknown_type_preserved_raw t =
     try_bind (Builder_finish t (Builder_u32 t 123 (Builder_new t 0x9999 1))) (\<lambda>buf.
     try_bind (unwrap (parse t buf)) (\<lambda>n.
     case n of
       N_Unknown rn \<Rightarrow> assert (rn_sn_type rn = 0x9999 \<and> rn_sn_flags rn = 1 \<and>
         length (rn_data rn) = 12)
     | _ \<Rightarrow> panic))"

definition truncated_input_is_an_error :: "target \<Rightarrow> unit io_result" where
  "truncated_input_is_an_error t =
     try_bind (assert (is_err (parse t [1]))) (\<lambda>_.
     try_bind (Builder_finish t (Builder_u16 t 0 (Builder_new t SCTP_ASSOC_CHANGE 0))) (\<lambda>buf.
     assert (is_err (parse t buf))))"

section \<open>The classification of connect errors\<close>

text \<open>\<open>ECONNREFUSED\<close> is used by this test alone, so it is its argument.\<close>

definition connectx_in_progress_depends_on_blocking_mode :: "target \<Rightarrow> i32 \<Rightarrow> unit io_result" where
  "connectx_in_progress_depends_on_blocking_mode t econnrefused =
     (let in_progress = Os (EINPROGRESS (libc t)); refused = Os econnrefused in
      try_bind (assert (classify_connectx_error t in_progress (O_NONBLOCK (libc t)) = Ok ())) (\<lambda>_.
      try_bind (case classify_connectx_error t in_progress 0 of
          Inl (IoErr (Custom kind msg)) \<Rightarrow> assert (kind = TimedOut)
        | _ \<Rightarrow> panic) (\<lambda>_.
      case classify_connectx_error t refused (O_NONBLOCK (libc t)) of
        Inl (IoErr e) \<Rightarrow> assert (raw_os_error e = Some econnrefused)
      | _ \<Rightarrow> panic)))"

section \<open>The tests pass\<close>

lemma assert_simps [simp]: "assert True = Ok ()" "assert False = panic"
  by (simp_all add: assert_def)

declare write_sockaddr.simps [simp del] sockaddr_bytes.simps [simp del] cmsg_bytes.simps [simp del]

lemma addr_tests:
  "v4_roundtrip t = Ok ()" "v6_roundtrip t = Ok ()" "mixed_list_roundtrip t = Ok ()"
proof -
  have be: "from_be_bytes (to_be_bytes w) = w" for w :: u16
    by (simp add: from_to_be_bytes)
  have rd: "read_sockaddr t (sockaddr_bytes t a) = Some (a, sockaddr_len a)" for a
    using read_sockaddr_bytes[of t a "[]"] by simp
  have hd: "take 2 (sockaddr_bytes t (V4 ip port) @ r) = to_ne_bytes t AF_INET"
    "take 2 (drop 2 (sockaddr_bytes t (V4 ip port) @ r)) = to_be_bytes port" for ip port r
    by (simp_all add: sockaddr_bytes.simps)
  show "v4_roundtrip t = Ok ()"
    by (simp add: v4_roundtrip_def Let_def write_sockaddr_ok addr_len_defs hd be read_sockaddr_bytes
        del: drop_append take_append)
  show "v6_roundtrip t = Ok ()"
    by (simp add: v6_roundtrip_def Let_def write_sockaddr_ok addr_len_defs rd)
  show "mixed_list_roundtrip t = Ok ()"
    unfolding mixed_list_roundtrip_def Let_def
    by (simp add: pack_addr_list_ok read_sockaddr_bytes rd numeral_3_eq_3 addr_len_defs)
qed

lemma from_ne_ffff: "(from_ne_bytes t [0xff, 0xff] :: u16) = 0xffff"
  by (cases "endianness t") (simp_all add: from_ne_bytes_def ne_val_def be_val_def)

lemma addr_reject_test: "rejects_unknown_family_and_short_input t = Ok ()"
proof -
  have "read_sockaddr t [0xff, 0xff, 0, 0] = None"
    by (simp add: read_sockaddr_def from_ne_ffff AF_INET_def AF_INET6_def)
  moreover have "read_sockaddr t buf = None" if "length buf < 16" for buf
    using that by (auto simp: read_sockaddr_def addr_len_defs Let_def)
  ultimately show ?thesis
    by (simp add: rejects_unknown_family_and_short_input_def write_sockaddr_ok addr_len_defs
        slice_to_def)
qed

lemma cmsg_space_values:
  "space t 16 = HDR_LEN t + 16" "space t 8 = HDR_LEN t + 8" "align t 1 = usize_bytes t"
  "space t 3 \<le> HDR_LEN t + 8" "space t 28 \<le> HDR_LEN t + 32"
  "HDR_LEN t = (if usize_bytes t = 8 then 16 else 12)"
  using usize_bytes_cases[of t]
  by (auto simp: space_def align_round_up round_up_def HDR_LEN_cases)

lemma ne_val_ones: "ne_val t (replicate n 0xff) = 256 ^ n - 1"
proof -
  have "Suc (le_val (replicate n 0xff)) = 256 ^ n"
    by (induction n) auto
  then have "le_val (replicate n 0xff) = 256 ^ n - 1"
    by simp
  then show ?thesis
    by (simp add: ne_val_def be_val_def split: endian.splits)
qed

lemma cmsg_fits_small: "length data < 1000 \<Longrightarrow> cmsg_fits t (level, ty, data)"
  using usize_bytes_cases[of t] by (auto simp: cmsg_len_def HDR_LEN_cases)

lemma cmsg_iter_small:
  assumes "\<forall>(level, ty, data) \<in> set msgs. length data < 1000"
  shows "cmsg_iter t (concat (map (cmsg_bytes t) msgs)) = Ok msgs"
proof (intro cmsg_iter_written ballI)
  show "cmsg_fits t m" if "m \<in> set msgs" for m
    using assms that by (cases m) (auto intro: cmsg_fits_small simp del: cmsg_fits.simps)
qed

lemma cmsg_tests:
  "constants_match_kernel_macros t = Ok ()" "write_then_iterate_roundtrip t = Ok ()"
  "iterates_multiple_messages t = Ok ()" "stops_on_truncated_or_bogus_header t = Ok ()"
proof -
  note sp = cmsg_space_values[of t]
  show "constants_match_kernel_macros t = Ok ()"
    unfolding constants_match_kernel_macros_def Let_def sp(1-3) cmsg_len_def
    using sp(6) by simp
  have le: "HDR_LEN t \<le> 16"
    using sp(6) by simp
  show "write_then_iterate_roundtrip t = Ok ()"
    using le cmsg_iter_small[of "[(IPPROTO_SCTP, SCTP_CMSG_SNDINFO, replicate 16 0xab)]" t]
    by (simp add: write_then_iterate_roundtrip_def Let_def cmsg_write_ok sp(1) slice_to_def)
  let ?a = "(1, 10, [1, 2, 3])" and ?b = "(2, 20, replicate 28 4)"
  define A where "A = cmsg_bytes t ?a"
  have fst: "cmsg_write t (replicate 128 0) 1 10 [1, 2, 3] =
      Ok (A @ drop (space t 3) (replicate 128 0), space t 3)"
    using le sp(4) cmsg_write_ok[of t "[1, 2, 3]" "replicate 128 0"]
    by (simp add: A_def flip: numeral_3_eq_3)
  have snd: "cmsg_write t (replicate (128 - space t 3) 0) 2 20 (replicate 28 4) =
      Ok (cmsg_bytes t ?b @ drop (space t 28) (replicate (128 - space t 3) 0), space t 28)"
    using le sp(4,5) cmsg_write_ok[of t "replicate 28 4"] by simp
  have len: "length A = space t 3"
    using length_cmsg_bytes[of t 1 10 "[1, 2, 3]"] by (simp add: A_def flip: numeral_3_eq_3)
  show "iterates_multiple_messages t = Ok ()"
    using le sp(4,5) cmsg_iter_small[of "[?a, ?b]" t] unfolding list.map concat.simps A_def[symmetric]
    by (simp add: iterates_multiple_messages_def Let_def fst snd len slice_to_def slice_from_def)
  let ?ff = "replicate (usize_bytes t) (0xff :: byte)"
  have "cmsg_iter t (?ff @ r) = Ok []" if "length r < 1000" for r
    using that usize_bytes_cases[of t]
    by (intro cmsg_iter_stop) (auto simp: Iter_next_def slice_to_def Let_def ne_val_ones HDR_LEN_cases)
  then show "stops_on_truncated_or_bogus_header t = Ok ()"
    using le length_cmsg_bytes[of t 1 1 "replicate 8 0"] sp(2)
    by (simp add: stops_on_truncated_or_bogus_header_def cmsg_write_ok sp(2) slice_to_def copy_at_def
        cmsg_iter_short HDR_LEN_cases)
qed

lemma types_tests:
  "ppid_wire_conversion_is_big_endian t = Ok ()" "send_flags_compose = Ok ()"
  "state_mappings = Ok ()"
proof -
  have b: "to_be_bytes (60 :: u32) = [0, 0, 0, 60]"
    using to_from_be_bytes[of "[0, 0, 0, 60]", where 'a = 32]
    by (simp add: from_be_bytes_def be_val_def)
  have "(from_ne_bytes t [0, 0, 0, 60] :: u32) = to_be t 60"
    using from_to_ne_bytes[of t "to_be t (60 :: u32)"] by (simp add: to_ne_bytes_to_be b)
  then show "ppid_wire_conversion_is_big_endian t = Ok ()"
    by (simp add: ppid_wire_conversion_is_big_endian_def to_wire_def from_wire_def Ppid_NGAP_def
        Ppid_M3UA_def to_ne_bytes_to_be b)
  show "send_flags_compose = Ok ()"
    by (simp add: send_flags_compose_def SendFlags_bitor_def SendFlags_contains_def
        SendFlags_UNORDERED_def SendFlags_SACK_IMMEDIATELY_def SendFlags_ABORT_def sys_consts)
  show "state_mappings = Ok ()"
    by (simp add: state_mappings_def AssocState_from_raw_def PeerAddrState_from_raw_def sys_consts)
qed

lemma assoc_stats_offsets:
  "usize_bytes t = 8 \<Longrightarrow> align_u64 t = 8 \<Longrightarrow> offsets t False 0 (sctp_assoc_stats_tys t) =
     [0, 4, 8, 136, 144, 152, 160, 168, 176, 184, 192, 200, 208, 216, 224, 232, 240, 248]"
  "usize_bytes t = 4 \<Longrightarrow> align_u64 t = 4 \<Longrightarrow> offsets t False 0 (sctp_assoc_stats_tys t) =
     [0, 4, 132, 140, 148, 156, 164, 172, 180, 188, 196, 204, 212, 220, 228, 236, 244]"
  "usize_bytes t = 4 \<Longrightarrow> align_u64 t = 8 \<Longrightarrow> offsets t False 0 (sctp_assoc_stats_tys t) =
     [0, 4, 136, 144, 152, 160, 168, 176, 184, 192, 200, 208, 216, 224, 232, 240, 248]"
  by (simp_all add: sctp_assoc_stats_tys_def replicate_15_TU64 offset_simps)

lemma assoc_stats_layout_ok: "assoc_stats_layout t"
proof (cases "pointer_width t")
  case W64
  then have "usize_bytes t = 8" "align_u64 t = 8"
    by (simp_all add: usize_bytes_def align_u64_def)
  then show ?thesis
    by (simp add: assoc_stats_layout_def W64 sctp_assoc_stats_layout offset_of_def
        assoc_stats_offsets)
next
  case W32
  then have "usize_bytes t = 4" "align_u64 t = 4 \<or> align_u64 t = 8"
    by (auto simp: usize_bytes_def align_u64_def)
  then show ?thesis
    by (auto simp: assoc_stats_layout_def W32 sctp_assoc_stats_layout offset_of_def
        assoc_stats_offsets round_up_def)
qed

lemma layout_offsets:
  "offset_of t False (sctp_rcvinfo_tys t) 3 = 8" "offset_of t False (sctp_rcvinfo_tys t) 7 = 24"
  "offset_of t False (sctp_sndinfo_tys t) 4 = 12" "offset_of t True (sctp_paddrinfo_tys t) 1 = 4"
  "offset_of t True (sctp_paddrinfo_tys t) 2 = 132" "offset_of t True (sctp_paddrinfo_tys t) 6 = 148"
  "offset_of t False (sctp_status_tys t) 7 = 20" "offset_of t False (sctp_status_tys t) 8 = 24"
  "offset_of t True (sctp_paddrparams_tys t) 2 = 132"
  "offset_of t True (sctp_paddrparams_tys t) 3 = 136"
  "offset_of t True (sctp_paddrparams_tys t) 4 = 138"
  "offset_of t True (sctp_paddrparams_tys t) 8 = 154"
  "offset_of t False (sctp_event_tys t) 1 = 4" "offset_of t False (sctp_event_tys t) 2 = 6"
  by (simp_all add: struct_tys_defs offset_simps flip: numeral_2_eq_2)

lemma layout_tests:
  "struct_layouts_match_kernel_abi t = Ok ()"
  "pointer_width t = W64 \<longrightarrow> getaddrs_old_layout_64bit t = Ok ()"
proof -
  show "struct_layouts_match_kernel_abi t = Ok ()"
    by (simp add: struct_layouts_match_kernel_abi_def assoc_stats_layout_ok layout_offsets
        layout_offsets[unfolded One_nat_def])
  show "pointer_width t = W64 \<longrightarrow> getaddrs_old_layout_64bit t = Ok ()"
    by (simp add: getaddrs_old_layout_64bit_def sctp_getaddrs_old_tys_def usize_bytes_def
        layout_simps offset_simps)
qed

lemma finish_header:
  "Builder_finish t (Builder_new t ty fl @ body) =
     Ok (to_ne_bytes t ty @ to_ne_bytes t fl
       @ to_ne_bytes t (word_of_nat (8 + length body) :: u32) @ body)"
  by (simp add: Builder_finish_def Builder_new_def copy_at_def)

lemmas builder_defs = Builder_u16_def Builder_u32_def Builder_i32_def Builder_bytes_def

lemma event_parsed:
  assumes "event_type ev = ty" and "event_body t ev = body"
  shows "parse t (to_ne_bytes t ty @ to_ne_bytes t fl @ to_ne_bytes t (len :: u32) @ body) =
    Ok (event_notification t fl ev)"
  using parse_event[of t fl len ev] assms by (simp add: event_bytes_def)

lemma assoc_change_test: "parses_assoc_change_comm_up t = Ok ()"
  using event_parsed[of "K_assoc_change SCTP_COMM_UP 0 10 5 42 []"]
  by (simp add: parses_assoc_change_comm_up_def builder_defs finish_header
      AssocChangeState_from_raw_def)

lemma peer_addr_test: "parses_peer_addr_change t = Ok ()"
  using event_parsed[of "K_paddr_change (V4 (ipv4 10 1 2 3) 2905) SCTP_ADDR_UNREACHABLE 7 3"]
  by (simp add: parses_peer_addr_change_def Let_def builder_defs finish_header write_sockaddr_ok
      addr_len_defs PeerAddrChangeState_from_raw_def sys_consts)

lemma shutdown_test: "parses_shutdown_and_sender_dry t = Ok ()"
  using event_parsed[of "K_shutdown_event 9"] event_parsed[of "K_sender_dry_event 11"]
  by (simp add: parses_shutdown_and_sender_dry_def builder_defs finish_header)

lemma send_failed_test: "parses_new_style_send_failed t = Ok ()"
  using event_parsed[of "K_send_failed_event 5 \<lparr>snd_sid = 2, snd_flags = 0,
      snd_ppid = to_wire t Ppid_NGAP, snd_context = 0xdeadbeef, snd_assoc_id = 6\<rparr> 6
      (map of_char ''lost-message'')"]
  by (simp add: parses_new_style_send_failed_def Let_def builder_defs finish_header sndinfo_image
      to_wire_def from_wire_def Ppid_NGAP_def)

lemma stream_reset_test: "parses_stream_reset_with_stream_list t = Ok ()"
  using event_parsed[of "K_stream_reset_event 4 [1, 3, 5]"]
  by (simp add: parses_stream_reset_with_stream_list_def builder_defs finish_header)

text \<open>The type and the flags of a buffer that starts with a header.\<close>

lemma rd_header:
  "rd16 t (to_ne_bytes t ty @ to_ne_bytes t fl @ r) 0 = ty"
  "rd16 t (to_ne_bytes t ty @ to_ne_bytes t fl @ r) 2 = fl"
  by (simp_all add: rd16_def from_to_ne_bytes)

lemma unknown_test: "unknown_type_preserved_raw t = Ok ()"
proof -
  have "0x9999 \<notin> set known_types"
    by (simp add: known_types_def sys_consts)
  then show ?thesis
    by (simp add: unknown_type_preserved_raw_def builder_defs finish_header parse_header rd_header
        parse_unknown)
qed

lemma truncated_test: "truncated_input_is_an_error t = Ok ()"
  by (simp add: truncated_input_is_an_error_def builder_defs finish_header parse_short parse_header
      rd_header parse_assoc_change)

text \<open>
  The crate's unit tests pass on every target, whatever its byte order, pointer width and
  alignment, on the modelled code. The classification test needs what a test on a real machine
  takes for granted: \<open>O_NONBLOCK\<close> is a flag and \<open>ECONNREFUSED\<close> is not \<open>EINPROGRESS\<close>.
\<close>

theorem unit_tests_pass:
  assumes "O_NONBLOCK (libc t) \<noteq> 0" and "econnrefused \<noteq> EINPROGRESS (libc t)"
  shows "v4_roundtrip t = Ok () \<and> v6_roundtrip t = Ok () \<and> mixed_list_roundtrip t = Ok () \<and>
    rejects_unknown_family_and_short_input t = Ok () \<and>
    constants_match_kernel_macros t = Ok () \<and> write_then_iterate_roundtrip t = Ok () \<and>
    iterates_multiple_messages t = Ok () \<and> stops_on_truncated_or_bogus_header t = Ok () \<and>
    ppid_wire_conversion_is_big_endian t = Ok () \<and> send_flags_compose = Ok () \<and>
    state_mappings = Ok () \<and> struct_layouts_match_kernel_abi t = Ok () \<and>
    (pointer_width t = W64 \<longrightarrow> getaddrs_old_layout_64bit t = Ok ()) \<and>
    parses_assoc_change_comm_up t = Ok () \<and> parses_peer_addr_change t = Ok () \<and>
    parses_shutdown_and_sender_dry t = Ok () \<and> parses_new_style_send_failed t = Ok () \<and>
    parses_stream_reset_with_stream_list t = Ok () \<and> unknown_type_preserved_raw t = Ok () \<and>
    truncated_input_is_an_error t = Ok () \<and>
    connectx_in_progress_depends_on_blocking_mode t econnrefused = Ok ()"
  using assms layout_tests(2)[of t]
  by (simp add: addr_tests addr_reject_test cmsg_tests types_tests layout_tests(1)
      assoc_change_test peer_addr_test shutdown_test send_failed_test stream_reset_test unknown_test
      truncated_test connectx_in_progress_depends_on_blocking_mode_def classify_connectx_error_def)

theorem unit_tests_pass_witness:
  "O_NONBLOCK (libc linux_x86_64) \<noteq> 0 \<and> 111 \<noteq> EINPROGRESS (libc linux_x86_64) \<and>
   getaddrs_old_layout_64bit linux_x86_64 = Ok () \<and>
   connectx_in_progress_depends_on_blocking_mode linux_x86_64 111 = Ok ()"
proof -
  have h: "O_NONBLOCK (libc linux_x86_64) \<noteq> 0" "111 \<noteq> EINPROGRESS (libc linux_x86_64)"
    "pointer_width linux_x86_64 = W64"
    by (simp_all add: linux_x86_64_libc_def) (simp add: linux_x86_64_def)
  show ?thesis
    using unit_tests_pass[OF h(1,2)] h by simp
qed

end
