(* ===== verification/Kernel_Tests.thy ===== *)
theory Kernel_Tests
  imports Nonblocking Unit_Tests
begin

text \<open>
  The unit tests of \<open>imp/kernel.rs\<close> that open sockets, as programs over the environment. They pass
  when every call they unwrap succeeds and the kernel does what they rely on: it reports the
  addresses that were bound, with \<open>ENOMEM\<close> for a buffer that is too small, and a descriptor it was
  asked to open in non-blocking mode reports \<open>O_NONBLOCK\<close>. A socket a test owns is closed when the
  test returns or unwinds.
\<close>

section \<open>The tests\<close>

definition scoped :: "'k env \<Rightarrow> fd \<Rightarrow> ('k, 'a) io \<Rightarrow> ('k, 'a) io" where
  "scoped E d m =
     (\<lambda>w. case m w of None \<Rightarrow> None | Some (r, w') \<Rightarrow> Some (r, snd (sys_call E (C_close d) w')))"

definition io_unwrap :: "('k, 'a) io \<Rightarrow> ('k, 'a) io" where
  "io_unwrap m = (\<lambda>w. map_option (map_prod unwrap id) (m w))"

text \<open>
  The three error numbers that mean that the kernel has no SCTP are used by the tests alone, so
  they are arguments: \<open>EPROTONOSUPPORT\<close>, \<open>ESOCKTNOSUPPORT\<close>, \<open>EAFNOSUPPORT\<close>.
\<close>

type_synonym no_sctp = "i32 \<times> i32 \<times> i32"

fun means_no_sctp :: "no_sctp \<Rightarrow> io_error \<Rightarrow> bool" where
  "means_no_sctp (eproto, esockt, eaf) e \<longleftrightarrow>
     raw_os_error e = Some eproto \<or> raw_os_error e = Some esockt \<or> raw_os_error e = Some eaf"

definition socket_or_skip ::
    "'k env \<Rightarrow> target \<Rightarrow> no_sctp \<Rightarrow> Style \<Rightarrow> ('k, imp_Socket option) io" where
  "socket_or_skip E t u style =
     (\<lambda>w. case imp_new E t Ipv4 style w of
        None \<Rightarrow> None
      | Some (Inr s, w') \<Rightarrow> Some (Ok (Some s), w')
      | Some (Inl (IoErr e), w') \<Rightarrow> if means_no_sctp u e then Some (Ok None, w') else Some (panic, w')
      | Some (Inl Panicked, w') \<Rightarrow> Some (panic, w'))"

fun addr_port :: "SocketAddr \<Rightarrow> u16" where
  "addr_port (V4 ip port) = port"
| "addr_port (V6 ip port flowinfo scope_id) = port"

definition address_query_grows_after_enomem ::
    "'k env \<Rightarrow> target \<Rightarrow> no_sctp \<Rightarrow> ('k, unit) io" where
  "address_query_grows_after_enomem E t u =
     io_bind (socket_or_skip E t u OneToOne) (\<lambda>s.
     case s of
       None \<Rightarrow> io_return ()
     | Some sk \<Rightarrow> scoped E (raw sk)
         (let first = ipv4 127 0 0 1; second = ipv4 127 0 0 2 in
          io_bind (io_unwrap (imp_bindx_add E t sk [V4 first 0, V4 second 0])) (\<lambda>_.
          io_bind (io_unwrap (imp_local_addr E t sk)) (\<lambda>local.
          io_bind (io_unwrap (getaddrs_with_capacity E t sk FUTURE SCTP_GET_LOCAL_ADDRS 8)) (\<lambda>addrs.
          io_lift (assert (length addrs = 2 \<and> V4 first (addr_port local) \<in> set addrs \<and>
            V4 second (addr_port local) \<in> set addrs)))))))"

definition is_nonblocking :: "'k env \<Rightarrow> target \<Rightarrow> imp_Socket \<Rightarrow> ('k, unit) io" where
  "is_nonblocking E t s =
     io_bind (io_unwrap (call_cvt E (C_fcntl_getfl (raw s)))) (\<lambda>r.
     io_lift (assert ((word_of_int (sr_ret r) :: i32) AND O_NONBLOCK (libc t) \<noteq> 0)))"

definition async_accept_is_nonblocking :: "'k env \<Rightarrow> target \<Rightarrow> no_sctp \<Rightarrow> ('k, unit) io" where
  "async_accept_is_nonblocking E t u =
     io_bind (socket_or_skip E t u OneToOne) (\<lambda>s.
     case s of
       None \<Rightarrow> io_return ()
     | Some listener \<Rightarrow> scoped E (raw listener)
         (io_bind (io_unwrap (imp_bind E t listener (V4 (ipv4 127 0 0 1) 0))) (\<lambda>_.
          io_bind (io_unwrap (imp_listen E listener 1)) (\<lambda>_.
          io_bind (io_unwrap (imp_new E t Ipv4 OneToOne)) (\<lambda>client.
          scoped E (raw client)
            (io_bind (io_unwrap (imp_local_addr E t listener)) (\<lambda>addr.
             io_bind (io_unwrap (imp_connectx E t client [addr])) (\<lambda>_.
             io_bind (io_unwrap (accept_nonblocking E t listener)) (\<lambda>(accepted, _).
             scoped E (raw accepted) (is_nonblocking E t accepted))))))))))"

text \<open>
  The loop of the last test: receive until an association change arrives. The pattern of its
  \<open>if let\<close> is \<open>changed_assoc\<close>.
\<close>

fun changed_assoc :: "RecvMsg \<Rightarrow> AssocId option" where
  "changed_assoc (RecvNotification (N_AssocChange change)) = Some (ac_assoc_id change)"
| "changed_assoc _ = None"

partial_function (option) assoc_change_loop ::
    "'k env \<Rightarrow> target \<Rightarrow> imp_Socket \<Rightarrow> byte list \<Rightarrow> 'k world \<Rightarrow> (AssocId io_result \<times> 'k world) option" where
  "assoc_change_loop E t s buf w =
     (case imp_recv_msg E t s buf False w of
        None \<Rightarrow> None
      | Some (Inl e, w') \<Rightarrow> Some (panic, w')
      | Some (Inr ((msg, from), buf'), w') \<Rightarrow>
          (case changed_assoc msg of
             Some assoc_id \<Rightarrow> Some (Ok assoc_id, w')
           | None \<Rightarrow> assoc_change_loop E t s buf' w'))"

definition async_peeloff_is_nonblocking :: "'k env \<Rightarrow> target \<Rightarrow> no_sctp \<Rightarrow> ('k, unit) io" where
  "async_peeloff_is_nonblocking E t u =
     io_bind (socket_or_skip E t u OneToMany) (\<lambda>s.
     case s of
       None \<Rightarrow> io_return ()
     | Some server \<Rightarrow> scoped E (raw server)
         (io_bind (io_unwrap (imp_subscribe_event E t server Ev_AssocChange True)) (\<lambda>_.
          io_bind (io_unwrap (imp_bind E t server (V4 (ipv4 127 0 0 1) 0))) (\<lambda>_.
          io_bind (io_unwrap (imp_listen E server 1)) (\<lambda>_.
          io_bind (io_unwrap (imp_new E t Ipv4 OneToOne)) (\<lambda>client.
          scoped E (raw client)
            (io_bind (io_unwrap (imp_local_addr E t server)) (\<lambda>addr.
             io_bind (io_unwrap (imp_connectx E t client [addr])) (\<lambda>_.
             io_bind (assoc_change_loop E t server (replicate 256 0)) (\<lambda>assoc_id.
             io_bind (io_unwrap (peeloff_nonblocking E t server assoc_id)) (\<lambda>peeled.
             scoped E (raw peeled) (is_nonblocking E t peeled))))))))))))"

section \<open>Running them\<close>

abbreviation passes :: "(unit io_result \<times> 'k world) option \<Rightarrow> bool" where
  "passes x \<equiv> \<exists>w'. x = Some (Ok (), w')"

lemma passes_unwrap: "m w = Some (Ok x, w') \<Longrightarrow> passes (f x w') \<Longrightarrow> passes (io_bind (io_unwrap m) f w)"
  by (simp add: io_unwrap_def io_bind_def)

lemma passes_bind: "m w = Some (Ok x, w') \<Longrightarrow> passes (f x w') \<Longrightarrow> passes (io_bind m f w)"
  by (simp add: io_bind_def)

lemma passes_scoped: "passes (m w) \<Longrightarrow> passes (scoped E d m w)"
  by (auto simp: scoped_def)

lemma passes_assert: "b \<Longrightarrow> passes (io_lift (assert b) w)"
  by (simp add: io_lift_def)

lemma passes_socket:
  "imp_new E t Ipv4 style w = Some (Ok s, w') \<Longrightarrow> passes (f s w') \<Longrightarrow>
   passes (io_bind (socket_or_skip E t u style) (\<lambda>s. case s of None \<Rightarrow> m | Some s \<Rightarrow> f s) w)"
  by (simp add: socket_or_skip_def io_bind_def)

lemma passes_skipped:
  "imp_new E t Ipv4 style w = Some (Err e, w') \<Longrightarrow> means_no_sctp u e \<Longrightarrow>
   passes (io_bind (socket_or_skip E t u style) (\<lambda>s. case s of None \<Rightarrow> io_return () | Some s \<Rightarrow> f s) w)"
  by (simp add: socket_or_skip_def io_bind_def io_lift_def)

text \<open>
  What the kernel promises of a descriptor: if it was asked to open it in non-blocking mode, its
  flags say so.
\<close>

definition honours :: "'k env \<Rightarrow> target \<Rightarrow> fd \<Rightarrow> 'k world \<Rightarrow> bool" where
  "honours E t d w \<longleftrightarrow> (d \<in> modes t (trace w) {} \<longrightarrow>
     (let r = fst (sys_call E (C_fcntl_getfl d) w)
      in 0 \<le> sr_ret r \<and> (word_of_int (sr_ret r) :: i32) AND O_NONBLOCK (libc t) \<noteq> 0))"

lemma is_nonblocking_run:
  assumes "honours E t (raw s) w" and "raw s \<in> modes t (trace w) {}"
  shows "passes (is_nonblocking E t s w)"
proof -
  obtain r w1 where r: "sys_call E (C_fcntl_getfl (raw s)) w = (r, w1)"
    by fastforce
  then have "call_cvt E (C_fcntl_getfl (raw s)) w = Some (Ok r, w1)"
    using assms by (simp add: honours_def call_cvt_run)
  then show ?thesis
    unfolding is_nonblocking_def
    by (rule passes_unwrap) (use assms r in \<open>auto simp: honours_def io_lift_def\<close>)
qed

lemma prepared_mode:
  assumes "prepares t {} q m" and "m w = Some (Ok x, w')"
  shows "q x \<subseteq> modes t (trace w') {}"
  using preparesE[OF assms] by (metis empty_subsetI modes_simps(3))

text \<open>The server receives other items and then the association change.\<close>

inductive awaits ::
    "'k env \<Rightarrow> target \<Rightarrow> imp_Socket \<Rightarrow> byte list \<Rightarrow> 'k world \<Rightarrow> AssocId \<Rightarrow> 'k world \<Rightarrow> bool" for E t s where
  arrived: "imp_recv_msg E t s buf False w = Some (Ok ((msg, from), buf'), w') \<Longrightarrow>
    changed_assoc msg = Some a \<Longrightarrow> awaits E t s buf w a w'"
| other: "imp_recv_msg E t s buf False w = Some (Ok ((msg, from), buf'), w1) \<Longrightarrow>
    changed_assoc msg = None \<Longrightarrow> awaits E t s buf' w1 a w' \<Longrightarrow> awaits E t s buf w a w'"

lemma assoc_change_loop_awaits:
  "awaits E t s buf w a w' \<Longrightarrow> assoc_change_loop E t s buf w = Some (Ok a, w')"
  by (induction rule: awaits.induct) (subst assoc_change_loop.simps, simp)+

section \<open>What the tests rely on\<close>

text \<open>Two addresses are bound, and the kernel reports them with the port it chose.\<close>

definition address_scenario :: "'k env \<Rightarrow> target \<Rightarrow> 'k world \<Rightarrow> bool" where
  "address_scenario E t w \<longleftrightarrow>
     (let first = ipv4 127 0 0 1; second = ipv4 127 0 0 2 in
      \<exists>s w1 w2 w3 local addrs K.
        imp_new E t Ipv4 OneToOne w = Some (Ok s, w1) \<and>
        imp_bindx_add E t s [V4 first 0, V4 second 0] w1 = Some (Ok (), w2) \<and>
        imp_local_addr E t s w2 = Some (Ok local, w3) \<and>
        mset addrs = {#V4 first (addr_port local), V4 second (addr_port local)#} \<and>
        reports_addrs E t s FUTURE SCTP_GET_LOCAL_ADDRS addrs K \<and> kst w3 \<in> K)"

text \<open>A client connects to a listener or a server in the given world, which ends as \<open>w'\<close>.\<close>

definition connected :: "'k env \<Rightarrow> target \<Rightarrow> imp_Socket \<Rightarrow> 'k world \<Rightarrow> imp_Socket \<Rightarrow> 'k world \<Rightarrow> bool" where
  "connected E t s w client w' \<longleftrightarrow>
     (\<exists>w1 w2 w3 w4 local a.
        imp_bind E t s (V4 (ipv4 127 0 0 1) 0) w = Some (Ok (), w1) \<and>
        imp_listen E s 1 w1 = Some (Ok (), w2) \<and>
        imp_new E t Ipv4 OneToOne w2 = Some (Ok client, w3) \<and>
        imp_local_addr E t s w3 = Some (Ok local, w4) \<and>
        imp_connectx E t client [local] w4 = Some (Ok a, w'))"

definition accept_scenario :: "'k env \<Rightarrow> target \<Rightarrow> 'k world \<Rightarrow> bool" where
  "accept_scenario E t w \<longleftrightarrow>
     (\<exists>l client w1 w2 w3 s peer.
        imp_new E t Ipv4 OneToOne w = Some (Ok l, w1) \<and> connected E t l w1 client w2 \<and>
        accept_nonblocking E t l w2 = Some (Ok (s, peer), w3) \<and> honours E t (raw s) w3)"

definition peeloff_scenario :: "'k env \<Rightarrow> target \<Rightarrow> 'k world \<Rightarrow> bool" where
  "peeloff_scenario E t w \<longleftrightarrow>
     (\<exists>server client w1 w2 w3 w4 w5 a s.
        imp_new E t Ipv4 OneToMany w = Some (Ok server, w1) \<and>
        imp_subscribe_event E t server Ev_AssocChange True w1 = Some (Ok (), w2) \<and>
        connected E t server w2 client w3 \<and>
        awaits E t server (replicate 256 0) w3 a w4 \<and>
        peeloff_nonblocking E t server a w4 = Some (Ok s, w5) \<and> honours E t (raw s) w5)"

lemma address_test_passes:
  assumes "address_scenario E t w"
  shows "passes (address_query_grows_after_enomem E t u w)"
proof -
  let ?first = "ipv4 127 0 0 1" and ?second = "ipv4 127 0 0 2"
  obtain s w1 w2 w3 local addrs K where new: "imp_new E t Ipv4 OneToOne w = Some (Ok s, w1)"
    and bind: "imp_bindx_add E t s [V4 ?first 0, V4 ?second 0] w1 = Some (Ok (), w2)"
    and name: "imp_local_addr E t s w2 = Some (Ok local, w3)"
    and addrs: "mset addrs = {#V4 ?first (addr_port local), V4 ?second (addr_port local)#}"
    and reports: "reports_addrs E t s FUTURE SCTP_GET_LOCAL_ADDRS addrs K" "kst w3 \<in> K"
    using assms unfolding address_scenario_def Let_def by blast
  have len: "length addrs = 2"
    using addrs by (metis size_mset size_add_mset size_empty One_nat_def Suc_1)
  have "set addrs = {V4 ?first (addr_port local), V4 ?second (addr_port local)}"
    using addrs by (metis set_mset_mset set_mset_add_mset_insert set_mset_empty)
  moreover have "length (concat (map (sockaddr_bytes t) addrs)) = (\<Sum>a\<in>#mset addrs. sockaddr_len a)"
    by (simp add: length_concat comp_def flip: sum_mset_sum_list mset_map)
  then have "length (concat (map (sockaddr_bytes t) addrs)) = 32"
    unfolding addrs by (simp add: addr_len_defs)
  then obtain w4 where query: "getaddrs_with_capacity E t s FUTURE SCTP_GET_LOCAL_ADDRS 8 w3 = Some (Ok addrs, w4)"
    using getaddrs_loop_complete[OF reports, of 8 20] len
    by (auto simp: getaddrs_with_capacity_def MAX_CAPACITY_def)
  ultimately show ?thesis
    unfolding address_query_grows_after_enomem_def Let_def
    by (intro passes_socket[OF new] passes_scoped)
      (rule passes_unwrap, rule bind, rule passes_unwrap, rule name, rule passes_unwrap, rule query,
        simp add: len io_lift_def)
qed

lemma accept_test_passes:
  assumes "accept_scenario E t w"
  shows "passes (async_accept_is_nonblocking E t u w)"
proof -
  obtain l client w1 w2 w3 s peer where new: "imp_new E t Ipv4 OneToOne w = Some (Ok l, w1)"
    and conn: "connected E t l w1 client w2"
    and acc: "accept_nonblocking E t l w2 = Some (Ok (s, peer), w3)" and flag: "honours E t (raw s) w3"
    using assms unfolding accept_scenario_def by blast
  have "raw s \<in> modes t (trace w3) {}"
    using prepared_mode[OF prepares_accept acc] by simp
  with flag have "passes (is_nonblocking E t s w3)"
    by (rule is_nonblocking_run)
  then have "passes (io_bind (io_unwrap (accept_nonblocking E t l)) (\<lambda>(s, _). scoped E (raw s) (is_nonblocking E t s)) w2)"
    by (intro passes_unwrap[where m = "accept_nonblocking E t l"]) (rule acc, simp add: passes_scoped)
  then show ?thesis
    using conn unfolding connected_def async_accept_is_nonblocking_def
    by - (elim exE conjE, intro passes_socket[OF new] passes_scoped,
      (rule passes_unwrap, assumption | rule passes_scoped | rule exI, assumption)+)
qed

lemma peeloff_test_passes:
  assumes "peeloff_scenario E t w"
  shows "passes (async_peeloff_is_nonblocking E t u w)"
proof -
  obtain server client w1 w2 w3 w4 w5 a s where new: "imp_new E t Ipv4 OneToMany w = Some (Ok server, w1)"
    and sub: "imp_subscribe_event E t server Ev_AssocChange True w1 = Some (Ok (), w2)"
    and conn: "connected E t server w2 client w3" and up: "awaits E t server (replicate 256 0) w3 a w4"
    and peel: "peeloff_nonblocking E t server a w4 = Some (Ok s, w5)" and flag: "honours E t (raw s) w5"
    using assms unfolding peeloff_scenario_def by blast
  have "raw s \<in> modes t (trace w5) {}"
    using prepared_mode[OF prepares_peeloff peel] by simp
  with flag have "passes (is_nonblocking E t s w5)"
    by (rule is_nonblocking_run)
  then have "passes (io_bind (io_unwrap (peeloff_nonblocking E t server a)) (\<lambda>s. scoped E (raw s) (is_nonblocking E t s)) w4)"
    by (intro passes_unwrap[where m = "peeloff_nonblocking E t server a"]) (rule peel, rule passes_scoped)
  then have "passes (io_bind (assoc_change_loop E t server (replicate 256 0)) (\<lambda>a.
      io_bind (io_unwrap (peeloff_nonblocking E t server a)) (\<lambda>s. scoped E (raw s) (is_nonblocking E t s))) w3)"
    by (rule passes_bind[where m = "assoc_change_loop E t server (replicate 256 0)", OF assoc_change_loop_awaits[OF up]])
  then show ?thesis
    using conn sub unfolding connected_def async_peeloff_is_nonblocking_def
    by - (elim exE conjE, intro passes_socket[OF new] passes_scoped,
      (rule passes_unwrap, assumption | rule passes_scoped | rule exI, assumption)+)
qed

lemma tests_skipped:
  "imp_new E t Ipv4 OneToOne w = Some (Err e, w') \<and> means_no_sctp u e \<Longrightarrow>
   passes (address_query_grows_after_enomem E t u w) \<and> passes (async_accept_is_nonblocking E t u w)"
  "imp_new E t Ipv4 OneToMany w = Some (Err e, w') \<and> means_no_sctp u e \<Longrightarrow>
   passes (async_peeloff_is_nonblocking E t u w)"
  by (auto simp: address_query_grows_after_enomem_def async_accept_is_nonblocking_def
      async_peeloff_is_nonblocking_def intro: passes_skipped)

section \<open>Properties\<close>

text \<open>
  The unit tests of the kernel module that open sockets pass, in the scenarios they are written
  for: those in which the set-up calls before the operation under test succeed. The query with the smallest
  buffer ends with the two bound addresses although the kernel refuses it at first; an accepted
  and a peeled-off socket report the non-blocking flag as soon as the kernel honours the flag it
  was asked for; and without SCTP in the kernel each test is skipped.
\<close>

theorem kernel_tests_pass:
  "(address_scenario E t w \<longrightarrow> passes (address_query_grows_after_enomem E t u w)) \<and>
   (accept_scenario E t w \<longrightarrow> passes (async_accept_is_nonblocking E t u w)) \<and>
   (peeloff_scenario E t w \<longrightarrow> passes (async_peeloff_is_nonblocking E t u w)) \<and>
   (imp_new E t Ipv4 OneToOne w = Some (Err e, w') \<and> means_no_sctp u e \<longrightarrow>
      passes (address_query_grows_after_enomem E t u w) \<and> passes (async_accept_is_nonblocking E t u w)) \<and>
   (imp_new E t Ipv4 OneToMany w = Some (Err e, w') \<and> means_no_sctp u e \<longrightarrow>
      passes (async_peeloff_is_nonblocking E t u w))"
  by (intro conjI impI)
    (erule address_test_passes accept_test_passes peeloff_test_passes tests_skipped(1)[THEN conjunct1]
      tests_skipped(1)[THEN conjunct2] tests_skipped(2))+

text \<open>A kernel that behaves as the tests expect, with fixed descriptors and addresses.\<close>

definition test_addrs :: "SocketAddr list" where
  "test_addrs = [V4 (ipv4 127 0 0 1) 4000, V4 (ipv4 127 0 0 2) 4000]"

definition test_event :: "byte list" where
  "test_event = event_bytes linux_x86_64 0 20 (K_assoc_change SCTP_COMM_UP 0 5 5 7 [])"

definition test_kernel :: "unit env" where
  "test_kernel c k =
     (let t = linux_x86_64; name = sockaddr_bytes t (test_addrs ! 0) in
      case c of
        C_socket _ _ _ \<Rightarrow> (sr_ok\<lparr>sr_ret := 3\<rparr>, k)
      | C_getsockname _ _ \<Rightarrow> (sr_ok\<lparr>sr_name := name, sr_namelen := 16\<rparr>, k)
      | C_accept4 _ _ _ \<Rightarrow> (sr_ok\<lparr>sr_ret := 4, sr_name := name, sr_namelen := 16\<rparr>, k)
      | C_fcntl_getfl _ \<Rightarrow> (sr_ok\<lparr>sr_ret := 0x802\<rparr>, k)
      | C_recvmsg _ _ _ _ _ \<Rightarrow> (sr_ok\<lparr>sr_ret := int (length test_event), sr_out := test_event,
          sr_msg_flags := MSG_NOTIFICATION OR MSG_EOR\<rparr>, k)
      | C_getsockopt _ _ opt _ \<Rightarrow>
          if opt = SCTP_GET_LOCAL_ADDRS then addr_kernel t test_addrs c k
          else (sr_ok\<lparr>sr_out := struct_bytes t False (sctp_peeloff_flags_arg_t_fields t
                  \<lparr>p_arg = \<lparr>associd = 7, sd = 5\<rparr>, pflags = 0\<rparr>)\<rparr>, k)
      | _ \<Rightarrow> (sr_ok, k))"

lemma test_calls:
  "\<exists>w'. imp_new test_kernel linux_x86_64 family style w = Some (Ok (imp_Socket 3), w')"
  "\<exists>w'. imp_bindx_add test_kernel linux_x86_64 s addrs w = Some (Ok (), w')"
  "\<exists>w'. imp_bind test_kernel linux_x86_64 s addr w = Some (Ok (), w')"
  "\<exists>w'. imp_listen test_kernel s n w = Some (Ok (), w')"
  "\<exists>w'. imp_subscribe_event test_kernel linux_x86_64 s ev on w = Some (Ok (), w')"
  by (simp_all add: imp_new_def enable_rcvinfo_def imp_setsockopt_i32_def imp_setsockopt_def imp_bindx_add_def
      imp_bindx_def pack_addr_list_ok imp_bind_def sockaddr_arg_ok imp_listen_def imp_subscribe_event_def
      imp_subscribe_event_for_def from_raw_fd_def call_cvt_run[OF sys_call_run] test_kernel_def io_bind_def
      dropping_def io_lift_def)

lemma test_name:
  "sr_name r = sockaddr_bytes linux_x86_64 (test_addrs ! 0) \<Longrightarrow> sr_namelen r = 16 \<Longrightarrow>
   sockaddr_result linux_x86_64 r msg = Ok (test_addrs ! 0)"
  using slice_overlay[of "sr_name r" "replicate 128 0"] read_sockaddr_bytes[of linux_x86_64 "test_addrs ! 0" "[]"]
  by (simp add: sockaddr_result_def test_addrs_def addr_len_defs)

lemma test_peeled:
  "sctp_peeloff_flags_arg_t_of_bytes t (overlay (struct_bytes t False (sctp_peeloff_flags_arg_t_fields t x))
     (struct_bytes t False (sctp_peeloff_flags_arg_t_fields t y))) = x"
  by (simp add: overlay_full sctp_peeloff_flags_arg_t_cs.to_bytes_length
      sctp_peeloff_flags_arg_t_cs.of_to_bytes_exact sctp_peeloff_flags_arg_t_ok_def sctp_peeloff_arg_t_ok_def)

lemma test_connects:
  "\<exists>w'. imp_local_addr test_kernel linux_x86_64 s w = Some (Ok (test_addrs ! 0), w')"
  "\<exists>w' a. imp_connectx test_kernel linux_x86_64 s [addr] w = Some (Ok a, w')"
  "\<exists>w'. accept_nonblocking test_kernel linux_x86_64 s w = Some (Ok (imp_Socket 4, test_addrs ! 0), w')"
  "\<exists>w'. peeloff_nonblocking test_kernel linux_x86_64 s a w = Some (Ok (imp_Socket 5), w')"
  by (simp_all add: imp_local_addr_def imp_connectx_def pack_addr_list_ok do_call_def accept_nonblocking_def
      accept_with_flags_def peeloff_nonblocking_def peeloff_with_flags_def imp_getsockopt_inout_def test_name
      test_peeled enable_rcvinfo_def imp_setsockopt_i32_def imp_setsockopt_def from_raw_fd_def
      call_cvt_run[OF sys_call_run] sys_call_run test_kernel_def io_bind_def dropping_def io_lift_def
      SCTP_SOCKOPT_PEELOFF_FLAGS_def SCTP_GET_LOCAL_ADDRS_def)

lemma test_recv:
  "\<exists>w'. awaits test_kernel linux_x86_64 s (replicate 256 0) w (AssocId 7) w'"
proof -
  let ?t = linux_x86_64
  define up where "up = sr_ok\<lparr>sr_ret := int (length test_event), sr_out := test_event,
    sr_msg_flags := MSG_NOTIFICATION OR MSG_EOR\<rparr>"
  have "length test_event = 20"
    by (simp add: test_event_def event_bytes_def)
  then have d: "delivers ?t up (length (replicate 256 (0 :: byte))) test_event None []"
    by (simp add: delivers_def up_def)
  obtain w1 where "sys_call test_kernel (recv_call s (replicate 256 0) False) w = (up, w1)"
    by (simp add: sys_call_run test_kernel_def up_def)
  note recv = recv_msg_head[OF this d]
  have "\<exists>n b w'. imp_recv_msg test_kernel ?t s (replicate 256 0) False w =
      Some (Ok ((n, None), b), w') \<and> changed_assoc n = Some (AssocId 7)"
    unfolding recv by (simp add: up_def MSG_NOTIFICATION_def MSG_EOR_def test_event_def parse_event io_lift_run)
  then show ?thesis
    by (blast intro: awaits.arrived)
qed

lemma test_reports:
  "reports_addrs test_kernel linux_x86_64 s a SCTP_GET_LOCAL_ADDRS test_addrs UNIV"
  using addr_kernel_reports[of linux_x86_64 test_addrs s a SCTP_GET_LOCAL_ADDRS]
  by (simp add: reports_addrs_def test_kernel_def)

lemma test_honours: "honours test_kernel linux_x86_64 d w"
  by (simp add: honours_def sys_call_run test_kernel_def linux_x86_64_libc_def)

lemma test_connected: "\<exists>client w'. connected test_kernel linux_x86_64 s w client w'"
  unfolding connected_def by (meson test_calls test_connects)

lemma test_scenarios:
  "address_scenario test_kernel linux_x86_64 w" "accept_scenario test_kernel linux_x86_64 w"
  "peeloff_scenario test_kernel linux_x86_64 w"
proof -
  have "mset test_addrs = {#V4 (ipv4 127 0 0 1) (addr_port (test_addrs ! 0)), V4 (ipv4 127 0 0 2) (addr_port (test_addrs ! 0))#}"
    by (simp add: test_addrs_def)
  then show "address_scenario test_kernel linux_x86_64 w"
    unfolding address_scenario_def Let_def using test_calls test_connects(1) test_reports by (meson UNIV_I)
  show "accept_scenario test_kernel linux_x86_64 w"
    unfolding accept_scenario_def using test_calls(1) test_connected test_connects(3) test_honours by meson
  show "peeloff_scenario test_kernel linux_x86_64 w"
    unfolding peeloff_scenario_def
    using test_calls(1,5) test_connected test_recv test_connects(4) test_honours by meson
qed

theorem kernel_tests_pass_witness:
  "let t = linux_x86_64; u = (93, 94, 97); w = \<lparr>kst = (), trace = []\<rparr>; no = \<lparr>kst = [sr_fail 93], trace = []\<rparr>
   in passes (address_query_grows_after_enomem test_kernel t u w) \<and>
      passes (async_accept_is_nonblocking test_kernel t u w) \<and>
      passes (async_peeloff_is_nonblocking test_kernel t u w) \<and>
      passes (async_peeloff_is_nonblocking scripted t u no)"
proof -
  have "\<exists>w'. imp_new scripted linux_x86_64 Ipv4 OneToMany \<lparr>kst = [sr_fail 93], trace = []\<rparr> = Some (Err (Os 93), w')"
    by (simp add: imp_new_def call_cvt_run[OF sys_call_scripted] io_bind_def)
  then show ?thesis
    unfolding Let_def using kernel_tests_pass[of test_kernel linux_x86_64 "\<lparr>kst = (), trace = []\<rparr>" "(93, 94, 97)"]
      test_scenarios kernel_tests_pass[of scripted linux_x86_64 "\<lparr>kst = [sr_fail 93], trace = []\<rparr>" "(93, 94, 97)" "Os 93"]
    by auto
qed

end
