(* ===== verification/Spec2Isabelle.thy ===== *)
theory Spec2Isabelle
  imports Receivers End_To_End Subscriptions Kernel_Tests
begin

text \<open>
  \<^bold>\<open>A verification development for lksctp-rs.\<close>

  lksctp-rs is a Rust crate for SCTP sockets on Linux. It speaks to the kernel directly: it lays
  out the kernel's structures itself, encodes addresses and control messages by hand, parses the
  event notifications the kernel interleaves with user data, and offers a synchronous socket
  (\<open>SctpSocket\<close>) and three sockets driven by the Tokio reactor (\<open>SctpStream\<close>, \<open>SctpListener\<close>,
  \<open>SctpEndpoint\<close>). The development models the whole implementation under \<open>src/src\<close>.

  \<^bold>\<open>How the parts are modelled.\<close>

  \<^item> \<open>Prelude\<close>: machine integers as words, the build target (byte order, pointer width, alignment
  of \<open>u64\<close>, padding bytes and the constants of the \<open>libc\<close> crate, all of them parameters, so that
  every theorem holds for every Linux target), results with errors and panics, byte encodings,
  slices, and the locale \<open>seq_codec\<close> of self-delimiting formats.
  \<^item> \<open>Sys_Consts\<close>, \<open>C_Layout\<close>, \<open>Sys_Structs\<close>: \<open>sys.rs\<close>. The constants; the layout rules of
  \<open>repr(C)\<close> and \<open>repr(C, packed)\<close> with the locale \<open>c_struct\<close>; each kernel structure as a record
  with its memory image, and an interpretation of \<open>c_struct\<close> that gives the round trip.
  \<^item> \<open>Addr\<close>: \<open>addr.rs\<close>, socket addresses and packed address lists. \<open>Cmsg\<close>: \<open>cmsg.rs\<close>, control
  messages. Both interpret \<open>seq_codec\<close>.
  \<^item> \<open>Types\<close>: \<open>types.rs\<close>, the public parameter types, enumerations and flag sets. \<open>Notification\<close>:
  \<open>notification.rs\<close>, the parser, with a model of the kernel's event layouts to state it against.
  \<^item> \<open>Env\<close>: the boundary. The kernel and the reactor are a parameter \<open>E\<close>, any function from calls
  to answers over a state of its own; an operation maps a world (that state and the trace of
  calls made) to a result and a new world, or to \<open>None\<close> if it does not return. \<open>owns\<close> is the
  ownership contract of an operation, an account of descriptors opened, passed on and closed.
  \<^item> \<open>Kernel_Socket\<close>, \<open>Kernel_Data\<close>, \<open>Kernel_Opts\<close>, \<open>Kernel_Addrs\<close>: \<open>imp/kernel.rs\<close>, one definition
  per method with the prefix \<open>imp_\<close>, grouped as the file groups them: connection setup, the data
  path, options, address queries. The locale \<open>socket_source\<close> is the contract of an operation
  that produces an owned socket; \<open>sockopt_codec\<close> that of an option's memory image.
  \<^item> \<open>Socket_Api\<close>: \<open>socket.rs\<close> with its raw-descriptor conversions, and the constructor of
  \<open>imp/stub.rs\<close>.
  \<^item> \<open>Net_Common\<close>, \<open>Net_Options\<close>, \<open>Net_Stream\<close>, \<open>Net_Listener\<close>, \<open>Net_Endpoint\<close>: \<open>net/\<close>, each \<open>async\<close>
  function as a run in which every wait is answered. The locale \<open>readiness_loop\<close> is the contract
  of the two readiness loops. Registering outside a Tokio runtime panics.
  \<^item> \<open>Futures\<close>, \<open>Await_Ops\<close>, \<open>Net_Futures\<close>, \<open>Dropped_Futures\<close>: the same \<open>async\<close> functions as the futures
  they are: state machines that are polled, suspend where a wait is not ready and may be dropped
  there. \<open>drive\<close> is an executor, with a list of the states in which the rest of the system leaves
  the environment between two polls. The locale \<open>async_future\<close> is the contract between a future
  and its run, interpreted on each of them (\<open>Await_Ops\<close> holds the lemmas that carry an operation
  to an environment whose waits are answered); \<open>trace_account\<close> is that of a statement about the
  calls of a suspended future.
  \<^item> \<open>Call_Account\<close>: which operations keep an account of the calls made. The locale \<open>call_account\<close>
  extends \<open>trace_account\<close>; \<open>register_account\<close> and \<open>recv_call_account\<close> extend it. They are interpreted
  on the messages sent, the user data received, the event subscriptions and the registrations.
  \<^item> \<open>Tasks\<close>: a runtime of any number of tasks, each one of the \<open>async\<close> functions, on one shared
  kernel. Its steps, an inductive relation, spawn a task, poll one or drop one; the locale
  \<open>task_account\<close> turns what a single poll does into an invariant of every reachable state. It is
  interpreted on the messages sent here and on the user data received in \<open>Receivers\<close>.
  \<^item> \<open>Nonblocking\<close>: the mode of each descriptor, read off the trace, and which operations register
  only non-blocking ones with the reactor, for the runs and for the tasks.
  \<^item> \<open>Builders\<close>: chains of builder methods. The settings of the three builders are data, their
  specification the list of kernel calls they stand for; the locale \<open>builder_methods\<close> is the
  contract of a method, interpreted on each builder. \<open>Subscriptions\<close>: the event types the kernel
  has subscribed on a descriptor, computed from the trace, after a socket was set up.
  \<^item> \<open>End_To_End\<close>: a sender and a receiver on two machines, with the kernels between them described
  by the byte offsets of \<open>linux/sctp.h\<close>, independently of the crate's own structures.
  \<^item> \<open>Unit_Tests\<close>: the unit tests in the \<open>tests\<close> modules of the sources, run on every target, and
  \<open>Kernel_Tests\<close>: those of them that open sockets, run against any kernel that does what they rely on.

  \<^bold>\<open>What is shown.\<close>

  The data path: a notification arrives whole however the kernel fragments it, reassembly and the
  receive and send calls behave as documented on every answer of the kernel (C1 to C4), a message
  arrives as it was sent between any two machines and a failed send is reported with what the
  caller gave it (C5, C7), and the parser inverts the kernel's event layouts and fails exactly on
  truncated input (C6, C26). The readiness loops return exactly what their protocol allows, the
  wait for an association implements a machine stated of the items the kernel delivers and not of
  the code, and a connect succeeds only on \<open>CommUp\<close> (C8 to C10). Many tasks: in every
  state of the runtime the messages the kernel was given are those of the sends that completed,
  the user data it handed over is what the receives returned unless one of them or a connect
  failed, every descriptor is closed or accounted for, and the reactor has only been given
  non-blocking sockets (C11 to C14). Setting up sockets: the notifications delivered afterwards are
  those the caller asked for, and a chain of builder methods makes the calls its settings stand for
  (C15, C16). The futures, one at a time: a dropped receive has received nothing and a dropped
  accept lost nothing, a dropped connect leaves no descriptor, a send takes effect once or not at
  all, and the wait for an association completes when the kernel decides it (C17 to C21). No
  descriptor leaks in the runs either (C22, C23), each new socket delivers receive information
  (C37), sockets of the wrong kind are refused (C38), and so is shutting down a one-to-many socket
  (C39). Address queries are complete and terminate (C24, C25). Control messages, addresses and
  address lists round-trip, and on any bytes the iterator of control messages stops without a
  panic and within its buffer (C27 to C30). The structures the crate exchanges have the memory
  images of the kernel ABI and are read back from them (C31). Options, queries and timeouts pass
  and decode the caller's values field by field (C32, C33, C35, C36), changing the blocking mode
  changes nothing else (C40), and connecting reports each outcome (C34).

  Beside these, the component theories show that a future polled to completion does what the run
  does, that a notification of an unknown type is kept whole, the sizes of the structures, that
  enumerations decode without loss, that flag sets form a lattice, that subscriptions are made in
  order and how send parameters and buffer sizes are encoded. The crate's own unit tests, run on
  the model, pass; they validate the definitions.

  \<^bold>\<open>Loops.\<close>

  No fuel is used. Loops over lists and buffers are total functions. The loops whose end depends
  on the environment (\<open>reassemble_loop\<close>, \<open>getaddrs_loop\<close>, \<open>read_op\<close> and \<open>write_op\<close>,
  \<open>established_loop\<close>, a single poll, \<open>poll_loop\<close>, and the loop of one of the tests) are partial
  functions into \<open>option\<close>;
  \<open>getaddrs_loop\<close> is shown to end for every kernel, the others whenever the environment delivers
  what they wait for.

  \<^bold>\<open>What is not modelled.\<close>

  \<open>Debug\<close>; the methods of the stub socket, whose type has no values while every type of HOL has one,
  so that any definition of them would be an invention; the integration tests, which run whole
  programs on a kernel with SCTP; the module files that only re-export; the feature and platform
  selection of \<open>cfg\<close> attributes. Unbounded natural numbers stand for \<open>usize\<close>
  lengths of buffers that exist in memory. An error carries no buffer: what an attempt to receive
  left in the caller's buffer is \<open>buf_after\<close>, on which the next attempt of a loop runs, and a
  receive that fails for good returns the error alone. Other processes and the kernel run between two calls and between two polls:
  the environment is an arbitrary function over an arbitrary state, so every theorem holds for
  each interleaving. Tasks of one runtime interleave poll by poll: the calls of two polls that run
  at the same time on two threads are not interleaved in the shared trace. The reactor's wake-ups
  are not scheduled: a task may be polled at any time.
\<close>

section \<open>Properties of the asynchronous sockets together\<close>

text \<open>
  C38: a socket of the wrong kind is refused and closed. Making a listener or a stream from a
  one-to-many socket, an endpoint from a one-to-one socket, or a listener from a socket that does
  not listen fails with \<open>InvalidInput\<close>; the one call made after the queries closes the socket, and
  it is not registered with the reactor.
\<close>

theorem from_socket_refuses:
  assumes "imp_style E t (inner s) w = Some (Ok style, w1)"
  shows "(style \<noteq> OneToMany \<longrightarrow> SctpEndpoint_from_socket E t s w =
      Some (Err (Custom InvalidInput ''socket is not one-to-many''),
        snd (sys_call E (C_close (raw (inner s))) w1))) \<and>
    (style \<noteq> OneToOne \<longrightarrow> SctpListener_from_socket E t s w =
      Some (Err (Custom InvalidInput ''socket is not listening''),
        snd (sys_call E (C_close (raw (inner s))) w1))) \<and>
    (style = OneToOne \<and> is_listening E t (inner s) w1 = Some (Ok False, w2) \<longrightarrow>
      SctpListener_from_socket E t s w =
        Some (Err (Custom InvalidInput ''socket is not listening''),
          snd (sys_call E (C_close (raw (inner s))) w2))) \<and>
    (style \<noteq> OneToOne \<longrightarrow> SctpStream_connectx_from_socket E t s addrs w =
      Some (Err (Custom InvalidInput ''socket is not one-to-one''),
        snd (sys_call E (C_close (raw (inner s))) w1)))"
  using assms
  by (simp add: SctpEndpoint_from_socket_def SctpListener_from_socket_def
      SctpStream_connectx_from_socket_def io_bind_def dropping_def io_lift_def split: prod.splits)

theorem from_socket_refuses_witness:
  "let kind = \<lambda>v. sr_ok\<lparr>sr_out := to_ne_bytes linux_x86_64 (v :: i32)\<rparr>; s = SctpSocket (imp_Socket 3);
       t = linux_x86_64; w = \<lambda>rs. \<lparr>kst = rs, trace = []\<rparr>
   in map_option fst (SctpEndpoint_from_socket scripted t s (w [kind 1, sr_ok])) =
        Some (Err (Custom InvalidInput ''socket is not one-to-many'')) \<and>
      map_option fst (SctpListener_from_socket scripted t s (w [kind 5, sr_ok])) =
        Some (Err (Custom InvalidInput ''socket is not listening'')) \<and>
      map_option fst (SctpListener_from_socket scripted t s (w [kind 1, kind 0, sr_ok])) =
        Some (Err (Custom InvalidInput ''socket is not listening'')) \<and>
      map_option fst (SctpStream_connectx_from_socket scripted t s [] (w [kind 5, sr_ok])) =
        Some (Err (Custom InvalidInput ''socket is not one-to-one''))"
proof -
  let ?t = linux_x86_64 and ?s = "SctpSocket (imp_Socket 3)"
  define kind where "kind = (\<lambda>v :: i32. sr_ok\<lparr>sr_out := to_ne_bytes ?t v\<rparr>)"
  have get: "imp_getsockopt_i32 scripted ?t s level opt \<lparr>kst = kind v # rs, trace = tr\<rparr> =
      Some (Ok v, \<lparr>kst = rs, trace = tr @ [(C_getsockopt (raw s) level opt (replicate 4 0), kind v)]\<rparr>)"
    for s level opt v rs tr
    by (simp add: imp_getsockopt_i32_def imp_getsockopt_def io_bind_def getsockopt_inout_run
        io_lift_def kind_def overlay_full from_to_ne_bytes)
  note c = linux_x86_64_libc_def
  define w1 :: "sysret list \<Rightarrow> i32 \<Rightarrow> sysret list world" where
    "w1 = (\<lambda>rs v. \<lparr>kst = rs, trace = [(C_getsockopt 3 1 3 (replicate 4 0), kind v)]\<rparr>)"
  have one: "imp_style scripted ?t (inner ?s) \<lparr>kst = kind 1 # rs, trace = []\<rparr> = Some (Ok OneToOne, w1 rs 1)"
    and many: "imp_style scripted ?t (inner ?s) \<lparr>kst = kind 5 # rs, trace = []\<rparr> = Some (Ok OneToMany, w1 rs 5)"
    for rs
    by (simp_all add: imp_style_def io_bind_def get io_lift_def w1_def c)
  have lis: "\<exists>w2. is_listening scripted ?t (inner ?s) (w1 (kind 0 # rs) 1) = Some (Ok False, w2)" for rs
    by (simp add: is_listening_def io_bind_def get io_lift_def w1_def)
  obtain w2 where w2: "is_listening scripted ?t (inner ?s) (w1 [kind 0, sr_ok] 1) = Some (Ok False, w2)"
    using lis by blast
  show ?thesis
    unfolding Let_def kind_def[symmetric]
    using from_socket_refuses[OF one[of "[sr_ok]"], of w2 "[]"]
      from_socket_refuses[OF one[of "[kind 0, sr_ok]"], of w2 "[]"]
      from_socket_refuses[OF many[of "[sr_ok]"], of w2 "[]"] w2 by simp
qed

text \<open>
  C22: the asynchronous sockets do not leak descriptors. Setting up a stream, a listener or an
  endpoint through any chain of builder methods, binding, accepting, connecting (to an address or
  from a socket) and peeling off give the caller exactly one open descriptor on success, the
  one of the socket returned, and none on failure, whatever step failed: creation, one of the
  settings, the registration, the connect or the wait for the association. Aborting a stream
  leaves none in either case.
\<close>

theorem async_sockets_owned:
  assumes "levels_ok t"
  shows "owns t {#} (\<lambda>st. {#raw (sock (stream_io st))#}) {#} (stream_setup E t family xs addrs) \<and>
    owns t {#} (\<lambda>l. {#raw (sock (listener_io l))#}) {#} (listener_setup E t family xs backlog) \<and>
    owns t {#} (\<lambda>ep. {#raw (sock (endpoint_io ep))#}) {#} (endpoint_setup E t family ys listen) \<and>
    owns t {#} (\<lambda>l. {#raw (sock (listener_io l))#}) {#} (SctpListener_bind E t addr) \<and>
    owns t {#} (\<lambda>(st, peer). {#raw (sock (stream_io st))#}) {#} (SctpListener_accept E t l) \<and>
    owns t {#} (\<lambda>ep. {#raw (sock (endpoint_io ep))#}) {#} (SctpEndpoint_bind E t addr) \<and>
    owns t {#} (\<lambda>st. {#raw (sock (stream_io st))#}) {#} (SctpEndpoint_peeloff E t ep a) \<and>
    owns t {#} (\<lambda>st. {#raw (sock (stream_io st))#}) {#} (SctpStream_connect E t addr) \<and>
    owns t {#raw (inner s)#} (\<lambda>st. {#raw (sock (stream_io st))#}) {#}
      (SctpStream_connectx_from_socket E t s addrs) \<and>
    owns t {#raw (sock (stream_io st))#} (\<lambda>_. {#}) {#} (SctpStream_abort E t st)"
  by (intro conjI owns_stream_setup owns_listener_setup owns_endpoint_setup owns_listener_bind
      owns_listener_accept owns_endpoint_bind owns_endpoint_peeloff owns_stream_connect
      owns_connectx_from_socket owns_abort assms)

theorem async_sockets_owned_witness:
  "levels_ok linux_x86_64 \<and>
   owns linux_x86_64 {#} (\<lambda>st. {#raw (sock (stream_io st))#}) {#}
     (stream_setup scripted linux_x86_64 Ipv4 [Common (Nodelay True), Reuse_port True] [V4 0x7f000001 80]) \<and>
   owns linux_x86_64 {#} (\<lambda>st. {#raw (sock (stream_io st))#}) {#}
     (SctpStream_connect scripted linux_x86_64 (V6 1 443 0 0))"
  using async_sockets_owned[OF linux_levels_ok, of scripted Ipv4 "[Common (Nodelay True), Reuse_port True]"
      "[V4 0x7f000001 80]"]
    async_sockets_owned[OF linux_levels_ok, where E = scripted and addr = "V6 1 443 0 0"] by simp

end
